(* ===== verification/KM_Prelude.thy ===== *)
theory KM_Prelude
  imports Complex_Main
begin

text \<open>
  Shared vocabulary of the KrakenMare development: Python exceptions as values, the outcome
  of a statement that changes an object's attributes, the \<open>for\<close> loop, decimal strings,
  \<open>int(...)\<close>, \<open>str.split\<close>, and the generic lemmas the components use.

  A Python statement or method that works on the attributes of an object is a function from
  the state of the object to an \<open>outcome\<close>: it returns a value in a new state, raises an
  exception (the attributes keep what was assigned before the raise), or never returns.
\<close>

named_theorems out_simps \<open>equations that evaluate outcomes\<close>
named_theorems str_simps \<open>equations that evaluate Python strings\<close>

section \<open>Exceptions and outcomes\<close>

datatype exn =
    TypeError | KeyError | IndexError | AttributeError | ValueError
  | ZeroDivisionError | UnboundLocalError | NameError | NoSectionError | NoOptionError
  | SerializeError | BufferError | KafkaException | RedfishException | ConnectError
  | FileNotFoundError | NoLogger | SystemExit int

datatype ('s, 'a) outcome =
    Return 'a 's
  | Raise exn 's
  | Hang

text \<open>Sequencing of two statements; an expression that may raise, evaluated in a state.\<close>

definition and_then :: "('s, 'a) outcome \<Rightarrow> ('a \<Rightarrow> 's \<Rightarrow> ('s, 'b) outcome) \<Rightarrow> ('s, 'b) outcome" where
  "and_then m f = (case m of Return a s \<Rightarrow> f a s | Raise e s \<Rightarrow> Raise e s | Hang \<Rightarrow> Hang)"

definition or_raise :: "exn + 'a \<Rightarrow> 's \<Rightarrow> ('a \<Rightarrow> ('s, 'b) outcome) \<Rightarrow> ('s, 'b) outcome" where
  "or_raise r s f = (case r of Inl e \<Rightarrow> Raise e s | Inr a \<Rightarrow> f a)"

lemma and_then_simps [simp, out_simps]:
  "and_then (Return a s) f = f a s"
  "and_then (Raise e s) f = Raise e s"
  "and_then Hang f = Hang"
  by (simp_all add: and_then_def)

lemma or_raise_simps [simp, out_simps]:
  "or_raise (Inl e) s f = Raise e s"
  "or_raise (Inr a) s f = f a"
  by (simp_all add: or_raise_def)

lemma and_then_Return_iff:
  "and_then m f = Return b t \<longleftrightarrow> (\<exists>a s. m = Return a s \<and> f a s = Return b t)"
  by (cases m) auto

lemma and_then_Raise_iff:
  "and_then m f = Raise e t \<longleftrightarrow> m = Raise e t \<or> (\<exists>a s. m = Return a s \<and> f a s = Raise e t)"
  by (cases m) auto

lemma or_raise_Return_iff:
  "or_raise r s f = Return b t \<longleftrightarrow> (\<exists>a. r = Inr a \<and> f a = Return b t)"
  by (cases r) auto

lemma or_raise_Raise_iff:
  "or_raise r s f = Raise e t \<longleftrightarrow> (r = Inl e \<and> t = s) \<or> (\<exists>a. r = Inr a \<and> f a = Raise e t)"
  by (cases r) auto

lemmas outcome_iffs =
  and_then_Return_iff and_then_Raise_iff or_raise_Return_iff or_raise_Raise_iff

text \<open>Sequencing of two expressions that may raise.\<close>

definition res_then :: "exn + 'a \<Rightarrow> ('a \<Rightarrow> exn + 'b) \<Rightarrow> exn + 'b" where
  "res_then r f = (case r of Inl e \<Rightarrow> Inl e | Inr a \<Rightarrow> f a)"

lemma res_then_simps [simp, out_simps]:
  "res_then (Inl e) f = Inl e"
  "res_then (Inr a) f = f a"
  by (simp_all add: res_then_def)

lemma res_then_Inr_iff: "res_then r f = Inr b \<longleftrightarrow> (\<exists>a. r = Inr a \<and> f a = Inr b)"
  by (cases r) auto

lemma res_then_Inl_iff: "res_then r f = Inl e \<longleftrightarrow> r = Inl e \<or> (\<exists>a. r = Inr a \<and> f a = Inl e)"
  by (cases r) auto

lemma res_then_ex: "\<exists>a. r = Inr a \<Longrightarrow> (\<And>a. \<exists>b. f a = Inr b) \<Longrightarrow> \<exists>b. res_then r f = Inr b"
  by auto

text \<open>An expression that may raise, evaluated for every element of a list.\<close>

fun res_map :: "('a \<Rightarrow> exn + 'b) \<Rightarrow> 'a list \<Rightarrow> exn + 'b list" where
  "res_map f [] = Inr []"
| "res_map f (x # xs) = res_then (f x) (\<lambda>y. res_then (res_map f xs) (\<lambda>ys. Inr (y # ys)))"

lemma res_map_Inr: "(\<And>x. x \<in> set xs \<Longrightarrow> f x = Inr (g x)) \<Longrightarrow> res_map f xs = Inr (map g xs)"
  by (induction xs) auto

lemma res_map_elem: "res_map f xs = Inr ys \<Longrightarrow> x \<in> set xs \<Longrightarrow> \<exists>y \<in> set ys. f x = Inr y"
  by (induction xs arbitrary: ys) (auto simp: res_then_Inr_iff)

lemma res_map_Inr_iff: "res_map f xs = Inr ys \<longleftrightarrow> list_all2 (\<lambda>x y. f x = Inr y) xs ys"
  by (induction xs arbitrary: ys) (auto simp: res_then_Inr_iff list_all2_Cons1)

text \<open>A predicate on every state an outcome can leave behind.\<close>

primrec out_all :: "('s \<Rightarrow> bool) \<Rightarrow> ('s, 'a) outcome \<Rightarrow> bool" where
  "out_all P (Return a s) = P s"
| "out_all P (Raise e s) = P s"
| "out_all P Hang = True"

lemma out_all_and_then [intro]:
  "out_all P m \<Longrightarrow> (\<And>a s. P s \<Longrightarrow> out_all P (f a s)) \<Longrightarrow> out_all P (and_then m f)"
  by (cases m) auto

lemma out_all_or_raise [intro]:
  "P s \<Longrightarrow> (\<And>a. r = Inr a \<Longrightarrow> out_all P (f a)) \<Longrightarrow> out_all P (or_raise r s f)"
  by (cases r) auto

lemma out_all_ReturnD: "out_all P m \<Longrightarrow> m = Return a s \<Longrightarrow> P s"
  by simp

section \<open>The \<open>for\<close> loop over a list\<close>

primrec for_each :: "('e \<Rightarrow> 's \<Rightarrow> ('s, unit) outcome) \<Rightarrow> 'e list \<Rightarrow> 's \<Rightarrow> ('s, unit) outcome" where
  "for_each body [] s = Return () s"
| "for_each body (x # xs) s = and_then (body x s) (\<lambda>_ t. for_each body xs t)"

lemma for_each_append:
  "for_each body (xs @ ys) s = and_then (for_each body xs s) (\<lambda>_ t. for_each body ys t)"
proof (induction xs arbitrary: s)
  case (Cons x xs)
  then show ?case by (cases "body x s") auto
qed simp

lemma for_each_map: "for_each body (map f xs) s = for_each (\<lambda>x. body (f x)) xs s"
  by (induction xs arbitrary: s) (simp_all add: and_then_def)

text \<open>A loop raises exactly where one of its iterations does, the earlier ones done.\<close>

lemma for_each_Raise:
  assumes "for_each body xs s = Raise e t"
  obtains ys x zs u where "xs = ys @ x # zs" and "for_each body ys s = Return () u"
    and "body x u = Raise e t"
  using assms
proof (induction xs arbitrary: s thesis)
  case (Cons x xs)
  show ?case
  proof (cases "body x s")
    case (Return a u)
    with Cons.prems(2) have "for_each body xs u = Raise e t" by simp
    then obtain ys y zs v where "xs = ys @ y # zs" "for_each body ys u = Return () v" "body y v = Raise e t"
      using Cons.IH by blast
    with Return Cons.prems(1)[of "x # ys" y zs v] show ?thesis by simp
  next
    case (Raise e' u)
    with Cons.prems show ?thesis by (metis append_Nil for_each.simps(1) and_then_simps(2)
      for_each.simps(2))
  next
    case Hang
    with Cons.prems show ?thesis by simp
  qed
qed simp

text \<open>
  The contract between a loop and its body: what the body keeps, the loop keeps, also when an
  iteration raises; and a body that simulates one step of an abstract machine makes the loop
  simulate its run.
\<close>

locale loop_body =
  fixes body :: "'e \<Rightarrow> 's \<Rightarrow> ('s, unit) outcome"
    and inv :: "'s \<Rightarrow> bool"
  assumes body_keeps: "inv s \<Longrightarrow> out_all inv (body x s)"
begin

lemma loop_keeps: "inv s \<Longrightarrow> out_all inv (for_each body xs s)"
  by (induction xs arbitrary: s) (auto intro: body_keeps)

lemma loop_keeps_Return: "inv s \<Longrightarrow> for_each body xs s = Return u t \<Longrightarrow> inv t"
  using loop_keeps by (metis out_all.simps(1))

lemma loop_keeps_Raise: "inv s \<Longrightarrow> for_each body xs s = Raise e t \<Longrightarrow> inv t"
  using loop_keeps by (metis out_all.simps(2))

end

locale loop_sim =
  fixes body :: "'e \<Rightarrow> 's \<Rightarrow> ('s, unit) outcome"
    and step :: "'e \<Rightarrow> 'a \<Rightarrow> 'a"
    and R :: "'s \<Rightarrow> 'a \<Rightarrow> bool"
  assumes body_sim: "R s a \<Longrightarrow> body x s = Return u t \<Longrightarrow> R t (step x a)"
begin

lemma loop_sim: "R s a \<Longrightarrow> for_each body xs s = Return u t \<Longrightarrow> R t (fold step xs a)"
  by (induction xs arbitrary: s a) (auto simp: and_then_Return_iff dest: body_sim)

end

text \<open>
  Progress: \<open>safe k s\<close> says that \<open>k\<close> more iterations are safe from \<open>s\<close>, whatever the elements;
  then the loop runs to its end.
\<close>

locale loop_progress =
  fixes body :: "'e \<Rightarrow> 's \<Rightarrow> ('s, unit) outcome"
    and safe :: "nat \<Rightarrow> 's \<Rightarrow> bool"
  assumes body_returns: "safe (Suc k) s \<Longrightarrow> \<exists>t. body x s = Return () t \<and> safe k t"
begin

lemma loop_returns: "safe (length xs + k) s \<Longrightarrow> \<exists>t. for_each body xs s = Return () t \<and> safe k t"
proof (induction xs arbitrary: s)
  case (Cons x xs)
  from Cons.prems obtain t where "body x s = Return () t" "safe (length xs + k) t"
    using body_returns[of "length xs + k" s x] by auto
  with Cons.IH[of t] show ?case by simp
qed simp

end

locale loop_refinement = loop_sim + loop_progress
begin

lemma loop_refines:
  "R s a \<Longrightarrow> safe (length xs + k) s \<Longrightarrow>
   \<exists>t. for_each body xs s = Return () t \<and> R t (fold step xs a) \<and> safe k t"
  using loop_returns[of xs k s] loop_sim[of s a xs "()"] by blast

end

section \<open>Retry loops\<close>

text \<open>
  A loop that repeats a request until it is answered: the first attempt from \<open>k\<close> on with an
  answer, its number and the answer; \<open>None\<close> if no attempt ever is, when the loop never ends.
\<close>

partial_function (option) first_from :: "(nat \<Rightarrow> 'a option) \<Rightarrow> nat \<Rightarrow> (nat \<times> 'a) option" where
  "first_from answers k =
     (case answers k of None \<Rightarrow> first_from answers (Suc k) | Some v \<Rightarrow> Some (k, v))"

lemma first_from_Some:
  assumes "answers (k + n) = Some v" and "\<And>j. k \<le> j \<Longrightarrow> j < k + n \<Longrightarrow> answers j = None"
  shows "first_from answers k = Some (k + n, v)"
  using assms
proof (induction n arbitrary: k)
  case 0
  then show ?case by (simp add: first_from.simps)
next
  case (Suc n)
  then have "first_from answers (Suc k) = Some (Suc k + n, v)" by simp
  moreover have "answers k = None" using Suc.prems(2)[of k] by simp
  ultimately show ?case by (simp add: first_from.simps)
qed

definition first_answer :: "(nat \<Rightarrow> 'a option) \<Rightarrow> nat \<Rightarrow> nat \<times> 'a \<Rightarrow> bool" where
  "first_answer answers k r \<longleftrightarrow>
     k \<le> fst r \<and> answers (fst r) = Some (snd r) \<and> (\<forall>j. k \<le> j \<and> j < fst r \<longrightarrow> answers j = None)"

lemma first_answer_Suc: "answers k = None \<Longrightarrow> first_answer answers (Suc k) r \<Longrightarrow> first_answer answers k r"
  unfolding first_answer_def by (metis Suc_leD Suc_leI le_neq_implies_less)

lemma first_from_SomeD:
  assumes "first_from answers k = Some r"
  shows "first_answer answers k r"
proof (rule first_from.raw_induct [where P = first_answer, OF _ assms])
  fix f :: "(nat \<Rightarrow> 'a option) \<Rightarrow> nat \<Rightarrow> (nat \<times> 'a) option" and answers k r
  assume IH: "\<And>answers k r. f answers k = Some r \<Longrightarrow> first_answer answers k r"
    and eq: "(case answers k of None \<Rightarrow> f answers (Suc k) | Some v \<Rightarrow> Some (k, v)) = Some r"
  show "first_answer answers k r"
  proof (cases "answers k")
    case None
    with eq have "f answers (Suc k) = Some r" by simp
    then have "first_answer answers (Suc k) r" by (rule IH)
    with None show ?thesis by (rule first_answer_Suc)
  next
    case (Some v)
    with eq show ?thesis by (auto simp: first_answer_def)
  qed
qed

lemma first_from_returns_iff: "first_from answers k \<noteq> None \<longleftrightarrow> (\<exists>j\<ge>k. answers j \<noteq> None)"
proof
  assume "first_from answers k \<noteq> None"
  then obtain n v where "first_from answers k = Some (n, v)" by auto
  then show "\<exists>j\<ge>k. answers j \<noteq> None" by (force simp: first_answer_def dest: first_from_SomeD)
next
  assume "\<exists>j\<ge>k. answers j \<noteq> None"
  then have ex: "\<exists>n. answers (k + n) \<noteq> None" by (metis le_add_diff_inverse)
  define n where "n = (LEAST n. answers (k + n) \<noteq> None)"
  have "answers (k + n) \<noteq> None" unfolding n_def using ex by (rule LeastI_ex)
  then obtain v where v: "answers (k + n) = Some v" by auto
  have none: "answers j = None" if "k \<le> j" "j < k + n" for j
  proof -
    from that have "j - k < n" by arith
    then have "answers (k + (j - k)) = None" unfolding n_def using not_less_Least by blast
    with that show ?thesis by simp
  qed
  from first_from_Some[of answers k n v, OF v none] show "first_from answers k \<noteq> None" by simp
qed

section \<open>Rounding\<close>

text \<open>\<open>int(round(x))\<close>: to the nearest, ties to the even neighbour.\<close>

definition py_round :: "rat \<Rightarrow> int" where
  "py_round x =
     (let f = \<lfloor>x\<rfloor>; d = x - of_int f in
      if d < 1 / 2 then f else if 1 / 2 < d then f + 1 else if even f then f else f + 1)"

section \<open>Strings\<close>

definition digit_char :: "nat \<Rightarrow> char" where
  "digit_char n = char_of (48 + n)"

definition is_digit :: "char \<Rightarrow> bool" where
  "is_digit c = (48 \<le> (of_char c :: nat) \<and> (of_char c :: nat) \<le> 57)"

definition digit_value :: "char \<Rightarrow> nat" where
  "digit_value c = of_char c - 48"

text \<open>\<open>str(n)\<close> and \<open>"{:d}".format(n)\<close> of a non-negative int, and of any int.\<close>

fun str_nat :: "nat \<Rightarrow> string" where
  "str_nat n = (if n < 10 then [digit_char n] else str_nat (n div 10) @ [digit_char (n mod 10)])"

declare str_nat.simps [simp del]

definition str_int :: "int \<Rightarrow> string" where
  "str_int i = (if i < 0 then CHR ''-'' # str_nat (nat (- i)) else str_nat (nat i))"

text \<open>
  \<open>int(s)\<close> of an ASCII string: surrounding white space, one sign, digits with single
  underscores between them; \<open>ValueError\<close> otherwise.
\<close>

definition is_space :: "char \<Rightarrow> bool" where
  "is_space c = ((of_char c :: nat) \<in> {9, 10, 11, 12, 13, 28, 29, 30, 31, 32})"

definition py_strip :: "string \<Rightarrow> string" where
  "py_strip s = rev (dropWhile is_space (rev (dropWhile is_space s)))"

fun read_digits :: "nat \<Rightarrow> bool \<Rightarrow> string \<Rightarrow> nat option" where
  "read_digits acc after_digit [] = (if after_digit then Some acc else None)"
| "read_digits acc after_digit (c # cs) =
     (if is_digit c then read_digits (10 * acc + digit_value c) True cs
      else if c = CHR ''_'' \<and> after_digit then read_digits acc False cs
      else None)"

definition py_int :: "string \<Rightarrow> exn + int" where
  "py_int s =
     (case py_strip s of
        [] \<Rightarrow> Inl ValueError
      | c # cs \<Rightarrow>
          (case (if c = CHR ''-'' \<or> c = CHR ''+'' then read_digits 0 False cs
                 else read_digits 0 False (c # cs)) of
             None \<Rightarrow> Inl ValueError
           | Some n \<Rightarrow> Inr (if c = CHR ''-'' then - int n else int n)))"

text \<open>\<open>s.split(sep)\<close> for a non-empty separator.\<close>

function split_acc :: "string \<Rightarrow> string \<Rightarrow> string \<Rightarrow> string list" where
  "split_acc sep acc s =
     (if sep \<noteq> [] \<and> take (length sep) s = sep then rev acc # split_acc sep [] (drop (length sep) s)
      else (case s of [] \<Rightarrow> [rev acc] | c # cs \<Rightarrow> split_acc sep (c # acc) cs))"
  by pat_completeness auto
termination
proof (relation "measure (\<lambda>(sep, acc, s). length s)")
  fix sep acc s :: string
  assume "sep \<noteq> [] \<and> take (length sep) s = sep"
  then have "length sep \<noteq> 0" "length s \<noteq> 0" by auto
  then have "length (drop (length sep) s) < length s" by simp
  then show "((sep, [], drop (length sep) s), (sep, acc, s)) \<in> measure (\<lambda>(sep, acc, s). length s)"
    by simp
qed auto

declare split_acc.simps [simp del]

definition py_split :: "string \<Rightarrow> string \<Rightarrow> string list" where
  "py_split sep s = split_acc sep [] s"

text \<open>\<open>xs[i]\<close> of a list for a non-negative index.\<close>

definition py_index :: "'a list \<Rightarrow> nat \<Rightarrow> exn + 'a" where
  "py_index xs i = (if i < length xs then Inr (xs ! i) else Inl IndexError)"

subsection \<open>Decimal digits\<close>

lemma of_digit_char: "n < 10 \<Longrightarrow> (of_char (digit_char n) :: nat) = 48 + n"
  by (simp add: digit_char_def)

lemma digit_char_digit [simp]: "n < 10 \<Longrightarrow> is_digit (digit_char n)"
  by (simp add: is_digit_def of_digit_char)

lemma digit_value_digit_char [simp]: "n < 10 \<Longrightarrow> digit_value (digit_char n) = n"
  by (simp add: digit_value_def of_digit_char)

lemma str_nat_digits: "c \<in> set (str_nat n) \<Longrightarrow> is_digit c"
proof (induction n rule: str_nat.induct)
  case (1 n)
  then show ?case by (subst (asm) str_nat.simps) (auto split: if_splits)
qed

lemma str_nat_nonempty [simp]: "str_nat n \<noteq> []"
  by (subst str_nat.simps) simp

lemma digit_not_special [str_simps]:
  "is_digit c \<Longrightarrow> c \<noteq> CHR ''-''" "is_digit c \<Longrightarrow> c \<noteq> CHR ''+''" "is_digit c \<Longrightarrow> c \<noteq> CHR '':''"
  "is_digit c \<Longrightarrow> c \<noteq> CHR ''/''" "is_digit c \<Longrightarrow> c \<noteq> CHR ''_''" "is_digit c \<Longrightarrow> \<not> is_space c"
  by (auto simp: is_digit_def is_space_def)

lemma read_digits_append:
  "\<forall>c \<in> set xs. is_digit c \<Longrightarrow> xs \<noteq> [] \<Longrightarrow>
   read_digits acc b (xs @ ys) = read_digits (foldl (\<lambda>a c. 10 * a + digit_value c) acc xs) True ys"
proof (induction xs arbitrary: acc b)
  case (Cons x xs)
  then show ?case by (cases "xs = []") auto
qed simp

lemma foldl_str_nat:
  "foldl (\<lambda>a c. 10 * a + digit_value c) 0 (str_nat n) = n"
proof (induction n rule: str_nat.induct)
  case (1 n)
  show ?case
  proof (cases "n < 10")
    case True
    then show ?thesis by (subst str_nat.simps) simp
  next
    case False
    with 1 show ?thesis by (subst str_nat.simps) simp
  qed
qed

lemma dropWhile_space_digits: "\<forall>c \<in> set s. is_digit c \<Longrightarrow> dropWhile is_space s = s"
  by (cases s) (auto simp: str_simps)

lemma py_strip_digits: "\<forall>c \<in> set s. is_digit c \<Longrightarrow> py_strip s = s"
  by (simp add: py_strip_def dropWhile_space_digits)

text \<open>\<open>int(str(n)) = n\<close>.\<close>

lemma py_int_str_nat [simp, str_simps]: "py_int (str_nat n) = Inr (int n)"
proof -
  have dig: "\<forall>c \<in> set (str_nat n). is_digit c" by (auto intro: str_nat_digits)
  obtain c cs where str: "str_nat n = c # cs" by (cases "str_nat n") auto
  with dig have "is_digit c" by simp
  then have "c \<noteq> CHR ''-''" "c \<noteq> CHR ''+''" by (auto simp: str_simps)
  moreover have "read_digits 0 False (c # cs) = Some n"
    using read_digits_append[OF dig, of 0 False "[]"] foldl_str_nat[of n] by (simp add: str)
  ultimately show ?thesis
    using py_strip_digits[OF dig] by (simp add: py_int_def str)
qed

lemma str_nat_inject [simp, str_simps]: "str_nat m = str_nat n \<longleftrightarrow> m = n"
  by (metis foldl_str_nat)

lemma str_nat_eq_append_sep [str_simps]:
  "\<not> is_digit c \<Longrightarrow> str_nat m @ c # xs = str_nat n @ c # ys \<longleftrightarrow> m = n \<and> xs = ys"
proof -
  assume c: "\<not> is_digit c"
  have "takeWhile is_digit (str_nat k @ c # zs) = str_nat k" for k zs
    using c by (simp add: takeWhile_append str_nat_digits)
  then show ?thesis by (metis append_same_eq append_eq_append_conv list.inject str_nat_inject)
qed

subsection \<open>Splitting at a one-character separator\<close>

lemma split_acc_no_sep:
  "c \<notin> set s \<Longrightarrow> split_acc [c] acc s = [rev acc @ s]"
proof (induction s arbitrary: acc)
  case Nil
  then show ?case by (subst split_acc.simps) simp
next
  case (Cons d s)
  then show ?case by (subst split_acc.simps) auto
qed

lemma split_acc_sep:
  "c \<notin> set s \<Longrightarrow> split_acc [c] acc (s @ c # t) = (rev acc @ s) # split_acc [c] [] t"
proof (induction s arbitrary: acc)
  case Nil
  then show ?case by (subst split_acc.simps) simp
next
  case (Cons d s)
  then show ?case by (subst split_acc.simps) auto
qed

lemma py_split_no_sep [str_simps]: "c \<notin> set s \<Longrightarrow> py_split [c] s = [s]"
  by (simp add: py_split_def split_acc_no_sep)

lemma py_split_sep [str_simps]:
  "c \<notin> set s \<Longrightarrow> py_split [c] (s @ c # t) = s # py_split [c] t"
  by (simp add: py_split_def split_acc_sep)

lemma py_split_nonempty [simp]: "py_split sep s \<noteq> []"
proof -
  have "split_acc sep acc s \<noteq> []" for acc
    by (induction sep acc s rule: split_acc.induct) (subst split_acc.simps, auto split: list.splits)
  then show ?thesis by (simp add: py_split_def)
qed

end
