(* ===== verification/Agent_Common.thy ===== *)
theory Agent_Common
  imports KM_Prelude "HOL-Library.Monad_Syntax"
begin

text \<open>
  The data of the agents (src/config-schemaregistry/*.avdl), the attributes an
  \<open>AgentCommon\<close> object and its subclasses share (src/agent-python-module/agentcommon.py),
  the effects on the MQTT client as a trace, and the constructor: configuration file,
  schema registry, number of publishing topics.

  Outside src/, hence parameters: the Avro serializer (\<open>codec\<close>), the schema registry, the
  file system, \<open>random\<close>, the clock, and the paho MQTT client (\<open>net_env\<close>: what its
  calls answer, and what its network thread does to the object while the main thread sleeps).
\<close>

section \<open>Avro records\<close>

text \<open>A framework UUID; agents hold -1 until they are registered.\<close>

datatype uuid = MinusOne | Uuid string

fun str_uuid :: "uuid \<Rightarrow> string" where
  "str_uuid MinusOne = ''-1''"
| "str_uuid (Uuid u) = u"

type_synonym topic_qos = "string \<times> nat"

text \<open>\<open>SendTimeSeriesDruid\<close>: the finite floats of a sample are rationals.\<close>

record triplet =
  timestamp :: int
  sensorUuid :: uuid
  sensorValue :: rat

text \<open>An entry of \<open>myByteBatch\<close>: a dictionary, or the bytes of an encoded record.\<close>

datatype 'b batch_item = Dict triplet | Bytes 'b

record sensor =
  sensor_uuid :: "uuid option"
  sensor_id :: string
  sensor_name :: string
  sensor_type :: string
  valueRangeMin :: rat
  valueRangeMax :: rat
  currentCollectionFrequency :: rat
  storageTime :: int

record device =
  device_uuid :: "uuid option"
  device_id :: string
  device_name :: string
  device_type :: string
  device_location :: string
  device_sensors :: "sensor list"

record reg_data =
  reg_uid :: string
  reg_type :: string
  reg_name :: string
  reg_description :: string
  reg_useSensorTemplate :: bool

text \<open>\<open>deviceUuids\<close>: device id to (device uuid, sensor id to sensor uuid).\<close>

type_synonym device_uuids = "string \<rightharpoonup> (uuid \<times> (string \<rightharpoonup> uuid))"

text \<open>An answer that covers some devices: a UUID for each, and for each of its sensors.\<close>

definition covers :: "device_uuids \<Rightarrow> device list \<Rightarrow> bool" where
  "covers m ds \<longleftrightarrow> (\<forall>d \<in> set ds. \<exists>u sensors. m (device_id d) = Some (u, sensors) \<and>
     (\<forall>x \<in> set (device_sensors d). sensors (sensor_id x) \<noteq> None))"

datatype 'b avro =
    RegisterRequest reg_data
  | RegisterResponse string bool string uuid "string \<rightharpoonup> string"
  | DeregisterRequest uuid
  | DeregisterResponse uuid bool
  | DeviceList uuid "device list"
  | DeviceListResponse uuid device_uuids
  | SendTimeSeriesDruid "'b batch_item"
  | SendTimeSeriesDruidArray "'b batch_item list"

text \<open>\<open>data["uuid"]\<close>, \<open>data["deviceUuids"]\<close> and \<open>data["tripletBatch"]\<close> of a decoded record.\<close>

fun get_uuid :: "'b avro \<Rightarrow> exn + uuid" where
  "get_uuid (RegisterResponse uid st msg u topics) = Inr u"
| "get_uuid (DeregisterRequest u) = Inr u"
| "get_uuid (DeviceList u ds) = Inr u"
| "get_uuid (DeviceListResponse u m) = Inr u"
| "get_uuid _ = Inl KeyError"

fun get_deviceUuids :: "'b avro \<Rightarrow> exn + device_uuids" where
  "get_deviceUuids (DeviceListResponse u m) = Inr m"
| "get_deviceUuids _ = Inl KeyError"

fun get_tripletBatch :: "'b avro \<Rightarrow> exn + 'b batch_item list" where
  "get_tripletBatch (SendTimeSeriesDruidArray items) = Inr items"
| "get_tripletBatch _ = Inl KeyError"

text \<open>\<open>MessageSerializer\<close>: encode with a schema id, decode a payload.\<close>

record 'b codec =
  encode :: "int \<Rightarrow> 'b avro \<Rightarrow> exn + 'b"
  decode :: "'b \<Rightarrow> exn + 'b avro"

text \<open>
  What the code relies on of the serializer. Avro rejects what is not a record of the schema;
  decoding gives the record back, the \<open>float\<close> of a sample rounded to single precision
  (\<open>rnd\<close>, exact on integers up to \<open>2 ^ 24\<close>).
\<close>

definition narrow :: "(rat \<Rightarrow> rat) \<Rightarrow> triplet \<Rightarrow> triplet" where
  "narrow rnd t = t\<lparr>sensorValue := rnd (sensorValue t)\<rparr>"

definition codec_laws :: "'b codec \<Rightarrow> (rat \<Rightarrow> rat) \<Rightarrow> bool" where
  "codec_laws c rnd \<longleftrightarrow>
     (\<forall>i items raw. encode c i (SendTimeSeriesDruidArray items) = Inr raw \<longrightarrow>
        (\<exists>ts. items = map Dict ts \<and>
           decode c raw = Inr (SendTimeSeriesDruidArray (map Dict (map (narrow rnd) ts))))) \<and>
     (\<forall>i item raw. encode c i (SendTimeSeriesDruid item) = Inr raw \<longrightarrow>
        (\<exists>t. item = Dict t \<and> decode c raw = Inr (SendTimeSeriesDruid (Dict (narrow rnd t))))) \<and>
     (\<forall>i u raw. encode c i (DeregisterRequest u) = Inr raw \<longrightarrow> decode c raw = Inr (DeregisterRequest u))"

definition exact24 :: "(rat \<Rightarrow> rat) \<Rightarrow> bool" where
  "exact24 rnd \<longleftrightarrow> (\<forall>n::int. \<bar>n\<bar> \<le> 2 ^ 24 \<longrightarrow> rnd (of_int n) = of_int n)"

text \<open>A serializer that satisfies the laws, for the witnesses: it tags the record with the schema id.\<close>

datatype wire = Wire int "wire avro"

fun all_dicts :: "'b batch_item list \<Rightarrow> bool" where
  "all_dicts [] = True"
| "all_dicts (Dict t # items) = all_dicts items"
| "all_dicts (Bytes b # items) = False"

fun tag_encode :: "int \<Rightarrow> wire avro \<Rightarrow> exn + wire" where
  "tag_encode i (SendTimeSeriesDruidArray items) =
     (if all_dicts items then Inr (Wire i (SendTimeSeriesDruidArray items)) else Inl SerializeError)"
| "tag_encode i (SendTimeSeriesDruid item) =
     (if all_dicts [item] then Inr (Wire i (SendTimeSeriesDruid item)) else Inl SerializeError)"
| "tag_encode i r = Inr (Wire i r)"

definition tag_codec :: "wire codec" where
  "tag_codec = \<lparr>encode = tag_encode, decode = (\<lambda>w. case w of Wire i r \<Rightarrow> Inr r)\<rparr>"

lemma all_dicts_iff: "all_dicts items \<longleftrightarrow> (\<exists>ts. items = map Dict ts)"
proof (induction items rule: all_dicts.induct)
  case (2 t items)
  then show ?case by (auto simp: Cons_eq_map_conv)
qed auto

lemma all_dicts_map [simp]: "all_dicts (map Dict ts)"
  by (auto simp: all_dicts_iff)

lemma narrow_id [simp]: "narrow (\<lambda>x. x) = (\<lambda>t. t)"
  by (simp add: narrow_def fun_eq_iff)

lemma tag_codec_laws: "codec_laws tag_codec (\<lambda>x. x)"
proof -
  have "\<exists>t. item = Dict t" if "all_dicts [item]" for item :: "wire batch_item"
    using that by (cases item) auto
  then show ?thesis by (auto simp: codec_laws_def tag_codec_def all_dicts_iff split: if_splits)
qed

text \<open>The samples a receiver decodes from a list of batch entries.\<close>

fun dict_samples :: "'b batch_item list \<Rightarrow> triplet list" where
  "dict_samples [] = []"
| "dict_samples (Dict t # items) = t # dict_samples items"
| "dict_samples (Bytes b # items) = dict_samples items"

lemma dict_samples_map [simp]: "dict_samples (map Dict ts) = ts"
  by (induction ts) auto

section \<open>The object\<close>

record schema_ids =
  agent_register_request_schema_id :: int
  agent_register_response_schema_id :: int
  agent_deregister_request_schema_id :: int
  agent_deregister_response_schema_id :: int
  send_time_series_schema_id :: int
  device_register_request_schema_id :: int
  device_register_response_schema_id :: int
  send_time_series_druid_array_id :: int

record mqtt_conf =
  mqtt_broker :: string
  mqtt_port :: int
  mqtt_broker_sec :: string
  mqtt_port_sec :: int
  mqtt_ca_certs :: string
  mqtt_certfile :: string
  mqtt_keyfile :: string

text \<open>Calls on the paho client, in the order they are made.\<close>

datatype 'b mqtt_action =
    TlsSet string string string
  | Connect string int
  | Subscribe "topic_qos list"
  | Publish string 'b nat bool
  | WaitForPublish
  | LoopStart
  | LoopForever
  | LoopStop
  | Disconnect

text \<open>
  What the client notifies the object of, besides messages and connections, and the lines on
  standard output that report counts, losses or notifications.
\<close>

datatype notification = OnLog string | OnSubscribe int | OnDisconnect int | OnPublish int

datatype console_line =
    BatchCountLine "uuid option" string int
  | AllPublishedLine int
  | UnknownTopicLine string
  | MissingBatchesLine uuid string int
  | SamplesLine nat
  | RateLine int int rat
  | QueueFullLine
  | KafkaErrorLine
  | DeliveryFailedLine
  | GatewayCountLine uuid string int
  | NotificationLine notification
  | KafkaCallbackErrorLine string

text \<open>
  Attributes of the object. Those an object does not have until some method assigns them
  are options (reading them before is an \<open>AttributeError\<close>), except
  \<open>myDevice_registration_response_topic\<close>, which the constructors set to \<open>False\<close>.
  \<open>userdata\<close> of the MQTT client is the list object \<open>myAgent_registration_response_topic\<close>
  itself (\<open>run\<close> passes it to \<open>mqtt_init\<close>), so \<open>userdata.append\<close> grows that attribute.
\<close>

record 'b agent =
  myAgentCommonDebug :: bool
  mqtt_conf :: mqtt_conf
  schemas :: schema_ids
  myDeviceRegistered :: bool
  myByteBatch :: "'b batch_item list"
  myCurrentSubtopic :: nat
  myNumber_of_msg_send :: int
  myMessageCounter :: int
  mymqttBatchCountSenderUUID :: "uuid option"
  myBatchCounter :: "int list"
  myAgentMqttNumberOfPublishingTopics :: nat
  myEnableMQTTbatchesCounter :: "bool option"
  myMQTTregistered :: bool
  myMQTTderegistered :: bool
  myAgent_debug :: bool
  myAgent_uid :: string
  myAgent_uuid :: uuid
  myAgent_registration_request_topic :: "topic_qos list"
  myAgent_registration_response_topic :: "topic_qos list"
  myAgent_deregistration_request_topic :: "topic_qos list option"
  myAgent_deregistration_response_topic :: "topic_qos list option"
  myDevice_registration_request_topic :: "string option"
  myDevice_registration_response_topic :: "topic_qos list option"
  myDeviceSensorUUIDsMap :: device_uuids
  client :: "string option"
  net :: "'b mqtt_action list"
  console :: "console_line list"

text \<open>A call on \<open>self.client\<close>, and a line printed.\<close>

definition client_call :: "'b mqtt_action \<Rightarrow> ('b, 'z) agent_scheme \<Rightarrow> (('b, 'z) agent_scheme, unit) outcome" where
  "client_call a s =
     (case client s of None \<Rightarrow> Raise AttributeError s | Some _ \<Rightarrow> Return () (s\<lparr>net := net s @ [a]\<rparr>))"

definition print_line :: "console_line \<Rightarrow> ('b, 'z) agent_scheme \<Rightarrow> ('b, 'z) agent_scheme" where
  "print_line l s = s\<lparr>console := console s @ [l]\<rparr>"

section \<open>Configuration\<close>

text \<open>
  A file read by \<open>configparser\<close> (defaults merged, values interpolated): section to option
  to value, option names in lower case, as \<open>optionxform\<close> leaves them.
\<close>

type_synonym config = "string \<rightharpoonup> (string \<rightharpoonup> string)"

definition lower_char :: "char \<Rightarrow> char" where
  "lower_char c =
     (if 65 \<le> (of_char c :: nat) \<and> (of_char c :: nat) \<le> 90 then char_of ((of_char c :: nat) + 32) else c)"

definition config_get :: "config \<Rightarrow> string \<Rightarrow> string \<Rightarrow> exn + string" where
  "config_get cfg sec opt =
     (case cfg sec of
        None \<Rightarrow> Inl NoSectionError
      | Some m \<Rightarrow> (case m (map lower_char opt) of None \<Rightarrow> Inl NoOptionError | Some v \<Rightarrow> Inr v))"

definition config_int :: "config \<Rightarrow> string \<Rightarrow> string \<Rightarrow> exn + int" where
  "config_int cfg sec opt = res_then (config_get cfg sec opt) py_int"

text \<open>
  \<open>files\<close> is the file system: no such file, a file \<open>config.read\<close> rejects, or its content.
  Each failure prints a message and leaves with exit status 2.
\<close>

fun check_sections :: "config \<Rightarrow> string list \<Rightarrow> exn + config" where
  "check_sections cfg [] = Inr cfg"
| "check_sections cfg (sec # secs) =
     (if cfg sec = None then Inl (SystemExit 2) else check_sections cfg secs)"

definition checkConfigurationFile ::
  "(string \<Rightarrow> (exn + config) option) \<Rightarrow> string \<Rightarrow> string list option \<Rightarrow> exn + config" where
  "checkConfigurationFile files path sectionsToCheck =
     (case files path of
        None \<Rightarrow> Inl (SystemExit 2)
      | Some (Inl e) \<Rightarrow> Inl (SystemExit 2)
      | Some (Inr cfg) \<Rightarrow>
          (case sectionsToCheck of None \<Rightarrow> Inr cfg | Some secs \<Rightarrow> check_sections cfg secs))"

lemma check_sections_iff:
  "check_sections cfg secs = Inr c \<longleftrightarrow> c = cfg \<and> set secs \<subseteq> dom cfg"
  by (induction secs) auto

lemma check_sections_Inl: "check_sections cfg secs = Inl e \<Longrightarrow> e = SystemExit 2"
  by (induction secs) (auto split: if_splits)

lemma checkConfigurationFile_Inr_iff:
  "checkConfigurationFile files path secs = Inr cfg \<longleftrightarrow>
     files path = Some (Inr cfg) \<and> (\<forall>ss. secs = Some ss \<longrightarrow> set ss \<subseteq> dom cfg)"
  by (auto simp: checkConfigurationFile_def check_sections_iff split: option.splits sum.splits)

lemma checkConfigurationFile_Inl:
  "checkConfigurationFile files path secs = Inl e \<Longrightarrow> e = SystemExit 2"
  by (auto simp: checkConfigurationFile_def dest: check_sections_Inl split: option.splits sum.splits)

section \<open>Constructor\<close>

text \<open>
  \<open>cg = None; while cg is None: cg = client.get_schema(subject)\<close>: the first attempt that
  answers, if there is one. \<open>registry subject k\<close> is the answer to the k-th request.
\<close>

definition poll_schema :: "(nat \<Rightarrow> int option) \<Rightarrow> int option" where
  "poll_schema answers = map_option snd (first_from answers 0)"

lemma poll_schema_returns_iff: "poll_schema answers \<noteq> None \<longleftrightarrow> (\<exists>k. answers k \<noteq> None)"
  using first_from_returns_iff[of answers 0] by (simp add: poll_schema_def)

definition fetch_schema_ids :: "(string \<Rightarrow> nat \<Rightarrow> int option) \<Rightarrow> schema_ids option" where
  "fetch_schema_ids registry = do {
     reg_req \<leftarrow> poll_schema (registry ''com.hpe.krakenmare.message.agent.RegisterRequest'');
     reg_resp \<leftarrow> poll_schema (registry ''com.hpe.krakenmare.message.manager.RegisterResponse'');
     dereg_req \<leftarrow> poll_schema (registry ''com.hpe.krakenmare.message.agent.DeregisterRequest'');
     dereg_resp \<leftarrow> poll_schema (registry ''com.hpe.krakenmare.message.manager.DeregisterResponse'');
     ts \<leftarrow> poll_schema (registry ''com.hpe.krakenmare.message.agent.SendTimeSeriesDruid'');
     dev_req \<leftarrow> poll_schema (registry ''com.hpe.krakenmare.message.agent.DeviceList'');
     dev_resp \<leftarrow> poll_schema (registry ''com.hpe.krakenmare.message.manager.DeviceListResponse'');
     ts_array \<leftarrow> poll_schema (registry ''com.hpe.krakenmare.message.agent.SendTimeSeriesDruidArray'');
     Some \<lparr>agent_register_request_schema_id = reg_req, agent_register_response_schema_id = reg_resp,
           agent_deregister_request_schema_id = dereg_req,
           agent_deregister_response_schema_id = dereg_resp,
           send_time_series_schema_id = ts, device_register_request_schema_id = dev_req,
           device_register_response_schema_id = dev_resp, send_time_series_druid_array_id = ts_array\<rparr>
   }"

definition subjects :: "string list" where
  "subjects =
     [''com.hpe.krakenmare.message.agent.RegisterRequest'',
      ''com.hpe.krakenmare.message.manager.RegisterResponse'',
      ''com.hpe.krakenmare.message.agent.DeregisterRequest'',
      ''com.hpe.krakenmare.message.manager.DeregisterResponse'',
      ''com.hpe.krakenmare.message.agent.SendTimeSeriesDruid'',
      ''com.hpe.krakenmare.message.agent.DeviceList'',
      ''com.hpe.krakenmare.message.manager.DeviceListResponse'',
      ''com.hpe.krakenmare.message.agent.SendTimeSeriesDruidArray'']"

lemma fetch_schema_ids_iff:
  "fetch_schema_ids registry \<noteq> None \<longleftrightarrow>
     (\<forall>subject \<in> set subjects. \<exists>k. registry subject k \<noteq> None)"
proof -
  have "fetch_schema_ids registry \<noteq> None \<longleftrightarrow>
      (\<forall>subject \<in> set subjects. poll_schema (registry subject) \<noteq> None)"
    by (simp add: fetch_schema_ids_def subjects_def Option.bind_eq_None_conv bind_eq_Some_conv)
  then show ?thesis by (simp only: poll_schema_returns_iff)
qed

definition read_mqtt_conf :: "config \<Rightarrow> exn + mqtt_conf" where
  "read_mqtt_conf cfg =
     res_then (config_get cfg ''MQTT'' ''mqtt_broker'') (\<lambda>broker.
     res_then (config_int cfg ''MQTT'' ''mqtt_port'') (\<lambda>port.
     res_then (config_get cfg ''MQTT'' ''mqtt_broker_sec'') (\<lambda>broker_sec.
     res_then (config_int cfg ''MQTT'' ''mqtt_port_sec'') (\<lambda>port_sec.
     res_then (config_get cfg ''MQTT'' ''mqtt_ca_certs'') (\<lambda>ca.
     res_then (config_get cfg ''MQTT'' ''mqtt_certfile'') (\<lambda>cert.
     res_then (config_get cfg ''MQTT'' ''mqtt_keyfile'') (\<lambda>key.
       Inr \<lparr>mqtt_broker = broker, mqtt_port = port, mqtt_broker_sec = broker_sec,
            mqtt_port_sec = port_sec, mqtt_ca_certs = ca, mqtt_certfile = cert,
            mqtt_keyfile = key\<rparr>)))))))"

definition read_registry_conf :: "config \<Rightarrow> exn + (string \<times> string \<times> string \<times> string)" where
  "read_registry_conf cfg =
     res_then (config_get cfg ''Schemaregistry'' ''url'') (\<lambda>url.
     res_then (config_get cfg ''Schemaregistry'' ''ssl.ca.location'') (\<lambda>ca.
     res_then (config_get cfg ''Schemaregistry'' ''ssl.certificate.location'') (\<lambda>cert.
     res_then (config_get cfg ''Schemaregistry'' ''ssl.key.location'') (\<lambda>key.
       Inr (url, ca, cert, key)))))"

definition agent_common_init ::
  "(string \<Rightarrow> (exn + config) option) \<Rightarrow> (string \<Rightarrow> nat \<Rightarrow> int option) \<Rightarrow> string \<Rightarrow> bool \<Rightarrow>
   ('b, 'z) agent_scheme \<Rightarrow> (('b, 'z) agent_scheme, unit) outcome" where
  "agent_common_init files registry configFile debug s =
     (let s = s\<lparr>myAgentCommonDebug := debug\<rparr> in
      or_raise (checkConfigurationFile files configFile
                  (Some [''Daemon'', ''Logger'', ''MQTT'', ''Schemaregistry''])) s (\<lambda>cfg.
      let s = s\<lparr>myBatchCounter := []\<rparr> in
      or_raise (read_mqtt_conf cfg) s (\<lambda>mc.
      let s = s\<lparr>mqtt_conf := mc\<rparr> in
      or_raise (read_registry_conf cfg) s (\<lambda>_.
      (case fetch_schema_ids registry of
         None \<Rightarrow> Hang
       | Some ids \<Rightarrow> Return () (s\<lparr>schemas := ids\<rparr>))))))"

text \<open>\<open>randrange\<close> is the value \<open>random.randrange(n)\<close> gives for a positive \<open>n\<close>.\<close>

definition setMqttNumberOfPublishingTopics ::
  "int \<Rightarrow> nat \<Rightarrow> ('b, 'z) agent_scheme \<Rightarrow> (('b, 'z) agent_scheme, unit) outcome" where
  "setMqttNumberOfPublishingTopics n randrange s =
     (let s = s\<lparr>myAgentMqttNumberOfPublishingTopics := nat n\<rparr> in
      if n \<le> 0 then Raise ValueError s
      else let s = s\<lparr>myCurrentSubtopic := randrange\<rparr> in
           Return () (s\<lparr>myBatchCounter := ((\<lambda>cs. cs @ [1]) ^^ nat n) (myBatchCounter s)\<rparr>))"

lemma append_ones: "((\<lambda>cs. cs @ [x]) ^^ n) cs = cs @ replicate n x"
  by (induction n) (auto simp: replicate_append_same)

end
