(* ===== verification/Registration.thy ===== *)
theory Registration
  imports Agent_Common
begin

text \<open>
  The MQTT life cycle of an agent (\<open>AgentCommon\<close> in src/agent-python-module/agentcommon.py):
  connection and subscription, the three request/response exchanges (agent registration,
  device registration, deregistration), closing, and the signal handler of the agents.

  Each exchange publishes a request and then polls a flag every 0.1 seconds; the flag is set
  by the paho network thread. The thread is the parameter \<open>network\<close>: what it does to the
  object during the \<open>k\<close>-th sleep of the wait.
\<close>

section \<open>The MQTT client and its network thread\<close>

record 's net_env =
  connect_error :: "exn option"
  subscribe_rc :: "nat \<Rightarrow> int"
  is_published :: bool
  network :: "nat \<Rightarrow> 's \<Rightarrow> 's"

definition MQTT_ERR_SUCCESS :: int where
  "MQTT_ERR_SUCCESS = 0"

text \<open>\<open>while result != MQTT_ERR_SUCCESS: (result, mid) = self.client.subscribe(topics)\<close>\<close>

definition subscribe_until_ok ::
  "topic_qos list \<Rightarrow> ('b, 'z) agent_scheme net_env \<Rightarrow> ('b, 'z) agent_scheme \<Rightarrow> (('b, 'z) agent_scheme, unit) outcome" where
  "subscribe_until_ok topics env s =
     (case client s of
        None \<Rightarrow> Raise AttributeError s
      | Some _ \<Rightarrow>
          (case first_from (\<lambda>k. if subscribe_rc env k = MQTT_ERR_SUCCESS then Some () else None) 0 of
             None \<Rightarrow> Hang
           | Some (k, _) \<Rightarrow> Return () (s\<lparr>net := net s @ replicate (Suc k) (Subscribe topics)\<rparr>)))"

text \<open>
  \<open>while not flag: time.sleep(0.1); count = count + 1; if count > 300: sys.exit(300)\<close>
\<close>

function wait_flag :: "('s \<Rightarrow> bool) \<Rightarrow> (nat \<Rightarrow> 's \<Rightarrow> 's) \<Rightarrow> nat \<Rightarrow> 's \<Rightarrow> ('s, unit) outcome" where
  "wait_flag flag nw count s =
     (if flag s then Return () s
      else let s' = nw count s; count' = count + 1 in
           if count' > 300 then Raise (SystemExit 300) s'
           else wait_flag flag nw count' s')"
  by pat_completeness auto
termination
  by (relation "measure (\<lambda>(flag, nw, count, s). 301 - count)") auto

declare wait_flag.simps [simp del]

text \<open>The object after \<open>k\<close> sleeps, counted from \<open>c\<close>.\<close>

primrec sleeps :: "(nat \<Rightarrow> 's \<Rightarrow> 's) \<Rightarrow> nat \<Rightarrow> nat \<Rightarrow> 's \<Rightarrow> 's" where
  "sleeps nw c 0 s = s"
| "sleeps nw c (Suc k) s = sleeps nw (Suc c) k (nw c s)"

lemma wait_flag_returns:
  assumes "c + k \<le> 300" and "flag (sleeps nw c k s)" and "\<And>j. j < k \<Longrightarrow> \<not> flag (sleeps nw c j s)"
  shows "wait_flag flag nw c s = Return () (sleeps nw c k s)"
  using assms
proof (induction k arbitrary: c s)
  case 0
  then show ?case by (simp add: wait_flag.simps)
next
  case (Suc k)
  have "wait_flag flag nw (Suc c) (nw c s) = Return () (sleeps nw (Suc c) k (nw c s))"
  proof (rule Suc.IH)
    show "\<not> flag (sleeps nw (Suc c) j (nw c s))" if "j < k" for j
      using Suc.prems(3)[of "Suc j"] that by simp
  qed (use Suc.prems in auto)
  with Suc.prems(1) Suc.prems(3)[of 0] show ?case
    by (simp add: wait_flag.simps[of flag nw c s])
qed

lemma wait_flag_timeout:
  assumes "c \<le> 300" and "\<And>j. c + j \<le> 300 \<Longrightarrow> \<not> flag (sleeps nw c j s)"
  shows "wait_flag flag nw c s = Raise (SystemExit 300) (sleeps nw c (301 - c) s)"
  using assms
proof (induction "300 - c" arbitrary: c s)
  case 0
  then have "c = 300" by simp
  with "0.prems"(2)[of 0] show ?case by (simp add: wait_flag.simps[of flag nw 300 s])
next
  case (Suc m)
  have "wait_flag flag nw (Suc c) (nw c s) =
      Raise (SystemExit 300) (sleeps nw (Suc c) (301 - Suc c) (nw c s))"
  proof (rule Suc.hyps(1))
    show "\<not> flag (sleeps nw (Suc c) j (nw c s))" if "Suc c + j \<le> 300" for j
      using Suc.prems(2)[of "Suc j"] that by simp
  qed (use Suc.hyps(2) in auto)
  moreover have "301 - c = Suc (301 - Suc c)" using Suc.hyps(2) by arith
  moreover have "\<not> flag s" "\<not> 300 < c + 1" using Suc.prems(2)[of 0] Suc.hyps(2) by auto
  ultimately show ?case by (simp add: wait_flag.simps[of flag nw c s] Let_def)
qed

lemma wait_flag_cases:
  obtains (returns) k where "k \<le> 300" "flag (sleeps nw 0 k s)" "\<And>j. j < k \<Longrightarrow> \<not> flag (sleeps nw 0 j s)"
      "wait_flag flag nw 0 s = Return () (sleeps nw 0 k s)"
  | (timeout) "\<And>k. k \<le> 300 \<Longrightarrow> \<not> flag (sleeps nw 0 k s)"
      "wait_flag flag nw 0 s = Raise (SystemExit 300) (sleeps nw 0 301 s)"
proof (cases "\<exists>k\<le>300. flag (sleeps nw 0 k s)")
  case True
  define k where "k = (LEAST k. flag (sleeps nw 0 k s))"
  from True have "flag (sleeps nw 0 k s)" unfolding k_def by (auto intro: LeastI)
  moreover from True have "k \<le> 300" unfolding k_def by (metis (mono_tags, lifting) Least_le le_trans)
  moreover have "\<not> flag (sleeps nw 0 j s)" if "j < k" for j
    using that not_less_Least unfolding k_def by blast
  ultimately show ?thesis using returns wait_flag_returns[of 0 k flag nw s] by simp
next
  case False
  then show ?thesis using timeout wait_flag_timeout[of 0 flag nw s] by simp
qed

lemma wait_flag_Return_flag: "wait_flag flag nw c s = Return u t \<Longrightarrow> flag t"
proof (induction flag nw c s rule: wait_flag.induct)
  case (1 flag nw count s)
  then show ?case by (subst (asm) wait_flag.simps) (auto simp: Let_def split: if_splits)
qed

lemma wait_flag_Raise: "wait_flag flag nw c s = Raise e t \<Longrightarrow> e = SystemExit 300"
proof (induction flag nw c s rule: wait_flag.induct)
  case (1 flag nw count s)
  then show ?case by (subst (asm) wait_flag.simps) (auto simp: Let_def split: if_splits)
qed

lemma wait_flag_no_Hang: "wait_flag flag nw c s \<noteq> Hang"
proof (induction flag nw c s rule: wait_flag.induct)
  case (1 flag nw count s)
  then show ?case by (subst wait_flag.simps) (auto simp: Let_def)
qed

text \<open>The network thread changes only what its invariant allows: so does a wait.\<close>

locale network_thread =
  fixes nw :: "nat \<Rightarrow> 's \<Rightarrow> 's"
    and inv :: "'s \<Rightarrow> bool"
  assumes thread_keeps: "inv s \<Longrightarrow> inv (nw k s)"
begin

lemma sleeps_keep: "inv s \<Longrightarrow> inv (sleeps nw c k s)"
  by (induction k arbitrary: c s) (auto intro: thread_keeps)

lemma wait_keeps: "inv s \<Longrightarrow> out_all inv (wait_flag flag nw 0 s)"
  by (rule wait_flag_cases[where flag = flag and nw = nw and s = s]) (auto intro: sleeps_keep)

end

section \<open>Connection\<close>

text \<open>The callback for a CONNACK: subscriptions are renewed on every (re)connection.\<close>

definition mqtt_on_connect ::
  "topic_qos list \<Rightarrow> ('b, 'z) agent_scheme \<Rightarrow> (('b, 'z) agent_scheme, unit) outcome" where
  "mqtt_on_connect userdata s = client_call (Subscribe userdata) s"

text \<open>The callbacks that print in debug mode; a return code is printed as its text.\<close>

definition mqtt_on_log :: "string \<Rightarrow> ('b, 'z) agent_scheme \<Rightarrow> ('b, 'z) agent_scheme" where
  "mqtt_on_log buf s = (if myAgentCommonDebug s then print_line (NotificationLine (OnLog buf)) s else s)"

definition mqtt_on_subscribe :: "int \<Rightarrow> ('b, 'z) agent_scheme \<Rightarrow> ('b, 'z) agent_scheme" where
  "mqtt_on_subscribe mid s = (if myAgentCommonDebug s then print_line (NotificationLine (OnSubscribe mid)) s else s)"

definition mqtt_on_disconnect :: "int \<Rightarrow> ('b, 'z) agent_scheme \<Rightarrow> ('b, 'z) agent_scheme" where
  "mqtt_on_disconnect rc s = (if myAgentCommonDebug s then print_line (NotificationLine (OnDisconnect rc)) s else s)"

definition mqtt_on_publish :: "int \<Rightarrow> ('b, 'z) agent_scheme \<Rightarrow> ('b, 'z) agent_scheme" where
  "mqtt_on_publish mid s = (if myAgentCommonDebug s then print_line (NotificationLine (OnPublish mid)) s else s)"

text \<open>\<open>mqtt_init\<close> installs them: which one a notification calls.\<close>

fun notify :: "notification \<Rightarrow> ('b, 'z) agent_scheme \<Rightarrow> ('b, 'z) agent_scheme" where
  "notify (OnLog buf) s = mqtt_on_log buf s"
| "notify (OnSubscribe mid) s = mqtt_on_subscribe mid s"
| "notify (OnDisconnect rc) s = mqtt_on_disconnect rc s"
| "notify (OnPublish mid) s = mqtt_on_publish mid s"

lemma notify_console: "notify n s = s\<lparr>console := console s @ (if myAgentCommonDebug s then [NotificationLine n] else [])\<rparr>"
  by (cases n) (simp_all add: mqtt_on_log_def mqtt_on_subscribe_def mqtt_on_disconnect_def mqtt_on_publish_def print_line_def)

text \<open>\<open>topicList\<close> is \<open>None\<close> where the source passes \<open>False\<close>.\<close>

definition mqtt_init ::
  "string \<Rightarrow> topic_qos list option \<Rightarrow> bool \<Rightarrow> bool \<Rightarrow> ('b, 'z) agent_scheme net_env \<Rightarrow>
   ('b, 'z) agent_scheme \<Rightarrow> (('b, 'z) agent_scheme, unit) outcome" where
  "mqtt_init client_uid topicList loopForever encrypt env s =
     (let s = s\<lparr>client := Some client_uid\<rparr>; mc = mqtt_conf s;
          connect = (\<lambda>host port s. case connect_error env of
             Some e \<Rightarrow> Raise e (s\<lparr>net := net s @ [Connect host port]\<rparr>)
           | None \<Rightarrow> client_call (Connect host port) s) in
      and_then
        (if encrypt
         then and_then (client_call (TlsSet (mqtt_ca_certs mc) (mqtt_certfile mc) (mqtt_keyfile mc)) s)
                (\<lambda>_ s. connect (mqtt_broker_sec mc) (mqtt_port_sec mc) s)
         else connect (mqtt_broker mc) (mqtt_port mc) s) (\<lambda>_ s.
      and_then
        (case topicList of None \<Rightarrow> Return () s | Some topics \<Rightarrow> subscribe_until_ok topics env s) (\<lambda>_ s.
      if \<not> loopForever then client_call LoopStart s
      else and_then (client_call LoopForever s) (\<lambda>_ _. Hang))))"

text \<open>What does not depend on the client's state survives the connection.\<close>

lemma client_call_keeps:
  "(\<And>s acts. P s \<Longrightarrow> P (s\<lparr>net := acts\<rparr>)) \<Longrightarrow> P s \<Longrightarrow> out_all P (client_call act s)"
  by (simp add: client_call_def split: option.splits)

lemma subscribe_keeps:
  "(\<And>s acts. P s \<Longrightarrow> P (s\<lparr>net := acts\<rparr>)) \<Longrightarrow> P s \<Longrightarrow> out_all P (subscribe_until_ok topics env s)"
  by (auto simp: subscribe_until_ok_def split: option.splits prod.splits)

lemma mqtt_init_keeps:
  assumes net: "\<And>s acts. P s \<Longrightarrow> P (s\<lparr>net := acts\<rparr>)" and cl: "\<And>s uid. P s \<Longrightarrow> P (s\<lparr>client := uid\<rparr>)" and "P s"
  shows "out_all P (mqtt_init uid topicList loopForever encrypt env s)"
proof -
  let ?s = "s\<lparr>client := Some uid\<rparr>"
  have start: "P ?s" using cl[OF assms(3)] .
  have call: "P t \<Longrightarrow> out_all P (client_call act t)" for act t by (rule client_call_keeps) (rule net)
  have connect: "P t \<Longrightarrow> out_all P (case connect_error env of
      Some e \<Rightarrow> Raise e (t\<lparr>net := net t @ [Connect host port]\<rparr>) | None \<Rightarrow> client_call (Connect host port) t)" for host port t
    using call net by (simp split: option.splits)
  have sub: "P t \<Longrightarrow> out_all P (case topicList of None \<Rightarrow> Return () t | Some topics \<Rightarrow> subscribe_until_ok topics env t)" for t
    using subscribe_keeps[of P] net by (simp split: option.splits)
  show ?thesis unfolding mqtt_init_def Let_def
    by (intro out_all_and_then sub; (intro impI conjI out_all_and_then call connect start)?)
      (auto intro!: out_all_and_then call connect start)
qed

section \<open>Request and response\<close>

text \<open>
  The tail all three exchanges share: publish the request (retained), wait until the client
  has sent it, wait for the flag.
\<close>

definition request_and_wait ::
  "string \<Rightarrow> 'b \<Rightarrow> nat \<Rightarrow> (('b, 'z) agent_scheme \<Rightarrow> bool) \<Rightarrow> ('b, 'z) agent_scheme net_env \<Rightarrow>
   ('b, 'z) agent_scheme \<Rightarrow> (('b, 'z) agent_scheme, unit) outcome" where
  "request_and_wait topic raw_bytes qos flag env s =
     and_then (client_call (Publish topic raw_bytes qos True) s) (\<lambda>_ s.
     and_then (if is_published env then Return () s else client_call WaitForPublish s) (\<lambda>_ s.
     wait_flag flag (network env) 0 s))"

definition mqtt_registration ::
  "'b codec \<Rightarrow> topic_qos \<Rightarrow> reg_data \<Rightarrow> ('b, 'z) agent_scheme net_env \<Rightarrow>
   ('b, 'z) agent_scheme \<Rightarrow> (('b, 'z) agent_scheme, bool) outcome" where
  "mqtt_registration c requestTopic RegistrationData env s =
     or_raise (encode c (agent_register_request_schema_id (schemas s)) (RegisterRequest RegistrationData)) s (\<lambda>raw_bytes.
     and_then (request_and_wait (fst requestTopic) raw_bytes (snd requestTopic) myMQTTregistered env s) (\<lambda>_ s.
     Return (myMQTTregistered s) s))"

definition mqtt_deregistration ::
  "'b codec \<Rightarrow> topic_qos \<Rightarrow> uuid \<Rightarrow> ('b, 'z) agent_scheme net_env \<Rightarrow>
   ('b, 'z) agent_scheme \<Rightarrow> (('b, 'z) agent_scheme, bool) outcome" where
  "mqtt_deregistration c requestTopic uuid env s =
     (case myAgent_deregistration_response_topic s of
        None \<Rightarrow> Raise AttributeError s
      | Some response_topic \<Rightarrow>
          and_then (subscribe_until_ok response_topic env s) (\<lambda>_ s.
          or_raise (encode c (agent_deregister_request_schema_id (schemas s)) (DeregisterRequest uuid)) s (\<lambda>raw_bytes.
          and_then (request_and_wait (fst requestTopic) raw_bytes (snd requestTopic) myMQTTderegistered env s) (\<lambda>_ s.
          Return (myMQTTderegistered s) s))))"

definition mqtt_device_registration ::
  "'b codec \<Rightarrow> string \<Rightarrow> topic_qos list \<Rightarrow> uuid \<times> device list \<Rightarrow> ('b, 'z) agent_scheme net_env \<Rightarrow>
   ('b, 'z) agent_scheme \<Rightarrow> (('b, 'z) agent_scheme, unit) outcome" where
  "mqtt_device_registration c deviceMQTTtopic deviceMQTTresponseTopic deviceMap env s =
     and_then (subscribe_until_ok deviceMQTTresponseTopic env s) (\<lambda>_ s.
     or_raise (encode c (device_register_request_schema_id (schemas s)) (DeviceList (fst deviceMap) (snd deviceMap))) s (\<lambda>raw_bytes.
     request_and_wait deviceMQTTtopic raw_bytes 2 myDeviceRegistered env s))"

definition mqtt_close :: "('b, 'z) agent_scheme \<Rightarrow> (('b, 'z) agent_scheme, unit) outcome" where
  "mqtt_close s = and_then (client_call LoopStop s) (\<lambda>_ s. client_call Disconnect s)"

section \<open>Signals\<close>

text \<open>
  \<open>signal_handler\<close> of both agents. Its own wait loop calls \<open>sleep\<close>, a name the modules do not
  import (a \<open>NameError\<close> if an iteration ran).
\<close>

definition agent_signal_handler ::
  "'b codec \<Rightarrow> ('b, 'z) agent_scheme net_env \<Rightarrow> ('b, 'z) agent_scheme \<Rightarrow> (('b, 'z) agent_scheme, unit) outcome" where
  "agent_signal_handler c env s =
     (case myAgent_deregistration_request_topic s of
        None \<Rightarrow> Raise AttributeError s
      | Some topics \<Rightarrow>
          or_raise (py_index topics 0) s (\<lambda>topic.
          and_then (mqtt_deregistration c topic (myAgent_uuid s) env s) (\<lambda>_ s.
          if myMQTTderegistered s = False then Raise NameError s
          else and_then (mqtt_close s) (\<lambda>_ s. Raise (SystemExit 0) s))))"

definition redfish_signal_handler ::
  "'b codec \<Rightarrow> ('b, 'z) agent_scheme net_env \<Rightarrow> ('b, 'z) agent_scheme \<Rightarrow> (('b, 'z) agent_scheme, unit) outcome" where
  "redfish_signal_handler c env s =
     (case myAgent_deregistration_request_topic s of
        None \<Rightarrow> Raise AttributeError s
      | Some topics \<Rightarrow>
          or_raise (py_index topics 0) s (\<lambda>topic.
          and_then (mqtt_deregistration c topic (myAgent_uuid s) env s) (\<lambda>_ s.
          if myMQTTderegistered s = False then Raise NameError s
          else and_then (mqtt_close s) (\<lambda>_ s. Raise (SystemExit 0) s))))"

lemma redfish_signal_handler_same: "redfish_signal_handler = agent_signal_handler"
  by (intro ext) (simp only: redfish_signal_handler_def agent_signal_handler_def)

section \<open>Deregistration, when the environment answers\<close>

lemma client_call_Return_iff:
  "client_call act s = Return u t \<longleftrightarrow> client s \<noteq> None \<and> t = s\<lparr>net := net s @ [act]\<rparr>"
  by (auto simp: client_call_def split: option.splits)

lemma client_call_Raise_iff:
  "client_call act s = Raise e t \<longleftrightarrow> client s = None \<and> e = AttributeError \<and> t = s"
  by (auto simp: client_call_def split: option.splits)

lemma py_index_Inr_iff [simp]: "py_index xs i = Inr x \<longleftrightarrow> i < length xs \<and> x = xs ! i"
  by (auto simp: py_index_def)

lemma py_index_Inl_iff [simp]: "py_index xs i = Inl e \<longleftrightarrow> length xs \<le> i \<and> e = IndexError"
  by (auto simp: py_index_def)

text \<open>
  The callbacks of the network thread do not use the client themselves; a subscription is
  granted in the end; the response has set the flag at some poll.
\<close>

definition quiet_thread :: "('b, 'z) agent_scheme net_env \<Rightarrow> bool" where
  "quiet_thread env \<longleftrightarrow>
     (\<forall>k s. net (network env k s) = net s \<and> client (network env k s) = client s \<and>
        (\<exists>ls. console (network env k s) = console s @ ls))"

definition grants_subscription :: "'s net_env \<Rightarrow> bool" where
  "grants_subscription env \<longleftrightarrow> (\<exists>k. subscribe_rc env k = MQTT_ERR_SUCCESS)"

text \<open>What the callbacks read of the object: a sender leaves it alone.\<close>

definition session_of :: "('b, 'z) agent_scheme \<Rightarrow> _" where
  "session_of s =
     (myAgent_uid s, myAgent_uuid s, myAgent_debug s, myAgent_registration_response_topic s,
      myAgent_deregistration_request_topic s, myAgent_deregistration_response_topic s,
      myDevice_registration_request_topic s, myDevice_registration_response_topic s)"

lemma session_of_update [simp]:
  "session_of (s\<lparr>net := x0\<rparr>) = session_of s"
  "session_of (s\<lparr>console := x1\<rparr>) = session_of s"
  "session_of (s\<lparr>myByteBatch := x2\<rparr>) = session_of s"
  "session_of (s\<lparr>myBatchCounter := x3\<rparr>) = session_of s"
  "session_of (s\<lparr>myCurrentSubtopic := x4\<rparr>) = session_of s"
  "session_of (s\<lparr>myMessageCounter := x5\<rparr>) = session_of s"
  "session_of (s\<lparr>myNumber_of_msg_send := x6\<rparr>) = session_of s"
  "session_of (s\<lparr>mymqttBatchCountSenderUUID := x7\<rparr>) = session_of s"
  by (simp_all add: session_of_def)

definition answers_in_time ::
  "(('b, 'z) agent_scheme \<Rightarrow> bool) \<Rightarrow> ('b, 'z) agent_scheme net_env \<Rightarrow> ('b, 'z) agent_scheme \<Rightarrow> bool" where
  "answers_in_time flag env s \<longleftrightarrow>
     (\<forall>t. session_of t = session_of s \<longrightarrow> (\<exists>k\<le>300. flag (sleeps (network env) 0 k t)))"

text \<open>The actions of a granted subscription, and of a request.\<close>

definition subscribe_acts :: "topic_qos list \<Rightarrow> 's net_env \<Rightarrow> 'b mqtt_action list" where
  "subscribe_acts topics env =
     (case first_from (\<lambda>k. if subscribe_rc env k = MQTT_ERR_SUCCESS then Some () else None) 0 of
        None \<Rightarrow> [] | Some (k, _) \<Rightarrow> replicate (Suc k) (Subscribe topics))"

definition request_acts :: "string \<Rightarrow> 'b \<Rightarrow> nat \<Rightarrow> 's net_env \<Rightarrow> 'b mqtt_action list" where
  "request_acts topic raw qos env =
     Publish topic raw qos True # (if is_published env then [] else [WaitForPublish])"

lemma subscribe_granted:
  assumes "grants_subscription env" "client s \<noteq> None"
  shows "subscribe_until_ok topics env s = Return () (s\<lparr>net := net s @ subscribe_acts topics env\<rparr>)"
proof -
  have "first_from (\<lambda>k. if subscribe_rc env k = MQTT_ERR_SUCCESS then Some () else None) 0 \<noteq> None"
    using assms(1) unfolding first_from_returns_iff grants_subscription_def by auto
  with assms(2) show ?thesis by (auto simp: subscribe_until_ok_def subscribe_acts_def)
qed

lemma subscribe_hangs:
  assumes "\<not> grants_subscription env" "client s \<noteq> None"
  shows "subscribe_until_ok topics env s = Hang"
proof -
  have "\<not> first_from (\<lambda>k. if subscribe_rc env k = MQTT_ERR_SUCCESS then Some () else None) 0 \<noteq> None"
    using assms(1) unfolding first_from_returns_iff grants_subscription_def by auto
  then have "first_from (\<lambda>k. if subscribe_rc env k = MQTT_ERR_SUCCESS then Some () else None) 0 = None"
    by blast
  then show ?thesis using assms(2) by (auto simp: subscribe_until_ok_def)
qed

lemma quiet_wait:
  fixes s :: "('b, 'z) agent_scheme"
  assumes "quiet_thread env" "wait_flag flag (network env) 0 s = Return u t"
  shows "net t = net s" "client t = client s" "\<exists>ls. console t = console s @ ls"
proof -
  have "network_thread (network env) (\<lambda>t. net t = net s \<and> client t = client s \<and> (\<exists>ls. console t = console s @ ls))"
  proof
    fix t :: "('b, 'z) agent_scheme" and k
    assume "net t = net s \<and> client t = client s \<and> (\<exists>ls. console t = console s @ ls)"
    moreover obtain ls where "console (network env k t) = console t @ ls"
      using assms(1) by (auto simp: quiet_thread_def)
    ultimately show "net (network env k t) = net s \<and> client (network env k t) = client s \<and>
        (\<exists>ls. console (network env k t) = console s @ ls)"
      using assms(1) by (auto simp: quiet_thread_def)
  qed
  from network_thread.wait_keeps[OF this, of s flag] assms(2)
  show "net t = net s" "client t = client s" "\<exists>ls. console t = console s @ ls" by simp_all
qed

lemma wait_answered:
  assumes "answers_in_time flag env s0" "session_of s = session_of s0"
  shows "\<exists>t. wait_flag flag (network env) 0 s = Return () t \<and> flag t"
  using assms by (cases rule: wait_flag_cases[where flag = flag and nw = "network env" and s = s])
    (auto simp: answers_in_time_def)

lemma request_answered:
  assumes "quiet_thread env" "answers_in_time flag env s" "client s \<noteq> None"
  shows "\<exists>t. request_and_wait topic raw qos flag env s = Return () t \<and> flag t \<and>
    net t = net s @ request_acts topic raw qos env \<and> client t = client s \<and> (\<exists>ls. console t = console s @ ls)"
proof -
  define s1 where "s1 = s\<lparr>net := net s @ request_acts topic raw qos env\<rparr>"
  have "session_of s1 = session_of s" by (simp add: s1_def session_of_def)
  from wait_answered[OF assms(2) this] obtain t where t: "wait_flag flag (network env) 0 s1 = Return () t" "flag t"
    by blast
  have "request_and_wait topic raw qos flag env s = wait_flag flag (network env) 0 s1"
    using assms(3) by (auto simp: request_and_wait_def client_call_def request_acts_def s1_def)
  with t quiet_wait[OF assms(1) t(1)] show ?thesis by (simp add: s1_def)
qed

lemma deregistration_answered:
  assumes "quiet_thread env" "answers_in_time myMQTTderegistered env s" "grants_subscription env"
    and "client s \<noteq> None" "myAgent_deregistration_response_topic s = Some topics"
    and "encode c (agent_deregister_request_schema_id (schemas s)) (DeregisterRequest u) = Inr raw"
  shows "\<exists>t. mqtt_deregistration c topic u env s = Return True t \<and> myMQTTderegistered t \<and>
    net t = net s @ subscribe_acts topics env @ request_acts (fst topic) raw (snd topic) env \<and>
    client t = client s \<and> (\<exists>ls. console t = console s @ ls)"
proof -
  have "answers_in_time myMQTTderegistered env (s\<lparr>net := net s @ subscribe_acts topics env\<rparr>)"
    using assms(2) by (simp add: answers_in_time_def session_of_def)
  from request_answered[OF assms(1) this, of "fst topic" raw "snd topic"] assms(4-6) show ?thesis
    by (auto simp: mqtt_deregistration_def subscribe_granted[OF assms(3)])
qed

text \<open>The calls of a connection that is accepted and granted its subscriptions.\<close>

definition connect_acts :: "bool \<Rightarrow> topic_qos list \<Rightarrow> 's net_env \<Rightarrow> mqtt_conf \<Rightarrow> 'b mqtt_action list" where
  "connect_acts encrypt topics env mc =
     (if encrypt then [TlsSet (mqtt_ca_certs mc) (mqtt_certfile mc) (mqtt_keyfile mc), Connect (mqtt_broker_sec mc) (mqtt_port_sec mc)]
      else [Connect (mqtt_broker mc) (mqtt_port mc)]) @ subscribe_acts topics env @ [LoopStart]"

lemma mqtt_init_granted:
  assumes "connect_error env = None" "grants_subscription env"
  shows "mqtt_init uid (Some topics) False encrypt env s =
    Return () (s\<lparr>client := Some uid, net := net s @ connect_acts encrypt topics env (mqtt_conf s)\<rparr>)"
  using assms by (simp add: mqtt_init_def client_call_def Let_def subscribe_granted connect_acts_def)

lemma registration_answered:
  assumes "quiet_thread env" "answers_in_time myMQTTregistered env s" "client s \<noteq> None"
    and "encode c (agent_register_request_schema_id (schemas s)) (RegisterRequest data) = Inr raw"
  shows "\<exists>t. mqtt_registration c topic data env s = Return True t \<and> myMQTTregistered t \<and>
    net t = net s @ request_acts (fst topic) raw (snd topic) env"
  using request_answered[OF assms(1-3), of "fst topic" raw "snd topic"] assms(4)
  by (auto simp: mqtt_registration_def)

end
