(* ===== verification/Batching.thy ===== *)
theory Batching
  imports Registration
begin

text \<open>
  Sending samples: \<open>mqtt_send_triplet_batch\<close> and the methods it calls
  (src/agent-python-module/agentcommon.py), statement by statement; then the abstract batcher
  it implements (cut the stream of samples into blocks of equal length, publish the blocks on
  the subtopics in turn), and the simulation between the two.

  Parameters: the serializer, \<open>sizeof\<close> (what \<open>sys.getsizeof\<close> gives for a list after that
  many appends), the clock reading \<open>now\<close>, the MQTT environment. The attribute
  \<open>myByteBatchSize\<close>, written and never read, is left out.
\<close>

section \<open>The methods\<close>

text \<open>The limit is an int in the simulator and a string in the Redfish agent.\<close>

datatype send_limit = LimitInt int | LimitStr string

record send_args =
  send_topic :: string
  sendNumberOfMessages :: send_limit
  byteBatchSize :: int
  send_uuid :: uuid
  timet0 :: rat
  mqttBatchCountEnabled :: bool

text \<open>\<open>sendNumberOfMessages == self.myMessageCounter\<close>, with the number when they are equal.\<close>

fun stop_number :: "send_limit \<Rightarrow> int \<Rightarrow> int option" where
  "stop_number (LimitInt n) counter = (if n = counter then Some n else None)"
| "stop_number (LimitStr _) counter = None"

text \<open>\<open>"{:s}/{:d}".format(topic, i)\<close>\<close>

definition subtopic :: "string \<Rightarrow> nat \<Rightarrow> string" where
  "subtopic topic i = topic @ ''/'' @ str_nat i"

definition mqtt_send_single_avro_ts_msg ::
  "'b codec \<Rightarrow> string \<Rightarrow> triplet \<Rightarrow> ('b, 'z) agent_scheme \<Rightarrow> (('b, 'z) agent_scheme, unit) outcome" where
  "mqtt_send_single_avro_ts_msg c topic rec s =
     or_raise (encode c (send_time_series_schema_id (schemas s)) (SendTimeSeriesDruid (Dict rec))) s (\<lambda>raw_bytes.
     client_call (Publish topic raw_bytes 0 False) s)"

definition mqtt_send_byte_batch_avro_ts_msg ::
  "string \<Rightarrow> 'b \<Rightarrow> ('b, 'z) agent_scheme \<Rightarrow> (('b, 'z) agent_scheme, unit) outcome" where
  "mqtt_send_byte_batch_avro_ts_msg topic raw_bytes s = client_call (Publish topic raw_bytes 0 False) s"

text \<open>\<open>self.myBatchCounter[self.myCurrentSubtopic] += 1\<close>\<close>

definition bump_counter :: "('b, 'z) agent_scheme \<Rightarrow> (('b, 'z) agent_scheme, unit) outcome" where
  "bump_counter s =
     or_raise (py_index (myBatchCounter s) (myCurrentSubtopic s)) s (\<lambda>k.
     Return () (s\<lparr>myBatchCounter := (myBatchCounter s)[myCurrentSubtopic s := k + 1]\<rparr>))"

text \<open>Encode the batch as one record, publish it on the current subtopic, count it.\<close>

definition publish_batch ::
  "'b codec \<Rightarrow> string \<Rightarrow> ('b, 'z) agent_scheme \<Rightarrow> (('b, 'z) agent_scheme, unit) outcome" where
  "publish_batch c topic s =
     or_raise (encode c (send_time_series_druid_array_id (schemas s)) (SendTimeSeriesDruidArray (myByteBatch s))) s (\<lambda>raw_bytes.
     and_then (mqtt_send_byte_batch_avro_ts_msg (subtopic topic (myCurrentSubtopic s)) raw_bytes s) (\<lambda>_ s.
     bump_counter s))"

text \<open>The final report: one line per subtopic with the batches published there.\<close>

definition report_counts ::
  "string \<Rightarrow> ('b, 'z) agent_scheme \<Rightarrow> (('b, 'z) agent_scheme, unit) outcome" where
  "report_counts topic s =
     for_each (\<lambda>i s. or_raise (py_index (myBatchCounter s) i) s (\<lambda>k.
         Return () (print_line (BatchCountLine (mymqttBatchCountSenderUUID s) (subtopic topic i) (k - 1)) s)))
       [0..<myAgentMqttNumberOfPublishingTopics s] s"

text \<open>The branch taken once the limit is reached: left-over samples, report, deregistration.\<close>

definition stop_sending ::
  "'b codec \<Rightarrow> send_args \<Rightarrow> int \<Rightarrow> rat \<Rightarrow> ('b, 'z) agent_scheme net_env \<Rightarrow>
   ('b, 'z) agent_scheme \<Rightarrow> (('b, 'z) agent_scheme, unit) outcome" where
  "stop_sending c a n now env s =
     and_then (if 0 < byteBatchSize a \<and> 0 < length (myByteBatch s)
               then publish_batch c (send_topic a) s else Return () s) (\<lambda>_ s.
     if now - timet0 a = 0 then Raise ZeroDivisionError s else
     and_then (if mqttBatchCountEnabled a then report_counts (send_topic a) s else Return () s) (\<lambda>_ s.
     let s = print_line (AllPublishedLine n) s in
     case myAgent_deregistration_request_topic s of
       None \<Rightarrow> Raise AttributeError s
     | Some topics \<Rightarrow>
         or_raise (py_index topics 0) s (\<lambda>topic.
         and_then (mqtt_deregistration c topic (send_uuid a) env s) (\<lambda>_ s.
         and_then (mqtt_close s) (\<lambda>_ s. Raise (SystemExit 0) s)))))"

text \<open>Remember the sender of a counting run; append the sample (or its encoding), count it.\<close>

definition append_sample ::
  "'b codec \<Rightarrow> send_args \<Rightarrow> triplet \<Rightarrow> ('b, 'z) agent_scheme \<Rightarrow> (('b, 'z) agent_scheme, unit) outcome" where
  "append_sample c a rec s =
     and_then
       (if mqttBatchCountEnabled a
        then (case myEnableMQTTbatchesCounter s of
                None \<Rightarrow> Raise AttributeError s
              | Some enabled \<Rightarrow>
                  Return () (if enabled \<and> mymqttBatchCountSenderUUID s = None
                             then s\<lparr>mymqttBatchCountSenderUUID := Some (sensorUuid rec)\<rparr> else s))
        else Return () s) (\<lambda>_ s.
     if 0 < byteBatchSize a
     then Return () (s\<lparr>myByteBatch := myByteBatch s @ [Dict rec], myMessageCounter := myMessageCounter s + 1\<rparr>)
     else or_raise (encode c (send_time_series_schema_id (schemas s)) (SendTimeSeriesDruid (Dict rec))) s (\<lambda>raw_bytes.
          Return () (s\<lparr>myByteBatch := myByteBatch s @ [Bytes raw_bytes], myMessageCounter := myMessageCounter s + 1\<rparr>)))"

text \<open>The subtopic after a published batch.\<close>

definition next_subtopic :: "nat \<Rightarrow> nat \<Rightarrow> nat" where
  "next_subtopic n i = (if 1 < n then (if i < n - 1 then i + 1 else 0) else i)"

text \<open>\<open>self.myByteBatch.pop()\<close> handed to \<open>publish\<close>, which takes bytes and refuses a dictionary.\<close>

definition publish_popped ::
  "string \<Rightarrow> ('b, 'z) agent_scheme \<Rightarrow> (('b, 'z) agent_scheme, unit) outcome" where
  "publish_popped topic s =
     (if myByteBatch s = [] then Raise IndexError s
      else let item = last (myByteBatch s); s = s\<lparr>myByteBatch := butlast (myByteBatch s)\<rparr> in
           (case item of
              Bytes raw_bytes \<Rightarrow> mqtt_send_byte_batch_avro_ts_msg topic raw_bytes s
            | Dict _ \<Rightarrow> Raise TypeError s))"

text \<open>
  The debug branch assigns \<open>myNumber_of_msg_send\<close> and reads the first entry's sensor and the
  counter for a message.
\<close>

definition debug_batch :: "('b, 'z) agent_scheme \<Rightarrow> (('b, 'z) agent_scheme, unit) outcome" where
  "debug_batch s =
     (let s = s\<lparr>myNumber_of_msg_send := myMessageCounter s\<rparr> in
      or_raise (py_index (myByteBatch s) 0) s (\<lambda>item.
      case item of
        Bytes _ \<Rightarrow> Raise TypeError s
      | Dict _ \<Rightarrow> or_raise (py_index (myBatchCounter s) (myCurrentSubtopic s)) s (\<lambda>_. Return () s)))"

definition flush_batch ::
  "'b codec \<Rightarrow> (nat \<Rightarrow> nat) \<Rightarrow> send_args \<Rightarrow> ('b, 'z) agent_scheme \<Rightarrow> (('b, 'z) agent_scheme, unit) outcome" where
  "flush_batch c sizeof a s =
     (if byteBatchSize a = 0
      then and_then (publish_popped (subtopic (send_topic a) (myCurrentSubtopic s)) s) (\<lambda>_ s.
           and_then (bump_counter s) (\<lambda>_ s. Return () (s\<lparr>myByteBatch := []\<rparr>)))
      else if byteBatchSize a \<le> int (sizeof (length (myByteBatch s)))
      then and_then (if myAgentCommonDebug s then debug_batch s else Return () s) (\<lambda>_ s.
           and_then (publish_batch c (send_topic a) s) (\<lambda>_ s.
           Return () (s\<lparr>myCurrentSubtopic :=
                          next_subtopic (myAgentMqttNumberOfPublishingTopics s) (myCurrentSubtopic s),
                        myByteBatch := []\<rparr>)))
      else Return () s)"

definition send_record ::
  "'b codec \<Rightarrow> (nat \<Rightarrow> nat) \<Rightarrow> send_args \<Rightarrow> rat \<Rightarrow> ('b, 'z) agent_scheme net_env \<Rightarrow> triplet \<Rightarrow>
   ('b, 'z) agent_scheme \<Rightarrow> (('b, 'z) agent_scheme, unit) outcome" where
  "send_record c sizeof a now env rec s =
     (case stop_number (sendNumberOfMessages a) (myMessageCounter s) of
        Some n \<Rightarrow> stop_sending c a n now env s
      | None \<Rightarrow> and_then (append_sample c a rec s) (\<lambda>_ s. flush_batch c sizeof a s))"

definition mqtt_send_triplet_batch ::
  "'b codec \<Rightarrow> (nat \<Rightarrow> nat) \<Rightarrow> send_args \<Rightarrow> rat \<Rightarrow> ('b, 'z) agent_scheme net_env \<Rightarrow> triplet list \<Rightarrow>
   ('b, 'z) agent_scheme \<Rightarrow> (('b, 'z) agent_scheme, unit) outcome" where
  "mqtt_send_triplet_batch c sizeof a now env record_list s =
     for_each (send_record c sizeof a now env) record_list s"

text \<open>
  \<open>sys.getsizeof\<close> of a list in the CPython of the agents' images (3.6): a header of 64 bytes
  and 8 bytes per allocated slot; \<open>append\<close> over-allocates when the list is full.
\<close>

fun list_allocated :: "nat \<Rightarrow> nat" where
  "list_allocated 0 = 0"
| "list_allocated (Suc k) =
     (let a = list_allocated k in
      if Suc k \<le> a then a
      else Suc k + Suc k div 8 + (if Suc k < 9 then 3 else 6))"

definition cpython_getsizeof :: "nat \<Rightarrow> nat" where
  "cpython_getsizeof k = 64 + 8 * list_allocated k"

end
