(* ===== verification/Batch_Spec.thy ===== *)
theory Batch_Spec
  imports KM_Prelude
begin

text \<open>
  The abstract batcher that \<open>mqtt_send_triplet_batch\<close> implements: a stream of samples is cut
  into blocks, a block ends when it is full, and the blocks go to the subtopics in turn.
  Its run has a closed form: the blocks are the consecutive segments of length \<open>m\<close>, where \<open>m\<close>
  is the first length that counts as full, and the \<open>k\<close>-th block goes to subtopic
  \<open>(s + k) mod n\<close>.
\<close>

record 'r plan =
  pl_pending :: "'r list"
  pl_sub :: nat
  pl_sent :: "(nat \<times> 'r list) list"

definition plan_step :: "(nat \<Rightarrow> bool) \<Rightarrow> nat \<Rightarrow> 'r \<Rightarrow> 'r plan \<Rightarrow> 'r plan" where
  "plan_step full n r p =
     (let b = pl_pending p @ [r] in
      if full (length b)
      then \<lparr>pl_pending = [], pl_sub = (pl_sub p + 1) mod n, pl_sent = pl_sent p @ [(pl_sub p, b)]\<rparr>
      else p\<lparr>pl_pending := b\<rparr>)"

text \<open>The length of a block: the first one that is full.\<close>

definition is_batch_len :: "(nat \<Rightarrow> bool) \<Rightarrow> nat \<Rightarrow> bool" where
  "is_batch_len full m \<longleftrightarrow> 0 < m \<and> full m \<and> list_all (\<lambda>k. \<not> full k) [1..<m]"

text \<open>The \<open>k\<close>-th segment of length \<open>m\<close>, and the list of the complete ones.\<close>

definition segment :: "nat \<Rightarrow> 'r list \<Rightarrow> nat \<Rightarrow> 'r list" where
  "segment m xs k = take m (drop (k * m) xs)"

definition blocks :: "nat \<Rightarrow> nat \<Rightarrow> nat \<Rightarrow> 'r list \<Rightarrow> (nat \<times> 'r list) list" where
  "blocks n m i xs = map (\<lambda>k. ((i + k) mod n, segment m xs k)) [0..<length xs div m]"

definition leftover :: "nat \<Rightarrow> 'r list \<Rightarrow> 'r list" where
  "leftover m xs = drop (length xs div m * m) xs"

lemma is_batch_len_pos: "is_batch_len full m \<Longrightarrow> 0 < m"
  by (simp add: is_batch_len_def)

lemma is_batch_len_iff:
  "is_batch_len full m \<Longrightarrow> 0 < k \<Longrightarrow> k \<le> m \<Longrightarrow> full k \<longleftrightarrow> k = m"
  by (auto simp: is_batch_len_def list_all_iff)

lemma is_batch_len_unique: "is_batch_len full m \<Longrightarrow> is_batch_len full m' \<Longrightarrow> m = m'"
  by (metis is_batch_len_iff is_batch_len_pos nat_le_linear)

lemma length_leftover: "length (leftover m xs) = length xs mod m"
  by (simp add: leftover_def minus_div_mult_eq_mod)

lemma block_index: "k < l div m \<Longrightarrow> k * m + m \<le> (l::nat)"
  by (metis Suc_leI add.commute div_times_less_eq_dividend le_trans mult_Suc mult_le_mono1)

lemma length_segment: "k < length xs div m \<Longrightarrow> length (segment m xs k) = m"
  using block_index[of k "length xs" m] by (simp add: segment_def)

lemma segment_append: "k < length xs div m \<Longrightarrow> segment m (xs @ ys) k = segment m xs k"
  using block_index[of k "length xs" m] by (simp add: segment_def)

lemma concat_segments: "concat (map (segment m xs) [0..<q]) = take (q * m) xs"
proof (induction q)
  case (Suc q)
  have "take (Suc q * m) xs = take (q * m) xs @ segment m xs q"
    by (simp add: segment_def take_add[of "q * m" m xs, symmetric] add.commute)
  with Suc show ?case by simp
qed simp

text \<open>No sample is lost, repeated or moved: the blocks and the left-over make up the stream.\<close>

lemma blocks_leftover: "concat (map snd (blocks n m i xs)) @ leftover m xs = xs"
proof -
  have "concat (map snd (blocks n m i xs)) = take (length xs div m * m) xs"
    using concat_segments[of m xs "length xs div m"] by (simp add: blocks_def comp_def)
  then show ?thesis by (simp add: leftover_def)
qed

lemma blocks_lengths: "b \<in> set (blocks n m i xs) \<Longrightarrow> length (snd b) = m"
  by (auto simp: blocks_def length_segment)

lemma blocks_snoc_open:
  assumes "0 < m" "Suc (length xs) mod m \<noteq> 0"
  shows "blocks n m i (xs @ [x]) = blocks n m i xs" "leftover m (xs @ [x]) = leftover m xs @ [x]"
proof -
  have q: "Suc (length xs) div m = length xs div m" using assms by (simp add: div_Suc)
  show "blocks n m i (xs @ [x]) = blocks n m i xs"
    by (simp add: blocks_def q segment_append)
  show "leftover m (xs @ [x]) = leftover m xs @ [x]"
    by (simp add: leftover_def q)
qed

lemma blocks_snoc_close:
  assumes "0 < m" "Suc (length xs) mod m = 0"
  shows "blocks n m i (xs @ [x]) =
           blocks n m i xs @ [((i + length xs div m) mod n, leftover m xs @ [x])]"
    and "leftover m (xs @ [x]) = []"
proof -
  have q: "Suc (length xs) div m = Suc (length xs div m)" using assms by (simp add: div_Suc)
  have len: "Suc (length xs) = Suc (length xs div m) * m"
    using assms(2) q by (metis mult.commute mod_0_imp_dvd dvd_mult_div_cancel)
  have "segment m (xs @ [x]) (length xs div m) = leftover m xs @ [x]"
  proof -
    define w where "w = length xs div m * m"
    from len have "Suc (length xs) = m + w" by (simp add: w_def)
    then have "m - (length xs - w) = 1" "length xs - w \<le> m" using assms(1) by arith+
    then show ?thesis by (simp add: segment_def leftover_def w_def)
  qed
  then show "blocks n m i (xs @ [x]) =
      blocks n m i xs @ [((i + length xs div m) mod n, leftover m xs @ [x])]"
    by (simp add: blocks_def q segment_append)
  show "leftover m (xs @ [x]) = []"
    by (simp add: leftover_def q len[symmetric] del: mult_Suc)
qed

text \<open>The run of the abstract batcher in closed form.\<close>

lemma fold_plan_step:
  assumes m: "is_batch_len full m" and i: "i < n"
  shows "fold (plan_step full n) rs \<lparr>pl_pending = [], pl_sub = i, pl_sent = sent\<rparr> =
    \<lparr>pl_pending = leftover m rs, pl_sub = (i + length rs div m) mod n,
     pl_sent = sent @ blocks n m i rs\<rparr>"
proof (induction rs rule: rev_induct)
  case Nil
  from i show ?case by (simp add: leftover_def blocks_def)
next
  case (snoc r rs)
  note pos = is_batch_len_pos[OF m]
  have bound: "length (leftover m rs @ [r]) \<le> m"
    using pos by (simp add: length_leftover Suc_leI)
  have full: "full (length (leftover m rs @ [r])) \<longleftrightarrow> Suc (length rs) mod m = 0"
    using is_batch_len_iff[OF m _ bound] pos by (simp add: length_leftover mod_Suc)
  show ?case
  proof (cases "Suc (length rs) mod m = 0")
    case True
    then have "Suc (length rs) div m = Suc (length rs div m)" by (simp add: div_Suc)
    with True full snoc show ?thesis
      by (simp add: plan_step_def blocks_snoc_close[OF pos True] mod_Suc_eq)
  next
    case False
    then have "Suc (length rs) div m = length rs div m" by (simp add: div_Suc)
    with False full snoc show ?thesis
      by (simp add: plan_step_def blocks_snoc_open[OF pos False])
  qed
qed

text \<open>Starting in the middle of a block is starting with the pending samples in the stream.\<close>

lemma fold_plan_pending:
  assumes m: "is_batch_len full m" and "length pending < m"
  shows "fold (plan_step full n) pending \<lparr>pl_pending = [], pl_sub = i, pl_sent = sent\<rparr> =
    \<lparr>pl_pending = pending, pl_sub = i, pl_sent = sent\<rparr>"
  using assms(2)
proof (induction pending rule: rev_induct)
  case (snoc r rs)
  then have "\<not> full (Suc (length rs))"
    using is_batch_len_iff[OF m, of "Suc (length rs)"] by simp
  with snoc show ?case by (simp add: plan_step_def)
qed simp

theorem plan_run:
  assumes "is_batch_len full m" and "length pending < m" and "i < n"
  shows "fold (plan_step full n) rs \<lparr>pl_pending = pending, pl_sub = i, pl_sent = sent\<rparr> =
    \<lparr>pl_pending = leftover m (pending @ rs), pl_sub = (i + length (pending @ rs) div m) mod n,
     pl_sent = sent @ blocks n m i (pending @ rs)\<rparr>"
  using fold_plan_step[OF assms(1,3), of "pending @ rs" sent] fold_plan_pending[OF assms(1,2), of n i sent]
  by simp

section \<open>Fairness\<close>

text \<open>
  Subtopic \<open>j\<close> is \<open>d = (j - i) mod n\<close> turns away from the first block, so after \<open>q\<close> blocks it
  has got \<open>(q + n - 1 - d) div n\<close> of them: the shares differ by at most one.
\<close>

definition turn_count :: "nat \<Rightarrow> nat \<Rightarrow> nat \<Rightarrow> nat \<Rightarrow> nat" where
  "turn_count n i j q = length (filter (\<lambda>k. (i + k) mod n = j) [0..<q])"

definition turn_share :: "nat \<Rightarrow> nat \<Rightarrow> nat \<Rightarrow> nat \<Rightarrow> nat" where
  "turn_share n i j q = (q + n - 1 - (j + n - i) mod n) div n"

lemma turn_now_iff:
  assumes "i < n" "j < (n::nat)"
  shows "(i + q) mod n = j \<longleftrightarrow> q mod n = (j + n - i) mod n"
proof -
  have "(i + q) mod n = j \<longleftrightarrow> (int i + int q) mod int n = int j mod int n"
    using assms by (metis mod_less of_nat_add of_nat_eq_iff zmod_int)
  also have "\<dots> \<longleftrightarrow> int q mod int n = (int j + int n - int i) mod int n"
    by (simp add: mod_eq_dvd_iff algebra_simps) (metis add.commute add_diff_eq dvd_add_times_triv_right_iff
        minus_diff_eq dvd_minus_iff mult_1 diff_diff_eq2 diff_add_eq)
  also have "int j + int n - int i = int (j + n - i)" using assms by simp
  also have "int q mod int n = int (j + n - i) mod int n \<longleftrightarrow> q mod n = (j + n - i) mod n"
    by (metis of_nat_eq_iff zmod_int)
  finally show ?thesis .
qed

lemma add_complement_mod:
  assumes "d < (n::nat)"
  shows "(q + (n - d)) mod n = 0 \<longleftrightarrow> q mod n = d"
proof -
  define r where "r = q mod n"
  have r: "r < n" using assms by (simp add: r_def)
  have "(q + (n - d)) mod n = (r + (n - d)) mod n" by (simp add: r_def mod_add_left_eq)
  moreover have "(r + (n - d)) mod n = 0 \<longleftrightarrow> r = d"
  proof (cases "r < d")
    case True
    with assms show ?thesis by (simp add: mod_less)
  next
    case False
    then have "r + (n - d) = n + (r - d)" using assms by simp
    moreover have "(n + (r - d)) mod n = r - d"
      using r by (simp only: mod_add_self1) (simp add: less_imp_diff_less)
    ultimately show ?thesis using False by auto
  qed
  ultimately show ?thesis by (simp add: r_def)
qed

lemma turn_share_Suc:
  assumes "i < n" "j < n"
  shows "turn_share n i j (Suc q) = turn_share n i j q + (if (i + q) mod n = j then 1 else 0)"
proof -
  define d where "d = (j + n - i) mod n"
  have d: "d < n" using assms by (simp add: d_def)
  then have "Suc q + n - 1 - d = Suc (q + n - 1 - d)" by arith
  moreover have "Suc (q + n - 1 - d) mod n = 0 \<longleftrightarrow> q mod n = d"
  proof -
    have "Suc (q + n - 1 - d) = q + (n - d)" using d by arith
    moreover have "(q + (n - d)) mod n = 0 \<longleftrightarrow> q mod n = d"
      using d by (rule add_complement_mod)
    ultimately show ?thesis by simp
  qed
  ultimately show ?thesis
    using turn_now_iff[OF assms, of q] unfolding turn_share_def d_def[symmetric] by (simp add: div_Suc)
qed

lemma turn_count_share:
  assumes "i < n" "j < n"
  shows "turn_count n i j q = turn_share n i j q"
proof (induction q)
  case 0
  have "(j + n - i) mod n < n" using assms by simp
  then show ?case by (simp add: turn_count_def turn_share_def)
next
  case (Suc q)
  with turn_share_Suc[OF assms, of q] show ?case by (simp add: turn_count_def)
qed

lemma turn_count_fair:
  assumes "i < n" "j < n" "j' < n"
  shows "turn_count n i j q \<le> turn_count n i j' q + 1"
proof -
  have "q + n - 1 - (j + n - i) mod n \<le> (q + n - 1 - (j' + n - i) mod n) + n"
    using assms mod_less_divisor[of n "j' + n - i"] by linarith
  then have "turn_share n i j q \<le> ((q + n - 1 - (j' + n - i) mod n) + n) div n"
    unfolding turn_share_def by (rule div_le_mono)
  also have "\<dots> = turn_share n i j' q + 1" using assms by (simp add: turn_share_def)
  finally show ?thesis using assms by (simp add: turn_count_share)
qed

end
