(* ===== verification/Batching_Refinement.thy ===== *)
theory Batching_Refinement
  imports Batching Batch_Spec
begin

text \<open>
  The detailed \<open>mqtt_send_triplet_batch\<close> implements the abstract batcher of \<open>Batch_Spec\<close>:
  the simulation relation, one lemma per method for the relation and one for progress, and the
  interpretation of the loop contracts on \<open>send_record\<close>.
\<close>

section \<open>The simulation relation\<close>

definition batch_full :: "(nat \<Rightarrow> nat) \<Rightarrow> send_args \<Rightarrow> nat \<Rightarrow> bool" where
  "batch_full sizeof a k \<longleftrightarrow> byteBatchSize a \<le> int (sizeof k)"

text \<open>A publication carries a block: on the block's subtopic, QoS 0, the encoding of its samples.\<close>

definition publishes :: "'b codec \<Rightarrow> int \<Rightarrow> string \<Rightarrow> nat \<times> triplet list \<Rightarrow> 'b mqtt_action \<Rightarrow> bool" where
  "publishes c sid topic b act \<longleftrightarrow>
     (\<exists>raw. act = Publish (subtopic topic (fst b)) raw 0 False \<and>
            encode c sid (SendTimeSeriesDruidArray (map Dict (snd b))) = Inr raw)"

definition counters_after :: "int list \<Rightarrow> (nat \<times> 'r list) list \<Rightarrow> int list" where
  "counters_after cs bs = fold (\<lambda>b cs. cs[fst b := cs ! fst b + 1]) bs cs"

text \<open>All the attributes the loop may change, cleared: what remains is left alone.\<close>

definition batch_frame :: "('b, 'z) agent_scheme \<Rightarrow> ('b, 'z) agent_scheme" where
  "batch_frame s = s\<lparr>mymqttBatchCountSenderUUID := None, myByteBatch := [], myMessageCounter := 0,
     myNumber_of_msg_send := 0, net := [], myBatchCounter := [], myCurrentSubtopic := 0\<rparr>"

definition batch_sim ::
  "'b codec \<Rightarrow> send_args \<Rightarrow> ('b, 'z) agent_scheme \<Rightarrow> ('b, 'z) agent_scheme \<Rightarrow> triplet plan \<Rightarrow> bool" where
  "batch_sim c a s0 s p \<longleftrightarrow>
     0 < byteBatchSize a \<and>
     myByteBatch s = map Dict (pl_pending p) \<and>
     myCurrentSubtopic s = pl_sub p \<and>
     pl_sub p < myAgentMqttNumberOfPublishingTopics s0 \<and>
     myAgentMqttNumberOfPublishingTopics s = myAgentMqttNumberOfPublishingTopics s0 \<and>
     schemas s = schemas s0 \<and> console s = console s0 \<and> batch_frame s = batch_frame s0 \<and>
     session_of s = session_of s0 \<and>
     myMessageCounter s + int (length (myByteBatch s0)) = myMessageCounter s0 +
       int (length (concat (map snd (pl_sent p)) @ pl_pending p)) \<and>
     myBatchCounter s = counters_after (myBatchCounter s0) (pl_sent p) \<and>
     (\<exists>acts. net s = net s0 @ acts \<and>
        list_all2 (publishes c (send_time_series_druid_array_id (schemas s0)) (send_topic a)) (pl_sent p) acts)"

lemma batch_frame_fields:
  assumes "batch_frame t = batch_frame s"
  shows "agent.more t = agent.more s" "myAgent_uuid t = myAgent_uuid s"
    "myDeviceSensorUUIDsMap t = myDeviceSensorUUIDsMap s"
    "myEnableMQTTbatchesCounter t = myEnableMQTTbatchesCounter s" "schemas t = schemas s"
    "client t = client s" "console t = console s" "session_of t = session_of s"
proof -
  show "agent.more t = agent.more s" "myAgent_uuid t = myAgent_uuid s"
    "myDeviceSensorUUIDsMap t = myDeviceSensorUUIDsMap s"
    "myEnableMQTTbatchesCounter t = myEnableMQTTbatchesCounter s" "schemas t = schemas s"
    "client t = client s" "console t = console s" "session_of t = session_of s"
    using assms unfolding session_of_def batch_frame_def by (cases s; cases t; simp)+
qed

text \<open>From here the samples of a batch can be sent, whatever they are.\<close>

definition sendable :: "'b codec \<Rightarrow> send_args \<Rightarrow> ('b, 'z) agent_scheme \<Rightarrow> bool" where
  "sendable c a s \<longleftrightarrow>
     0 < byteBatchSize a \<and> client s \<noteq> None \<and>
     myCurrentSubtopic s < myAgentMqttNumberOfPublishingTopics s \<and>
     myAgentMqttNumberOfPublishingTopics s \<le> length (myBatchCounter s) \<and>
     list_all (\<lambda>item. case item of Dict _ \<Rightarrow> True | Bytes _ \<Rightarrow> False) (myByteBatch s) \<and>
     (mqttBatchCountEnabled a \<longrightarrow> myEnableMQTTbatchesCounter s \<noteq> None) \<and>
     (\<forall>ts. \<exists>raw. encode c (send_time_series_druid_array_id (schemas s)) (SendTimeSeriesDruidArray (map Dict ts)) = Inr raw)"

definition no_stop :: "send_args \<Rightarrow> nat \<Rightarrow> ('b, 'z) agent_scheme \<Rightarrow> bool" where
  "no_stop a k s \<longleftrightarrow> (\<forall>j<k. stop_number (sendNumberOfMessages a) (myMessageCounter s + int j) = None)"

section \<open>The methods\<close>

lemma next_subtopic_mod: "i < n \<Longrightarrow> next_subtopic n i = (i + 1) mod n"
  by (auto simp: next_subtopic_def mod_Suc)

lemma stop_sending_no_Return: "stop_sending c a n now env s \<noteq> Return u t"
  by (auto simp: stop_sending_def outcome_iffs Let_def split: option.splits if_splits)

text \<open>What a sample appended to the batch changes.\<close>

lemma append_sample_Return:
  assumes "append_sample c a r s = Return u t" "0 < byteBatchSize a"
  shows "\<exists>sender. t = s\<lparr>mymqttBatchCountSenderUUID := sender, myByteBatch := myByteBatch s @ [Dict r],
    myMessageCounter := myMessageCounter s + 1\<rparr>"
proof (cases "mqttBatchCountEnabled a \<and> myEnableMQTTbatchesCounter s = Some True \<and> mymqttBatchCountSenderUUID s = None")
  case True
  with assms show ?thesis by (intro exI[of _ "Some (sensorUuid r)"]) (auto simp: append_sample_def)
next
  case False
  with assms show ?thesis
    by (intro exI[of _ "mymqttBatchCountSenderUUID s"])
      (auto simp: append_sample_def and_then_Return_iff split: option.splits if_splits)
qed

lemma append_sample_returns:
  assumes "sendable c a s"
  shows "\<exists>t. append_sample c a r s = Return () t"
  using assms by (auto simp: sendable_def append_sample_def split: option.splits)

text \<open>A batch is published on the current subtopic and counted there.\<close>

lemma publish_batch_Return_iff:
  "publish_batch c topic s = Return u t \<longleftrightarrow>
     (\<exists>raw. encode c (send_time_series_druid_array_id (schemas s)) (SendTimeSeriesDruidArray (myByteBatch s)) = Inr raw \<and>
       client s \<noteq> None \<and> myCurrentSubtopic s < length (myBatchCounter s) \<and>
       t = s\<lparr>net := net s @ [Publish (subtopic topic (myCurrentSubtopic s)) raw 0 False],
             myBatchCounter := (myBatchCounter s)[myCurrentSubtopic s := myBatchCounter s ! myCurrentSubtopic s + 1]\<rparr>)"
  by (auto simp: publish_batch_def bump_counter_def mqtt_send_byte_batch_avro_ts_msg_def outcome_iffs
      client_call_Return_iff)

lemma debug_batch_Return:
  "debug_batch s = Return u t \<Longrightarrow> t = s\<lparr>myNumber_of_msg_send := myMessageCounter s\<rparr>"
  by (auto simp: debug_batch_def Let_def outcome_iffs split: batch_item.splits)

lemma flush_batch_Return:
  assumes "flush_batch c sizeof a s = Return u t" "0 < byteBatchSize a"
  shows "if batch_full sizeof a (length (myByteBatch s))
    then \<exists>sent raw. encode c (send_time_series_druid_array_id (schemas s)) (SendTimeSeriesDruidArray (myByteBatch s)) = Inr raw \<and>
       t = s\<lparr>myNumber_of_msg_send := sent,
             net := net s @ [Publish (subtopic (send_topic a) (myCurrentSubtopic s)) raw 0 False],
             myBatchCounter := (myBatchCounter s)[myCurrentSubtopic s := myBatchCounter s ! myCurrentSubtopic s + 1],
             myCurrentSubtopic := next_subtopic (myAgentMqttNumberOfPublishingTopics s) (myCurrentSubtopic s),
             myByteBatch := []\<rparr>
    else t = s"
proof (cases "batch_full sizeof a (length (myByteBatch s))")
  case True
  with assms obtain s1 s2 where
    s1: "(if myAgentCommonDebug s then debug_batch s else Return () s) = Return () s1"
    and s2: "publish_batch c (send_topic a) s1 = Return () s2"
    and t: "t = s2\<lparr>myCurrentSubtopic := next_subtopic (myAgentMqttNumberOfPublishingTopics s2) (myCurrentSubtopic s2),
      myByteBatch := []\<rparr>"
    by (auto simp: flush_batch_def batch_full_def and_then_Return_iff)
  obtain sent where "s1 = s\<lparr>myNumber_of_msg_send := sent\<rparr>"
  proof (cases "myAgentCommonDebug s")
    case True
    with s1 that show ?thesis by (auto dest: debug_batch_Return)
  next
    case False
    with s1 that[of "myNumber_of_msg_send s"] show ?thesis by simp
  qed
  with s2 t True show ?thesis by (auto simp: publish_batch_Return_iff)
next
  case False
  with assms show ?thesis by (simp add: flush_batch_def batch_full_def)
qed

lemma sendable_batch: "sendable c a s \<Longrightarrow> \<exists>ts. myByteBatch s = map Dict ts"
  unfolding sendable_def list_all_iff ex_map_conv by (metis batch_item.exhaust batch_item.simps(6))

text \<open>With an encodable batch and room for the counter, flushing raises nothing.\<close>

lemma flush_batch_returns:
  assumes "sendable c a s" "myByteBatch s \<noteq> []"
  shows "\<exists>t. flush_batch c sizeof a s = Return () t"
proof -
  from assms obtain r items where items: "myByteBatch s = Dict r # items"
    by (cases "myByteBatch s") (auto simp: sendable_def split: batch_item.splits)
  obtain ts where ts: "myByteBatch s = map Dict ts"
    using sendable_batch[OF assms(1)] ..
  have debug: "(if myAgentCommonDebug s then debug_batch s else Return () s) =
      Return () (s\<lparr>myNumber_of_msg_send := if myAgentCommonDebug s then myMessageCounter s else myNumber_of_msg_send s\<rparr>)"
    using assms items by (auto simp: debug_batch_def Let_def sendable_def py_index_def)
  define s1 where
    "s1 = s\<lparr>myNumber_of_msg_send := if myAgentCommonDebug s then myMessageCounter s else myNumber_of_msg_send s\<rparr>"
  from assms(1) obtain raw where
    "encode c (send_time_series_druid_array_id (schemas s)) (SendTimeSeriesDruidArray (map Dict ts)) = Inr raw"
    unfolding sendable_def by blast
  with assms(1) ts have "\<exists>s2. publish_batch c (send_topic a) s1 = Return () s2"
    by (simp add: publish_batch_Return_iff s1_def sendable_def)
  then obtain s2 where "publish_batch c (send_topic a) s1 = Return () s2" ..
  moreover have "byteBatchSize a \<noteq> 0" using assms(1) by (simp add: sendable_def)
  ultimately show ?thesis by (simp add: flush_batch_def debug s1_def[symmetric])
qed

lemma list_update_counters:
  "counters_after cs (bs @ [(i, b)]) = (counters_after cs bs)[i := counters_after cs bs ! i + 1]"
  by (simp add: counters_after_def)

section \<open>The loop\<close>

lemma send_record_sim:
  assumes sim: "batch_sim c a s0 s p" and ret: "send_record c sizeof a now env r s = Return u t"
  shows "batch_sim c a s0 t (plan_step (batch_full sizeof a) (myAgentMqttNumberOfPublishingTopics s0) r p)"
proof -
  from ret obtain s1 where append: "append_sample c a r s = Return () s1"
    and flush: "flush_batch c sizeof a s1 = Return () t"
    by (auto simp: send_record_def and_then_Return_iff stop_sending_no_Return split: option.splits)
  from sim have pos: "0 < byteBatchSize a" by (simp add: batch_sim_def)
  from append_sample_Return[OF append pos] obtain sender where
    s1: "s1 = s\<lparr>mymqttBatchCountSenderUUID := sender, myByteBatch := myByteBatch s @ [Dict r],
      myMessageCounter := myMessageCounter s + 1\<rparr>" ..
  show ?thesis
  proof (cases "batch_full sizeof a (Suc (length (pl_pending p)))")
    case True
    with flush_batch_Return[OF flush pos] sim s1 obtain sent raw where
      raw: "encode c (send_time_series_druid_array_id (schemas s0))
          (SendTimeSeriesDruidArray (map Dict (pl_pending p @ [r]))) = Inr raw"
      and t: "t = s1\<lparr>myNumber_of_msg_send := sent,
             net := net s1 @ [Publish (subtopic (send_topic a) (pl_sub p)) raw 0 False],
             myBatchCounter := (myBatchCounter s)[pl_sub p := myBatchCounter s ! pl_sub p + 1],
             myCurrentSubtopic := next_subtopic (myAgentMqttNumberOfPublishingTopics s0) (pl_sub p),
             myByteBatch := []\<rparr>"
      by (auto simp: batch_sim_def)
    from sim obtain acts where "net s = net s0 @ acts"
      "list_all2 (publishes c (send_time_series_druid_array_id (schemas s0)) (send_topic a)) (pl_sent p) acts"
      by (auto simp: batch_sim_def)
    with raw have "\<exists>acts'. net t = net s0 @ acts' \<and>
        list_all2 (publishes c (send_time_series_druid_array_id (schemas s0)) (send_topic a))
          (pl_sent p @ [(pl_sub p, pl_pending p @ [r])]) acts'"
      by (intro exI[of _ "acts @ [Publish (subtopic (send_topic a) (pl_sub p)) raw 0 False]"])
        (auto simp: t s1 publishes_def intro: list_all2_appendI)
    moreover have "batch_frame t = batch_frame s" by (simp add: t s1 batch_frame_def)
    ultimately show ?thesis using sim True
      by (simp add: batch_sim_def plan_step_def t s1 list_update_counters next_subtopic_mod)
  next
    case False
    with flush_batch_Return[OF flush pos] sim s1 have "t = s1" by (simp add: batch_sim_def)
    moreover from this have "batch_frame t = batch_frame s" by (simp add: s1 batch_frame_def)
    ultimately show ?thesis using sim False by (simp add: batch_sim_def plan_step_def s1)
  qed
qed

lemma send_record_progress:
  assumes "sendable c a s" "no_stop a (Suc k) s"
  shows "\<exists>t. send_record c sizeof a now env r s = Return () t \<and> sendable c a t \<and> no_stop a k t"
proof -
  from assms(1) have pos: "0 < byteBatchSize a" by (simp add: sendable_def)
  from append_sample_returns[OF assms(1)] obtain s1 where append: "append_sample c a r s = Return () s1" by blast
  from append_sample_Return[OF append pos] obtain sender where
    s1: "s1 = s\<lparr>mymqttBatchCountSenderUUID := sender, myByteBatch := myByteBatch s @ [Dict r],
      myMessageCounter := myMessageCounter s + 1\<rparr>" ..
  have s1_ok: "sendable c a s1" using assms(1) by (simp add: s1 sendable_def)
  then obtain t where flush: "flush_batch c sizeof a s1 = Return () t"
    using flush_batch_returns[OF s1_ok] by (auto simp: s1)
  have next_ok: "next_subtopic (myAgentMqttNumberOfPublishingTopics s1) (myCurrentSubtopic s1)
      < myAgentMqttNumberOfPublishingTopics s1"
    using s1_ok by (auto simp: sendable_def next_subtopic_mod)
  have t_ok: "sendable c a t" "myMessageCounter t = myMessageCounter s + 1"
    using flush_batch_Return[OF flush pos] s1_ok next_ok
    by (auto simp: sendable_def s1 split: if_splits)
  have "stop_number (sendNumberOfMessages a) (myMessageCounter s) = None"
    using assms(2) by (auto simp: no_stop_def dest: spec[of _ 0])
  moreover have "no_stop a k t"
    unfolding no_stop_def
  proof (intro allI impI)
    fix j assume "j < k"
    with assms(2) show "stop_number (sendNumberOfMessages a) (myMessageCounter t + int j) = None"
      by (auto simp: no_stop_def t_ok(2) add.assoc dest: spec[of _ "Suc j"])
  qed
  ultimately show ?thesis using append flush t_ok(1) by (auto simp: send_record_def)
qed

text \<open>The loop contracts, discharged for the code's loop body.\<close>

interpretation send_loop: loop_refinement
  "send_record c sizeof a now env"
  "plan_step (batch_full sizeof a) (myAgentMqttNumberOfPublishingTopics s0)"
  "batch_sim c a s0"
  "\<lambda>k s. sendable c a s \<and> no_stop a k s"
  for c sizeof a now env s0
  by unfold_locales (auto intro: send_record_sim send_record_progress)

lemma batch_sim_start:
  assumes "sendable c a s" "myByteBatch s = map Dict ts"
  shows "batch_sim c a s s \<lparr>pl_pending = ts, pl_sub = myCurrentSubtopic s, pl_sent = []\<rparr>"
  using assms by (auto simp: batch_sim_def sendable_def counters_after_def intro: exI[of _ "[]"])

text \<open>The whole call against the closed form of the abstract run.\<close>

definition block_plan :: "nat \<Rightarrow> ('b, 'z) agent_scheme \<Rightarrow> triplet list \<Rightarrow> triplet plan" where
  "block_plan m s xs =
     \<lparr>pl_pending = leftover m xs,
      pl_sub = (myCurrentSubtopic s + length xs div m) mod myAgentMqttNumberOfPublishingTopics s,
      pl_sent = blocks (myAgentMqttNumberOfPublishingTopics s) m (myCurrentSubtopic s) xs\<rparr>"

lemma send_batches:
  assumes ok: "sendable c a s" "no_stop a (length rs + k) s"
    and m: "is_batch_len (batch_full sizeof a) m"
    and pending: "myByteBatch s = map Dict ts" "length ts < m"
  shows "\<exists>t. mqtt_send_triplet_batch c sizeof a now env rs s = Return () t \<and>
    batch_sim c a s t (block_plan m s (ts @ rs)) \<and> sendable c a t \<and> no_stop a k t"
proof -
  have i: "myCurrentSubtopic s < myAgentMqttNumberOfPublishingTopics s"
    using ok(1) by (simp add: sendable_def)
  from send_loop.loop_refines[OF batch_sim_start[OF ok(1) pending(1)], of rs k sizeof now env] ok
  show ?thesis
    by (simp add: mqtt_send_triplet_batch_def block_plan_def plan_run[OF m pending(2) i])
qed

section \<open>What is on the wire\<close>

definition payload_samples :: "'b codec \<Rightarrow> 'b \<Rightarrow> triplet list" where
  "payload_samples c raw =
     (case decode c raw of
        Inr (SendTimeSeriesDruidArray items) \<Rightarrow> dict_samples items
      | Inr (SendTimeSeriesDruid item) \<Rightarrow> dict_samples [item]
      | _ \<Rightarrow> [])"

fun action_samples :: "'b codec \<Rightarrow> 'b mqtt_action \<Rightarrow> triplet list" where
  "action_samples c (Publish topic raw qos retain) = payload_samples c raw"
| "action_samples c _ = []"

definition wire_samples :: "'b codec \<Rightarrow> 'b mqtt_action list \<Rightarrow> triplet list" where
  "wire_samples c acts = concat (map (action_samples c) acts)"

lemma wire_samples_append [simp]: "wire_samples c (xs @ ys) = wire_samples c xs @ wire_samples c ys"
  by (simp add: wire_samples_def)

lemma publishes_samples:
  assumes "codec_laws c rnd" "publishes c sid topic b act"
  shows "action_samples c act = map (narrow rnd) (snd b)"
proof -
  from assms(2) obtain raw where raw: "act = Publish (subtopic topic (fst b)) raw 0 False"
    "encode c sid (SendTimeSeriesDruidArray (map Dict (snd b))) = Inr raw" by (auto simp: publishes_def)
  with assms(1) obtain ts where "map Dict (snd b) = (map Dict ts :: 'a batch_item list)"
    "decode c raw = Inr (SendTimeSeriesDruidArray (map Dict (map (narrow rnd) ts)))"
    unfolding codec_laws_def by blast
  moreover from this(1) have "snd b = ts" by (metis dict_samples_map)
  ultimately show ?thesis using raw(1) by (simp add: payload_samples_def del: map_map)
qed

lemma publishes_wire:
  assumes "codec_laws c rnd" "list_all2 (publishes c sid topic) bs acts"
  shows "wire_samples c acts = map (narrow rnd) (concat (map snd bs))"
  using assms(2)
  by (induction rule: list_all2_induct) (auto simp: wire_samples_def publishes_samples[OF assms(1)])

lemma batch_sim_conserves:
  assumes "codec_laws c rnd" "batch_sim c a s t (block_plan m s xs)"
  shows "wire_samples c (net t) @ map (narrow rnd) (dict_samples (myByteBatch t)) =
    wire_samples c (net s) @ map (narrow rnd) xs"
proof -
  from assms(2) obtain acts where acts: "net t = net s @ acts" "myByteBatch t = map Dict (leftover m xs)"
    "list_all2 (publishes c (send_time_series_druid_array_id (schemas s)) (send_topic a))
      (blocks (myAgentMqttNumberOfPublishingTopics s) m (myCurrentSubtopic s) xs) acts"
    by (auto simp: batch_sim_def block_plan_def)
  have "wire_samples c acts @ map (narrow rnd) (leftover m xs) = map (narrow rnd) xs"
    unfolding publishes_wire[OF assms(1) acts(3)] map_append[symmetric] blocks_leftover ..
  with acts show ?thesis by simp
qed

lemma batch_sim_counter:
  assumes "batch_sim c a s t (block_plan m s xs)"
  shows "myMessageCounter t + int (length (myByteBatch s)) = myMessageCounter s + int (length xs)"
proof -
  have "length (concat (map snd (pl_sent (block_plan m s xs))) @ pl_pending (block_plan m s xs)) = length xs"
    unfolding block_plan_def using blocks_leftover[of _ m _ xs] by simp
  with assms show ?thesis unfolding batch_sim_def by (simp del: length_append)
qed

text \<open>Publications on one topic.\<close>

fun is_publish_on :: "string \<Rightarrow> 'b mqtt_action \<Rightarrow> bool" where
  "is_publish_on topic (Publish tp raw qos retain) = (tp = topic)"
| "is_publish_on topic _ = False"

definition publications :: "string \<Rightarrow> 'b mqtt_action list \<Rightarrow> nat" where
  "publications topic acts = length (filter (is_publish_on topic) acts)"

lemma subtopic_inject [simp]: "subtopic topic i = subtopic topic j \<longleftrightarrow> i = j"
  by (simp add: subtopic_def)

lemma publications_blocks:
  "list_all2 (publishes c sid topic) bs acts \<Longrightarrow>
   publications (subtopic topic j) acts = length (filter (\<lambda>b. fst b = j) bs)"
  by (induction rule: list_all2_induct) (auto simp: publications_def publishes_def)

lemma length_counters_after [simp]: "length (counters_after cs bs) = length cs"
  by (induction bs arbitrary: cs) (auto simp: counters_after_def)

lemma counters_after_nth:
  "j < length cs \<Longrightarrow> counters_after cs bs ! j = cs ! j + int (length (filter (\<lambda>b. fst b = j) bs))"
  by (induction bs arbitrary: cs) (auto simp: counters_after_def nth_list_update)

lemma blocks_on_topic: "length (filter (\<lambda>b. fst b = j) (blocks n m i xs)) = turn_count n i j (length xs div m)"
  by (simp add: blocks_def turn_count_def filter_map comp_def)

text \<open>A list of 97 bytes or more holds 5 entries (64 bytes for the header, 8 slots).\<close>

lemma batch_len_100: "byteBatchSize a = 100 \<Longrightarrow> is_batch_len (batch_full cpython_getsizeof a) 5"
  by (simp add: is_batch_len_def batch_full_def, code_simp)

end
