(* ===== verification/Demo_Agent.thy ===== *)
theory Demo_Agent
  imports Batching
begin

text \<open>
  The concrete agent on which the properties are instantiated: registered as \<open>u1\<close>, publishing
  on \<open>n\<close> subtopics from the \<open>i\<close>-th on, talking to a broker that grants every request.
\<close>

definition demo_agent :: "nat \<Rightarrow> nat \<Rightarrow> wire agent" where
  "demo_agent n i =
     \<lparr>myAgentCommonDebug = False,
      mqtt_conf = \<lparr>mqtt_broker = ''mosquitto'', mqtt_port = 1883, mqtt_broker_sec = ''mosquitto'',
        mqtt_port_sec = 8883, mqtt_ca_certs = ''ca'', mqtt_certfile = ''cert'', mqtt_keyfile = ''key''\<rparr>,
      schemas = \<lparr>agent_register_request_schema_id = 1, agent_register_response_schema_id = 2,
        agent_deregister_request_schema_id = 3, agent_deregister_response_schema_id = 4,
        send_time_series_schema_id = 5, device_register_request_schema_id = 6,
        device_register_response_schema_id = 7, send_time_series_druid_array_id = 8\<rparr>,
      myDeviceRegistered = True, myByteBatch = [], myCurrentSubtopic = i,
      myNumber_of_msg_send = 0, myMessageCounter = 0, mymqttBatchCountSenderUUID = None,
      myBatchCounter = replicate n 1, myAgentMqttNumberOfPublishingTopics = n,
      myEnableMQTTbatchesCounter = Some False, myMQTTregistered = True, myMQTTderegistered = False,
      myAgent_debug = False, myAgent_uid = ''node7'', myAgent_uuid = Uuid ''u1'',
      myAgent_registration_request_topic = [(''agent-registration/node7/request'', 2)],
      myAgent_registration_response_topic = [(''agent-registration/node7/response'', 2),
        (''device-registration/u1/response'', 2), (''agent-deregistration/u1/response'', 2)],
      myAgent_deregistration_request_topic = Some [(''agent-deregistration/u1/request'', 2)],
      myAgent_deregistration_response_topic = Some [(''agent-deregistration/u1/response'', 2)],
      myDevice_registration_request_topic = Some ''device-registration/u1/request'',
      myDevice_registration_response_topic = Some [(''device-registration/u1/response'', 2)],
      myDeviceSensorUUIDsMap = Map.empty, client = Some ''node7'', net = [], console = []\<rparr>"

definition demo_args :: "int \<Rightarrow> send_limit \<Rightarrow> send_args" where
  "demo_args bbs limit =
     \<lparr>send_topic = ''ibswitch'', sendNumberOfMessages = limit, byteBatchSize = bbs,
      send_uuid = Uuid ''u1'', timet0 = 0, mqttBatchCountEnabled = False\<rparr>"

definition demo_env :: "wire agent net_env" where
  "demo_env = \<lparr>connect_error = None, subscribe_rc = (\<lambda>_. 0), is_published = True,
     network = (\<lambda>_ s. s\<lparr>myMQTTderegistered := True\<rparr>)\<rparr>"

definition demo_samples :: "nat \<Rightarrow> triplet list" where
  "demo_samples k = map (\<lambda>j. \<lparr>timestamp = int j, sensorUuid = Uuid ''x'', sensorValue = 1\<rparr>) [0..<k]"

lemma demo_agent_simps [simp]:
  "net (demo_agent n i) = []" "myByteBatch (demo_agent n i) = []" "myCurrentSubtopic (demo_agent n i) = i"
  "myAgentMqttNumberOfPublishingTopics (demo_agent n i) = n" "myMessageCounter (demo_agent n i) = 0"
  "myBatchCounter (demo_agent n i) = replicate n 1" "client (demo_agent n i) = Some ''node7''"
  "send_time_series_druid_array_id (schemas (demo_agent n i)) = 8"
  "send_time_series_schema_id (schemas (demo_agent n i)) = 5"
  "myAgent_uuid (demo_agent n i) = Uuid ''u1''" "myAgent_uid (demo_agent n i) = ''node7''"
  by (simp_all add: demo_agent_def)

lemma demo_args_simps [simp]:
  "send_topic (demo_args b l) = ''ibswitch''" "sendNumberOfMessages (demo_args b l) = l"
  "byteBatchSize (demo_args b l) = b" "timet0 (demo_args b l) = 0" "mqttBatchCountEnabled (demo_args b l) = False"
  by (simp_all add: demo_args_def)

end
