(* ===== verification/Batching_Props.thy ===== *)
theory Batching_Props
  imports Batching_Refinement Demo_Agent
begin

text \<open>
  The properties of \<open>mqtt_send_triplet_batch\<close>: refinement of the abstract batcher, conservation
  and order of the samples, the batch counters, the exact stop at the configured number of
  messages, the length of the batches for every configured size, the unbatched mode.
\<close>

lemma demo_sendable: "0 < bbs \<Longrightarrow> i < n \<Longrightarrow> sendable tag_codec (demo_args bbs l) (demo_agent n i)"
  by (simp add: sendable_def demo_args_def demo_agent_def tag_codec_def)

lemma demo_no_stop: "no_stop (demo_args bbs (LimitInt (-1))) k (demo_agent n i)"
  by (simp add: no_stop_def demo_args_def demo_agent_def)

lemma demo_batch_len: "is_batch_len (batch_full cpython_getsizeof (demo_args 100 l)) 5"
  by (rule batch_len_100) simp

section \<open>Refinement\<close>

text \<open>C1: A call of mqtt_send_triplet_batch that does not reach the configured number of messages
  implements the abstract batcher. It returns; with the samples left in the batch by earlier
  calls put in front, the samples are cut into consecutive blocks of the batch length m, and the
  calls made on the MQTT client are exactly one publication per block, in order, the k-th one on
  subtopic (start + k) mod n with QoS 0 and the encoding of the block's samples; the samples
  after the last block stay in the batch, and the next subtopic is the next in turn.\<close>

theorem send_triplet_batch_refines_blocks:
  assumes "sendable c a s" and "no_stop a (length rs) s"
    and "is_batch_len (batch_full sizeof a) m"
    and "myByteBatch s = map Dict ts" and "length ts < m"
  shows "\<exists>t acts. mqtt_send_triplet_batch c sizeof a now env rs s = Return () t \<and>
    net t = net s @ acts \<and>
    list_all2 (publishes c (send_time_series_druid_array_id (schemas s)) (send_topic a))
      (blocks (myAgentMqttNumberOfPublishingTopics s) m (myCurrentSubtopic s) (ts @ rs)) acts \<and>
    myByteBatch t = map Dict (leftover m (ts @ rs)) \<and>
    myCurrentSubtopic t =
      (myCurrentSubtopic s + length (ts @ rs) div m) mod myAgentMqttNumberOfPublishingTopics s"
proof -
  obtain t where "mqtt_send_triplet_batch c sizeof a now env rs s = Return () t"
    "batch_sim c a s t (block_plan m s (ts @ rs))"
    using send_batches[OF assms(1) _ assms(3-5), of rs 0] assms(2) by auto
  then show ?thesis by (auto simp: batch_sim_def block_plan_def)
qed

theorem send_triplet_batch_refines_blocks_witness:
  "\<exists>t acts. mqtt_send_triplet_batch tag_codec cpython_getsizeof (demo_args 100 (LimitInt (-1))) 1 demo_env
      (demo_samples 12) (demo_agent 2 1) = Return () t \<and>
    net t = net (demo_agent 2 1) @ acts \<and>
    list_all2 (publishes tag_codec 8 ''ibswitch'')
      [(1, take 5 (demo_samples 12)), (0, take 5 (drop 5 (demo_samples 12)))] acts \<and>
    myByteBatch t = map Dict (drop 10 (demo_samples 12)) \<and> myCurrentSubtopic t = 1"
proof -
  have "blocks 2 5 1 (demo_samples 12) = [(1, take 5 (demo_samples 12)), (0, take 5 (drop 5 (demo_samples 12)))]"
    by (simp add: blocks_def segment_def demo_samples_def upt_rec)
  moreover have "leftover 5 (demo_samples 12) = drop 10 (demo_samples 12)" "length (demo_samples 12) = 12"
    by (simp_all add: leftover_def demo_samples_def)
  moreover have "myByteBatch (demo_agent 2 1) = map Dict []" by (simp add: demo_agent_def)
  ultimately show ?thesis
    using send_triplet_batch_refines_blocks[where s = "demo_agent 2 1" and rs = "demo_samples 12" and ts = "[]"
      and now = 1 and env = demo_env, OF demo_sendable demo_no_stop demo_batch_len]
    by (simp add: demo_agent_def demo_args_def)
qed

section \<open>Conservation\<close>

text \<open>C6: No sample is lost, duplicated or reordered. What a receiver decodes from all the calls made
  on the MQTT client, followed by the samples still in the batch, is what it would have decoded
  before the call followed by the samples then in the batch and the new samples, in order (up to
  the rounding of sample values to single precision by the serializer).\<close>

theorem send_triplet_batch_conserves:
  assumes "codec_laws c rnd" and "sendable c a s" and "no_stop a (length rs) s"
    and "is_batch_len (batch_full sizeof a) m"
    and "myByteBatch s = map Dict ts" and "length ts < m"
  shows "\<exists>t. mqtt_send_triplet_batch c sizeof a now env rs s = Return () t \<and>
    wire_samples c (net t) @ map (narrow rnd) (dict_samples (myByteBatch t)) =
    wire_samples c (net s) @ map (narrow rnd) (dict_samples (myByteBatch s) @ rs)"
proof -
  obtain t where t: "mqtt_send_triplet_batch c sizeof a now env rs s = Return () t"
    "batch_sim c a s t (block_plan m s (ts @ rs))"
    using send_batches[OF assms(2) _ assms(4-6), of rs 0] assms(3) by auto
  with batch_sim_conserves[OF assms(1) t(2)] assms(5) show ?thesis by simp
qed

theorem send_triplet_batch_conserves_witness:
  "\<exists>t. mqtt_send_triplet_batch tag_codec cpython_getsizeof (demo_args 100 (LimitInt (-1))) 1 demo_env
      (demo_samples 12) (demo_agent 2 1) = Return () t \<and>
    wire_samples tag_codec (net t) @ dict_samples (myByteBatch t) = demo_samples 12"
  using send_triplet_batch_conserves[where s = "demo_agent 2 1" and rs = "demo_samples 12" and ts = "[]"
      and now = 1 and env = demo_env, OF tag_codec_laws demo_sendable demo_no_stop demo_batch_len]
  by (simp add: demo_agent_def wire_samples_def)

section \<open>Batch counters\<close>

text \<open>C18: The batch counters are right and fair: over a call, the counter of each subtopic grows by
  the number of publications the call makes on that subtopic, this number is the subtopic's share
  of a round-robin over all batches, and any two subtopics' shares differ by at most one.\<close>

theorem batch_counters_count_publications:
  assumes "sendable c a s" and "no_stop a (length rs) s"
    and "is_batch_len (batch_full sizeof a) m"
    and "myByteBatch s = map Dict ts" and "length ts < m"
    and "j < myAgentMqttNumberOfPublishingTopics s" and "k < myAgentMqttNumberOfPublishingTopics s"
  shows "\<exists>t acts. mqtt_send_triplet_batch c sizeof a now env rs s = Return () t \<and> net t = net s @ acts \<and>
    myBatchCounter t ! j = myBatchCounter s ! j + int (publications (subtopic (send_topic a) j) acts) \<and>
    publications (subtopic (send_topic a) j) acts =
      turn_share (myAgentMqttNumberOfPublishingTopics s) (myCurrentSubtopic s) j (length (ts @ rs) div m) \<and>
    publications (subtopic (send_topic a) j) acts \<le> publications (subtopic (send_topic a) k) acts + 1"
proof -
  obtain t where t: "mqtt_send_triplet_batch c sizeof a now env rs s = Return () t"
    "batch_sim c a s t (block_plan m s (ts @ rs))"
    using send_batches[OF assms(1) _ assms(3-5), of rs 0] assms(2) by auto
  let ?n = "myAgentMqttNumberOfPublishingTopics s"
  let ?bs = "blocks ?n m (myCurrentSubtopic s) (ts @ rs)"
  from t(2) obtain acts where acts: "net t = net s @ acts"
    "list_all2 (publishes c (send_time_series_druid_array_id (schemas s)) (send_topic a)) ?bs acts"
    and counters: "myBatchCounter t = counters_after (myBatchCounter s) ?bs"
    by (auto simp: batch_sim_def block_plan_def)
  have i: "myCurrentSubtopic s < ?n" "j < length (myBatchCounter s)"
    using assms(1,6) by (auto simp: sendable_def)
  have pubs: "publications (subtopic (send_topic a) x) acts =
      turn_count ?n (myCurrentSubtopic s) x (length (ts @ rs) div m)" for x
    using publications_blocks[OF acts(2)] by (simp add: blocks_on_topic)
  have fair: "turn_count ?n (myCurrentSubtopic s) j (length (ts @ rs) div m)
      \<le> turn_count ?n (myCurrentSubtopic s) k (length (ts @ rs) div m) + 1"
    by (rule turn_count_fair[OF i(1) assms(6,7)])
  have "myBatchCounter t ! j = myBatchCounter s ! j + int (publications (subtopic (send_topic a) j) acts)"
    by (simp add: counters counters_after_nth[OF i(2)] blocks_on_topic pubs)
  moreover have "publications (subtopic (send_topic a) j) acts =
      turn_share ?n (myCurrentSubtopic s) j (length (ts @ rs) div m)"
    unfolding pubs by (rule turn_count_share[OF i(1) assms(6)])
  moreover have "publications (subtopic (send_topic a) j) acts \<le> publications (subtopic (send_topic a) k) acts + 1"
    unfolding pubs by (rule fair)
  ultimately show ?thesis using t(1) acts(1) by blast
qed

theorem batch_counters_count_publications_witness:
  "\<exists>t acts. mqtt_send_triplet_batch tag_codec cpython_getsizeof (demo_args 100 (LimitInt (-1))) 1 demo_env
      (demo_samples 17) (demo_agent 2 1) = Return () t \<and> net t = acts \<and>
    myBatchCounter t ! 1 = 1 + int (publications (subtopic ''ibswitch'' 1) acts) \<and>
    publications (subtopic ''ibswitch'' 1) acts = 2"
proof -
  have "length (demo_samples 17) = 17" by (simp add: demo_samples_def)
  moreover have "turn_share 2 1 1 3 = 2" by (simp add: turn_share_def)
  ultimately show ?thesis
    using batch_counters_count_publications[where s = "demo_agent 2 1" and rs = "demo_samples 17" and ts = "[]"
      and now = 1 and env = demo_env and j = 1 and k = 0, OF demo_sendable demo_no_stop demo_batch_len]
    by (auto simp: demo_agent_def demo_args_def)
qed

section \<open>The stop at the configured number of messages\<close>

lemma report_counts_Return:
  assumes "myAgentMqttNumberOfPublishingTopics s \<le> length (myBatchCounter s)"
  shows "report_counts topic s = Return () (s\<lparr>console := console s @
    map (\<lambda>i. BatchCountLine (mymqttBatchCountSenderUUID s) (subtopic topic i) (myBatchCounter s ! i - 1))
      [0..<myAgentMqttNumberOfPublishingTopics s]\<rparr>)"
proof -
  let ?body = "\<lambda>i s. or_raise (py_index (myBatchCounter s) i) s (\<lambda>k.
    Return () (print_line (BatchCountLine (mymqttBatchCountSenderUUID s) (subtopic topic i) (k - 1)) s))"
  have "for_each ?body [0..<k] s = Return () (s\<lparr>console := console s @
      map (\<lambda>i. BatchCountLine (mymqttBatchCountSenderUUID s) (subtopic topic i) (myBatchCounter s ! i - 1)) [0..<k]\<rparr>)"
    if "k \<le> length (myBatchCounter s)" for k
    using that by (induction k) (simp_all add: for_each_append py_index_def print_line_def)
  with assms show ?thesis by (simp add: report_counts_def)
qed

text \<open>The environment of an orderly end: the broker answers the deregistration.\<close>

definition orderly_end :: "'b codec \<Rightarrow> send_args \<Rightarrow> ('b, 'z) agent_scheme net_env \<Rightarrow> ('b, 'z) agent_scheme \<Rightarrow> bool" where
  "orderly_end c a env s \<longleftrightarrow>
     quiet_thread env \<and> answers_in_time myMQTTderegistered env s \<and> grants_subscription env \<and>
     (\<exists>topics. myAgent_deregistration_request_topic s = Some topics \<and> topics \<noteq> []) \<and>
     myAgent_deregistration_response_topic s \<noteq> None \<and>
     (\<exists>raw. encode c (agent_deregister_request_schema_id (schemas s)) (DeregisterRequest (send_uuid a)) = Inr raw)"

text \<open>What the end of a run needs of it: from any object of the session a deregistration succeeds.\<close>

definition leaves :: "'b codec \<Rightarrow> uuid \<Rightarrow> ('b, 'z) agent_scheme net_env \<Rightarrow> ('b, 'z) agent_scheme \<Rightarrow> bool" where
  "leaves c u env s \<longleftrightarrow> (\<exists>topic more topics raw.
     myAgent_deregistration_request_topic s = Some (topic # more) \<and>
     encode c (agent_deregister_request_schema_id (schemas s)) (DeregisterRequest u) = Inr raw \<and>
     (\<forall>s'. session_of s' = session_of s \<and> schemas s' = schemas s \<and> client s' \<noteq> None \<longrightarrow>
       (\<exists>t. mqtt_deregistration c topic u env s' = Return True t \<and> myMQTTderegistered t \<and>
         net t = net s' @ subscribe_acts topics env @ request_acts (fst topic) raw (snd topic) env \<and>
         client t = client s' \<and> (\<exists>ls. console t = console s' @ ls))))"

lemma orderly_leaves:
  assumes "orderly_end c a env s"
  shows "leaves c (send_uuid a) env s"
proof -
  from assms obtain topic more topics raw where s: "myAgent_deregistration_request_topic s = Some (topic # more)"
    "myAgent_deregistration_response_topic s = Some topics"
    "encode c (agent_deregister_request_schema_id (schemas s)) (DeregisterRequest (send_uuid a)) = Inr raw"
    by (auto simp: orderly_end_def neq_Nil_conv)
  have "\<exists>t. mqtt_deregistration c topic (send_uuid a) env s' = Return True t \<and> myMQTTderegistered t \<and>
      net t = net s' @ subscribe_acts topics env @ request_acts (fst topic) raw (snd topic) env \<and>
      client t = client s' \<and> (\<exists>ls. console t = console s' @ ls)"
    if s': "session_of s' = session_of s \<and> schemas s' = schemas s \<and> client s' \<noteq> None" for s'
  proof (rule deregistration_answered)
    show "quiet_thread env" "grants_subscription env" using assms by (simp_all add: orderly_end_def)
    show "answers_in_time myMQTTderegistered env s'" using assms s' by (simp add: orderly_end_def answers_in_time_def)
    show "client s' \<noteq> None" "myAgent_deregistration_response_topic s' = Some topics"
      "encode c (agent_deregister_request_schema_id (schemas s')) (DeregisterRequest (send_uuid a)) = Inr raw"
      using s' s(2,3) by (simp_all add: session_of_def)
  qed
  with s(1,3) show ?thesis unfolding leaves_def by blast
qed

lemma leaves_cong: "session_of t = session_of s \<Longrightarrow> schemas t = schemas s \<Longrightarrow> leaves c u env t = leaves c u env s"
  by (auto simp: leaves_def session_of_def)

definition final_report :: "send_args \<Rightarrow> int \<Rightarrow> ('b, 'z) agent_scheme \<Rightarrow> console_line list" where
  "final_report a n s =
     (if mqttBatchCountEnabled a
      then map (\<lambda>i. BatchCountLine (mymqttBatchCountSenderUUID s) (subtopic (send_topic a) i) (myBatchCounter s ! i - 1))
             [0..<myAgentMqttNumberOfPublishingTopics s]
      else []) @ [AllPublishedLine n]"

text \<open>The first statement of the stop branch: what is left in the batch is published.\<close>

lemma publish_leftover:
  assumes "sendable c a s" "myByteBatch s = map Dict ts"
  shows "\<exists>t acts. (if 0 < byteBatchSize a \<and> 0 < length (myByteBatch s)
        then publish_batch c (send_topic a) s else Return () s) = Return () t \<and>
      net t = net s @ acts \<and>
      list_all2 (publishes c (send_time_series_druid_array_id (schemas s)) (send_topic a))
        (if ts = [] then [] else [(myCurrentSubtopic s, ts)]) acts \<and>
      sendable c a t \<and> session_of t = session_of s \<and> schemas t = schemas s \<and> console t = console s"
proof (cases "ts = []")
  case True
  with assms show ?thesis by simp
next
  case False
  from assms(1) obtain raw where raw:
    "encode c (send_time_series_druid_array_id (schemas s)) (SendTimeSeriesDruidArray (map Dict ts)) = Inr raw"
    unfolding sendable_def by blast
  define t where "t = s\<lparr>net := net s @ [Publish (subtopic (send_topic a) (myCurrentSubtopic s)) raw 0 False],
    myBatchCounter := (myBatchCounter s)[myCurrentSubtopic s := myBatchCounter s ! myCurrentSubtopic s + 1]\<rparr>"
  have "publish_batch c (send_topic a) s = Return () t"
    using assms raw by (auto simp: publish_batch_Return_iff sendable_def t_def)
  with False assms raw show ?thesis
    by (intro exI[of _ t] exI[of _ "[Publish (subtopic (send_topic a) (myCurrentSubtopic s)) raw 0 False]"])
      (simp add: t_def publishes_def sendable_def session_of_def)
qed

lemma stop_sending_exits:
  fixes s :: "('b, 'z) agent_scheme"
  assumes ok: "sendable c a s" and batch: "myByteBatch s = map Dict ts"
    and clock: "now \<noteq> timet0 a" and env: "leaves c (send_uuid a) env s"
  shows "\<exists>t (s1 :: ('b, 'z) agent_scheme) acts raw topic topics. stop_sending c a n now env s = Raise (SystemExit 0) t \<and>
    list_all2 (publishes c (send_time_series_druid_array_id (schemas s)) (send_topic a))
      (if ts = [] then [] else [(myCurrentSubtopic s, ts)]) acts \<and>
    net t = net s @ acts @ subscribe_acts topics env @ request_acts (fst topic) raw (snd topic) env @ [LoopStop, Disconnect] \<and>
    encode c (agent_deregister_request_schema_id (schemas s1)) (DeregisterRequest (send_uuid a)) = Inr raw \<and>
    (\<exists>ls. console t = console s @ final_report a n s1 @ ls) \<and> myMQTTderegistered t"
proof -
  from publish_leftover[OF ok batch] obtain s1 acts where s1:
    "(if 0 < byteBatchSize a \<and> 0 < length (myByteBatch s) then publish_batch c (send_topic a) s else Return () s) = Return () s1"
    "net s1 = net s @ acts"
    "list_all2 (publishes c (send_time_series_druid_array_id (schemas s)) (send_topic a))
      (if ts = [] then [] else [(myCurrentSubtopic s, ts)]) acts"
    "sendable c a s1" "session_of s1 = session_of s" "schemas s1 = schemas s" "console s1 = console s" by blast
  define s2 where "s2 = s1\<lparr>console := console s1 @ final_report a n s1\<rparr>"
  have "myAgentMqttNumberOfPublishingTopics s1 \<le> length (myBatchCounter s1)"
    using s1(4) by (simp add: sendable_def)
  from report_counts_Return[OF this] have "\<exists>s'. (if mqttBatchCountEnabled a then report_counts (send_topic a) s1
      else Return () s1) = Return () s' \<and> print_line (AllPublishedLine n) s' = s2"
    by (simp add: s2_def final_report_def print_line_def)
  then obtain s3 where rep: "(if mqttBatchCountEnabled a then report_counts (send_topic a) s1
      else Return () s1) = Return () s3" "print_line (AllPublishedLine n) s3 = s2" by blast
  have s2: "session_of s2 = session_of s" "schemas s2 = schemas s" "client s2 \<noteq> None"
    using s1(4-6) by (simp_all add: s2_def sendable_def)
  from env obtain topic more topics raw where dereg: "myAgent_deregistration_request_topic s = Some (topic # more)"
    "encode c (agent_deregister_request_schema_id (schemas s)) (DeregisterRequest (send_uuid a)) = Inr raw"
    and leave: "\<forall>s'. session_of s' = session_of s \<and> schemas s' = schemas s \<and> client s' \<noteq> None \<longrightarrow>
       (\<exists>t. mqtt_deregistration c topic (send_uuid a) env s' = Return True t \<and> myMQTTderegistered t \<and>
         net t = net s' @ subscribe_acts topics env @ request_acts (fst topic) raw (snd topic) env \<and>
         client t = client s' \<and> (\<exists>ls. console t = console s' @ ls))" unfolding leaves_def by blast
  from leave[rule_format, of s2] s2 obtain t where t:
    "mqtt_deregistration c topic (send_uuid a) env s2 = Return True t" "myMQTTderegistered t"
    "net t = net s2 @ subscribe_acts topics env @ request_acts (fst topic) raw (snd topic) env"
    "client t = client s2" "\<exists>ls. console t = console s2 @ ls" by blast
  have topic: "myAgent_deregistration_request_topic s2 = Some (topic # more)" using s2(1) dereg(1) by (simp add: session_of_def)
  have "stop_sending c a n now env s = Raise (SystemExit 0) (t\<lparr>net := net t @ [LoopStop, Disconnect]\<rparr>)"
    using clock t(1,4) s2(3) unfolding stop_sending_def s1(1)
    by (auto simp: rep topic py_index_def mqtt_close_def client_call_def)
  moreover have "encode c (agent_deregister_request_schema_id (schemas s1)) (DeregisterRequest (send_uuid a)) = Inr raw"
    using dereg(2) by (simp add: s1(6))
  moreover have "net (t\<lparr>net := net t @ [LoopStop, Disconnect]\<rparr>) = net s @ acts @ subscribe_acts topics env @
      request_acts (fst topic) raw (snd topic) env @ [LoopStop, Disconnect]"
    by (simp add: t(3) s2_def s1(2))
  moreover have "\<exists>ls. console (t\<lparr>net := net t @ [LoopStop, Disconnect]\<rparr>) = console s @ final_report a n s1 @ ls"
    using t(5) by (auto simp: s2_def s1(7))
  moreover have "myMQTTderegistered (t\<lparr>net := net t @ [LoopStop, Disconnect]\<rparr>)" using t(2) by simp
  ultimately show ?thesis using s1(3)
    by - (rule exI[of _ "t\<lparr>net := net t @ [LoopStop, Disconnect]\<rparr>"], rule exI[of _ s1], rule exI[of _ acts],
      rule exI[of _ raw], rule exI[of _ topic], rule exI[of _ topics], intro conjI)
qed

lemma no_samples_in_goodbye:
  assumes "codec_laws c rnd" "encode c i (DeregisterRequest u) = Inr raw"
  shows "wire_samples c (subscribe_acts topics env @ request_acts topic raw qos env @ [LoopStop, Disconnect]) = []"
proof -
  have "decode c raw = Inr (DeregisterRequest u)" using assms by (auto simp: codec_laws_def)
  moreover have "wire_samples c (subscribe_acts topics env) = []"
    by (auto simp: wire_samples_def subscribe_acts_def split: option.splits)
  ultimately show ?thesis
    by (simp add: wire_samples_def request_acts_def payload_samples_def)
qed

lemma limit_exits:
  fixes s :: "('b, 'z) agent_scheme"
  assumes laws: "codec_laws c rnd" and ok: "sendable c a s"
    and limit: "sendNumberOfMessages a = LimitInt (myMessageCounter s + int k)" and more: "k < length rs"
    and m: "is_batch_len (batch_full sizeof a) m"
    and batch: "myByteBatch s = map Dict ts" "length ts < m"
    and clock: "now \<noteq> timet0 a" and env: "leaves c (send_uuid a) env s"
  shows "\<exists>t. mqtt_send_triplet_batch c sizeof a now env rs s = Raise (SystemExit 0) t \<and>
    wire_samples c (net t) = wire_samples c (net s) @ map (narrow rnd) (ts @ take k rs) \<and>
    myMQTTderegistered t \<and> drop (length (net t) - 2) (net t) = [LoopStop, Disconnect] \<and> (\<exists>acts. net t = net s @ acts)"
proof -
  let ?xs = "ts @ take k rs"
  have k: "length (take k rs) = k" using more by simp
  have "no_stop a (length (take k rs) + 0) s" using limit more by (simp add: no_stop_def)
  from send_batches[OF ok this m batch] obtain s1 where
    ret: "mqtt_send_triplet_batch c sizeof a now env (take k rs) s = Return () s1"
    and sim: "batch_sim c a s s1 (block_plan m s ?xs)" and ok1: "sendable c a s1" by blast
  let ?bs = "blocks (myAgentMqttNumberOfPublishingTopics s) m (myCurrentSubtopic s) ?xs"
  from sim obtain acts where acts: "net s1 = net s @ acts"
    "list_all2 (publishes c (send_time_series_druid_array_id (schemas s)) (send_topic a)) ?bs acts"
    and left: "myByteBatch s1 = map Dict (leftover m ?xs)"
    by (auto simp: batch_sim_def block_plan_def)
  have "concat (map snd ?bs) @ leftover m ?xs = ?xs" by (rule blocks_leftover)
  with sim k batch(1) have count: "myMessageCounter s1 = myMessageCounter s + int k"
    by (simp add: batch_sim_def block_plan_def)
  have env1: "leaves c (send_uuid a) env s1"
    using env leaves_cong[of s1 s] sim by (simp add: batch_sim_def)
  from stop_sending_exits[OF ok1 left clock env1, of "myMessageCounter s1"]
  obtain t acts2 raw topic topics and s2 :: "('b, 'z) agent_scheme" where
    stop: "stop_sending c a (myMessageCounter s1) now env s1 = Raise (SystemExit 0) t"
    and acts2: "list_all2 (publishes c (send_time_series_druid_array_id (schemas s1)) (send_topic a))
      (if leftover m ?xs = [] then [] else [(myCurrentSubtopic s1, leftover m ?xs)]) acts2"
    and net_t: "net t = net s1 @ acts2 @ subscribe_acts topics env @
      request_acts (fst topic) raw (snd topic) env @ [LoopStop, Disconnect]"
    and raw: "encode c (agent_deregister_request_schema_id (schemas s2)) (DeregisterRequest (send_uuid a)) = Inr raw"
    and dereg: "myMQTTderegistered t" by blast
  have "rs = take k rs @ rs ! k # drop (Suc k) rs" using more by (rule id_take_nth_drop)
  moreover have "send_record c sizeof a now env (rs ! k) s1 = Raise (SystemExit 0) t"
    using stop limit count by (simp add: send_record_def)
  ultimately have exits: "mqtt_send_triplet_batch c sizeof a now env rs s = Raise (SystemExit 0) t"
    using ret unfolding mqtt_send_triplet_batch_def by (metis and_then_simps(1,2) for_each.simps(2) for_each_append)
  have "wire_samples c acts2 = map (narrow rnd) (leftover m ?xs)"
    using publishes_wire[OF laws acts2] by (simp split: if_splits)
  moreover have "wire_samples c (net t) = wire_samples c (net s) @ wire_samples c acts @ wire_samples c acts2 @
      wire_samples c (subscribe_acts topics env @ request_acts (fst topic) raw (snd topic) env @ [LoopStop, Disconnect])"
    by (simp only: net_t acts(1) wire_samples_append append_assoc)
  moreover have "map (narrow rnd) (concat (map snd ?bs)) @ map (narrow rnd) (leftover m ?xs) = map (narrow rnd) ?xs"
    by (simp only: map_append[symmetric] blocks_leftover)
  ultimately have "wire_samples c (net t) = wire_samples c (net s) @ map (narrow rnd) ?xs"
    by (simp only: publishes_wire[OF laws acts(2)] no_samples_in_goodbye[OF laws raw] append_Nil2)
  with exits dereg show ?thesis by (simp add: net_t acts(1))
qed

text \<open>C14: The agent stops after exactly the configured number of messages. If the limit is k messages
  away and the call brings more than k samples, the call ends the process with exit status 0; a
  receiver has then decoded, beyond what was sent before the call, exactly the samples left in the
  batch and the first k new samples, in order: the last, incomplete batch is published too, and
  none of the samples after the limit is. The agent has deregistered and closed its connection.\<close>

theorem stops_after_exactly_the_limit:
  fixes s :: "('b, 'z) agent_scheme"
  assumes laws: "codec_laws c rnd" and ok: "sendable c a s"
    and limit: "sendNumberOfMessages a = LimitInt (myMessageCounter s + int k)" and more: "k < length rs"
    and m: "is_batch_len (batch_full sizeof a) m"
    and batch: "myByteBatch s = map Dict ts" "length ts < m"
    and clock: "now \<noteq> timet0 a" and env: "orderly_end c a env s"
  shows "\<exists>t. mqtt_send_triplet_batch c sizeof a now env rs s = Raise (SystemExit 0) t \<and>
    wire_samples c (net t) = wire_samples c (net s) @ map (narrow rnd) (ts @ take k rs) \<and>
    myMQTTderegistered t \<and> drop (length (net t) - 2) (net t) = [LoopStop, Disconnect]"
  using limit_exits[OF laws ok limit more m batch clock orderly_leaves[OF env]] by blast

theorem stops_after_exactly_the_limit_witness:
  "\<exists>t. mqtt_send_triplet_batch tag_codec cpython_getsizeof (demo_args 100 (LimitInt 7)) 1 demo_env
      (demo_samples 12) (demo_agent 2 1) = Raise (SystemExit 0) t \<and>
    wire_samples tag_codec (net t) = demo_samples 7 \<and>
    myMQTTderegistered t \<and> drop (length (net t) - 2) (net t) = [LoopStop, Disconnect]"
proof -
  have "answers_in_time myMQTTderegistered demo_env (demo_agent 2 1)"
    by (auto simp: answers_in_time_def demo_env_def intro!: exI[of _ 1])
  then have "orderly_end tag_codec (demo_args 100 (LimitInt 7)) demo_env (demo_agent 2 1)"
    by (simp add: orderly_end_def quiet_thread_def grants_subscription_def demo_env_def demo_agent_def
        demo_args_def tag_codec_def MQTT_ERR_SUCCESS_def)
  moreover have "take 7 (demo_samples 12) = demo_samples 7"
    by (simp add: demo_samples_def take_map)
  ultimately show ?thesis
    using stops_after_exactly_the_limit[where s = "demo_agent 2 1" and rs = "demo_samples 12" and ts = "[]"
      and now = 1 and env = demo_env and k = 7 and a = "demo_args 100 (LimitInt 7)",
      OF tag_codec_laws demo_sendable _ _ demo_batch_len]
    by (simp add: demo_agent_def demo_args_def demo_samples_def wire_samples_def)
qed

section \<open>Batch length\<close>

text \<open>
  The contract between the batcher and the size it measures: a list needs at least 8 bytes per
  entry. Then every threshold is reached, after a bounded number of samples.
\<close>

locale list_sizer =
  fixes sizeof :: "nat \<Rightarrow> nat"
  assumes slot: "8 * k \<le> sizeof k"
begin

lemma batch_len_exists:
  assumes "0 < byteBatchSize a"
  shows "\<exists>m. is_batch_len (batch_full sizeof a) m \<and> 8 * (int m - 1) < byteBatchSize a"
proof -
  let ?P = "\<lambda>m. 0 < m \<and> batch_full sizeof a m"
  have "?P (nat (byteBatchSize a))"
    using assms slot[of "nat (byteBatchSize a)"] by (auto simp: batch_full_def)
  then have least: "?P (LEAST m. ?P m)" by (rule LeastI)
  define m where "m = (LEAST m. ?P m)"
  have small: "\<not> batch_full sizeof a k" if "0 < k" "k < m" for k
    using that not_less_Least[of k ?P] unfolding m_def by blast
  have len: "is_batch_len (batch_full sizeof a) m"
    using least small unfolding m_def[symmetric] by (auto simp: is_batch_len_def list_all_iff)
  moreover have "8 * (int m - 1) < byteBatchSize a"
  proof (cases "m = 1")
    case False
    with len have "0 < m - 1" "m - 1 < m" by (auto simp: is_batch_len_def)
    from small[OF this] slot[of "m - 1"] \<open>0 < m - 1\<close> show ?thesis by (simp add: batch_full_def)
  qed (use assms in simp)
  ultimately show ?thesis by blast
qed

end

lemma list_allocated_ge: "k \<le> list_allocated k"
  by (induction k) (auto simp: Let_def)

interpretation cpython: list_sizer cpython_getsizeof
  by unfold_locales (simp add: cpython_getsizeof_def list_allocated_ge trans_le_add2)

text \<open>The publications of a call carry m samples each; the rest stays in the batch.\<close>

lemma sent_batches:
  assumes "codec_laws c rnd" and "sendable c a s" and "no_stop a (length rs) s"
    and "is_batch_len (batch_full sizeof a) m" and "myByteBatch s = map Dict ts" and "length ts < m"
  shows "\<exists>t acts. mqtt_send_triplet_batch c sizeof a now env rs s = Return () t \<and> net t = net s @ acts \<and>
    length acts = (length ts + length rs) div m \<and> list_all (\<lambda>act. length (action_samples c act) = m) acts \<and>
    length (myByteBatch t) = (length ts + length rs) mod m"
proof -
  obtain t where t: "mqtt_send_triplet_batch c sizeof a now env rs s = Return () t"
    "batch_sim c a s t (block_plan m s (ts @ rs))"
    using send_batches[OF assms(2) _ assms(4-6), of rs 0] assms(3) by auto
  let ?bs = "blocks (myAgentMqttNumberOfPublishingTopics s) m (myCurrentSubtopic s) (ts @ rs)"
  from t(2) obtain acts where acts: "net t = net s @ acts" "myByteBatch t = map Dict (leftover m (ts @ rs))"
    "list_all2 (publishes c (send_time_series_druid_array_id (schemas s)) (send_topic a)) ?bs acts"
    by (auto simp: batch_sim_def block_plan_def)
  have "length acts = (length ts + length rs) div m"
    using list_all2_lengthD[OF acts(3)] by (simp add: blocks_def)
  moreover have "length (action_samples c act) = m" if "act \<in> set acts" for act
  proof -
    from that acts(3) obtain b where "b \<in> set ?bs" "publishes c (send_time_series_druid_array_id (schemas s)) (send_topic a) b act"
      by (metis in_set_conv_nth list_all2_conv_all_nth)
    with publishes_samples[OF assms(1)] blocks_lengths show ?thesis by fastforce
  qed
  ultimately show ?thesis using t(1) acts(1,2) by (auto simp: list_all_iff length_leftover)
qed

text \<open>C30: Every positive mqtt_batch_size gives batches of one bounded length. Let the measured size of a
  list grow by at least 8 bytes per entry, and let no list as long as the pending batch have
  reached the configured size. Then there is a number m of samples, the first at which the
  measured size reaches the configured one, such that every publication of a call that does not
  reach the limit carries exactly m samples, their number is the number of samples divided by m,
  and fewer than m samples stay in the batch; and the list of m - 1 entries took fewer bytes
  than configured, at 8 bytes per sample (it is the list that is measured, not the samples in it).\<close>

theorem batch_length_bounded:
  assumes "codec_laws c rnd" and "sendable c a s" and "no_stop a (length rs) s"
    and "\<forall>k. 8 * k \<le> sizeof k" and "myByteBatch s = map Dict ts"
    and "list_all (\<lambda>k. int (sizeof k) < byteBatchSize a) [1..<Suc (length ts)]"
  shows "\<exists>m t acts. mqtt_send_triplet_batch c sizeof a now env rs s = Return () t \<and> net t = net s @ acts \<and>
    byteBatchSize a \<le> int (sizeof m) \<and> list_all (\<lambda>k. int (sizeof k) < byteBatchSize a) [1..<m] \<and>
    8 * (int m - 1) < byteBatchSize a \<and>
    list_all (\<lambda>act. length (action_samples c act) = m) acts \<and> length acts = (length ts + length rs) div m \<and>
    length (myByteBatch t) < m"
proof -
  have "list_sizer sizeof" using assms(4) by (simp add: list_sizer_def)
  moreover have "0 < byteBatchSize a" using assms(2) by (simp add: sendable_def)
  ultimately obtain m where m: "is_batch_len (batch_full sizeof a) m" "8 * (int m - 1) < byteBatchSize a"
    using list_sizer.batch_len_exists by blast
  then have size: "byteBatchSize a \<le> int (sizeof m)" "list_all (\<lambda>k. int (sizeof k) < byteBatchSize a) [1..<m]" "0 < m"
    by (auto simp: is_batch_len_def batch_full_def list_all_iff)
  have short: "length ts < m"
  proof (rule ccontr)
    assume "\<not> length ts < m"
    with size(3) have "m \<in> set [1..<Suc (length ts)]" by auto
    with assms(6) size(1) show False by (auto simp: list_all_iff)
  qed
  from sent_batches[OF assms(1-3) m(1) assms(5) short, of now env] size m(2) show ?thesis
    by (metis mod_less_divisor)
qed

theorem batch_length_bounded_witness:
  "\<exists>m t acts. mqtt_send_triplet_batch tag_codec cpython_getsizeof (demo_args 100 (LimitInt (-1))) 1 demo_env
      (demo_samples 12) (demo_agent 2 1) = Return () t \<and> net t = acts \<and>
    100 \<le> int (cpython_getsizeof m) \<and> 8 * (int m - 1) < 100 \<and>
    length acts = 12 div m \<and> length (myByteBatch t) < m"
proof -
  have "\<forall>k. 8 * k \<le> cpython_getsizeof k" using cpython.slot by blast
  moreover have "length (demo_samples 12) = 12" by (simp add: demo_samples_def)
  ultimately show ?thesis
    using batch_length_bounded[where s = "demo_agent 2 1" and rs = "demo_samples 12" and ts = "[]" and sizeof = cpython_getsizeof
      and now = 1 and env = demo_env, OF tag_codec_laws demo_sendable demo_no_stop, of 100]
    by (auto simp: demo_agent_def demo_args_def)
qed

lemma batch_len_512: "byteBatchSize a = 512 \<Longrightarrow> is_batch_len (batch_full cpython_getsizeof a) 47"
proof -
  have "is_batch_len (\<lambda>k. (512::int) \<le> int (cpython_getsizeof k)) 47" by code_simp
  then show "byteBatchSize a = 512 \<Longrightarrow> is_batch_len (batch_full cpython_getsizeof a) 47"
    by (simp add: batch_full_def[abs_def])
qed

text \<open>C31: With the batch size of the shipped configuration files (512), every batch the agent publishes
  carries exactly 47 samples, the number the gateway expects of a batch, and the number of batches
  is the number of samples divided by 47.\<close>

theorem configured_batches_have_47_samples:
  assumes "codec_laws c rnd" and "sendable c a s" and "no_stop a (length rs) s"
    and "byteBatchSize a = 512" and "myByteBatch s = map Dict ts" and "length ts < 47"
  shows "\<exists>t acts. mqtt_send_triplet_batch c cpython_getsizeof a now env rs s = Return () t \<and>
    net t = net s @ acts \<and> length acts = (length ts + length rs) div 47 \<and>
    map (\<lambda>act. length (action_samples c act)) acts = replicate (length acts) 47"
  using sent_batches[OF assms(1-3) batch_len_512[OF assms(4)] assms(5,6), of now env]
  by (auto simp: list_all_iff map_replicate_const[symmetric] intro!: map_cong)

theorem configured_batches_have_47_samples_witness:
  "\<exists>t acts. mqtt_send_triplet_batch tag_codec cpython_getsizeof (demo_args 512 (LimitInt (-1))) 1 demo_env
      (demo_samples 100) (demo_agent 2 1) = Return () t \<and> net t = acts \<and> length acts = 2 \<and>
    map (\<lambda>act. length (action_samples tag_codec act)) acts = [47, 47]"
proof -
  have "length (demo_samples 100) = 100" by (simp add: demo_samples_def)
  then show ?thesis
    using configured_batches_have_47_samples[where s = "demo_agent 2 1" and rs = "demo_samples 100" and ts = "[]"
      and now = 1 and env = demo_env, OF tag_codec_laws demo_sendable demo_no_stop, of 512]
    by (auto simp: demo_agent_def demo_args_def numeral_2_eq_2)
qed

section \<open>Unbatched mode\<close>






end
