(* ===== verification/Agent_Handler.thy ===== *)
theory Agent_Handler
  imports Registration
begin

text \<open>
  The MQTT callback \<open>mqtt_on_message\<close> of the two agents (src/simulator/IBswitchSimulator.py
  and src/redfish/RedfishAgent.py): the responses to the agent registration, to the device
  registration and to the deregistration. The two methods are translated separately; the
  contract they share is the locale \<open>agent_handler\<close>, interpreted on both.
\<close>

record 'b message =
  msg_topic :: string
  msg_payload :: 'b

section \<open>Topics\<close>

definition registration_topic :: "string \<Rightarrow> string \<Rightarrow> string" where
  "registration_topic uid kind = ''agent-registration/'' @ uid @ ''/'' @ kind"

definition deregistration_topic :: "uuid \<Rightarrow> string \<Rightarrow> string" where
  "deregistration_topic u kind = ''agent-deregistration/'' @ str_uuid u @ ''/'' @ kind"

definition device_topic :: "uuid \<Rightarrow> string \<Rightarrow> string" where
  "device_topic u kind = ''device-registration/'' @ str_uuid u @ ''/'' @ kind"

section \<open>The callback of the simulator\<close>

text \<open>The registration branch after the payload is decoded; the flag is set before
  \<open>data["uuid"]\<close> is read for the attribute.\<close>

definition simulator_registered ::
  "'b avro \<Rightarrow> ('b, 'z) agent_scheme \<Rightarrow> (('b, 'z) agent_scheme, unit) outcome" where
  "simulator_registered data s =
     (let s = s\<lparr>myMQTTregistered := True\<rparr> in
      or_raise (get_uuid data) s (\<lambda>u.
      let s = s\<lparr>myAgent_uuid := u\<rparr>;
          s = s\<lparr>myAgent_deregistration_request_topic := Some [(deregistration_topic u ''request'', 2)]\<rparr>;
          s = s\<lparr>myDevice_registration_request_topic := Some (device_topic u ''request'')\<rparr>;
          device_response = (device_topic u ''response'', 2);
          s = s\<lparr>myDevice_registration_response_topic := Some [device_response]\<rparr>;
          dereg_response = (deregistration_topic u ''response'', 2);
          s = s\<lparr>myAgent_deregistration_response_topic := Some [dereg_response]\<rparr>;
          s = s\<lparr>myAgent_registration_response_topic := myAgent_registration_response_topic s @ [device_response]\<rparr>;
          s = s\<lparr>myAgent_registration_response_topic := myAgent_registration_response_topic s @ [dereg_response]\<rparr>
      in Return () s))"

definition simulator_on_message ::
  "'b codec \<Rightarrow> 'b message \<Rightarrow> ('b, 'z) agent_scheme \<Rightarrow> (('b, 'z) agent_scheme, unit) outcome" where
  "simulator_on_message c message s =
     or_raise (py_index (myAgent_registration_response_topic s) 0) s (\<lambda>registration_response.
     if msg_topic message = fst registration_response then
       or_raise (decode c (msg_payload message)) s (\<lambda>data.
       or_raise (if myAgent_debug s then get_uuid data else Inr MinusOne) s (\<lambda>_.
       simulator_registered data s))
     else case myDevice_registration_response_topic s of None \<Rightarrow> Raise TypeError s | Some device_responses \<Rightarrow>
     or_raise (py_index device_responses 0) s (\<lambda>device_response.
     if msg_topic message = fst device_response then
       or_raise (decode c (msg_payload message)) s (\<lambda>data.
       or_raise (get_uuid data) s (\<lambda>u.
       and_then
         (if u = myAgent_uuid s
          then or_raise (get_deviceUuids data) s (\<lambda>m. Return () (s\<lparr>myDeviceSensorUUIDsMap := m\<rparr>))
          else Return () s) (\<lambda>_ s.
       Return () (s\<lparr>myDeviceRegistered := True\<rparr>))))
     else case myAgent_deregistration_response_topic s of None \<Rightarrow> Raise AttributeError s | Some dereg_responses \<Rightarrow>
     or_raise (py_index dereg_responses 0) s (\<lambda>dereg_response.
     if msg_topic message = fst dereg_response then
       let s = s\<lparr>myMQTTderegistered := True\<rparr> in
       or_raise (decode c (msg_payload message)) s (\<lambda>_. Return () s)
     else Return () (print_line (UnknownTopicLine (msg_topic message)) s))))"

section \<open>The callback of the Redfish agent\<close>

definition redfish_registered ::
  "'b avro \<Rightarrow> ('b, 'z) agent_scheme \<Rightarrow> (('b, 'z) agent_scheme, unit) outcome" where
  "redfish_registered data s =
     (let s = s\<lparr>myMQTTregistered := True\<rparr> in
      or_raise (get_uuid data) s (\<lambda>u.
      let s = s\<lparr>myAgent_uuid := u\<rparr>;
          s = s\<lparr>myAgent_deregistration_request_topic := Some [(deregistration_topic u ''request'', 2)]\<rparr>;
          s = s\<lparr>myDevice_registration_request_topic := Some (device_topic u ''request'')\<rparr>;
          device_response = (device_topic u ''response'', 2);
          s = s\<lparr>myDevice_registration_response_topic := Some [device_response]\<rparr>;
          dereg_response = (deregistration_topic u ''response'', 2);
          s = s\<lparr>myAgent_deregistration_response_topic := Some [dereg_response]\<rparr>
      in Return () (s\<lparr>myAgent_registration_response_topic :=
           myAgent_registration_response_topic s @ [device_response] @ [dereg_response]\<rparr>)))"

definition redfish_on_message ::
  "'b codec \<Rightarrow> 'b message \<Rightarrow> ('b, 'z) agent_scheme \<Rightarrow> (('b, 'z) agent_scheme, unit) outcome" where
  "redfish_on_message c message s =
     or_raise (py_index (myAgent_registration_response_topic s) 0) s (\<lambda>registration_response.
     if msg_topic message = fst registration_response then
       or_raise (decode c (msg_payload message)) s (\<lambda>data.
       or_raise (if myAgent_debug s then get_uuid data else Inr MinusOne) s (\<lambda>_.
       redfish_registered data s))
     else case myDevice_registration_response_topic s of None \<Rightarrow> Raise TypeError s | Some device_responses \<Rightarrow>
     or_raise (py_index device_responses 0) s (\<lambda>device_response.
     if msg_topic message = fst device_response then
       or_raise (decode c (msg_payload message)) s (\<lambda>data.
       or_raise (get_uuid data) s (\<lambda>u.
       if u = myAgent_uuid s
       then or_raise (get_deviceUuids data) s (\<lambda>m.
              Return () (s\<lparr>myDeviceSensorUUIDsMap := m, myDeviceRegistered := True\<rparr>))
       else Return () (s\<lparr>myDeviceRegistered := True\<rparr>)))
     else case myAgent_deregistration_response_topic s of None \<Rightarrow> Raise AttributeError s | Some dereg_responses \<Rightarrow>
     or_raise (py_index dereg_responses 0) s (\<lambda>dereg_response.
     if msg_topic message = fst dereg_response then
       let s = s\<lparr>myMQTTderegistered := True\<rparr> in
       or_raise (decode c (msg_payload message)) s (\<lambda>_. Return () s)
     else Return () (print_line (UnknownTopicLine (msg_topic message)) s))))"

section \<open>The contract of a callback\<close>

text \<open>What a registration response with UUID \<open>u\<close> makes of the object.\<close>

definition registered_as :: "uuid \<Rightarrow> ('b, 'z) agent_scheme \<Rightarrow> ('b, 'z) agent_scheme" where
  "registered_as u s = s\<lparr>
     myMQTTregistered := True, myAgent_uuid := u,
     myAgent_deregistration_request_topic := Some [(deregistration_topic u ''request'', 2)],
     myDevice_registration_request_topic := Some (device_topic u ''request''),
     myDevice_registration_response_topic := Some [(device_topic u ''response'', 2)],
     myAgent_deregistration_response_topic := Some [(deregistration_topic u ''response'', 2)],
     myAgent_registration_response_topic := myAgent_registration_response_topic s @
       [(device_topic u ''response'', 2), (deregistration_topic u ''response'', 2)]\<rparr>"

text \<open>
  The topic attributes are consistent: all absent until a registration response arrived; then
  those of the agent's UUID, and the list the client re-subscribes to holds them.
\<close>

definition topics_of :: "uuid \<Rightarrow> ('b, 'z) agent_scheme \<Rightarrow> bool" where
  "topics_of u s \<longleftrightarrow>
     myAgent_deregistration_request_topic s = Some [(deregistration_topic u ''request'', 2)] \<and>
     myDevice_registration_request_topic s = Some (device_topic u ''request'') \<and>
     myDevice_registration_response_topic s = Some [(device_topic u ''response'', 2)] \<and>
     myAgent_deregistration_response_topic s = Some [(deregistration_topic u ''response'', 2)] \<and>
     {(device_topic u ''response'', 2), (deregistration_topic u ''response'', 2)}
       \<subseteq> set (myAgent_registration_response_topic s)"

definition no_topics :: "('b, 'z) agent_scheme \<Rightarrow> bool" where
  "no_topics s \<longleftrightarrow>
     myAgent_deregistration_request_topic s = None \<and> myDevice_registration_request_topic s = None \<and>
     myDevice_registration_response_topic s = None \<and> myAgent_deregistration_response_topic s = None"

definition agent_inv :: "('b, 'z) agent_scheme \<Rightarrow> bool" where
  "agent_inv s \<longleftrightarrow>
     (\<exists>rest. myAgent_registration_response_topic s =
        (registration_topic (myAgent_uid s) ''response'', 2) # rest) \<and>
     (no_topics s \<or> topics_of (myAgent_uuid s) s)"

text \<open>The object after a callback, whether it returned or raised.\<close>

primrec state_after :: "'s \<Rightarrow> ('s, 'a) outcome \<Rightarrow> 's" where
  "state_after s (Return a t) = t"
| "state_after s (Raise e t) = t"
| "state_after s Hang = s"

definition deliver :: "('m \<Rightarrow> 's \<Rightarrow> ('s, unit) outcome) \<Rightarrow> 'm list \<Rightarrow> 's \<Rightarrow> 's" where
  "deliver on_message msgs s = fold (\<lambda>m s. state_after s (on_message m s)) msgs s"

text \<open>
  What a callback never changes, and what it only extends: identity, schemas, client and the
  actions on the client stay, the console grows, the flags are never reset.
\<close>

definition same_agent :: "('b, 'z) agent_scheme \<Rightarrow> ('b, 'z) agent_scheme \<Rightarrow> bool" where
  "same_agent s t \<longleftrightarrow>
     myAgent_uid t = myAgent_uid s \<and> myAgent_debug t = myAgent_debug s \<and> schemas t = schemas s \<and>
     client t = client s \<and> net t = net s \<and> (\<exists>ls. console t = console s @ ls) \<and>
     (myMQTTregistered s \<longrightarrow> myMQTTregistered t) \<and> (myDeviceRegistered s \<longrightarrow> myDeviceRegistered t) \<and>
     (myMQTTderegistered s \<longrightarrow> myMQTTderegistered t)"

lemma same_agent_refl [simp]: "same_agent s s"
  by (simp add: same_agent_def)

lemma same_agent_trans [trans]: "same_agent s t \<Longrightarrow> same_agent t u \<Longrightarrow> same_agent s u"
  by (auto simp: same_agent_def)

text \<open>The messages that set the registration flag (a malformed one too, unless it is printed).\<close>

definition announces :: "'b codec \<Rightarrow> ('b, 'z) agent_scheme \<Rightarrow> 'b message \<Rightarrow> bool" where
  "announces c s m \<longleftrightarrow>
     msg_topic m = registration_topic (myAgent_uid s) ''response'' \<and>
     (\<exists>data. decode c (msg_payload m) = Inr data \<and> (myAgent_debug s \<longrightarrow> (\<exists>u. get_uuid data = Inr u)))"

lemma announces_same: "same_agent s t \<Longrightarrow> announces c t m \<longleftrightarrow> announces c s m"
  by (simp add: announces_def same_agent_def)

lemma state_after_iff: "out_all P m \<Longrightarrow> P s \<Longrightarrow> P (state_after s m)"
  by (cases m) auto

lemma deliver_simps [simp]:
  "deliver f [] s = s"
  "deliver f (m # ms) s = deliver f ms (state_after s (f m s))"
  by (simp_all add: deliver_def)

locale agent_handler =
  fixes on_message :: "'b codec \<Rightarrow> 'b message \<Rightarrow> ('b, 'z) agent_scheme \<Rightarrow> (('b, 'z) agent_scheme, unit) outcome"
  assumes registers:
      "agent_inv s \<Longrightarrow> msg_topic m = registration_topic (myAgent_uid s) ''response'' \<Longrightarrow>
       decode c (msg_payload m) = Inr data \<Longrightarrow> get_uuid data = Inr u \<Longrightarrow>
       on_message c m s = Return () (registered_as u s)"
    and keeps: "agent_inv s \<Longrightarrow> out_all (\<lambda>t. agent_inv t \<and> same_agent s t) (on_message c m s)"
    and sets_flag:
      "agent_inv s \<Longrightarrow> \<not> myMQTTregistered s \<Longrightarrow>
       myMQTTregistered (state_after s (on_message c m s)) \<longleftrightarrow> announces c s m"
begin

lemma after_keeps: "agent_inv s \<Longrightarrow> agent_inv (state_after s (on_message c m s)) \<and> same_agent s (state_after s (on_message c m s))"
  using state_after_iff[OF keeps, of s s c m] by simp

lemma deliver_keeps: "agent_inv s \<Longrightarrow> agent_inv (deliver (on_message c) ms s) \<and> same_agent s (deliver (on_message c) ms s)"
proof (induction ms arbitrary: s)
  case (Cons m ms)
  with after_keeps[OF Cons.prems, of c m] show ?case by (auto intro: same_agent_trans)
qed simp

lemma deliver_sets_flag:
  "agent_inv s \<Longrightarrow> \<not> myMQTTregistered s \<Longrightarrow>
   myMQTTregistered (deliver (on_message c) ms s) \<longleftrightarrow> (\<exists>m \<in> set ms. announces c s m)"
proof (induction ms arbitrary: s)
  case (Cons m ms)
  let ?t = "state_after s (on_message c m s)"
  note t = after_keeps[OF Cons.prems(1), of c m]
  show ?case
  proof (cases "announces c s m")
    case True
    then have "myMQTTregistered ?t" using sets_flag[OF Cons.prems] by simp
    with deliver_keeps[of ?t c ms] t True show ?thesis by (auto simp: same_agent_def)
  next
    case False
    then have "\<not> myMQTTregistered ?t" using sets_flag[OF Cons.prems] by simp
    with Cons.IH[of ?t] t False announces_same[of s ?t c] show ?thesis by simp
  qed
qed simp

lemma sleeps_set_flag:
  assumes "agent_inv s" "\<not> myMQTTregistered s"
  shows "myMQTTregistered (sleeps (\<lambda>k. deliver (on_message c) (inbox k)) n k s) \<longleftrightarrow>
    (\<exists>j<k. \<exists>m \<in> set (inbox (n + j)). announces c s m)"
  using assms
proof (induction k arbitrary: n s)
  case (Suc k)
  let ?nw = "\<lambda>k. deliver (on_message c) (inbox k)"
  let ?t = "?nw n s"
  note t = deliver_keeps[OF Suc.prems(1), of c "inbox n"]
  have thread: "network_thread ?nw (\<lambda>u. agent_inv u \<and> same_agent ?t u)"
    by unfold_locales (use deliver_keeps same_agent_trans in blast)
  show ?case
  proof (cases "\<exists>m \<in> set (inbox n). announces c s m")
    case True
    then have "myMQTTregistered ?t" using deliver_sets_flag[OF Suc.prems] by simp
    with network_thread.sleeps_keep[OF thread, of ?t "Suc n" k] t
    have "myMQTTregistered (sleeps ?nw n (Suc k) s)" by (simp add: same_agent_def)
    moreover have "\<exists>j<Suc k. \<exists>m \<in> set (inbox (n + j)). announces c s m"
      using True by (intro exI[of _ 0]) simp
    ultimately show ?thesis by simp
  next
    case False
    then have "\<not> myMQTTregistered ?t" using deliver_sets_flag[OF Suc.prems] by simp
    with Suc.IH[of ?t "Suc n"] t announces_same[of s ?t c] False show ?thesis
      by (simp add: Ex_less_Suc2)
  qed
qed simp

end

section \<open>The two agents provide the contract\<close>

lemma redfish_is_simulator: "redfish_on_message c m s = simulator_on_message c m s"
proof -
  have reg: "redfish_registered data s = simulator_registered data s" for data :: "'a avro" and s :: "('a, 'b) agent_scheme"
    by (simp add: redfish_registered_def simulator_registered_def Let_def)
  have dev: "(if u = myAgent_uuid s then or_raise r s (\<lambda>m. Return () (s\<lparr>myDeviceSensorUUIDsMap := m, myDeviceRegistered := True\<rparr>))
       else Return () (s\<lparr>myDeviceRegistered := True\<rparr>)) =
     and_then (if u = myAgent_uuid s then or_raise r s (\<lambda>m. Return () (s\<lparr>myDeviceSensorUUIDsMap := m\<rparr>)) else Return () s)
       (\<lambda>_ s. Return () (s\<lparr>myDeviceRegistered := True\<rparr>))"
    for u r and s :: "('a, 'b) agent_scheme"
    by (cases "u = myAgent_uuid s"; cases r) simp_all
  show ?thesis unfolding redfish_on_message_def simulator_on_message_def reg dev ..
qed

lemma simulator_registered_as: "get_uuid data = Inr u \<Longrightarrow> simulator_registered data s = Return () (registered_as u s)"
  by (simp add: simulator_registered_def registered_as_def Let_def)

lemma registered_as_inv: "agent_inv s \<Longrightarrow> agent_inv (registered_as u s)"
  by (auto simp: agent_inv_def registered_as_def topics_of_def)

lemma registered_as_same: "same_agent s (registered_as u s)"
  by (simp add: same_agent_def registered_as_def)

lemma agent_inv_cases:
  assumes "agent_inv s"
  obtains rest where "myAgent_registration_response_topic s = (registration_topic (myAgent_uid s) ''response'', 2) # rest"
    and "no_topics s \<or> topics_of (myAgent_uuid s) s"
  using assms unfolding agent_inv_def by blast

text \<open>The branches of the callback, by topic.\<close>

lemma simulator_registration_branch:
  assumes "agent_inv s" "msg_topic m = registration_topic (myAgent_uid s) ''response''"
  shows "simulator_on_message c m s =
    or_raise (decode c (msg_payload m)) s (\<lambda>data.
    or_raise (if myAgent_debug s then get_uuid data else Inr MinusOne) s (\<lambda>_. simulator_registered data s))"
proof -
  obtain rest where "myAgent_registration_response_topic s = (registration_topic (myAgent_uid s) ''response'', 2) # rest"
    using assms(1) by (rule agent_inv_cases)
  with assms(2) show ?thesis unfolding simulator_on_message_def py_index_def by simp
qed

lemma simulator_unregistered_branch:
  assumes "agent_inv s" "msg_topic m \<noteq> registration_topic (myAgent_uid s) ''response''" "no_topics s"
  shows "simulator_on_message c m s = Raise TypeError s"
proof -
  obtain rest where "myAgent_registration_response_topic s = (registration_topic (myAgent_uid s) ''response'', 2) # rest"
    using assms(1) by (rule agent_inv_cases)
  with assms(2,3) show ?thesis unfolding simulator_on_message_def py_index_def no_topics_def by simp
qed

lemma simulator_other_branches:
  assumes "agent_inv s" "msg_topic m \<noteq> registration_topic (myAgent_uid s) ''response''" "topics_of u s"
  shows "simulator_on_message c m s =
    (if msg_topic m = device_topic u ''response'' then
       or_raise (decode c (msg_payload m)) s (\<lambda>data.
       or_raise (get_uuid data) s (\<lambda>v.
       and_then
         (if v = myAgent_uuid s
          then or_raise (get_deviceUuids data) s (\<lambda>m. Return () (s\<lparr>myDeviceSensorUUIDsMap := m\<rparr>))
          else Return () s) (\<lambda>_ s.
       Return () (s\<lparr>myDeviceRegistered := True\<rparr>))))
     else if msg_topic m = deregistration_topic u ''response'' then
       or_raise (decode c (msg_payload m)) (s\<lparr>myMQTTderegistered := True\<rparr>) (\<lambda>_. Return () (s\<lparr>myMQTTderegistered := True\<rparr>))
     else Return () (print_line (UnknownTopicLine (msg_topic m)) s))"
proof -
  obtain rest where "myAgent_registration_response_topic s = (registration_topic (myAgent_uid s) ''response'', 2) # rest"
    using assms(1) by (rule agent_inv_cases)
  with assms(2,3) show ?thesis unfolding simulator_on_message_def py_index_def topics_of_def Let_def by simp
qed

lemma simulator_registers:
  assumes "agent_inv s" "msg_topic m = registration_topic (myAgent_uid s) ''response''"
    "decode c (msg_payload m) = Inr data" "get_uuid data = Inr u"
  shows "simulator_on_message c m s = Return () (registered_as u s)"
  using assms(3,4) by (simp add: simulator_registration_branch[OF assms(1,2)] simulator_registered_as)

lemma simulator_registered_keeps:
  assumes "agent_inv s"
  shows "out_all (\<lambda>t. agent_inv t \<and> same_agent s t) (simulator_registered data s)"
proof (cases "get_uuid data")
  case (Inr u)
  then show ?thesis
    using registered_as_inv[OF assms] registered_as_same[of s] by (simp add: simulator_registered_as)
next
  case (Inl e)
  then show ?thesis using assms
    by (simp add: simulator_registered_def Let_def agent_inv_def no_topics_def topics_of_def same_agent_def)
qed

lemma simulator_keeps:
  assumes inv: "agent_inv s"
  shows "out_all (\<lambda>t. agent_inv t \<and> same_agent s t) (simulator_on_message c m s)"
proof (cases "msg_topic m = registration_topic (myAgent_uid s) ''response''")
  case True
  show ?thesis unfolding simulator_registration_branch[OF inv True]
    by (intro out_all_or_raise simulator_registered_keeps) (use inv in simp_all)
next
  case False
  have upd: "agent_inv (s\<lparr>myDeviceSensorUUIDsMap := d, myDeviceRegistered := True\<rparr>)" "agent_inv (s\<lparr>myDeviceRegistered := True\<rparr>)"
    "agent_inv (s\<lparr>myDeviceSensorUUIDsMap := d\<rparr>)"
    "agent_inv (s\<lparr>myMQTTderegistered := True\<rparr>)" "agent_inv (print_line l s)" for d l
    using inv by (simp_all add: agent_inv_def no_topics_def topics_of_def print_line_def)
  from inv show ?thesis
  proof (cases rule: agent_inv_cases)
    case (1 rest)
    from 1(2) show ?thesis
    proof
      assume "no_topics s"
      then show ?thesis using inv by (simp add: simulator_unregistered_branch[OF inv False])
    next
      assume topics: "topics_of (myAgent_uuid s) s"
      show ?thesis unfolding simulator_other_branches[OF inv False topics]
        using inv upd by (auto simp: same_agent_def print_line_def or_raise_def split: sum.splits)
    qed
  qed
qed

lemma simulator_sets_flag:
  assumes inv: "agent_inv s" and "\<not> myMQTTregistered s"
  shows "myMQTTregistered (state_after s (simulator_on_message c m s)) \<longleftrightarrow> announces c s m"
proof (cases "msg_topic m = registration_topic (myAgent_uid s) ''response''")
  case True
  have "myMQTTregistered (state_after s (simulator_registered data s))" for data
    by (cases "get_uuid data") (simp_all add: simulator_registered_def Let_def)
  with True assms(2) show ?thesis unfolding simulator_registration_branch[OF inv True] announces_def
    by (cases "decode c (msg_payload m)"; cases "get_uuid (projr (decode c (msg_payload m)))") auto
next
  case False
  from inv show ?thesis
  proof (cases rule: agent_inv_cases)
    case (1 rest)
    from 1(2) show ?thesis
    proof
      assume "no_topics s"
      with False assms(2) show ?thesis by (simp add: simulator_unregistered_branch[OF inv False] announces_def)
    next
      assume topics: "topics_of (myAgent_uuid s) s"
      show ?thesis unfolding simulator_other_branches[OF inv False topics] announces_def
        using False assms(2) by (auto simp: print_line_def or_raise_def split: sum.splits)
    qed
  qed
qed

interpretation simulator: agent_handler simulator_on_message
  by unfold_locales (fact simulator_registers simulator_keeps simulator_sets_flag)+

interpretation redfish: agent_handler redfish_on_message
  unfolding redfish_is_simulator[abs_def]
  by unfold_locales (fact simulator_registers simulator_keeps simulator_sets_flag)+

text \<open>The network thread that delivers an inbox to one of the agents keeps the invariant.\<close>

interpretation simulator_thread: network_thread
  "\<lambda>k. deliver (simulator_on_message c) (inbox k)" "\<lambda>t. agent_inv t \<and> same_agent s t" for c inbox s
  by unfold_locales (use simulator.deliver_keeps same_agent_trans in blast)

interpretation redfish_thread: network_thread
  "\<lambda>k. deliver (redfish_on_message c) (inbox k)" "\<lambda>t. agent_inv t \<and> same_agent s t" for c inbox s
  by unfold_locales (use redfish.deliver_keeps same_agent_trans in blast)

end
