(* ===== verification/Agent_Session.thy ===== *)
theory Agent_Session
  imports Agent_Handler
begin

text \<open>
  The life of an agent's MQTT session: what the constructors set up, the steps of the network
  thread as a transition relation, the abstract protocol the callback implements, and the
  properties of registration, reconnection and shutdown.
\<close>

section \<open>Constructor and steps\<close>

text \<open>
  The MQTT attributes the constructors of both agents assign (and the class attributes they
  rely on); the topics that depend on the framework's UUID do not exist yet.
\<close>

definition agent_topics_init :: "string \<Rightarrow> ('b, 'z) agent_scheme \<Rightarrow> ('b, 'z) agent_scheme" where
  "agent_topics_init uid s = s\<lparr>
     myMQTTregistered := False, myMQTTderegistered := False,
     myAgent_uid := uid, myAgent_uuid := MinusOne, myDeviceSensorUUIDsMap := Map.empty,
     myAgent_registration_request_topic := [(registration_topic uid ''request'', 2)],
     myAgent_registration_response_topic := [(registration_topic uid ''response'', 2)],
     myDevice_registration_response_topic := None,
     myAgent_deregistration_request_topic := None, myDevice_registration_request_topic := None,
     myAgent_deregistration_response_topic := None\<rparr>"

text \<open>The batch size and the registration record, in both constructors.\<close>

definition read_batch_size :: "config \<Rightarrow> bool \<Rightarrow> exn + int" where
  "read_batch_size cfg batching =
     (if batching
      then res_then (config_get cfg ''MQTT'' ''mqtt_batch_size'') (\<lambda>size. if size = [] then Inr 0 else py_int size)
      else Inr 0)"

definition registration_data :: "string \<Rightarrow> string \<Rightarrow> string \<Rightarrow> reg_data" where
  "registration_data uid name type =
     \<lparr>reg_uid = uid, reg_type = type, reg_name = name, reg_description = ''This is a fine description'',
      reg_useSensorTemplate = False\<rparr>"

text \<open>A message is delivered (the callback may raise), the client reconnects, or notifies of something else.\<close>

inductive agent_step ::
  "('b message \<Rightarrow> ('b, 'z) agent_scheme \<Rightarrow> (('b, 'z) agent_scheme, unit) outcome) \<Rightarrow>
   ('b, 'z) agent_scheme \<Rightarrow> ('b, 'z) agent_scheme \<Rightarrow> bool"
  for on_message where
  handled: "on_message m s = Return () t \<Longrightarrow> agent_step on_message s t"
| raised: "on_message m s = Raise e t \<Longrightarrow> agent_step on_message s t"
| reconnected: "mqtt_on_connect (myAgent_registration_response_topic s) s = Return () t \<Longrightarrow> agent_step on_message s t"
| notified: "agent_step on_message s (notify n s)"

lemma topics_init_inv: "agent_inv (agent_topics_init uid s)"
  by (simp add: agent_inv_def agent_topics_init_def no_topics_def)

lemma agent_inv_net: "agent_inv (s\<lparr>net := acts\<rparr>) = agent_inv s"
  by (simp add: agent_inv_def no_topics_def topics_of_def)

context agent_handler
begin

lemma step_keeps:
  assumes "agent_step (on_message c) s t" "agent_inv s"
  shows "agent_inv t \<and> myAgent_uid t = myAgent_uid s"
  using assms(1)
proof (cases rule: agent_step.cases)
  case (handled m)
  with keeps[OF assms(2), of c m] show ?thesis by (simp add: same_agent_def)
next
  case (raised m e)
  with keeps[OF assms(2), of c m] show ?thesis by (simp add: same_agent_def)
next
  case reconnected
  with assms(2) show ?thesis by (auto simp: mqtt_on_connect_def client_call_Return_iff agent_inv_net)
next
  case (notified n)
  with assms(2) show ?thesis by (simp add: notify_console agent_inv_def no_topics_def topics_of_def)
qed

lemma reachable_inv:
  "(agent_step (on_message c))\<^sup>*\<^sup>* s t \<Longrightarrow> agent_inv s \<Longrightarrow> agent_inv t \<and> myAgent_uid t = myAgent_uid s"
  by (induction rule: rtranclp_induct) (auto dest: step_keeps)

lemma reachable_from_init:
  "(agent_step (on_message c))\<^sup>*\<^sup>* (agent_topics_init uid s) t \<Longrightarrow> agent_inv t \<and> myAgent_uid t = uid"
  using reachable_inv[OF _ topics_init_inv] by (fastforce simp: agent_topics_init_def)

end

section \<open>The abstract protocol\<close>

text \<open>
  What the framework and an agent agree on: whether the agent joined, under which UUID, the
  UUIDs of its devices, whether it left. \<open>event_of\<close> reads a message as an event of the protocol
  from the agent's name and UUID alone; the code reads it from the topic lists it keeps.
\<close>

datatype event = Registered uuid | MalformedRegistration | Devices uuid device_uuids | Deregistered | Nothing

record protocol =
  joined :: bool
  peer :: "uuid option"
  known_devices :: device_uuids
  devices_done :: bool
  parted :: bool

fun protocol_step :: "event \<Rightarrow> protocol \<Rightarrow> protocol" where
  "protocol_step (Registered u) p = p\<lparr>joined := True, peer := Some u\<rparr>"
| "protocol_step MalformedRegistration p = p\<lparr>joined := True\<rparr>"
| "protocol_step (Devices u m) p =
     p\<lparr>devices_done := True, known_devices := (if peer p = Some u then m else known_devices p)\<rparr>"
| "protocol_step Deregistered p = p\<lparr>parted := True\<rparr>"
| "protocol_step Nothing p = p"

definition event_of :: "'b codec \<Rightarrow> string \<Rightarrow> bool \<Rightarrow> uuid option \<Rightarrow> 'b message \<Rightarrow> event" where
  "event_of c uid debug who m =
     (if msg_topic m = registration_topic uid ''response'' then
        (case decode c (msg_payload m) of Inl _ \<Rightarrow> Nothing | Inr data \<Rightarrow>
           (case get_uuid data of Inl _ \<Rightarrow> if debug then Nothing else MalformedRegistration | Inr u \<Rightarrow> Registered u))
      else (case who of None \<Rightarrow> Nothing | Some u \<Rightarrow>
        if msg_topic m = device_topic u ''response'' then
          (case decode c (msg_payload m) of Inr (DeviceListResponse v d) \<Rightarrow> Devices v d
           | Inr data \<Rightarrow> (case get_uuid data of Inr v \<Rightarrow> if v = u then Nothing else Devices v Map.empty | Inl _ \<Rightarrow> Nothing)
           | Inl _ \<Rightarrow> Nothing)
        else if msg_topic m = deregistration_topic u ''response'' then Deregistered else Nothing))"

definition protocol_of :: "('b, 'z) agent_scheme \<Rightarrow> protocol" where
  "protocol_of s = \<lparr>joined = myMQTTregistered s,
     peer = (if myDevice_registration_response_topic s = None then None else Some (myAgent_uuid s)),
     known_devices = myDeviceSensorUUIDsMap s, devices_done = myDeviceRegistered s,
     parted = myMQTTderegistered s\<rparr>"

definition protocol_run :: "'b codec \<Rightarrow> string \<Rightarrow> bool \<Rightarrow> 'b message list \<Rightarrow> protocol \<Rightarrow> protocol" where
  "protocol_run c uid debug ms p = fold (\<lambda>m p. protocol_step (event_of c uid debug (peer p) m) p) ms p"

lemma registration_step:
  assumes inv: "agent_inv s" and topic: "msg_topic m = registration_topic (myAgent_uid s) ''response''"
  shows "protocol_of (state_after s (simulator_on_message c m s)) =
    protocol_step (event_of c (myAgent_uid s) (myAgent_debug s) who m) (protocol_of s)"
proof (cases "decode c (msg_payload m)")
  case (Inr data)
  then show ?thesis using topic
    by (cases "get_uuid data") (simp_all add: simulator_registration_branch[OF inv topic] event_of_def
      simulator_registered_as simulator_registered_def Let_def protocol_of_def registered_as_def)
qed (use topic in \<open>simp add: simulator_registration_branch[OF inv topic] event_of_def\<close>)

lemma other_step:
  assumes inv: "agent_inv s" and topic: "msg_topic m \<noteq> registration_topic (myAgent_uid s) ''response''"
    and topics: "topics_of (myAgent_uuid s) s"
  shows "protocol_of (state_after s (simulator_on_message c m s)) =
    protocol_step (event_of c (myAgent_uid s) (myAgent_debug s) (Some (myAgent_uuid s)) m) (protocol_of s)"
proof -
  have peer: "myDevice_registration_response_topic s \<noteq> None" using topics by (simp add: topics_of_def)
  show ?thesis
  proof (cases "msg_topic m = device_topic (myAgent_uuid s) ''response''")
    case True
    with topic have "simulator_on_message c m s =
       or_raise (decode c (msg_payload m)) s (\<lambda>data.
       or_raise (get_uuid data) s (\<lambda>v.
       and_then
         (if v = myAgent_uuid s
          then or_raise (get_deviceUuids data) s (\<lambda>m. Return () (s\<lparr>myDeviceSensorUUIDsMap := m\<rparr>))
          else Return () s) (\<lambda>_ s.
       Return () (s\<lparr>myDeviceRegistered := True\<rparr>))))"
      by (simp add: simulator_other_branches[OF inv topic topics])
    with topic True peer show ?thesis unfolding event_of_def
      by (cases "decode c (msg_payload m)"; cases "projr (decode c (msg_payload m))") (auto simp: protocol_of_def)
  next
    case False
    with topic peer show ?thesis
      by (auto simp: simulator_other_branches[OF inv topic topics] event_of_def protocol_of_def print_line_def
        or_raise_def split: sum.splits)
  qed
qed

lemma callback_step:
  assumes inv: "agent_inv s"
  shows "protocol_of (state_after s (simulator_on_message c m s)) =
    protocol_step (event_of c (myAgent_uid s) (myAgent_debug s) (peer (protocol_of s)) m) (protocol_of s)"
proof (cases "msg_topic m = registration_topic (myAgent_uid s) ''response''")
  case True
  then show ?thesis by (rule registration_step[OF inv])
next
  case False
  show ?thesis
  proof (cases "no_topics s")
    case True
    then show ?thesis using False
      by (simp add: simulator_unregistered_branch[OF inv False] event_of_def protocol_of_def no_topics_def)
  next
    case no: False
    with inv have topics: "topics_of (myAgent_uuid s) s" by (auto simp: agent_inv_def)
    then have "peer (protocol_of s) = Some (myAgent_uuid s)" by (simp add: topics_of_def protocol_of_def)
    with other_step[OF inv False topics] show ?thesis by simp
  qed
qed

lemma deliver_refines:
  "agent_inv s \<Longrightarrow> protocol_of (deliver (simulator_on_message c) ms s) =
   protocol_run c (myAgent_uid s) (myAgent_debug s) ms (protocol_of s)"
proof (induction ms arbitrary: s)
  case Nil
  then show ?case by (simp add: protocol_run_def)
next
  case (Cons m ms)
  with Cons.IH[of "state_after s (simulator_on_message c m s)"] simulator.after_keeps[OF Cons.prems, of c m]
  show ?case by (simp add: protocol_run_def callback_step same_agent_def)
qed

section \<open>Callbacks as the network thread\<close>

lemma simulator_same_agent: "out_all (same_agent s) (simulator_on_message c m s)"
proof -
  have reg: "out_all (same_agent s) (simulator_registered data s)" for data
    by (cases "get_uuid data") (simp_all add: simulator_registered_def Let_def same_agent_def)
  have dev: "out_all (same_agent s) (and_then
         (if v = myAgent_uuid s
          then or_raise (get_deviceUuids data) s (\<lambda>m. Return () (s\<lparr>myDeviceSensorUUIDsMap := m\<rparr>))
          else Return () s) (\<lambda>_ s. Return () (s\<lparr>myDeviceRegistered := True\<rparr>)))" for v data
    by (cases "get_deviceUuids data") (simp_all add: same_agent_def)
  show ?thesis
    unfolding simulator_on_message_def Let_def print_line_def
    by (intro out_all_or_raise) 
      (auto intro!: out_all_or_raise reg dev simp: same_agent_def[of s "s\<lparr>myMQTTderegistered := True\<rparr>"]
        same_agent_def[of s "s\<lparr>console := ls\<rparr>" for ls] split: option.splits)
qed

lemma deliver_same_agent: "same_agent s (deliver (simulator_on_message c) ms s)"
proof (induction ms arbitrary: s)
  case (Cons m ms)
  have "same_agent s (state_after s (simulator_on_message c m s))"
    using state_after_iff[OF simulator_same_agent[of s c m], of s] by simp
  with Cons show ?case by (auto intro: same_agent_trans)
qed simp

lemma callbacks_quiet:
  "network env = (\<lambda>k. deliver (simulator_on_message c) (inbox k)) \<Longrightarrow> quiet_thread env"
  using deliver_same_agent by (auto simp: quiet_thread_def same_agent_def)

section \<open>An agent that stays registered\<close>

text \<open>Registered as \<open>u\<close>; without another registration response it stays so, and a deregistration
  response sets the flag for good.\<close>

definition settled :: "string \<Rightarrow> uuid \<Rightarrow> ('b, 'z) agent_scheme \<Rightarrow> bool" where
  "settled uid u s \<longleftrightarrow> agent_inv s \<and> topics_of u s \<and> myAgent_uuid s = u \<and> myAgent_uid s = uid"

definition says_goodbye :: "uuid \<Rightarrow> 'b message \<Rightarrow> bool" where
  "says_goodbye u m \<longleftrightarrow> msg_topic m = deregistration_topic u ''response''"

lemma device_not_deregistration [simp]: "deregistration_topic u k \<noteq> device_topic v l"
  by (simp add: deregistration_topic_def device_topic_def)

lemma settled_step:
  assumes settled: "settled uid u s" and topic: "msg_topic m \<noteq> registration_topic uid ''response''"
  shows "settled uid u (state_after s (simulator_on_message c m s)) \<and>
    (says_goodbye u m \<longrightarrow> myMQTTderegistered (state_after s (simulator_on_message c m s)))"
proof -
  from settled have s: "agent_inv s" "topics_of u s" "myAgent_uuid s = u" "myAgent_uid s = uid"
    by (simp_all add: settled_def)
  note branches = simulator_other_branches[OF s(1) _ s(2), unfolded s(4), OF topic, of c]
  have "topics_of u (state_after s (simulator_on_message c m s))"
    "myAgent_uuid (state_after s (simulator_on_message c m s)) = u"
    unfolding branches using s(2,3)
    by (auto simp: or_raise_def topics_of_def print_line_def split: sum.splits)
  moreover have "says_goodbye u m \<longrightarrow> myMQTTderegistered (state_after s (simulator_on_message c m s))"
    unfolding branches by (auto simp: or_raise_def says_goodbye_def split: sum.splits)
  ultimately show ?thesis
    using simulator.after_keeps[OF s(1), of c m] s(4) by (simp add: settled_def same_agent_def)
qed

lemma settled_deliver:
  "settled uid u s \<Longrightarrow> \<forall>m \<in> set ms. msg_topic m \<noteq> registration_topic uid ''response'' \<Longrightarrow>
   settled uid u (deliver (simulator_on_message c) ms s) \<and>
   (Bex (set ms) (says_goodbye u) \<longrightarrow> myMQTTderegistered (deliver (simulator_on_message c) ms s))"
proof (induction ms arbitrary: s)
  case (Cons m ms)
  let ?t = "state_after s (simulator_on_message c m s)"
  have t: "settled uid u ?t" "says_goodbye u m \<longrightarrow> myMQTTderegistered ?t"
    using settled_step[OF Cons.prems(1), of m c] Cons.prems(2) by simp_all
  with Cons.IH[OF t(1)] Cons.prems(2) deliver_same_agent[of ?t c ms] show ?case
    by (auto simp: same_agent_def)
qed simp

lemma settled_sleeps:
  assumes "settled uid u s" and "\<forall>k. \<forall>m \<in> set (inbox k). msg_topic m \<noteq> registration_topic uid ''response''"
  shows "settled uid u (sleeps (\<lambda>k. deliver (simulator_on_message c) (inbox k)) n k s) \<and>
    ((\<exists>j<k. Bex (set (inbox (n + j))) (says_goodbye u)) \<longrightarrow>
      myMQTTderegistered (sleeps (\<lambda>k. deliver (simulator_on_message c) (inbox k)) n k s))"
  using assms(1)
proof (induction k arbitrary: n s)
  case (Suc k)
  let ?nw = "\<lambda>k. deliver (simulator_on_message c) (inbox k)"
  have t: "settled uid u (?nw n s)" "Bex (set (inbox n)) (says_goodbye u) \<longrightarrow> myMQTTderegistered (?nw n s)"
    using settled_deliver[OF Suc.prems] assms(2) by simp_all
  have "network_thread ?nw (same_agent (?nw n s))"
    by unfold_locales (use deliver_same_agent same_agent_trans in blast)
  from network_thread.sleeps_keep[OF this, of "?nw n s" "Suc n" k] have
    "myMQTTderegistered (?nw n s) \<longrightarrow> myMQTTderegistered (sleeps ?nw n (Suc k) s)"
    by (simp add: same_agent_def)
  with t Suc.IH[OF t(1), of "Suc n"] show ?case by (auto simp: Ex_less_Suc2)
qed simp

lemma goodbye_answers:
  assumes "settled uid u s" and env: "network env = (\<lambda>k. deliver (simulator_on_message c) (inbox k))"
    and inbox: "\<forall>k. \<forall>m \<in> set (inbox k). msg_topic m \<noteq> registration_topic uid ''response''"
    and "j < 300" "Bex (set (inbox j)) (says_goodbye u)"
  shows "answers_in_time myMQTTderegistered env s"
  unfolding answers_in_time_def
proof (intro allI impI)
  fix t :: "('a, 'b) agent_scheme" assume "session_of t = session_of s"
  with assms(1) have "settled uid u t"
    by (auto simp: settled_def session_of_def agent_inv_def no_topics_def topics_of_def)
  from settled_sleeps[OF this inbox, of c 0 300] assms(4,5)
  show "\<exists>k\<le>300. myMQTTderegistered (sleeps (network env) 0 k t)"
    unfolding env by (intro exI[of _ 300]) auto
qed

section \<open>Registered or not\<close>

text \<open>A registration response that names a UUID, as the callback reads it.\<close>

definition gives_uuid :: "'b codec \<Rightarrow> string \<Rightarrow> 'b message \<Rightarrow> bool" where
  "gives_uuid c uid m \<longleftrightarrow> msg_topic m = registration_topic uid ''response'' \<and>
     (case decode c (msg_payload m) of Inl _ \<Rightarrow> False | Inr data \<Rightarrow> \<not> isl (get_uuid data))"

lemma no_topics_step:
  assumes inv: "agent_inv s"
  shows "no_topics (state_after s (simulator_on_message c m s)) \<longleftrightarrow> no_topics s \<and> \<not> gives_uuid c (myAgent_uid s) m"
proof (cases "msg_topic m = registration_topic (myAgent_uid s) ''response''")
  case True
  show ?thesis
  proof (cases "decode c (msg_payload m)")
    case (Inl e)
    with True show ?thesis by (simp add: simulator_registration_branch[OF inv True] gives_uuid_def)
  next
    case (Inr data)
    with True show ?thesis
      by (cases "get_uuid data") (simp_all add: simulator_registration_branch[OF inv True] gives_uuid_def
        simulator_registered_as registered_as_def simulator_registered_def Let_def no_topics_def)
  qed
next
  case False
  then have other: "\<not> gives_uuid c (myAgent_uid s) m" by (simp add: gives_uuid_def)
  from inv show ?thesis
  proof (cases rule: agent_inv_cases)
    case (1 rest)
    from 1(2) show ?thesis
    proof
      assume "no_topics s"
      with other show ?thesis by (simp add: simulator_unregistered_branch[OF inv False])
    next
      assume topics: "topics_of (myAgent_uuid s) s"
      then have "\<not> no_topics (state_after s (simulator_on_message c m s))" "\<not> no_topics s"
        unfolding simulator_other_branches[OF inv False topics]
        by (auto simp: or_raise_def no_topics_def topics_of_def print_line_def split: sum.splits)
      then show ?thesis by simp
    qed
  qed
qed

lemma no_topics_deliver:
  "agent_inv s \<Longrightarrow> no_topics (deliver (simulator_on_message c) ms s) \<longleftrightarrow>
   no_topics s \<and> \<not> list_ex (gives_uuid c (myAgent_uid s)) ms"
proof (induction ms arbitrary: s)
  case (Cons m ms)
  with Cons.IH[of "state_after s (simulator_on_message c m s)"] simulator.after_keeps[OF Cons.prems, of c m]
  show ?case by (auto simp: no_topics_step same_agent_def)
qed simp

end
