(* ===== verification/Session_Props.thy ===== *)
theory Session_Props
  imports Agent_Session Demo_Agent
begin

text \<open>
  The properties of an agent's session, on the callbacks of the code as the network thread:
  which registrations succeed, what every reachable object satisfies, what a reconnection
  subscribes to, how a registered agent leaves, and that the callback implements the abstract protocol.
\<close>

section \<open>Concrete sessions\<close>

definition demo_registration :: reg_data where
  "demo_registration = \<lparr>reg_uid = ''node7'', reg_type = ''simulatorAgent'', reg_name = ''IBSwitchSimulator'',
     reg_description = ''This is a fine description'', reg_useSensorTemplate = False\<rparr>"

definition newcomer :: "wire agent" where
  "newcomer = agent_topics_init ''node7'' (demo_agent 1 0)"

definition welcome_msg :: "string \<Rightarrow> wire message" where
  "welcome_msg u = \<lparr>msg_topic = registration_topic ''node7'' ''response'',
     msg_payload = Wire 2 (RegisterResponse ''node7'' True ''ok'' (Uuid u) Map.empty)\<rparr>"

definition goodbye_msg :: "string \<Rightarrow> wire message" where
  "goodbye_msg u = \<lparr>msg_topic = deregistration_topic (Uuid u) ''response'',
     msg_payload = Wire 4 (DeregisterResponse (Uuid u) True)\<rparr>"

definition callback_env :: "(nat \<Rightarrow> wire message list) \<Rightarrow> (wire, 'z) agent_scheme net_env" where
  "callback_env inbox = \<lparr>connect_error = None, subscribe_rc = (\<lambda>_. 0), is_published = True,
     network = (\<lambda>k. deliver (simulator_on_message tag_codec) (inbox k))\<rparr>"

lemma newcomer_inv: "agent_inv newcomer"
  unfolding newcomer_def by (rule topics_init_inv)

lemma demo_topics: "topics_of (Uuid ''u1'') (demo_agent n i)"
  by (simp add: topics_of_def demo_agent_def device_topic_def deregistration_topic_def)

lemma demo_inv: "agent_inv (demo_agent n i)"
  using demo_topics by (simp add: agent_inv_def demo_agent_def registration_topic_def)

lemma newcomer_welcomed:
  "simulator_on_message tag_codec (welcome_msg ''u2'') newcomer = Return () (registered_as (Uuid ''u2'') newcomer)"
  by (rule simulator.registers[OF newcomer_inv, where data = "RegisterResponse ''node7'' True ''ok'' (Uuid ''u2'') Map.empty"])
    (simp_all add: welcome_msg_def newcomer_def agent_topics_init_def tag_codec_def)

lemma newcomer_joins:
  "(agent_step (simulator_on_message tag_codec))\<^sup>*\<^sup>* (agent_topics_init ''node7'' (demo_agent 1 0))
     (registered_as (Uuid ''u2'') newcomer)"
  unfolding newcomer_def[symmetric]
  by (rule r_into_rtranclp, rule agent_step.handled, rule newcomer_welcomed)

section \<open>Callbacks\<close>

text \<open>The callbacks of the two agents, written separately, are the same function of message and
  state: on every topic, for every payload, errors included.\<close>

theorem handlers_agree: "redfish_on_message c m s = simulator_on_message c m s"
  by (rule redfish_is_simulator)

text \<open>C7: The MQTT callback implements the abstract protocol between an agent and the framework.
  Whatever messages arrive, in whatever order, well-formed or not, the flags, the UUID and the
  device map of the agent afterwards are those the protocol reaches on the events the messages
  stand for: responses count only on the topics that belong to the agent's name and its current
  UUID, a device map is taken over only if it carries that UUID, flags are never reset.\<close>

theorem callbacks_refine_protocol:
  assumes "agent_inv s"
  shows "protocol_of (deliver (simulator_on_message c) ms s) =
    protocol_run c (myAgent_uid s) (myAgent_debug s) ms (protocol_of s)"
  by (rule deliver_refines[OF assms])

theorem callbacks_refine_protocol_witness:
  "protocol_of (deliver (simulator_on_message tag_codec) [goodbye_msg ''u2'', welcome_msg ''u2'', goodbye_msg ''u2''] newcomer) =
   \<lparr>joined = True, peer = Some (Uuid ''u2''), known_devices = Map.empty, devices_done = True, parted = True\<rparr>"
proof -
  have topics: "deregistration_topic (Uuid ''u2'') ''response'' \<noteq> registration_topic ''node7'' ''response''"
    "deregistration_topic (Uuid ''u2'') ''response'' \<noteq> device_topic (Uuid ''u2'') ''response''"
    by (simp_all add: registration_topic_def deregistration_topic_def device_topic_def)
  have start: "protocol_of newcomer = \<lparr>joined = False, peer = None, known_devices = Map.empty, devices_done = True, parted = False\<rparr>"
    "myAgent_uid newcomer = ''node7''" "myAgent_debug newcomer = False"
    by (simp_all add: newcomer_def protocol_of_def agent_topics_init_def demo_agent_def)
  show ?thesis
    unfolding callbacks_refine_protocol[OF newcomer_inv] start protocol_run_def
    using topics by (simp add: event_of_def goodbye_msg_def welcome_msg_def tag_codec_def)
qed

text \<open>C20: In every object reachable from the constructor by messages (whatever they contain, also when
  the callback raises), reconnections and the other notifications of the client, the first entry of the subscription list is the
  registration response topic of the agent, and the four topic attributes are either all absent
  or exactly the topics of the agent's current UUID, both response topics being in the
  subscription list.\<close>

theorem session_invariant:
  assumes "(agent_step (simulator_on_message c))\<^sup>*\<^sup>* (agent_topics_init uid s) t"
  shows "(\<exists>rest. myAgent_registration_response_topic t = (registration_topic uid ''response'', 2) # rest) \<and>
    (no_topics t \<or> topics_of (myAgent_uuid t) t)"
  using simulator.reachable_from_init[OF assms] by (auto simp: agent_inv_def)

theorem session_invariant_witness:
  "(\<exists>rest. myAgent_registration_response_topic (registered_as (Uuid ''u2'') newcomer) =
      (registration_topic ''node7'' ''response'', 2) # rest) \<and>
   (no_topics (registered_as (Uuid ''u2'') newcomer) \<or> topics_of (Uuid ''u2'') (registered_as (Uuid ''u2'') newcomer))"
  using session_invariant[OF newcomer_joins] by (simp add: registered_as_def)

text \<open>C23: A reconnection renews the subscriptions an agent needs. After a registration response under
  which the agent got the UUID u, and whatever happened before and since, the CONNACK callback makes
  exactly one subscribe call, with the registration, device and deregistration response topics of
  the agent's current UUID in its list.\<close>

theorem reconnection_renews_subscriptions:
  assumes reach: "(agent_step (simulator_on_message c))\<^sup>*\<^sup>* (agent_topics_init uid s) t"
    and registered: "myDevice_registration_response_topic t \<noteq> None" and connected: "client t \<noteq> None"
  shows "\<exists>topics. mqtt_on_connect (myAgent_registration_response_topic t) t =
      Return () (t\<lparr>net := net t @ [Subscribe topics]\<rparr>) \<and>
    {(registration_topic uid ''response'', 2), (device_topic (myAgent_uuid t) ''response'', 2),
     (deregistration_topic (myAgent_uuid t) ''response'', 2)} \<subseteq> set topics"
proof -
  from simulator.reachable_from_init[OF reach] registered have
    "(registration_topic uid ''response'', 2) \<in> set (myAgent_registration_response_topic t)"
    "topics_of (myAgent_uuid t) t"
    by (auto simp: agent_inv_def no_topics_def)
  with connected show ?thesis
    by (intro exI[of _ "myAgent_registration_response_topic t"])
      (auto simp: mqtt_on_connect_def client_call_def topics_of_def)
qed

theorem reconnection_renews_subscriptions_witness:
  "\<exists>topics. mqtt_on_connect (myAgent_registration_response_topic (registered_as (Uuid ''u2'') newcomer))
      (registered_as (Uuid ''u2'') newcomer) =
      Return () ((registered_as (Uuid ''u2'') newcomer)\<lparr>net := [Subscribe topics]\<rparr>) \<and>
    (device_topic (Uuid ''u2'') ''response'', 2) \<in> set topics"
  using reconnection_renews_subscriptions[OF newcomer_joins]
  by (auto simp: registered_as_def newcomer_def agent_topics_init_def)

section \<open>Registration\<close>

text \<open>C12: The exact outcome of an agent registration. The request is published once; if one of the
  messages delivered during the first 300 polls is a registration response for this agent that
  can be decoded, the call returns True, and the object satisfies the session invariant;
  otherwise the process ends with exit status 300. It never hangs.\<close>

theorem registration_outcome:
  assumes inv: "agent_inv s" and new: "\<not> myMQTTregistered s" and connected: "client s \<noteq> None"
    and enc: "encode c (agent_register_request_schema_id (schemas s)) (RegisterRequest data) = Inr raw"
    and env: "network env = (\<lambda>k. deliver (simulator_on_message c) (inbox k))"
  shows "if \<exists>k<300. \<exists>m \<in> set (inbox k). announces c s m
    then \<exists>t. mqtt_registration c topic data env s = Return True t \<and> agent_inv t \<and>
      net t = net s @ request_acts (fst topic) raw (snd topic) env
    else \<exists>t. mqtt_registration c topic data env s = Raise (SystemExit 300) t"
proof -
  define s1 where "s1 = s\<lparr>net := net s @ request_acts (fst topic) raw (snd topic) env\<rparr>"
  have s1: "agent_inv s1" "\<not> myMQTTregistered s1" using inv new by (simp_all add: s1_def agent_inv_net)
  have ann: "announces c s1 m = announces c s m" for m by (simp add: announces_def s1_def)
  have reg: "mqtt_registration c topic data env s =
      and_then (wait_flag myMQTTregistered (network env) 0 s1) (\<lambda>_ s. Return (myMQTTregistered s) s)"
    using connected enc by (auto simp: mqtt_registration_def request_and_wait_def client_call_def request_acts_def s1_def)
  have flag: "myMQTTregistered (sleeps (network env) 0 k s1) \<longleftrightarrow> (\<exists>j<k. \<exists>m \<in> set (inbox j). announces c s m)" for k
    using simulator.sleeps_set_flag[OF s1, of c inbox 0 k] by (simp add: env ann)
  show ?thesis
  proof (cases rule: wait_flag_cases[where flag = myMQTTregistered and nw = "network env" and s = s1])
    case (returns k)
    then have "\<exists>j<300. \<exists>m \<in> set (inbox j). announces c s m"
      using flag[of k] by (meson order_less_le_trans)
    moreover have "agent_inv (sleeps (network env) 0 k s1)" "net (sleeps (network env) 0 k s1) = net s1"
      using simulator_thread.sleeps_keep[of s1 s1 c inbox 0 k] s1(1) by (simp_all add: env same_agent_def)
    ultimately show ?thesis using returns(2,4) by (auto simp: reg s1_def)
  next
    case timeout
    have "\<not> myMQTTregistered (sleeps (network env) 0 300 s1)" by (rule timeout(1)) simp
    then have no: "\<not> (\<exists>k<300. \<exists>m \<in> set (inbox k). announces c s m)" using flag by blast
    with timeout(2) show ?thesis by (simp add: reg)
  qed
qed

theorem registration_outcome_witness:
  "(\<exists>t. mqtt_registration tag_codec (''agent-registration/node7/request'', 2) demo_registration
      (callback_env (\<lambda>k. if k = 5 then [welcome_msg ''u2''] else [])) newcomer = Return True t \<and> agent_inv t) \<and>
   (\<exists>t. mqtt_registration tag_codec (''agent-registration/node7/request'', 2) demo_registration
      (callback_env (\<lambda>k. if k = 400 then [welcome_msg ''u2''] else [])) newcomer = Raise (SystemExit 300) t)"
proof -
  have new: "\<not> myMQTTregistered newcomer" "client newcomer \<noteq> None"
    by (simp_all add: newcomer_def agent_topics_init_def)
  have ann: "announces tag_codec newcomer (welcome_msg ''u2'')"
    by (simp add: announces_def newcomer_def welcome_msg_def agent_topics_init_def tag_codec_def)
  have enc: "encode tag_codec i (RegisterRequest demo_registration) = Inr (Wire i (RegisterRequest demo_registration))" for i
    by (simp add: tag_codec_def)
  note outcome = registration_outcome[OF newcomer_inv new enc, where topic = "(''agent-registration/node7/request'', 2)"]
  have "\<exists>k<300. \<exists>m \<in> set (if k = (5::nat) then [welcome_msg ''u2''] else []). announces tag_codec newcomer m"
    using ann by (intro exI[of _ 5]) simp
  moreover have "\<not> (\<exists>k<300. \<exists>m \<in> set (if k = (400::nat) then [welcome_msg ''u2''] else []). announces tag_codec newcomer m)"
    by auto
  ultimately show ?thesis
    using outcome[of "callback_env (\<lambda>k. if k = 5 then [welcome_msg ''u2''] else [])" "\<lambda>k. if k = 5 then [welcome_msg ''u2''] else []"]
      outcome[of "callback_env (\<lambda>k. if k = 400 then [welcome_msg ''u2''] else [])" "\<lambda>k. if k = 400 then [welcome_msg ''u2''] else []"]
    by (simp add: callback_env_def) blast
qed

section \<open>Leaving\<close>

text \<open>A registered agent's signal handler, served by a broker that grants and answers.\<close>

lemma registered_agent_leaves:
  fixes s :: "('b, 'z) agent_scheme"
  assumes settled: "settled uid u s" and connected: "client s \<noteq> None"
    and env: "network env = (\<lambda>k. deliver (simulator_on_message c) (inbox k))" "grants_subscription env"
    and inbox: "\<forall>k. \<forall>m \<in> set (inbox k). msg_topic m \<noteq> registration_topic uid ''response''"
      "j < 300" "Bex (set (inbox j)) (says_goodbye u)"
    and enc: "encode c (agent_deregister_request_schema_id (schemas s)) (DeregisterRequest u) = Inr raw"
  shows "\<exists>t. agent_signal_handler c env s = Raise (SystemExit 0) t \<and>
    net t = net s @ subscribe_acts [(deregistration_topic u ''response'', 2)] env @
      request_acts (deregistration_topic u ''request'') raw 2 env @ [LoopStop, Disconnect]"
proof -
  let ?topic = "(deregistration_topic u ''request'', 2 :: nat)"
  have s: "myAgent_deregistration_response_topic s = Some [(deregistration_topic u ''response'', 2)]"
    "myAgent_deregistration_request_topic s = Some [?topic]" "myAgent_uuid s = u"
    using settled by (simp_all add: settled_def topics_of_def)
  have answers: "answers_in_time myMQTTderegistered env s"
    by (rule goodbye_answers[OF settled env(1) inbox])
  from deregistration_answered[OF callbacks_quiet[OF env(1)] answers env(2) connected s(1) enc, of ?topic]
  obtain t where t: "mqtt_deregistration c ?topic u env s = Return True t" "myMQTTderegistered t"
    "net t = net s @ subscribe_acts [(deregistration_topic u ''response'', 2)] env @
      request_acts (fst ?topic) raw (snd ?topic) env" "client t = client s"
    by (elim exE conjE) (rule that)
  have "agent_signal_handler c env s = Raise (SystemExit 0) (t\<lparr>net := net t @ [LoopStop, Disconnect]\<rparr>)"
  proof -
    obtain cid where cid: "client t = Some cid" using t(4) connected by auto
    have "mqtt_close t = Return () (t\<lparr>net := net t @ [LoopStop, Disconnect]\<rparr>)"
      by (simp add: mqtt_close_def client_call_def cid)
    moreover have "py_index [?topic] 0 = Inr ?topic" by simp
    ultimately show ?thesis
      unfolding agent_signal_handler_def s(2,3) option.case by (simp only: or_raise_simps t(1) and_then_simps t(2) simp_thms if_False)
  qed
  with t(3) show ?thesis by simp
qed

text \<open>C16: An interrupted agent shuts down in order. Registered as u, with the callbacks of the code as
  the network thread, a subscription granted in the end and a deregistration response for u
  among the messages of the first 300 polls (and no new registration), SIGINT makes the agent
  subscribe to its deregistration response topic, publish the deregistration of its own UUID on
  its request topic with QoS 2, stop the network loop, disconnect, and exit with status 0.\<close>

theorem interrupted_agent_shuts_down:
  fixes s :: "('b, 'z) agent_scheme"
  assumes settled: "settled uid u s" and connected: "client s \<noteq> None"
    and env: "network env = (\<lambda>k. deliver (simulator_on_message c) (inbox k))" "grants_subscription env"
    and inbox: "\<forall>k. \<forall>m \<in> set (inbox k). msg_topic m \<noteq> registration_topic uid ''response''"
      "j < 300" "Bex (set (inbox j)) (says_goodbye u)"
    and enc: "encode c (agent_deregister_request_schema_id (schemas s)) (DeregisterRequest u) = Inr raw"
  shows "\<exists>t. agent_signal_handler c env s = Raise (SystemExit 0) t \<and>
    net t = net s @ subscribe_acts [(deregistration_topic u ''response'', 2)] env @
      request_acts (deregistration_topic u ''request'') raw 2 env @ [LoopStop, Disconnect]"
  by (rule registered_agent_leaves[OF assms])

theorem interrupted_agent_shuts_down_witness:
  "\<exists>t. agent_signal_handler tag_codec (callback_env (\<lambda>k. if k = 2 then [goodbye_msg ''u1''] else [])) (demo_agent 1 0) =
      Raise (SystemExit 0) t \<and>
    net t = [Subscribe [(deregistration_topic (Uuid ''u1'') ''response'', 2)],
      Publish (deregistration_topic (Uuid ''u1'') ''request'') (Wire 3 (DeregisterRequest (Uuid ''u1''))) 2 True,
      LoopStop, Disconnect]"
proof -
  let ?env = "callback_env (\<lambda>k. if k = 2 then [goodbye_msg ''u1''] else [])"
  have settled: "settled ''node7'' (Uuid ''u1'') (demo_agent 1 0)"
    unfolding settled_def using demo_inv demo_topics by simp
  have env: "network ?env = (\<lambda>k. deliver (simulator_on_message tag_codec) (if k = 2 then [goodbye_msg ''u1''] else []))"
    by (simp add: callback_env_def)
  have grants: "grants_subscription ?env"
    by (simp add: grants_subscription_def callback_env_def MQTT_ERR_SUCCESS_def)
  have quiet: "\<forall>k. \<forall>m \<in> set (if k = (2::nat) then [goodbye_msg ''u1''] else []).
      msg_topic m \<noteq> registration_topic ''node7'' ''response''"
    by (simp add: goodbye_msg_def registration_topic_def deregistration_topic_def)
  have bye: "Bex (set (if (2::nat) = 2 then [goodbye_msg ''u1''] else [])) (says_goodbye (Uuid ''u1''))"
    by (simp add: says_goodbye_def goodbye_msg_def)
  have enc: "encode tag_codec (agent_deregister_request_schema_id (schemas (demo_agent 1 0))) (DeregisterRequest (Uuid ''u1'')) =
      Inr (Wire 3 (DeregisterRequest (Uuid ''u1'')))"
    by (simp add: tag_codec_def demo_agent_def)
  have acts: "subscribe_acts ts ?env = [Subscribe ts]" "request_acts topic raw q ?env = [Publish topic raw q True]" for ts topic raw q
    by (simp_all add: subscribe_acts_def request_acts_def callback_env_def MQTT_ERR_SUCCESS_def first_from.simps)
  show ?thesis
    using interrupted_agent_shuts_down[OF settled _ env grants quiet _ bye enc] by (simp add: acts)
qed

lemma request_no_NameError: "request_and_wait topic raw qos flag env s \<noteq> Raise NameError t"
  by (auto simp: request_and_wait_def outcome_iffs client_call_Raise_iff dest: wait_flag_Raise)

lemma deregistration_Return_flag: "mqtt_deregistration c topic u env s = Return b t \<Longrightarrow> myMQTTderegistered t"
  by (auto simp: mqtt_deregistration_def request_and_wait_def outcome_iffs dest: wait_flag_Return_flag
    split: option.splits)

lemma deregistration_no_NameError:
  assumes "\<And>i r. encode c i r \<noteq> Inl NameError"
  shows "mqtt_deregistration c topic u env s \<noteq> Raise NameError t"
  using assms
  by (auto simp: mqtt_deregistration_def outcome_iffs subscribe_until_ok_def request_no_NameError split: option.splits)

lemma handler_never_sleeps:
  assumes "\<And>i r. encode c i r \<noteq> Inl NameError"
  shows "agent_signal_handler c env s \<noteq> Raise NameError t"
proof (cases "myAgent_deregistration_request_topic s")
  case (Some topics)
  show ?thesis
  proof (cases "py_index topics 0")
    case (Inr topic)
    show ?thesis
    proof (cases "mqtt_deregistration c topic (myAgent_uuid s) env s")
      case (Return b u)
      from deregistration_Return_flag[OF Return] show ?thesis
        by (simp add: agent_signal_handler_def Some Inr Return mqtt_close_def client_call_def split: option.splits)
    next
      case (Raise e u)
      with deregistration_no_NameError[OF assms, of topic "myAgent_uuid s" env s u] show ?thesis
        by (auto simp add: agent_signal_handler_def Some Inr Raise)
    qed (simp add: agent_signal_handler_def Some Inr)
  qed (use Some in \<open>simp add: agent_signal_handler_def py_index_def split: if_splits\<close>)
qed (simp add: agent_signal_handler_def)

text \<open>C38: The waiting loop of the signal handlers, which calls a name the modules never import, is never
  entered: as long as the serializer does not raise NameError itself, neither does the handler
  of the simulator or of the Redfish agent,
  whatever the state, the broker and the network thread do.\<close>

theorem signal_handler_never_sleeps:
  assumes "\<And>i r. encode c i r \<noteq> Inl NameError"
  shows "agent_signal_handler c env s \<noteq> Raise NameError t \<and> redfish_signal_handler c env s \<noteq> Raise NameError t"
  using handler_never_sleeps[OF assms] by (simp add: redfish_signal_handler_same)

theorem signal_handler_never_sleeps_witness:
  "\<forall>t. agent_signal_handler tag_codec (callback_env (\<lambda>_. [])) (demo_agent 1 0) \<noteq> Raise NameError t \<and>
    redfish_signal_handler tag_codec (callback_env (\<lambda>_. [])) (demo_agent 1 0) \<noteq> Raise NameError t"
proof (rule allI, rule signal_handler_never_sleeps)
  show "encode tag_codec i r \<noteq> Inl NameError" for i r
    by (cases r) (auto simp: tag_codec_def)
qed

section \<open>Device registration\<close>

definition assigns :: "'b codec \<Rightarrow> uuid \<Rightarrow> device_uuids \<Rightarrow> 'b message \<Rightarrow> bool" where
  "assigns c u d m \<longleftrightarrow>
     msg_topic m = device_topic u ''response'' \<and> decode c (msg_payload m) = Inr (DeviceListResponse u d)"

definition knows :: "string \<Rightarrow> uuid \<Rightarrow> device_uuids \<Rightarrow> ('b, 'z) agent_scheme \<Rightarrow> bool" where
  "knows uid u d s \<longleftrightarrow> settled uid u s \<and> (myDeviceRegistered s \<longrightarrow> myDeviceSensorUUIDsMap s = d)"

text \<open>The messages of the wait: no new registration, no other device map.\<close>

definition undisturbed :: "'b codec \<Rightarrow> string \<Rightarrow> uuid \<Rightarrow> device_uuids \<Rightarrow> 'b message \<Rightarrow> bool" where
  "undisturbed c uid u d m \<longleftrightarrow> msg_topic m \<noteq> registration_topic uid ''response'' \<and>
     (msg_topic m = device_topic u ''response'' \<longrightarrow> assigns c u d m)"

lemma knows_step:
  assumes "knows uid u d s" and m: "undisturbed c uid u d m"
  shows "knows uid u d (state_after s (simulator_on_message c m s)) \<and>
    (assigns c u d m \<longrightarrow> myDeviceRegistered (state_after s (simulator_on_message c m s)))"
proof -
  from assms(1) have s: "settled uid u s" "agent_inv s" "topics_of u s" "myAgent_uuid s = u" "myAgent_uid s = uid"
    by (simp_all add: knows_def settled_def)
  from m have topic: "msg_topic m \<noteq> registration_topic uid ''response''" by (simp add: undisturbed_def)
  note branches = simulator_other_branches[OF s(2) _ s(3), unfolded s(5), OF topic, of c]
  have "settled uid u (state_after s (simulator_on_message c m s))"
    using settled_step[OF s(1) topic] by blast
  moreover have "myDeviceRegistered t \<longrightarrow> myDeviceSensorUUIDsMap t = d"
    if "t = state_after s (simulator_on_message c m s)" for t
    using assms(1) m that s(4) unfolding branches
    by (auto simp: knows_def undisturbed_def assigns_def or_raise_def print_line_def split: sum.splits if_splits)
  moreover have "assigns c u d m \<longrightarrow> myDeviceRegistered (state_after s (simulator_on_message c m s))"
    unfolding branches using s(4) by (auto simp: assigns_def)
  ultimately show ?thesis by (simp add: knows_def)
qed

lemma knows_deliver:
  "knows uid u d s \<Longrightarrow> list_all (undisturbed c uid u d) ms \<Longrightarrow>
   knows uid u d (deliver (simulator_on_message c) ms s) \<and>
   (list_ex (assigns c u d) ms \<longrightarrow> myDeviceRegistered (deliver (simulator_on_message c) ms s))"
proof (induction ms arbitrary: s)
  case (Cons m ms)
  let ?t = "state_after s (simulator_on_message c m s)"
  have t: "knows uid u d ?t" "assigns c u d m \<longrightarrow> myDeviceRegistered ?t"
    using knows_step[OF Cons.prems(1), of c m] Cons.prems(2) by simp_all
  with Cons.IH[OF t(1)] Cons.prems(2) deliver_same_agent[of ?t c ms] show ?case
    by (auto simp: same_agent_def)
qed simp

lemma knows_sleeps:
  assumes "knows uid u d s" and "\<And>k. list_all (undisturbed c uid u d) (inbox k)"
  shows "knows uid u d (sleeps (\<lambda>k. deliver (simulator_on_message c) (inbox k)) n k s) \<and>
    ((\<exists>j<k. list_ex (assigns c u d) (inbox (n + j))) \<longrightarrow>
      myDeviceRegistered (sleeps (\<lambda>k. deliver (simulator_on_message c) (inbox k)) n k s))"
  using assms(1)
proof (induction k arbitrary: n s)
  case (Suc k)
  let ?nw = "\<lambda>k. deliver (simulator_on_message c) (inbox k)"
  have t: "knows uid u d (?nw n s)" "list_ex (assigns c u d) (inbox n) \<longrightarrow> myDeviceRegistered (?nw n s)"
    using knows_deliver[OF Suc.prems] assms(2) by simp_all
  have "network_thread ?nw (same_agent (?nw n s))"
    by unfold_locales (use deliver_same_agent same_agent_trans in blast)
  from network_thread.sleeps_keep[OF this, of "?nw n s" "Suc n" k] have
    "myDeviceRegistered (?nw n s) \<longrightarrow> myDeviceRegistered (sleeps ?nw n (Suc k) s)"
    by (simp add: same_agent_def)
  with t Suc.IH[OF t(1), of "Suc n"] show ?case by (auto simp: Ex_less_Suc2)
qed simp

text \<open>C17: A device registration hands the agent the UUIDs the framework chose. If the framework answers
  with the device map d on the agent's device topic within the first 300 polls (and sends nothing
  contradictory), the call returns, with d as the agent's map; it has subscribed to the given
  response topics, then published the device list on the given topic with QoS 2, retained.\<close>

theorem device_registration_assigns_uuids:
  fixes s :: "('b, 'z) agent_scheme"
  assumes settled: "settled uid u s" and new: "\<not> myDeviceRegistered s" and connected: "client s \<noteq> None"
    and env: "network env = (\<lambda>k. deliver (simulator_on_message c) (inbox k))" "grants_subscription env"
    and inbox: "\<And>k. list_all (undisturbed c uid u d) (inbox k)" "j < 300" "list_ex (assigns c u d) (inbox j)"
    and enc: "encode c (device_register_request_schema_id (schemas s)) (DeviceList (fst deviceMap) (snd deviceMap)) = Inr raw"
  shows "\<exists>t. mqtt_device_registration c topic response_topics deviceMap env s = Return () t \<and>
    myDeviceSensorUUIDsMap t = d \<and> settled uid u t \<and>
    net t = net s @ subscribe_acts response_topics env @ request_acts topic raw 2 env"
proof -
  define s1 where "s1 = s\<lparr>net := net s @ subscribe_acts response_topics env @ request_acts topic raw 2 env\<rparr>"
  have knows: "knows uid u d s1"
    using settled new by (simp add: knows_def s1_def settled_def agent_inv_net topics_of_def)
  have call: "mqtt_device_registration c topic response_topics deviceMap env s =
      wait_flag myDeviceRegistered (network env) 0 s1"
    using connected enc by (auto simp: mqtt_device_registration_def subscribe_granted[OF env(2)]
      request_and_wait_def client_call_def request_acts_def s1_def)
  have sleeps: "knows uid u d (sleeps (network env) 0 k s1) \<and>
    ((\<exists>j<k. list_ex (assigns c u d) (inbox j)) \<longrightarrow> myDeviceRegistered (sleeps (network env) 0 k s1))" for k
    using knows_sleeps[OF knows, of c inbox 0 k] inbox(1) by (simp add: env(1))
  have net: "net (sleeps (network env) 0 k s1) = net s1" for k
  proof -
    have "network_thread (network env) (same_agent s1)"
      unfolding env(1) by unfold_locales (use deliver_same_agent same_agent_trans in blast)
    from network_thread.sleeps_keep[OF this, of s1 0 k] show ?thesis by (simp add: same_agent_def)
  qed
  show ?thesis
  proof (cases rule: wait_flag_cases[where flag = myDeviceRegistered and nw = "network env" and s = s1])
    case (returns k)
    with sleeps[of k] net[of k] show ?thesis unfolding call by (auto simp: knows_def s1_def)
  next
    case timeout
    from inbox(2,3) have "\<exists>j<300. list_ex (assigns c u d) (inbox j)" by blast
    with sleeps[of 300] timeout(1)[of 300] show ?thesis by blast
  qed
qed

theorem device_registration_assigns_uuids_witness:
  "\<exists>t. mqtt_device_registration tag_codec ''device-registration/u1/request'' [] (Uuid ''u1'', [])
      (callback_env (\<lambda>k. if k = 3 then [\<lparr>msg_topic = device_topic (Uuid ''u1'') ''response'',
        msg_payload = Wire 7 (DeviceListResponse (Uuid ''u1'') [''sw1'' \<mapsto> (Uuid ''d1'', Map.empty)])\<rparr>] else []))
      ((demo_agent 1 0)\<lparr>myDeviceRegistered := False\<rparr>) = Return () t \<and>
    myDeviceSensorUUIDsMap t = [''sw1'' \<mapsto> (Uuid ''d1'', Map.empty)]"
proof -
  define msg :: "wire message" where "msg = \<lparr>msg_topic = device_topic (Uuid ''u1'') ''response'',
        msg_payload = Wire 7 (DeviceListResponse (Uuid ''u1'') [''sw1'' \<mapsto> (Uuid ''d1'', Map.empty)])\<rparr>"
  let ?inbox = "\<lambda>k::nat. if k = 3 then [msg] else []"
  let ?s = "(demo_agent 1 0)\<lparr>myDeviceRegistered := False\<rparr>"
  have settled: "settled ''node7'' (Uuid ''u1'') ?s"
    using demo_inv[of 1 0] demo_topics[of 1 0] by (simp add: settled_def agent_inv_def no_topics_def topics_of_def)
  have env: "network (callback_env ?inbox) = (\<lambda>k. deliver (simulator_on_message tag_codec) (?inbox k))"
    by (simp add: callback_env_def)
  have grants: "grants_subscription (callback_env ?inbox)"
    by (simp add: grants_subscription_def callback_env_def MQTT_ERR_SUCCESS_def)
  have assigns: "assigns tag_codec (Uuid ''u1'') [''sw1'' \<mapsto> (Uuid ''d1'', Map.empty)] msg"
    by (simp add: assigns_def msg_def tag_codec_def)
  then have inbox: "list_all (undisturbed tag_codec ''node7'' (Uuid ''u1'') [''sw1'' \<mapsto> (Uuid ''d1'', Map.empty)]) (?inbox k)" for k
    by (simp add: undisturbed_def assigns_def device_topic_def registration_topic_def)
  have "list_ex (assigns tag_codec (Uuid ''u1'') [''sw1'' \<mapsto> (Uuid ''d1'', Map.empty)]) (?inbox 3)" using assigns by simp
  moreover have "encode tag_codec (device_register_request_schema_id (schemas ?s)) (DeviceList (fst (Uuid ''u1'', [])) (snd (Uuid ''u1'', []))) =
      Inr (Wire (device_register_request_schema_id (schemas ?s)) (DeviceList (Uuid ''u1'') []))"
    by (simp add: tag_codec_def)
  ultimately show ?thesis unfolding msg_def[symmetric]
    using device_registration_assigns_uuids[OF settled _ _ env grants inbox, where j = 3 and topic = "''device-registration/u1/request''"
      and response_topics = "[]" and deviceMap = "(Uuid ''u1'', [])"] by fastforce
qed

section \<open>Start\<close>

text \<open>C36: How a connection starts. If the broker refuses the connection the exception leaves
  mqtt_init; if it accepts it, and some subscribe request is granted, the calls made are, in this
  order: the TLS setup if encryption is asked for, the connection (to the secured broker and port
  exactly if it is), the subscribe requests up to the granted one, the start of the network
  loop; if none is ever granted, the method never returns.\<close>

theorem mqtt_init_outcome:
  "case connect_error env of
     Some e \<Rightarrow> \<exists>t. mqtt_init uid (Some topics) False encrypt env s = Raise e t \<and> LoopStart \<notin> set (drop (length (net s)) (net t))
   | None \<Rightarrow> mqtt_init uid (Some topics) False encrypt env s =
       (if grants_subscription env
        then Return () (s\<lparr>client := Some uid, net := net s @ connect_acts encrypt topics env (mqtt_conf s)\<rparr>)
        else Hang)"
proof (cases "connect_error env")
  case (Some e)
  then show ?thesis by (simp add: mqtt_init_def client_call_def Let_def)
next
  case None
  show ?thesis
  proof (cases "grants_subscription env")
    case True
    with None show ?thesis by (simp add: mqtt_init_granted)
  next
    case False
    then have "subscribe_until_ok topics env t = Hang" if "client t \<noteq> None" for t :: "('a, 'b) agent_scheme"
      using that by (auto simp: subscribe_hangs)
    with None False show ?thesis by (simp add: mqtt_init_def client_call_def Let_def)
  qed
qed

definition config_ready :: "(string \<Rightarrow> (exn + config) option) \<Rightarrow> string \<Rightarrow> bool" where
  "config_ready files configFile \<longleftrightarrow>
     (\<exists>cfg. files configFile = Some (Inr cfg) \<and>
        {''Daemon'', ''Logger'', ''MQTT'', ''Schemaregistry''} \<subseteq> dom cfg \<and>
        (\<exists>mc. read_mqtt_conf cfg = Inr mc) \<and> (\<exists>rc. read_registry_conf cfg = Inr rc))"

lemma constructor_ready:
  assumes "config_ready files configFile"
  shows "\<exists>t. agent_common_init files registry configFile debug s =
    (case fetch_schema_ids registry of None \<Rightarrow> Hang | Some ids \<Rightarrow> Return () (t\<lparr>schemas := ids\<rparr>))"
proof -
  from assms obtain cfg mc rc where cfg: "files configFile = Some (Inr cfg)"
    "{''Daemon'', ''Logger'', ''MQTT'', ''Schemaregistry''} \<subseteq> dom cfg"
    "read_mqtt_conf cfg = Inr mc" "read_registry_conf cfg = Inr rc"
    unfolding config_ready_def by blast
  then have "checkConfigurationFile files configFile (Some [''Daemon'', ''Logger'', ''MQTT'', ''Schemaregistry'']) = Inr cfg"
    by (simp add: checkConfigurationFile_Inr_iff)
  with cfg(3,4) show ?thesis unfolding agent_common_init_def Let_def by auto
qed

lemma constructor_not_ready:
  assumes "\<not> config_ready files configFile"
  shows "\<exists>e t. agent_common_init files registry configFile debug s = Raise e t"
proof (cases "checkConfigurationFile files configFile (Some [''Daemon'', ''Logger'', ''MQTT'', ''Schemaregistry''])")
  case (Inl e)
  then show ?thesis unfolding agent_common_init_def Let_def by simp
next
  case (Inr cfg)
  then have "files configFile = Some (Inr cfg)" "{''Daemon'', ''Logger'', ''MQTT'', ''Schemaregistry''} \<subseteq> dom cfg"
    by (simp_all add: checkConfigurationFile_Inr_iff)
  with assms have "(\<forall>mc. read_mqtt_conf cfg \<noteq> Inr mc) \<or> (\<forall>rc. read_registry_conf cfg \<noteq> Inr rc)"
    unfolding config_ready_def by blast
  with Inr show ?thesis unfolding agent_common_init_def Let_def
    by (cases "read_mqtt_conf cfg"; cases "read_registry_conf cfg") auto
qed

text \<open>C34: When the common constructor returns. It does exactly if the configuration file exists, can be
  read, has the four sections and the MQTT and Schemaregistry options (the ports being integers),
  and each of the eight schema subjects is answered by some request; it never returns exactly if
  the file is fine and some subject is never answered; it raises exactly if the file is not fine.\<close>

theorem constructor_outcome:
  "((\<exists>t. agent_common_init files registry configFile debug s = Return () t) \<longleftrightarrow>
     config_ready files configFile \<and> list_all (\<lambda>subject. \<exists>k. registry subject k \<noteq> None) subjects) \<and>
   (agent_common_init files registry configFile debug s = Hang \<longleftrightarrow>
     config_ready files configFile \<and> list_ex (\<lambda>subject. \<forall>k. registry subject k = None) subjects)"
proof -
  have fetch: "fetch_schema_ids registry \<noteq> None \<longleftrightarrow> list_all (\<lambda>subject. \<exists>k. registry subject k \<noteq> None) subjects"
    unfolding fetch_schema_ids_iff list_all_iff ..
  have dual: "list_ex (\<lambda>subject. \<forall>k. registry subject k = None) subjects \<longleftrightarrow>
      \<not> list_all (\<lambda>subject. \<exists>k. registry subject k \<noteq> None) subjects"
    by (auto simp: list_ex_iff list_all_iff)
  show ?thesis
  proof (cases "config_ready files configFile")
    case True
    from constructor_ready[OF True] obtain t where "agent_common_init files registry configFile debug s =
        (case fetch_schema_ids registry of None \<Rightarrow> Hang | Some ids \<Rightarrow> Return () (t\<lparr>schemas := ids\<rparr>))"
      by blast
    then show ?thesis unfolding dual fetch[symmetric] using True by (cases "fetch_schema_ids registry") auto
  next
    case False
    from constructor_not_ready[OF False] obtain e t where
      "agent_common_init files registry configFile debug s = Raise e t" by blast
    with False show ?thesis by simp
  qed
qed

end
