(* ===== verification/FanIn.thy ===== *)
theory FanIn
  imports Agent_Handler "HOL-Library.AList"
begin

text \<open>
  The gateway from MQTT to Kafka (src/fanin/FanIn.py): its attributes on top of those of
  \<open>AgentCommon\<close>, the topic parameters, the constructor, the callback for MQTT messages
  (decode, detect lost batches, produce to Kafka; or pass the payload through), the Kafka
  connection loops and callbacks, the main loop, the signal handler, and the topics \<open>main\<close>
  gives to the processes.

  Outside src/, hence parameters: the Kafka producer (\<open>accepts k\<close>: what the k-th call of
  \<open>produce\<close> raises, if anything), the clock (\<open>reading k i\<close>: the i-th reading in the report made
  at counter value k; \<open>now i\<close>: the i-th reading of a callback), the serializer. Left out: the
  attributes that are never read (sensors, thread lock, gateway name, the local counter
  \<open>regularLog\<close> of the main loop) and the security options handed to the Kafka client.
\<close>

section \<open>Attributes\<close>

text \<open>
  \<open>produced\<close> is what the Kafka client accepted, \<open>kafka_calls\<close> the number of \<open>produce\<close> calls;
  \<open>samples_k\<close> is the local variable \<open>k\<close> of the callback. The dictionary of batch counts is an
  association list in insertion order.
\<close>

record 'b fanin = "'b agent" +
  mqttTopicList :: "topic_qos list"
  mqttBatching :: bool
  enableMQTTbatchCount :: bool
  enableMQTTpassthrough :: bool
  kafkaProducerTopic :: string
  myFanInGateway_uuid :: string
  myFanInGateway_debug :: bool
  myFanIn_mqtt_encryption_enabled :: bool
  kafka_producer :: bool
  kafka_msg_counter :: int
  kafka_msg_ack_received :: int
  gateway_timet0 :: rat
  t0_on_first_mqtt :: rat
  MsgCount :: int
  myMQTTtopicCounterPerUUID :: "(uuid \<times> int) list"
  report_done :: bool
  mqttMsgTimer :: rat
  samples_k :: nat
  kafka_calls :: nat
  produced :: "(string \<times> 'b) list"

record kafka_env =
  accepts :: "nat \<Rightarrow> exn option"
  reading :: "int \<Rightarrow> nat \<Rightarrow> rat"
  now :: "nat \<Rightarrow> rat"

section \<open>Topics and constructor\<close>

text \<open>\<open>value = s.split(":"); [value[0], int(value[1])]\<close> (a negative QoS, which the MQTT client refuses, reads as 0).\<close>

definition read_topic :: "string \<Rightarrow> exn + topic_qos" where
  "read_topic s =
     (let value = py_split '':'' s in
      res_then (py_index value 0) (\<lambda>name.
      res_then (py_index value 1) (\<lambda>qos.
      res_then (py_int qos) (\<lambda>q. Inr (name, nat q)))))"

definition read_kafka_conf :: "config \<Rightarrow> exn + string" where
  "read_kafka_conf cfg =
     res_then (config_get cfg ''Kafka'' ''kafka_broker'') (\<lambda>_.
     res_then (config_int cfg ''Kafka'' ''kafka_port'') (\<lambda>_.
     res_then (config_get cfg ''Kafka'' ''kafkaProducerTopic'') (\<lambda>topic.
     res_then (config_get cfg ''Kafka'' ''kafka_security.protocol'') (\<lambda>_.
     res_then (config_get cfg ''Kafka'' ''kafka_sasl.mechanisms'') (\<lambda>_.
     res_then (config_get cfg ''Kafka'' ''kafka_sasl.username'') (\<lambda>_.
     res_then (config_get cfg ''Kafka'' ''kafka_sasl.password'') (\<lambda>_.
     res_then (config_get cfg ''Kafka'' ''kafka_ssl.ca.location'') (\<lambda>_.
     res_then (config_get cfg ''Kafka'' ''kafka_ssl.certificate.location'') (\<lambda>_.
     res_then (config_get cfg ''Kafka'' ''kafka_ssl.key.location'') (\<lambda>_.
     res_then (config_get cfg ''Kafka'' ''kafka_ssl.key.password'') (\<lambda>_.
     res_then (config_get cfg ''MQTT'' ''mqtt_broker'') (\<lambda>_.
     res_then (config_int cfg ''MQTT'' ''mqtt_port'') (\<lambda>_.
     Inr topic)))))))))))))"

text \<open>The topic of this process, or that of the configuration; then the registration results.\<close>

definition read_topic_list :: "config \<Rightarrow> string option \<Rightarrow> exn + topic_qos list" where
  "read_topic_list cfg TopicForThisProcess =
     res_then (case TopicForThisProcess of
                 Some t \<Rightarrow> read_topic t
               | None \<Rightarrow> res_then (config_get cfg ''MQTT'' ''mqttSingleThreadTopic'') read_topic) (\<lambda>data_topic.
     res_then (res_then (config_get cfg ''MQTT'' ''mqttRegistrayionResultTopic'') read_topic) (\<lambda>result_topic.
     Inr [data_topic, result_topic]))"

definition fanin_init ::
  "(string \<Rightarrow> (exn + config) option) \<Rightarrow> (string \<Rightarrow> nat \<Rightarrow> int option) \<Rightarrow> string \<Rightarrow> string \<Rightarrow>
   bool \<Rightarrow> bool \<Rightarrow> string option \<Rightarrow> bool \<Rightarrow> bool \<Rightarrow> bool \<Rightarrow>
   ('b, 'z) fanin_scheme \<Rightarrow> (('b, 'z) fanin_scheme, unit) outcome" where
  "fanin_init files registry uuid4 configFile debug encrypt TopicForThisProcess batching mqttcounter mqttPassthrough s =
     (let s = s\<lparr>gateway_timet0 := 0, t0_on_first_mqtt := 0, MsgCount := 0, mqttTopicList := []\<rparr> in
      or_raise (checkConfigurationFile files configFile (Some [''Daemon'', ''Logger'', ''Kafka'', ''MQTT''])) s (\<lambda>cfg.
      or_raise (read_kafka_conf cfg) s (\<lambda>topic.
      let s = s\<lparr>kafkaProducerTopic := topic, myFanIn_mqtt_encryption_enabled := encrypt, mqttBatching := batching,
                enableMQTTbatchCount := mqttcounter, enableMQTTpassthrough := mqttPassthrough\<rparr> in
      or_raise (read_topic_list cfg TopicForThisProcess) s (\<lambda>topics.
      let s = s\<lparr>mqttTopicList := topics, myFanInGateway_debug := debug, myFanInGateway_uuid := uuid4,
                myMQTTregistered := False, kafka_producer := False,
                kafka_msg_counter := 1, kafka_msg_ack_received := 0, kafka_calls := 0, produced := []\<rparr> in
      and_then (agent_common_init files registry configFile debug s) (\<lambda>_ s.
      Return () (s\<lparr>myMQTTtopicCounterPerUUID := []\<rparr>))))))"

section \<open>Producing to Kafka\<close>

text \<open>\<open>int(x)\<close> of a float.\<close>

definition py_trunc :: "rat \<Rightarrow> int" where
  "py_trunc x = (if 0 \<le> x then \<lfloor>x\<rfloor> else \<lceil>x\<rceil>)"

definition kafka_produce ::
  "kafka_env \<Rightarrow> 'b \<Rightarrow> ('b, 'z) fanin_scheme \<Rightarrow> (('b, 'z) fanin_scheme, unit) outcome" where
  "kafka_produce env raw_bytes s =
     (if \<not> kafka_producer s then Raise AttributeError s
      else let call = kafka_calls s; s = s\<lparr>kafka_calls := Suc call\<rparr> in
        (case accepts env call of
           Some e \<Rightarrow> Raise e s
         | None \<Rightarrow> Return () (s\<lparr>produced := produced s @ [(kafkaProducerTopic s, raw_bytes)]\<rparr>)))"

text \<open>Every 1000 messages a line with the rate since the last one.\<close>

definition report_rate ::
  "kafka_env \<Rightarrow> ('b, 'z) fanin_scheme \<Rightarrow> (('b, 'z) fanin_scheme, unit) outcome" where
  "report_rate env s =
     (if kafka_msg_counter s mod 1000 = 0
      then let k = kafka_msg_counter s;
               deltat = reading env k 0 - gateway_timet0 s;
               deltaMsg = k - MsgCount s;
               s = s\<lparr>MsgCount := k, gateway_timet0 := reading env k 1\<rparr>;
               elapsed = py_trunc (reading env k 2 - t0_on_first_mqtt s)
           in if deltat = 0 then Raise ZeroDivisionError s
              else Return () (print_line (RateLine elapsed k (of_int deltaMsg / deltat)) s)
      else Return () s)"

text \<open>\<open>except BufferError\<close>, \<open>except KafkaException\<close>: a line each, and on.\<close>

fun except_kafka :: "(('b, 'z) fanin_scheme, unit) outcome \<Rightarrow> (('b, 'z) fanin_scheme, unit) outcome" where
  "except_kafka (Raise BufferError s) = Return () (print_line QueueFullLine s)"
| "except_kafka (Raise KafkaException s) = Return () (print_line KafkaErrorLine s)"
| "except_kafka m = m"

text \<open>One sample: encode it as a record of its own, produce it, count it.\<close>

definition forward_sample ::
  "'b codec \<Rightarrow> kafka_env \<Rightarrow> 'b batch_item \<Rightarrow> ('b, 'z) fanin_scheme \<Rightarrow> (('b, 'z) fanin_scheme, unit) outcome" where
  "forward_sample c env data s =
     except_kafka
       (or_raise (encode c (send_time_series_schema_id (schemas s)) (SendTimeSeriesDruid data)) s (\<lambda>raw_bytes.
        and_then (kafka_produce env raw_bytes s) (\<lambda>_ s.
        report_rate env (s\<lparr>kafka_msg_counter := kafka_msg_counter s + 1, samples_k := samples_k s + 1\<rparr>))))"

section \<open>Detection of lost batches\<close>

text \<open>
  With \<open>--enableMQTTbatchesCounter\<close> a sample's value is the sender's batch count. A known sender:
  the count must be the last one or its successor; an unknown one (\<open>except\<close>): it must be 1.
\<close>

definition check_batch_count ::
  "string \<Rightarrow> triplet \<Rightarrow> ('b, 'z) fanin_scheme \<Rightarrow> ('b, 'z) fanin_scheme" where
  "check_batch_count topic data s =
     (let u = sensorUuid data; v = py_trunc (sensorValue data);
          count = (\<lambda>s. s\<lparr>myMQTTtopicCounterPerUUID := AList.update u v (myMQTTtopicCounterPerUUID s)\<rparr>) in
      case map_of (myMQTTtopicCounterPerUUID s) u of
        Some prev \<Rightarrow>
          count (if \<not> prev = v - 1 \<and> \<not> prev - v = 0 then print_line (MissingBatchesLine u topic (v - prev)) s else s)
      | None \<Rightarrow>
          (let s = count s in if v \<noteq> 1 then print_line (MissingBatchesLine u topic (v - 1)) s else s))"

definition handle_sample ::
  "'b codec \<Rightarrow> kafka_env \<Rightarrow> string \<Rightarrow> 'b batch_item \<Rightarrow> ('b, 'z) fanin_scheme \<Rightarrow> (('b, 'z) fanin_scheme, unit) outcome" where
  "handle_sample c env topic data s =
     and_then
       (if enableMQTTbatchCount s
        then (case data of Dict t \<Rightarrow> Return () (check_batch_count topic t s) | Bytes _ \<Rightarrow> Raise TypeError s)
        else Return () s) (\<lambda>_ s.
     forward_sample c env data s)"

section \<open>The callback\<close>

text \<open>
  The local variable \<open>query_data\<close> is bound to an empty list first. With \<open>--batching\<close> it is bound to
  the record decoded from the payload, otherwise the payload is appended to the list.
  \<open>query_data["tripletBatch"]\<close> then selects a field of whatever value it has: a record of the
  batch schema has the field, another record has not, and a list is indexed by integers only.
\<close>

datatype 'b query_data = Listed "'b list" | Decoded "'b avro"

fun query_append :: "'b query_data \<Rightarrow> 'b \<Rightarrow> exn + 'b query_data" where
  "query_append (Listed ps) p = Inr (Listed (ps @ [p]))"
| "query_append (Decoded r) p = Inl AttributeError"

fun query_tripletBatch :: "'b query_data \<Rightarrow> exn + 'b batch_item list" where
  "query_tripletBatch (Decoded r) = get_tripletBatch r"
| "query_tripletBatch (Listed ps) = Inl TypeError"

definition read_query_data :: "'b codec \<Rightarrow> bool \<Rightarrow> 'b \<Rightarrow> exn + 'b query_data" where
  "read_query_data c batching payload =
     (let query_data = Listed [] in
      if batching then res_then (decode c payload) (\<lambda>r. Inr (Decoded r))
      else query_append query_data payload)"

definition forward_batch ::
  "'b codec \<Rightarrow> kafka_env \<Rightarrow> string \<Rightarrow> 'b message \<Rightarrow> ('b, 'z) fanin_scheme \<Rightarrow> (('b, 'z) fanin_scheme, unit) outcome" where
  "forward_batch c env topic message s =
     or_raise (read_query_data c (mqttBatching s) (msg_payload message)) s (\<lambda>query_data.
     or_raise (query_tripletBatch query_data) s (\<lambda>batch.
     and_then (for_each (handle_sample c env topic) batch s) (\<lambda>_ s.
     Return () (if samples_k s \<noteq> 47 then print_line (SamplesLine (samples_k s)) s else s))))"

definition pass_through ::
  "kafka_env \<Rightarrow> 'b message \<Rightarrow> ('b, 'z) fanin_scheme \<Rightarrow> (('b, 'z) fanin_scheme, unit) outcome" where
  "pass_through env message s =
     except_kafka
       (and_then (kafka_produce env (msg_payload message) s) (\<lambda>_ s.
        report_rate env (s\<lparr>kafka_msg_counter := kafka_msg_counter s + 1\<rparr>)))"

definition fanin_on_message ::
  "'b codec \<Rightarrow> kafka_env \<Rightarrow> 'b message \<Rightarrow> ('b, 'z) fanin_scheme \<Rightarrow> (('b, 'z) fanin_scheme, unit) outcome" where
  "fanin_on_message c env message s =
     (let s = s\<lparr>samples_k := 0\<rparr> in
      or_raise (py_index (mqttTopicList s) 0) s (\<lambda>topic.
      if msg_topic message = fst topic then
        let s = s\<lparr>report_done := False\<rparr>;
            s = (if gateway_timet0 s = 0 then s\<lparr>gateway_timet0 := now env 0\<rparr> else s);
            s = (if t0_on_first_mqtt s = 0 then s\<lparr>t0_on_first_mqtt := now env 1\<rparr> else s)
        in and_then (if \<not> enableMQTTpassthrough s then forward_batch c env (fst topic) message s
                     else pass_through env message s) (\<lambda>_ s.
           Return () (s\<lparr>mqttMsgTimer := now env 2\<rparr>))
      else Return () s))"

section \<open>Kafka connection and callbacks\<close>

definition kafka_producer_on_delivery :: "bool \<Rightarrow> ('b, 'z) fanin_scheme \<Rightarrow> ('b, 'z) fanin_scheme" where
  "kafka_producer_on_delivery err s =
     (if err then print_line DeliveryFailedLine s
      else s\<lparr>kafka_msg_ack_received := kafka_msg_ack_received s + 1\<rparr>)"

definition kafka_producer_error_cb :: "string \<Rightarrow> ('b, 'z) fanin_scheme \<Rightarrow> ('b, 'z) fanin_scheme" where
  "kafka_producer_error_cb err s = print_line (KafkaCallbackErrorLine err) s"

text \<open>
  An attempt to connect: the client cannot be created, the topics cannot be listed, or both work.
  A \<open>KafkaException\<close> is followed by another attempt.
\<close>

datatype attempt = NoClient exn | NoTopics exn | Connected

fun attempt_result :: "attempt \<Rightarrow> (exn option) option" where
  "attempt_result (NoClient e) = (if e = KafkaException then None else Some (Some e))"
| "attempt_result (NoTopics e) = (if e = KafkaException then None else Some (Some e))"
| "attempt_result Connected = Some None"

definition kafka_check_topic ::
  "(nat \<Rightarrow> attempt) \<Rightarrow> ('b, 'z) fanin_scheme \<Rightarrow> (('b, 'z) fanin_scheme, unit) outcome" where
  "kafka_check_topic attempts s =
     (case first_from (\<lambda>k. attempt_result (attempts k)) 0 of
        None \<Rightarrow> Hang
      | Some (_, Some e) \<Rightarrow> Raise e s
      | Some (_, None) \<Rightarrow> Return () s)"

definition kafka_producer_connect ::
  "(nat \<Rightarrow> attempt) \<Rightarrow> ('b, 'z) fanin_scheme \<Rightarrow> (('b, 'z) fanin_scheme, unit) outcome" where
  "kafka_producer_connect attempts s =
     (case first_from (\<lambda>k. attempt_result (attempts k)) 0 of
        None \<Rightarrow> Hang
      | Some (k, Some e) \<Rightarrow>
          Raise e (s\<lparr>kafka_producer := (kafka_producer s \<or> (\<exists>j \<in> set [0..<Suc k]. \<forall>e. attempts j \<noteq> NoClient e))\<rparr>)
      | Some (_, None) \<Rightarrow> Return () (s\<lparr>kafka_producer := True\<rparr>))"

section \<open>Running and stopping\<close>

definition fanin_signal_handler :: "('b, 'z) fanin_scheme \<Rightarrow> (('b, 'z) fanin_scheme, unit) outcome" where
  "fanin_signal_handler s = and_then (mqtt_close s) (\<lambda>_ s. Raise (SystemExit 0) s)"

text \<open>\<open>run\<close> up to its endless loop at time \<open>t\<close>; then one iteration of the loop.\<close>

definition fanin_start ::
  "(nat \<Rightarrow> attempt) \<Rightarrow> (nat \<Rightarrow> attempt) \<Rightarrow> ('b, 'z) fanin_scheme net_env \<Rightarrow> rat \<Rightarrow>
   ('b, 'z) fanin_scheme \<Rightarrow> (('b, 'z) fanin_scheme, unit) outcome" where
  "fanin_start checks connects env t s =
     and_then (kafka_check_topic checks s) (\<lambda>_ s.
     and_then (kafka_producer_connect connects s) (\<lambda>_ s.
     and_then (mqtt_init (myFanInGateway_uuid s) (Some (mqttTopicList s)) False
                 (myFanIn_mqtt_encryption_enabled s) env s) (\<lambda>_ s.
     Return () (s\<lparr>report_done := False, mqttMsgTimer := t\<rparr>))))"

text \<open>
  Delivery reports served by \<open>poll\<close>; after ten seconds without a message the batch counts, once
  (the flag is set in the loop over the senders: not at all while no sender is known).
\<close>

definition fanin_tick ::
  "bool list \<Rightarrow> rat \<Rightarrow> ('b, 'z) fanin_scheme \<Rightarrow> (('b, 'z) fanin_scheme, unit) outcome" where
  "fanin_tick deliveries t s =
     (let s = fold kafka_producer_on_delivery deliveries s in
      if mqttMsgTimer s + 10 < t \<and> \<not> report_done s \<and> enableMQTTbatchCount s
      then for_each (\<lambda>(u, v) s.
             or_raise (py_index (mqttTopicList s) 0) s (\<lambda>topic.
             Return () ((print_line (GatewayCountLine u (fst topic) v) s)\<lparr>report_done := True\<rparr>)))
           (myMQTTtopicCounterPerUUID s) s
      else Return () s)"

text \<open>What can happen to a running gateway.\<close>

inductive fanin_step :: "'b codec \<Rightarrow> ('b, 'z) fanin_scheme \<Rightarrow> ('b, 'z) fanin_scheme \<Rightarrow> bool" for c where
  message: "fanin_on_message c env m s = Return () t \<Longrightarrow> fanin_step c s t"
| message_raised: "fanin_on_message c env m s = Raise e t \<Longrightarrow> fanin_step c s t"
| tick: "fanin_tick deliveries time s = Return () t \<Longrightarrow> fanin_step c s t"
| reconnect: "mqtt_on_connect (mqttTopicList s) s = Return () t \<Longrightarrow> fanin_step c s t"
| notified: "fanin_step c s (notify n s)"
| kafka_error: "fanin_step c s (kafka_producer_error_cb err s)"

inductive_cases fanin_stepE: "fanin_step c s t"

section \<open>Processes\<close>

text \<open>
  \<open>main\<close>: with more than one topic, one process per subtopic of the configured root topic, with
  the configured QoS; otherwise a single process without a topic of its own.
\<close>

definition process_topics :: "string \<Rightarrow> string \<Rightarrow> nat \<Rightarrow> string list" where
  "process_topics rootTopic rootTopicQOS n =
     map (\<lambda>i. rootTopic @ ''/'' @ str_nat i @ '':'' @ rootTopicQOS) [0..<n]"

definition fanin_main :: "config \<Rightarrow> string option \<Rightarrow> exn + string option list" where
  "fanin_main cfg numberOfTopic =
     res_then (case numberOfTopic of Some n \<Rightarrow> if n = [] then Inr 1 else py_int n | None \<Rightarrow> Inr 1) (\<lambda>n.
     if n > 1 then
       res_then (config_get cfg ''MQTT'' ''mqttMultiProcessRootTopic'') (\<lambda>root.
       res_then (config_get cfg ''MQTT'' ''mqttMultiProcessTopicQOS'') (\<lambda>qos.
       Inr (map Some (process_topics root qos (nat n)))))
     else Inr [None])"

end
