(* ===== verification/FanIn_Spec.thy ===== *)
theory FanIn_Spec
  imports FanIn
begin

text \<open>
  The gateway's callback against an abstract machine: what it makes of the samples of a batch
  (which are produced, what the detector reports, the counts it keeps), by the loop contract of
  the prelude; the frame of the callback; the invariant of every reachable gateway; a gateway
  that is not batching.
\<close>

section \<open>The abstract machine\<close>

record 'b gateway_view =
  view_calls :: nat
  view_raws :: "'b list"
  view_counts :: "(uuid \<times> int) list"
  view_alarms :: "console_line list"

definition detect :: "string \<Rightarrow> uuid \<Rightarrow> int \<Rightarrow> 'b gateway_view \<Rightarrow> 'b gateway_view" where
  "detect topic u v w =
     w\<lparr>view_counts := AList.update u v (view_counts w),
       view_alarms := view_alarms w @
         (let missing = v - (case map_of (view_counts w) u of None \<Rightarrow> 1 | Some prev \<Rightarrow> prev) in
          if missing = 0 \<or> (missing = 1 \<and> map_of (view_counts w) u \<noteq> None) then []
          else [MissingBatchesLine u topic missing])\<rparr>"

definition sample_raw :: "'b codec \<Rightarrow> int \<Rightarrow> triplet \<Rightarrow> 'b" where
  "sample_raw c sid r = projr (encode c sid (SendTimeSeriesDruid (Dict r)))"

definition view_step :: "'b codec \<Rightarrow> int \<Rightarrow> (nat \<Rightarrow> exn option) \<Rightarrow> string \<Rightarrow> bool \<Rightarrow> triplet \<Rightarrow> 'b gateway_view \<Rightarrow> 'b gateway_view" where
  "view_step c sid acc topic counting r w =
     (let w = (if counting then detect topic (sensorUuid r) (py_trunc (sensorValue r)) w else w) in
      w\<lparr>view_calls := Suc (view_calls w),
        view_raws := view_raws w @ (if acc (view_calls w) = None then [sample_raw c sid r] else [])\<rparr>)"

fun is_alarm :: "console_line \<Rightarrow> bool" where
  "is_alarm (MissingBatchesLine u topic n) = True"
| "is_alarm _ = False"

definition alarms :: "('b, 'z) agent_scheme \<Rightarrow> console_line list" where
  "alarms s = filter is_alarm (console s)"

section \<open>The simulation\<close>

text \<open>What no callback changes.\<close>

definition gateway_config :: "('b, 'z) fanin_scheme \<Rightarrow> _" where
  "gateway_config s =
     ((mqttTopicList s, mqttBatching s, enableMQTTbatchCount s, enableMQTTpassthrough s),
      (kafkaProducerTopic s, kafka_producer s, schemas s), (client s, net s))"

definition kafka_only :: "kafka_env \<Rightarrow> bool" where
  "kafka_only env \<longleftrightarrow> (\<forall>k. accepts env k \<in> {None, Some BufferError, Some KafkaException})"

text \<open>Between two reports, and between the start and the first, the clock moves.\<close>

definition clock_moves :: "kafka_env \<Rightarrow> ('b, 'z) fanin_scheme \<Rightarrow> bool" where
  "clock_moves env s \<longleftrightarrow>
     (\<forall>k > kafka_msg_counter s. reading env k 0 \<noteq> gateway_timet0 s) \<and>
     (\<forall>j k. j < k \<longrightarrow> reading env k 0 \<noteq> reading env j 1)"

definition gateway_ready :: "'b codec \<Rightarrow> kafka_env \<Rightarrow> ('b, 'z) fanin_scheme \<Rightarrow> bool" where
  "gateway_ready c env s \<longleftrightarrow>
     kafka_producer s \<and> kafka_only env \<and> clock_moves env s \<and>
     (\<forall>r. \<exists>raw. encode c (send_time_series_schema_id (schemas s)) (SendTimeSeriesDruid (Dict r)) = Inr raw)"

definition view_sim :: "('b, 'z) fanin_scheme \<Rightarrow> ('b, 'z) fanin_scheme \<Rightarrow> 'b gateway_view \<Rightarrow> bool" where
  "view_sim s0 s w \<longleftrightarrow>
     gateway_config s = gateway_config s0 \<and>
     kafka_calls s = view_calls w \<and>
     produced s = produced s0 @ map (Pair (kafkaProducerTopic s0)) (view_raws w) \<and>
     kafka_msg_counter s = kafka_msg_counter s0 + int (length (view_raws w)) \<and>
     samples_k s = samples_k s0 + length (view_raws w) \<and>
     myMQTTtopicCounterPerUUID s = view_counts w \<and>
     alarms s = view_alarms w"

definition view_of :: "('b, 'z) fanin_scheme \<Rightarrow> 'b gateway_view" where
  "view_of s = \<lparr>view_calls = kafka_calls s, view_raws = [], view_counts = myMQTTtopicCounterPerUUID s,
     view_alarms = alarms s\<rparr>"

lemma view_sim_start: "view_sim s s (view_of s)"
  by (simp add: view_sim_def view_of_def)

lemma report_rate_moves:
  assumes "\<And>k. kafka_msg_counter s \<le> k \<Longrightarrow> reading env k 0 \<noteq> gateway_timet0 s"
    and "\<forall>j k. j < k \<longrightarrow> reading env k 0 \<noteq> reading env j 1"
  shows "\<exists>t0 mc ls. report_rate env s = Return () (s\<lparr>gateway_timet0 := t0, MsgCount := mc, console := console s @ ls\<rparr>) \<and>
    filter is_alarm ls = [] \<and> (\<forall>k > kafka_msg_counter s. reading env k 0 \<noteq> t0)"
proof (cases "kafka_msg_counter s mod 1000 = 0")
  case True
  let ?k = "kafka_msg_counter s"
  have "reading env ?k 0 - gateway_timet0 s \<noteq> 0" using assms(1)[of ?k] by simp
  with True have "report_rate env s = Return () (s\<lparr>gateway_timet0 := reading env ?k 1, MsgCount := ?k,
      console := console s @ [RateLine (py_trunc (reading env ?k 2 - t0_on_first_mqtt s)) ?k
        (of_int (?k - MsgCount s) / (reading env ?k 0 - gateway_timet0 s))]\<rparr>)"
    by (simp add: report_rate_def Let_def print_line_def)
  with assms(2) show ?thesis by fastforce
next
  case False
  then have "report_rate env s = Return () (s\<lparr>gateway_timet0 := gateway_timet0 s, MsgCount := MsgCount s,
      console := console s @ []\<rparr>)"
    by (simp add: report_rate_def)
  moreover have "\<forall>k > kafka_msg_counter s. reading env k 0 \<noteq> gateway_timet0 s"
    using assms(1) by (meson order_less_imp_le)
  ultimately show ?thesis by (metis filter.simps(1))
qed

lemma forward_sample_step:
  assumes ready: "gateway_ready c env s"
  shows "\<exists>t. forward_sample c env (Dict r) s = Return () t \<and> gateway_ready c env t \<and>
    gateway_config t = gateway_config s \<and> kafka_calls t = Suc (kafka_calls s) \<and>
    produced t = produced s @ (if accepts env (kafka_calls s) = None
      then [(kafkaProducerTopic s, sample_raw c (send_time_series_schema_id (schemas s)) r)] else []) \<and>
    kafka_msg_counter t = kafka_msg_counter s + (if accepts env (kafka_calls s) = None then 1 else 0) \<and>
    samples_k t = samples_k s + (if accepts env (kafka_calls s) = None then 1 else 0) \<and>
    myMQTTtopicCounterPerUUID t = myMQTTtopicCounterPerUUID s \<and> alarms t = alarms s"
proof -
  from ready obtain raw where raw: "encode c (send_time_series_schema_id (schemas s)) (SendTimeSeriesDruid (Dict r)) = Inr raw"
    unfolding gateway_ready_def by blast
  then have sample: "sample_raw c (send_time_series_schema_id (schemas s)) r = raw" by (simp add: sample_raw_def)
  define s1 where "s1 = s\<lparr>kafka_calls := Suc (kafka_calls s)\<rparr>"
  from ready have producer: "kafka_producer s" and clock: "clock_moves env s" and "kafka_only env"
    by (simp_all add: gateway_ready_def)
  then have "accepts env (kafka_calls s) \<in> {None, Some BufferError, Some KafkaException}"
    unfolding kafka_only_def by blast
  then consider (no) e where "accepts env (kafka_calls s) = Some e" "e = BufferError \<or> e = KafkaException"
    | (yes) "accepts env (kafka_calls s) = None"
    by auto
  then show ?thesis
  proof cases
    case (no e)
    then have "forward_sample c env (Dict r) s =
        Return () (print_line (if e = BufferError then QueueFullLine else KafkaErrorLine) s1)"
      using producer by (auto simp: forward_sample_def raw kafka_produce_def Let_def s1_def)
    with no ready show ?thesis
      by (auto simp: s1_def print_line_def gateway_ready_def clock_moves_def gateway_config_def alarms_def)
  next
    case yes
    define s2 where "s2 = s1\<lparr>produced := produced s @ [(kafkaProducerTopic s, raw)],
      kafka_msg_counter := kafka_msg_counter s + 1, samples_k := samples_k s + 1\<rparr>"
    have "forward_sample c env (Dict r) s = except_kafka (report_rate env s2)"
      using yes producer by (simp add: forward_sample_def raw kafka_produce_def Let_def s1_def s2_def)
    moreover obtain t0 mc ls where "report_rate env s2 = Return () (s2\<lparr>gateway_timet0 := t0, MsgCount := mc, console := console s2 @ ls\<rparr>)"
      "filter is_alarm ls = []" "\<forall>k > kafka_msg_counter s2. reading env k 0 \<noteq> t0"
      using report_rate_moves[of s2 env] clock by (auto simp: clock_moves_def s1_def s2_def)
    ultimately show ?thesis using yes ready sample
      by (auto simp: s1_def s2_def gateway_ready_def clock_moves_def gateway_config_def alarms_def)
  qed
qed

lemma check_batch_count_view:
  "check_batch_count topic r s =
   (let w = detect topic (sensorUuid r) (py_trunc (sensorValue r)) (view_of s) in
    s\<lparr>myMQTTtopicCounterPerUUID := view_counts w, console := console s @ drop (length (alarms s)) (view_alarms w)\<rparr>)"
  by (auto simp: check_batch_count_def Let_def detect_def view_of_def print_line_def split: option.splits)

lemma detect_view:
  "view_alarms w = alarms s \<Longrightarrow> view_counts w = myMQTTtopicCounterPerUUID s \<Longrightarrow>
   view_counts (detect topic u v w) = view_counts (detect topic u v (view_of s)) \<and>
   view_alarms (detect topic u v w) = view_alarms (detect topic u v (view_of s)) \<and>
   view_calls (detect topic u v w) = view_calls w \<and> view_raws (detect topic u v w) = view_raws w"
  by (simp add: detect_def view_of_def)

lemma detect_alarms: "\<exists>ls. view_alarms (detect topic u v w) = view_alarms w @ ls \<and> filter is_alarm ls = ls"
  by (simp add: detect_def Let_def)

lemma check_batch_count_sim:
  assumes "view_sim s0 s w"
  shows "view_sim s0 (check_batch_count topic r s) (detect topic (sensorUuid r) (py_trunc (sensorValue r)) w) \<and>
    gateway_config (check_batch_count topic r s) = gateway_config s"
proof -
  let ?d = "detect topic (sensorUuid r) (py_trunc (sensorValue r)) (view_of s)"
  obtain ls where ls: "view_alarms ?d = alarms s @ ls" "filter is_alarm ls = ls"
    using detect_alarms[of topic "sensorUuid r" "py_trunc (sensorValue r)" "view_of s"] by (auto simp: view_of_def)
  then have "check_batch_count topic r s = s\<lparr>myMQTTtopicCounterPerUUID := view_counts ?d, console := console s @ ls\<rparr>"
    by (simp add: check_batch_count_view Let_def)
  with assms ls detect_view[of w s topic "sensorUuid r" "py_trunc (sensorValue r)"] show ?thesis
    by (simp add: view_sim_def gateway_config_def alarms_def)
qed

lemma check_batch_count_ready: "gateway_ready c env s \<Longrightarrow> gateway_ready c env (check_batch_count topic r s)"
  by (simp add: check_batch_count_view Let_def gateway_ready_def clock_moves_def)

lemma handle_sample_step:
  assumes sim: "view_sim s0 s w" and ready: "gateway_ready c env s"
  shows "\<exists>t. handle_sample c env topic (Dict r) s = Return () t \<and> gateway_ready c env t \<and>
    view_sim s0 t (view_step c (send_time_series_schema_id (schemas s0)) (accepts env) topic (enableMQTTbatchCount s0) r w)"
proof -
  define s1 where "s1 = (if enableMQTTbatchCount s then check_batch_count topic r s else s)"
  define w1 where "w1 = (if enableMQTTbatchCount s0 then detect topic (sensorUuid r) (py_trunc (sensorValue r)) w else w)"
  have same: "gateway_config s = gateway_config s0" using sim by (simp add: view_sim_def)
  then have "enableMQTTbatchCount s = enableMQTTbatchCount s0" by (simp add: gateway_config_def)
  then have s1: "view_sim s0 s1 w1" "gateway_ready c env s1"
    using sim ready check_batch_count_sim[OF sim] check_batch_count_ready[OF ready]
    by (simp_all add: s1_def w1_def)
  then have cfg: "gateway_config s1 = gateway_config s0" by (simp add: view_sim_def)
  have "handle_sample c env topic (Dict r) s = forward_sample c env (Dict r) s1"
    by (simp add: handle_sample_def s1_def)
  with forward_sample_step[OF s1(2), of r] obtain t where t: "handle_sample c env topic (Dict r) s = Return () t"
    "gateway_ready c env t" "gateway_config t = gateway_config s1" "kafka_calls t = Suc (kafka_calls s1)"
    "produced t = produced s1 @ (if accepts env (kafka_calls s1) = None
      then [(kafkaProducerTopic s1, sample_raw c (send_time_series_schema_id (schemas s1)) r)] else [])"
    "kafka_msg_counter t = kafka_msg_counter s1 + (if accepts env (kafka_calls s1) = None then 1 else 0)"
    "samples_k t = samples_k s1 + (if accepts env (kafka_calls s1) = None then 1 else 0)"
    "myMQTTtopicCounterPerUUID t = myMQTTtopicCounterPerUUID s1" "alarms t = alarms s1"
    by auto
  have "view_sim s0 t (w1\<lparr>view_calls := Suc (view_calls w1), view_raws := view_raws w1 @
      (if accepts env (view_calls w1) = None then [sample_raw c (send_time_series_schema_id (schemas s0)) r] else [])\<rparr>)"
    using s1(1) t(3-9) cfg by (auto simp: view_sim_def gateway_config_def)
  with t(1,2) show ?thesis by (auto simp: view_step_def w1_def Let_def)
qed

interpretation batch_loop: loop_refinement "\<lambda>r. handle_sample c env topic (Dict r)"
    "view_step c (send_time_series_schema_id (schemas s0)) (accepts env) topic (enableMQTTbatchCount s0)"
    "\<lambda>s w. view_sim s0 s w \<and> gateway_ready c env s" "\<lambda>k s. gateway_ready c env s"
  for c :: "'b codec" and env topic and s0 :: "('b, 'z) fanin_scheme"
proof
  show "view_sim s0 t (view_step c (send_time_series_schema_id (schemas s0)) (accepts env) topic (enableMQTTbatchCount s0) r w) \<and>
      gateway_ready c env t"
    if "view_sim s0 s w \<and> gateway_ready c env s" "handle_sample c env topic (Dict r) s = Return u t" for s w r u t
    using that handle_sample_step[of s0 s w c env topic r] by auto
  show "\<exists>t. handle_sample c env topic (Dict r) s = Return () t \<and> gateway_ready c env t"
    if "gateway_ready c env s" for s r
    using handle_sample_step[OF view_sim_start that, of topic r] by auto
qed

section \<open>One message\<close>

text \<open>The object when the work on a message of the data topic starts.\<close>

definition arrival :: "kafka_env \<Rightarrow> ('b, 'z) fanin_scheme \<Rightarrow> ('b, 'z) fanin_scheme" where
  "arrival env s = s\<lparr>samples_k := 0, report_done := False,
     gateway_timet0 := (if gateway_timet0 s = 0 then now env 0 else gateway_timet0 s),
     t0_on_first_mqtt := (if t0_on_first_mqtt s = 0 then now env 1 else t0_on_first_mqtt s)\<rparr>"

lemma fanin_on_message_data:
  assumes "mqttTopicList s = topic # rest" "msg_topic m = fst topic"
  shows "fanin_on_message c env m s =
    and_then (if \<not> enableMQTTpassthrough s then forward_batch c env (fst topic) m (arrival env s)
              else pass_through env m (arrival env s)) (\<lambda>_ s. Return () (s\<lparr>mqttMsgTimer := now env 2\<rparr>))"
  unfolding fanin_on_message_def using assms
  by (cases "gateway_timet0 s = 0"; cases "t0_on_first_mqtt s = 0")
    (simp_all add: arrival_def Let_def py_index_def)

definition in_service :: "'b codec \<Rightarrow> kafka_env \<Rightarrow> ('b, 'z) fanin_scheme \<Rightarrow> bool" where
  "in_service c env s \<longleftrightarrow>
     kafka_producer s \<and> kafka_only env \<and>
     (gateway_timet0 s = 0 \<or> (\<forall>k > kafka_msg_counter s. reading env k 0 \<noteq> gateway_timet0 s)) \<and>
     (\<forall>j k. j < k \<longrightarrow> reading env k 0 \<noteq> reading env j 1) \<and> (\<forall>k. reading env k 0 \<noteq> now env 0) \<and>
     (\<forall>r. \<exists>raw. encode c (send_time_series_schema_id (schemas s)) (SendTimeSeriesDruid (Dict r)) = Inr raw)"

lemma arrival_ready: "in_service c env s \<Longrightarrow> gateway_ready c env (arrival env s)"
  by (auto simp: in_service_def gateway_ready_def arrival_def clock_moves_def)

lemma ready_in_service:
  "gateway_ready c env t \<Longrightarrow> \<forall>k. reading env k 0 \<noteq> now env 0 \<Longrightarrow> in_service c env t"
  by (auto simp: in_service_def gateway_ready_def clock_moves_def)

lemma in_service_frame:
  "in_service c env (s\<lparr>mqttMsgTimer := x\<rparr>) = in_service c env s"
  "in_service c env (print_line l s) = in_service c env s"
  by (simp_all add: in_service_def print_line_def)

lemma arrival_view:
  "view_of (arrival env s) = view_of s" "gateway_config (arrival env s) = gateway_config s"
  "produced (arrival env s) = produced s" "kafka_msg_counter (arrival env s) = kafka_msg_counter s"
  "samples_k (arrival env s) = 0"
  by (simp_all add: arrival_def view_of_def gateway_config_def alarms_def)

definition view_run :: "'b codec \<Rightarrow> (nat \<Rightarrow> exn option) \<Rightarrow> ('b, 'z) fanin_scheme \<Rightarrow> triplet list \<Rightarrow> 'b gateway_view" where
  "view_run c acc s ts =
     fold (view_step c (send_time_series_schema_id (schemas s)) acc (fst (hd (mqttTopicList s))) (enableMQTTbatchCount s)) ts (view_of s)"

lemma batch_message:
  fixes s :: "('b, 'z) fanin_scheme"
  assumes ready: "in_service c env s" and topics: "mqttTopicList s = topic # rest" "msg_topic m = fst topic"
    and mode: "mqttBatching s" "\<not> enableMQTTpassthrough s"
    and batch: "decode c (msg_payload m) = Inr (SendTimeSeriesDruidArray (map Dict ts))"
  shows "\<exists>t. fanin_on_message c env m s = Return () t \<and> in_service c env t \<and>
    gateway_config t = gateway_config s \<and>
    kafka_calls t = view_calls (view_run c (accepts env) s ts) \<and>
    produced t = produced s @ map (Pair (kafkaProducerTopic s)) (view_raws (view_run c (accepts env) s ts)) \<and>
    kafka_msg_counter t = kafka_msg_counter s + int (length (view_raws (view_run c (accepts env) s ts))) \<and>
    samples_k t = length (view_raws (view_run c (accepts env) s ts)) \<and>
    myMQTTtopicCounterPerUUID t = view_counts (view_run c (accepts env) s ts) \<and>
    alarms t = view_alarms (view_run c (accepts env) s ts)"
proof -
  let ?s0 = "arrival env s"
  have same: "schemas ?s0 = schemas s" "enableMQTTbatchCount ?s0 = enableMQTTbatchCount s"
    "kafkaProducerTopic ?s0 = kafkaProducerTopic s" "mqttBatching ?s0 = mqttBatching s"
    using arrival_view(2)[of env s] by (simp_all add: gateway_config_def)
  have run: "view_run c (accepts env) s ts =
      fold (view_step c (send_time_series_schema_id (schemas ?s0)) (accepts env) (fst topic) (enableMQTTbatchCount ?s0)) ts (view_of ?s0)"
    by (simp add: view_run_def topics(1) same arrival_view(1))
  have "gateway_ready c env ?s0" by (rule arrival_ready[OF ready])
  then have "\<exists>u. for_each (\<lambda>r. handle_sample c env (fst topic) (Dict r)) ts ?s0 = Return () u \<and>
      (view_sim ?s0 u (view_run c (accepts env) s ts) \<and> gateway_ready c env u) \<and> gateway_ready c env u"
    unfolding run by (intro batch_loop.loop_refines) (simp_all add: view_sim_start)
  then obtain u where u: "for_each (\<lambda>r. handle_sample c env (fst topic) (Dict r)) ts ?s0 = Return () u"
    "view_sim ?s0 u (view_run c (accepts env) s ts)" "gateway_ready c env u"
    by blast
  define t where "t = (if samples_k u \<noteq> 47 then print_line (SamplesLine (samples_k u)) u else u)\<lparr>mqttMsgTimer := now env 2\<rparr>"
  have "fanin_on_message c env m s = Return () t"
    using mode same(4) u(1) by (simp add: fanin_on_message_data[OF topics] forward_batch_def read_query_data_def batch for_each_map t_def)
  moreover have "in_service c env t"
    using ready_in_service[OF u(3)] ready in_service_frame
    by (simp add: t_def in_service_frame) (simp add: in_service_def)
  moreover have "gateway_config t = gateway_config u" "kafka_calls t = kafka_calls u" "produced t = produced u"
    "kafka_msg_counter t = kafka_msg_counter u" "samples_k t = samples_k u"
    "myMQTTtopicCounterPerUUID t = myMQTTtopicCounterPerUUID u" "alarms t = alarms u"
    by (simp_all add: t_def gateway_config_def alarms_def print_line_def)
  ultimately show ?thesis using u(2) by (simp add: view_sim_def arrival_view same)
qed

section \<open>What the machine computes\<close>

text \<open>The payloads the Kafka client takes, of those offered from call \<open>k\<close> on.\<close>

fun accepted :: "(nat \<Rightarrow> exn option) \<Rightarrow> nat \<Rightarrow> 'a list \<Rightarrow> 'a list" where
  "accepted acc k [] = []"
| "accepted acc k (x # xs) = (if acc k = None then x # accepted acc (Suc k) xs else accepted acc (Suc k) xs)"

lemma accepted_all: "(\<And>k. acc k = None) \<Longrightarrow> accepted acc k xs = xs"
  by (induction xs arbitrary: k) auto

lemma view_step_parts:
  "view_calls (view_step c sid acc topic counting r w) = Suc (view_calls w)"
  "view_raws (view_step c sid acc topic counting r w) =
     view_raws w @ (if acc (view_calls w) = None then [sample_raw c sid r] else [])"
  "view_counts (view_step c sid acc topic counting r w) =
     (if counting then AList.update (sensorUuid r) (py_trunc (sensorValue r)) (view_counts w) else view_counts w)"
  "view_alarms (view_step c sid acc topic counting r w) =
     (if counting then view_alarms (detect topic (sensorUuid r) (py_trunc (sensorValue r)) w) else view_alarms w)"
  by (simp_all add: view_step_def Let_def detect_def)

lemma fold_view_raws:
  "view_raws (fold (view_step c sid acc topic counting) ts w) =
     view_raws w @ accepted acc (view_calls w) (map (sample_raw c sid) ts) \<and>
   view_calls (fold (view_step c sid acc topic counting) ts w) = view_calls w + length ts"
  by (induction ts arbitrary: w) (simp_all add: view_step_parts)

text \<open>Counts that never jump: the first of a new sender is 1, each later one is the last or its successor.\<close>

fun smooth :: "int option \<Rightarrow> int list \<Rightarrow> bool" where
  "smooth prev [] = True"
| "smooth prev (v # vs) =
     ((case prev of None \<Rightarrow> v = 1 | Some p \<Rightarrow> v = p \<or> v = p + 1) \<and> smooth (Some v) vs)"

definition counts_of :: "uuid \<Rightarrow> triplet list \<Rightarrow> int list" where
  "counts_of u ts = map (\<lambda>r. py_trunc (sensorValue r)) (filter (\<lambda>r. sensorUuid r = u) ts)"

lemma detect_silent_iff:
  "view_alarms (detect topic u v w) = view_alarms w \<longleftrightarrow>
   (case map_of (view_counts w) u of None \<Rightarrow> v = 1 | Some p \<Rightarrow> v = p \<or> v = p + 1)"
  by (auto simp: detect_def Let_def split: option.splits)

lemma fold_alarms_grow:
  "\<exists>ls. view_alarms (fold (view_step c sid acc topic counting) ts w) = view_alarms w @ ls"
proof (induction ts arbitrary: w)
  case (Cons r ts)
  obtain ls where "view_alarms (fold (view_step c sid acc topic counting) ts (view_step c sid acc topic counting r w)) =
      view_alarms (view_step c sid acc topic counting r w) @ ls" using Cons by blast
  moreover obtain ls' where "view_alarms (view_step c sid acc topic counting r w) = view_alarms w @ ls'"
    using detect_alarms[of topic "sensorUuid r" "py_trunc (sensorValue r)" w]
    by (cases counting) (auto simp: view_step_parts)
  ultimately show ?case by simp
qed simp

lemma map_of_update_Some: "map_of (AList.update u v xs) = (map_of xs)(u \<mapsto> v)"
  by (rule update_conv')

lemma fold_silent_iff:
  "view_alarms (fold (view_step c sid acc topic True) ts w) = view_alarms w \<longleftrightarrow>
   (\<forall>u. smooth (map_of (view_counts w) u) (counts_of u ts))"
proof (induction ts arbitrary: w)
  case Nil
  then show ?case by (simp add: counts_of_def)
next
  case (Cons r ts)
  let ?w = "view_step c sid acc topic True r w" and ?u = "sensorUuid r" and ?v = "py_trunc (sensorValue r)"
  have head: "view_alarms ?w = view_alarms w \<longleftrightarrow>
      (case map_of (view_counts w) ?u of None \<Rightarrow> ?v = 1 | Some p \<Rightarrow> ?v = p \<or> ?v = p + 1)"
    by (simp add: view_step_parts detect_silent_iff)
  have counts: "map_of (view_counts ?w) = (map_of (view_counts w))(?u \<mapsto> ?v)"
    by (simp add: view_step_parts map_of_update_Some)
  obtain ls ls' where grow: "view_alarms (fold (view_step c sid acc topic True) ts ?w) = view_alarms ?w @ ls"
    "view_alarms ?w = view_alarms w @ ls'"
    using fold_alarms_grow[of c sid acc topic True ts ?w] fold_alarms_grow[of c sid acc topic True "[r]" w] by auto
  then have "view_alarms (fold (view_step c sid acc topic True) (r # ts) w) = view_alarms w \<longleftrightarrow>
      view_alarms (fold (view_step c sid acc topic True) ts ?w) = view_alarms ?w \<and> view_alarms ?w = view_alarms w"
    by auto
  also have "\<dots> \<longleftrightarrow> (\<forall>u. smooth (((map_of (view_counts w))(?u \<mapsto> ?v)) u) (counts_of u ts)) \<and>
      (case map_of (view_counts w) ?u of None \<Rightarrow> ?v = 1 | Some p \<Rightarrow> ?v = p \<or> ?v = p + 1)"
    by (simp only: Cons.IH counts head)
  also have "\<dots> \<longleftrightarrow> (\<forall>u. smooth (map_of (view_counts w) u) (counts_of u (r # ts)))"
    by (auto simp: counts_of_def)
  finally show ?case .
qed

text \<open>The number of batches the detector reports missing at each jump, and the messages about one sender.\<close>

fun gaps :: "int option \<Rightarrow> int list \<Rightarrow> int list" where
  "gaps prev [] = []"
| "gaps prev (v # vs) =
     (case prev of None \<Rightarrow> if v = 1 then [] else [v - 1] | Some p \<Rightarrow> if v = p \<or> v = p + 1 then [] else [v - p]) @
     gaps (Some v) vs"

fun line_about :: "uuid \<Rightarrow> console_line \<Rightarrow> bool" where
  "line_about u (MissingBatchesLine u' topic n) = (u = u')"
| "line_about u _ = False"

lemma fold_gaps:
  "filter (line_about u) (view_alarms (fold (view_step c sid acc topic True) ts w)) =
   filter (line_about u) (view_alarms w) @ map (MissingBatchesLine u topic) (gaps (map_of (view_counts w) u) (counts_of u ts))"
proof (induction ts arbitrary: w)
  case Nil
  then show ?case by (simp add: counts_of_def)
next
  case (Cons r ts)
  let ?w = "view_step c sid acc topic True r w"
  have counts: "map_of (view_counts ?w) = (map_of (view_counts w))(sensorUuid r \<mapsto> py_trunc (sensorValue r))"
    by (simp add: view_step_parts map_of_update_Some)
  have "filter (line_about u) (view_alarms ?w) = filter (line_about u) (view_alarms w) @
      (if sensorUuid r = u then map (MissingBatchesLine u topic) (gaps (map_of (view_counts w) u) [py_trunc (sensorValue r)]) else [])"
    by (auto simp: view_step_parts detect_def Let_def split: option.splits)
  with Cons[of ?w] counts show ?case by (auto simp: counts_of_def)
qed

section \<open>The invariant of a gateway\<close>

text \<open>
  The message counter counts the accepted messages (it starts at 1), no call is accepted twice,
  everything goes to the configured Kafka topic, the last report is not in the future.
\<close>

definition gateway_inv :: "('b, 'z) fanin_scheme \<Rightarrow> bool" where
  "gateway_inv s \<longleftrightarrow>
     kafka_msg_counter s = 1 + int (length (produced s)) \<and> length (produced s) \<le> kafka_calls s \<and>
     MsgCount s \<le> kafka_msg_counter s \<and> list_all (\<lambda>p. fst p = kafkaProducerTopic s) (produced s)"

lemma gateway_inv_frame [simp]:
  "gateway_inv (print_line l s) = gateway_inv s" "gateway_inv (s\<lparr>console := ls\<rparr>) = gateway_inv s"
  "gateway_inv (s\<lparr>mqttMsgTimer := x\<rparr>) = gateway_inv s" "gateway_inv (s\<lparr>report_done := b\<rparr>) = gateway_inv s"
  "gateway_inv (s\<lparr>samples_k := n\<rparr>) = gateway_inv s" "gateway_inv (arrival env s) = gateway_inv s"
  "gateway_inv (s\<lparr>net := acts\<rparr>) = gateway_inv s"
  "gateway_inv (s\<lparr>kafka_msg_ack_received := i\<rparr>) = gateway_inv s"
  "gateway_inv (s\<lparr>myMQTTtopicCounterPerUUID := cs\<rparr>) = gateway_inv s"
  by (simp_all add: gateway_inv_def print_line_def arrival_def)

lemma report_rate_inv: "gateway_inv s \<Longrightarrow> out_all gateway_inv (report_rate env s)"
  by (simp add: report_rate_def Let_def gateway_inv_def print_line_def)

lemma except_kafka_inv: "out_all gateway_inv m \<Longrightarrow> out_all gateway_inv (except_kafka m)"
  by (cases m rule: except_kafka.cases) simp_all

text \<open>A call of \<open>produce\<close> and the counting after it: refused, or accepted and counted.\<close>

lemma produce_and_count_inv:
  assumes "gateway_inv s"
  shows "out_all gateway_inv (and_then (kafka_produce env raw s) (\<lambda>_ s.
    report_rate env (s\<lparr>kafka_msg_counter := kafka_msg_counter s + 1\<rparr>)))"
    "out_all gateway_inv (and_then (kafka_produce env raw s) (\<lambda>_ s.
    report_rate env (s\<lparr>kafka_msg_counter := kafka_msg_counter s + 1, samples_k := samples_k s + 1\<rparr>)))"
  using assms
  by (auto simp: kafka_produce_def Let_def gateway_inv_def intro!: report_rate_inv split: option.splits)

lemma check_batch_count_inv: "gateway_inv s \<Longrightarrow> gateway_inv (check_batch_count topic r s)"
  by (simp add: check_batch_count_view Let_def)

lemma handle_sample_inv: "gateway_inv s \<Longrightarrow> out_all gateway_inv (handle_sample c env topic data s)"
  unfolding handle_sample_def forward_sample_def
  by (intro out_all_and_then except_kafka_inv out_all_or_raise produce_and_count_inv)
    (simp_all add: check_batch_count_inv split: batch_item.splits)

interpretation gateway_batch: loop_body "handle_sample c env topic" gateway_inv
  for c :: "'b codec" and env topic
  by unfold_locales (rule handle_sample_inv)

lemma fanin_on_message_inv:
  assumes "gateway_inv s"
  shows "out_all gateway_inv (fanin_on_message c env m s)"
proof (cases "mqttTopicList s")
  case Nil
  with assms show ?thesis by (simp add: fanin_on_message_def py_index_def)
next
  case (Cons topic rest)
  show ?thesis
  proof (cases "msg_topic m = fst topic")
    case True
    have start: "gateway_inv (arrival env s)" using assms by simp
    have "out_all gateway_inv (forward_batch c env (fst topic) m (arrival env s))"
      unfolding forward_batch_def
      by (intro out_all_or_raise out_all_and_then gateway_batch.loop_keeps start) (simp_all add: start[simplified])
    moreover have "out_all gateway_inv (pass_through env m (arrival env s))"
      unfolding pass_through_def by (intro except_kafka_inv produce_and_count_inv start)
    ultimately show ?thesis unfolding fanin_on_message_data[OF Cons True]
      by (intro out_all_and_then) simp_all
  next
    case False
    with Cons assms show ?thesis by (simp add: fanin_on_message_def py_index_def)
  qed
qed

definition report_line :: "uuid \<times> int \<Rightarrow> ('b, 'z) fanin_scheme \<Rightarrow> (('b, 'z) fanin_scheme, unit) outcome" where
  "report_line = (\<lambda>(u, v) s. or_raise (py_index (mqttTopicList s) 0) s (\<lambda>topic.
     Return () ((print_line (GatewayCountLine u (fst topic) v) s)\<lparr>report_done := True\<rparr>)))"

text \<open>
  The contract of a property of the gateway that its life keeps: it does not depend on what the
  main loop, the connection and the client's callbacks change, and the message callback keeps it,
  also where it raises. Then \<open>run\<close> establishes it and every step keeps it.
\<close>

locale kept_by_gateway =
  fixes P :: "('b, 'z) fanin_scheme \<Rightarrow> bool" and c :: "'b codec"
  assumes frame: "P (s\<lparr>console := ls\<rparr>) = P s" "P (s\<lparr>mqttMsgTimer := x\<rparr>) = P s" "P (s\<lparr>report_done := b\<rparr>) = P s"
      "P (s\<lparr>kafka_msg_ack_received := i\<rparr>) = P s" "P (s\<lparr>net := acts\<rparr>) = P s" "P (s\<lparr>client := uid\<rparr>) = P s"
      "P (s\<lparr>kafka_producer := b\<rparr>) = P s"
    and callback: "P s \<Longrightarrow> out_all P (fanin_on_message c env m s)"
begin

lemma print_frame: "P (print_line l s) = P s"
  by (simp add: print_line_def frame)

lemma deliveries_keep: "P (fold kafka_producer_on_delivery ds s) = P s"
  by (induction ds arbitrary: s) (simp_all add: kafka_producer_on_delivery_def print_frame frame)

lemma report_keeps: "P s \<Longrightarrow> out_all P (for_each report_line cs s)"
proof (induction cs arbitrary: s)
  case (Cons r cs)
  then show ?case
    by (cases r) (auto simp: report_line_def print_frame frame intro!: out_all_and_then out_all_or_raise)
qed simp

lemma tick_keeps: "P s \<Longrightarrow> out_all P (fanin_tick ds time s)"
  using report_keeps by (auto simp: fanin_tick_def Let_def report_line_def[symmetric] deliveries_keep)

lemma step_keeps: "fanin_step c s t \<Longrightarrow> P s \<Longrightarrow> P t"
proof (erule fanin_stepE)
  fix env m assume "P s" "fanin_on_message c env m s = Return () t"
  then show "P t" using callback by (metis out_all.simps(1))
next
  fix env m e assume "P s" "fanin_on_message c env m s = Raise e t"
  then show "P t" using callback by (metis out_all.simps(2))
next
  fix ds time assume "P s" "fanin_tick ds time s = Return () t"
  then show "P t" using tick_keeps by (metis out_all.simps(1))
next
  assume "P s" "mqtt_on_connect (mqttTopicList s) s = Return () t"
  then show "P t" by (auto simp: mqtt_on_connect_def client_call_def frame split: option.splits)
next
  fix n assume "P s" "t = notify n s"
  then show "P t" by (simp add: notify_console frame)
next
  fix err assume "P s" "t = kafka_producer_error_cb err s"
  then show "P t" by (simp add: kafka_producer_error_cb_def print_frame)
qed

lemma reachable: "(fanin_step c)\<^sup>*\<^sup>* s t \<Longrightarrow> P s \<Longrightarrow> P t"
  by (induction rule: rtranclp_induct) (auto dest: step_keeps)

lemma start_keeps:
  assumes "fanin_start checks connects env time s = Return () t" "P s"
  shows "P t"
proof -
  have "out_all P (kafka_check_topic checks s)"
    using assms(2) by (simp add: kafka_check_topic_def split: option.splits prod.splits)
  moreover have "out_all P (kafka_producer_connect connects u)" if "P u" for u
    using that by (simp add: kafka_producer_connect_def frame split: option.splits prod.splits)
  moreover have "out_all P (mqtt_init uid topics False encrypt env u)" if "P u" for uid topics encrypt u
    by (rule mqtt_init_keeps) (use that in \<open>simp_all add: frame\<close>)
  ultimately have "out_all P (fanin_start checks connects env time s)"
    unfolding fanin_start_def by (intro out_all_and_then) (simp_all add: frame)
  with assms(1) show ?thesis by simp
qed

lemma life: "fanin_start checks connects env time s = Return () s' \<Longrightarrow> (fanin_step c)\<^sup>*\<^sup>* s' t \<Longrightarrow> P s \<Longrightarrow> P t"
  using start_keeps reachable by blast

end

interpretation accounts: kept_by_gateway gateway_inv c for c
  by unfold_locales (simp_all add: fanin_on_message_inv, simp_all add: gateway_inv_def)

text \<open>The constructor establishes it.\<close>

lemma agent_common_init_fanin:
  fixes s t :: "('b, 'z) fanin_scheme"
  assumes "agent_common_init files registry cfg debug s = Return () t"
  shows "gateway_inv t = gateway_inv s \<and> mqttTopicList t = mqttTopicList s"
  using assms
  by (auto simp: agent_common_init_def Let_def outcome_iffs gateway_inv_def split: option.splits)

lemma fanin_init_inv:
  assumes "fanin_init files registry uuid4 cfg debug encrypt topic batching counting passing s = Return () t"
  shows "gateway_inv t"
  using assms unfolding fanin_init_def Let_def
  by (auto simp: outcome_iffs dest!: agent_common_init_fanin) (simp add: gateway_inv_def)

section \<open>A gateway that never forwards\<close>

text \<open>Without batching and pass-through: the topics, the mode and that nothing was offered to Kafka.\<close>

definition idle_gateway :: "topic_qos list \<Rightarrow> ('b, 'z) fanin_scheme \<Rightarrow> bool" where
  "idle_gateway topics s \<longleftrightarrow> mqttTopicList s = topics \<and> \<not> mqttBatching s \<and> \<not> enableMQTTpassthrough s \<and>
     produced s = [] \<and> kafka_calls s = 0 \<and> kafka_msg_counter s = 1"

lemma idle_gateway_frame [simp]:
  "idle_gateway topics (print_line l s) = idle_gateway topics s" "idle_gateway topics (s\<lparr>console := ls\<rparr>) = idle_gateway topics s"
  "idle_gateway topics (s\<lparr>mqttMsgTimer := x\<rparr>) = idle_gateway topics s" "idle_gateway topics (s\<lparr>report_done := b\<rparr>) = idle_gateway topics s"
  "idle_gateway topics (s\<lparr>samples_k := n\<rparr>) = idle_gateway topics s" "idle_gateway topics (arrival env s) = idle_gateway topics s"
  "idle_gateway topics (s\<lparr>net := acts\<rparr>) = idle_gateway topics s"
  "idle_gateway topics (s\<lparr>kafka_msg_ack_received := i\<rparr>) = idle_gateway topics s"
  by (simp_all add: idle_gateway_def print_line_def arrival_def)

text \<open>The payload is put in a list, which has no field \<open>tripletBatch\<close>.\<close>

lemma forward_batch_unbatched:
  "\<not> mqttBatching s \<Longrightarrow> forward_batch c env topic m s = Raise TypeError s"
  by (simp add: forward_batch_def read_query_data_def)

lemma idle_on_message:
  assumes "idle_gateway topics s"
  shows "out_all (idle_gateway topics) (fanin_on_message c env m s)"
proof (cases "mqttTopicList s")
  case Nil
  with assms show ?thesis by (simp add: fanin_on_message_def py_index_def)
next
  case (Cons topic rest)
  have start: "idle_gateway topics (arrival env s)" using assms by simp
  then have mode: "\<not> mqttBatching (arrival env s)" "\<not> enableMQTTpassthrough s"
    using assms by (simp_all add: idle_gateway_def)
  show ?thesis
  proof (cases "msg_topic m = fst topic")
    case True
    show ?thesis using start mode unfolding fanin_on_message_data[OF Cons True]
      by (simp add: forward_batch_unbatched)
  next
    case False
    with Cons assms show ?thesis by (simp add: fanin_on_message_def py_index_def)
  qed
qed

interpretation idle: kept_by_gateway "idle_gateway topics" c for topics c
  by unfold_locales (simp_all add: idle_on_message, simp_all add: idle_gateway_def)

lemma agent_common_init_idle:
  fixes s t :: "('b, 'z) fanin_scheme"
  assumes "agent_common_init files registry cfg debug s = Return () t"
  shows "idle_gateway topics t = idle_gateway topics s"
  using assms
  by (auto simp: agent_common_init_def Let_def outcome_iffs idle_gateway_def split: option.splits)

lemma idle_init:
  assumes "fanin_init files registry uuid4 cfg debug encrypt topic False counting False s = Return () t"
  shows "\<exists>data_topic result_topic. idle_gateway [data_topic, result_topic] t"
proof -
  from assms obtain conf where conf: "checkConfigurationFile files cfg (Some [''Daemon'', ''Logger'', ''Kafka'', ''MQTT'']) = Inr conf"
    by (auto simp: fanin_init_def Let_def outcome_iffs)
  with assms obtain topics where topics: "read_topic_list conf topic = Inr topics"
    by (auto simp: fanin_init_def Let_def outcome_iffs)
  have t: "idle_gateway topics t" using assms conf topics unfolding fanin_init_def Let_def
    by (auto simp: outcome_iffs dest!: agent_common_init_idle[where topics = topics]) (simp_all add: idle_gateway_def)
  from topics show ?thesis using t by (auto simp: read_topic_list_def res_then_Inr_iff)
qed

end
