(* ===== verification/FanIn_Props.thy ===== *)
theory FanIn_Props
  imports FanIn_Spec Demo_Agent
begin

text \<open>
  The properties of the gateway: what it makes of a batch and of a passed-through payload,
  when the detector of lost batches speaks, the invariant of every reachable
  gateway, the Kafka connection loop, the idle report.
\<close>

section \<open>A concrete gateway\<close>

definition demo_gateway :: "bool \<Rightarrow> bool \<Rightarrow> bool \<Rightarrow> wire fanin" where
  "demo_gateway batching counting passing =
     agent.extend (demo_agent 1 0)
       \<lparr>mqttTopicList = [(''ibswitch/0'', 0), (''registration-result'', 0)], mqttBatching = batching,
        enableMQTTbatchCount = counting, enableMQTTpassthrough = passing,
        kafkaProducerTopic = ''fabric'', myFanInGateway_uuid = ''g'', myFanInGateway_debug = False,
        myFanIn_mqtt_encryption_enabled = True, kafka_producer = True, kafka_msg_counter = 1,
        kafka_msg_ack_received = 0, gateway_timet0 = 0, t0_on_first_mqtt = 0, MsgCount = 0,
        myMQTTtopicCounterPerUUID = [], report_done = False, mqttMsgTimer = 0, samples_k = 0,
        kafka_calls = 0, produced = []\<rparr>"

definition demo_kafka :: "(nat \<Rightarrow> exn option) \<Rightarrow> kafka_env" where
  "demo_kafka acc = \<lparr>accepts = acc, reading = (\<lambda>k i. of_int k + (if i = 0 then 1 / 2 else 1 / 4)), now = (\<lambda>i. 1 / 8)\<rparr>"

definition count_sample :: "int \<Rightarrow> triplet" where
  "count_sample k = \<lparr>timestamp = 7, sensorUuid = Uuid ''x'', sensorValue = of_int k\<rparr>"

definition batch_msg :: "triplet list \<Rightarrow> wire message" where
  "batch_msg ts = \<lparr>msg_topic = ''ibswitch/0'', msg_payload = Wire 8 (SendTimeSeriesDruidArray (map Dict ts))\<rparr>"

lemma demo_gateway_simps [simp]:
  "mqttTopicList (demo_gateway b k p) = [(''ibswitch/0'', 0), (''registration-result'', 0)]"
  "mqttBatching (demo_gateway b k p) = b" "enableMQTTbatchCount (demo_gateway b k p) = k"
  "enableMQTTpassthrough (demo_gateway b k p) = p" "kafkaProducerTopic (demo_gateway b k p) = ''fabric''"
  "kafka_producer (demo_gateway b k p)" "kafka_msg_counter (demo_gateway b k p) = 1"
  "gateway_timet0 (demo_gateway b k p) = 0" "produced (demo_gateway b k p) = []" "kafka_calls (demo_gateway b k p) = 0"
  "myMQTTtopicCounterPerUUID (demo_gateway b k p) = []" "console (demo_gateway b k p) = []"
  "MsgCount (demo_gateway b k p) = 0" "client (demo_gateway b k p) = Some ''node7''"
  "send_time_series_schema_id (schemas (demo_gateway b k p)) = 5"
  "mqttMsgTimer (demo_gateway b k p) = 0" "\<not> report_done (demo_gateway b k p)"
  by (simp_all add: demo_gateway_def agent.extend_def demo_agent_def)

lemma half_quarter: "of_int k + 1 / 2 \<noteq> (of_int j + 1 / 4 :: rat)"
proof
  assume "of_int k + 1 / 2 = (of_int j + 1 / 4 :: rat)"
  then have "of_int (4 * k + 1) = (of_int (4 * j) :: rat)" by simp
  then have "4 * k + 1 = 4 * j" by (simp only: of_int_eq_iff)
  then show False by presburger
qed

lemma half_eighth: "of_int k + 1 / 2 \<noteq> (1 / 8 :: rat)"
proof
  assume "of_int k + 1 / 2 = (1 / 8 :: rat)"
  then have "of_int (8 * k + 3) = (of_int 0 :: rat)" by simp
  then have "8 * k + 3 = 0" by (simp only: of_int_eq_iff)
  then show False by presburger
qed

lemma demo_in_service:
  "(\<And>k. acc k \<in> {None, Some BufferError, Some KafkaException}) \<Longrightarrow> in_service tag_codec (demo_kafka acc) (demo_gateway b k p)"
  using half_quarter half_eighth
  by (simp add: in_service_def kafka_only_def demo_kafka_def tag_codec_def)

section \<open>Messages\<close>

text \<open>C8: The gateway turns a batch into Kafka messages. For a batch on its topic (batching on, no
  pass-through, Kafka producer connected) the callback returns whatever the Kafka client answers
  to each message, a full queue and a Kafka error included; the samples are offered to Kafka one
  by one in the order of the batch, each encoded as a record of its own, and exactly those the
  client accepts are appended to the configured Kafka topic and counted. A sample the client
  refuses is offered once and not again.\<close>

theorem gateway_forwards_batch:
  assumes "in_service c env s" and "mqttTopicList s = topic # rest" "msg_topic m = fst topic"
    and "mqttBatching s" "\<not> enableMQTTpassthrough s"
    and "decode c (msg_payload m) = Inr (SendTimeSeriesDruidArray (map Dict ts))"
  shows "\<exists>t. fanin_on_message c env m s = Return () t \<and>
    (let new = accepted (accepts env) (kafka_calls s) (map (sample_raw c (send_time_series_schema_id (schemas s))) ts) in
     produced t = produced s @ map (Pair (kafkaProducerTopic s)) new \<and>
     kafka_msg_counter t = kafka_msg_counter s + int (length new)) \<and>
    kafka_calls t = kafka_calls s + length ts"
  using batch_message[OF assms]
  by (auto simp: view_run_def fold_view_raws view_of_def Let_def)

theorem gateway_forwards_batch_witness:
  "\<exists>t. fanin_on_message tag_codec (demo_kafka (\<lambda>k. if k = 1 then Some BufferError else None))
      (batch_msg [count_sample 1, count_sample 2, count_sample 3]) (demo_gateway True False False) = Return () t \<and>
    produced t = [(''fabric'', Wire 5 (SendTimeSeriesDruid (Dict (count_sample 1)))),
      (''fabric'', Wire 5 (SendTimeSeriesDruid (Dict (count_sample 3))))] \<and> kafka_msg_counter t = 3"
proof -
  let ?acc = "\<lambda>k::nat. if k = 1 then Some BufferError else None"
  have "in_service tag_codec (demo_kafka ?acc) (demo_gateway True False False)"
    by (rule demo_in_service) simp
  from gateway_forwards_batch[OF this, of "(''ibswitch/0'', 0)" "[(''registration-result'', 0)]"
      "batch_msg [count_sample 1, count_sample 2, count_sample 3]" "[count_sample 1, count_sample 2, count_sample 3]"]
  show ?thesis by (auto simp: batch_msg_def tag_codec_def demo_kafka_def sample_raw_def)
qed

text \<open>C13: The detector of lost batches speaks exactly when the counts of some sender jump, and says by how
  much. With the check on, the samples of a batch, read per sender, raise no message if and only
  if the first count of an unknown sender is 1 and every other count is the one before it or its
  successor; and the messages about each sender are, in order, one for each jump of its counts,
  with the data topic and the distance from the count before (from 1 for an unknown sender).\<close>

theorem lost_batch_alarm_iff:
  assumes "in_service c env s" and "mqttTopicList s = topic # rest" "msg_topic m = fst topic"
    and "mqttBatching s" "\<not> enableMQTTpassthrough s" "enableMQTTbatchCount s"
    and "decode c (msg_payload m) = Inr (SendTimeSeriesDruidArray (map Dict ts))"
  shows "\<exists>t. fanin_on_message c env m s = Return () t \<and>
    (alarms t = alarms s \<longleftrightarrow> (\<forall>u. smooth (map_of (myMQTTtopicCounterPerUUID s) u) (counts_of u ts))) \<and>
    (\<forall>u. filter (line_about u) (alarms t) = filter (line_about u) (alarms s) @
      map (MissingBatchesLine u (fst topic)) (gaps (map_of (myMQTTtopicCounterPerUUID s) u) (counts_of u ts)))"
proof -
  from batch_message[OF assms(1-5,7)] obtain t where t: "fanin_on_message c env m s = Return () t"
    "alarms t = view_alarms (view_run c (accepts env) s ts)" by blast
  have "alarms s = view_alarms (view_of s)" "map_of (myMQTTtopicCounterPerUUID s) = map_of (view_counts (view_of s))"
    by (simp_all add: view_of_def)
  with t assms(2,6) show ?thesis by (simp add: view_run_def fold_silent_iff fold_gaps)
qed

theorem lost_batch_alarm_iff_witness:
  "\<exists>t. fanin_on_message tag_codec (demo_kafka (\<lambda>k. None)) (batch_msg [count_sample 1, count_sample 1, count_sample 3])
      (demo_gateway True True False) = Return () t \<and> alarms t \<noteq> [] \<and>
    filter (line_about (Uuid ''x'')) (alarms t) = [MissingBatchesLine (Uuid ''x'') ''ibswitch/0'' 2]"
proof -
  let ?ts = "[count_sample 1, count_sample 1, count_sample 3]"
  have "in_service tag_codec (demo_kafka (\<lambda>k. None)) (demo_gateway True True False)"
    by (rule demo_in_service) simp
  from lost_batch_alarm_iff[OF this, of "(''ibswitch/0'', 0)" "[(''registration-result'', 0)]" "batch_msg ?ts" ?ts]
  obtain t where t: "fanin_on_message tag_codec (demo_kafka (\<lambda>k. None)) (batch_msg ?ts) (demo_gateway True True False) = Return () t"
    "\<forall>u. filter (line_about u) (alarms t) = map (MissingBatchesLine u ''ibswitch/0'') (gaps None (counts_of u ?ts))"
    by (auto simp: batch_msg_def tag_codec_def alarms_def)
  have "counts_of (Uuid ''x'') ?ts = [1, 1, 3]" by (simp add: counts_of_def count_sample_def py_trunc_def)
  with t(2)[rule_format, of "Uuid ''x''"]
  have "filter (line_about (Uuid ''x'')) (alarms t) = [MissingBatchesLine (Uuid ''x'') ''ibswitch/0'' 2]" by simp
  moreover from this have "alarms t \<noteq> []" by auto
  ultimately show ?thesis using t(1) by blast
qed

text \<open>C26: With pass-through the payload of a message on the data topic reaches Kafka unchanged, as one
  message, whatever it contains; if the Kafka client refuses it, it is not sent at all. Nothing
  is decoded, and the detector of lost batches, even if enabled, sees nothing.\<close>

theorem pass_through_forwards_payload:
  assumes ready: "in_service c env s" and "mqttTopicList s = topic # rest" "msg_topic m = fst topic" "enableMQTTpassthrough s"
  shows "\<exists>t. fanin_on_message c' env m s = Return () t \<and>
    produced t = produced s @ map (Pair (kafkaProducerTopic s)) (accepted (accepts env) (kafka_calls s) [msg_payload m]) \<and>
    kafka_msg_counter t = kafka_msg_counter s + int (length (accepted (accepts env) (kafka_calls s) [msg_payload m])) \<and>
    myMQTTtopicCounterPerUUID t = myMQTTtopicCounterPerUUID s \<and> alarms t = alarms s"
proof -
  define s1 where "s1 = (arrival env s)\<lparr>kafka_calls := Suc (kafka_calls s)\<rparr>"
  from arrival_ready[OF ready] have g: "kafka_producer (arrival env s)" "kafka_only env" "clock_moves env (arrival env s)"
    by (simp_all add: gateway_ready_def)
  have mode: "enableMQTTpassthrough (arrival env s)" using assms(4) by (simp add: arrival_def)
  from g(2) have "accepts env (kafka_calls s) \<in> {None, Some BufferError, Some KafkaException}"
    unfolding kafka_only_def by blast
  then consider (no) e where "accepts env (kafka_calls s) = Some e" "e = BufferError \<or> e = KafkaException"
    | (yes) "accepts env (kafka_calls s) = None" by auto
  then show ?thesis
  proof cases
    case (no e)
    then have "pass_through env m (arrival env s) =
        Return () (print_line (if e = BufferError then QueueFullLine else KafkaErrorLine) s1)"
      using g(1) by (auto simp: pass_through_def kafka_produce_def Let_def s1_def) (simp_all add: arrival_def)
    with no assms(4) show ?thesis
      by (auto simp: fanin_on_message_data[OF assms(2,3)] s1_def arrival_def print_line_def alarms_def)
  next
    case yes
    define s2 where "s2 = s1\<lparr>produced := produced s @ [(kafkaProducerTopic s, msg_payload m)],
      kafka_msg_counter := kafka_msg_counter s + 1\<rparr>"
    have "pass_through env m (arrival env s) = except_kafka (report_rate env s2)"
      using yes g(1) by (simp add: pass_through_def kafka_produce_def Let_def s1_def s2_def arrival_def)
    moreover obtain t0 mc ls where "report_rate env s2 = Return () (s2\<lparr>gateway_timet0 := t0, MsgCount := mc, console := console s2 @ ls\<rparr>)"
      "filter is_alarm ls = []"
      using report_rate_moves[of s2 env] g(3) by (auto simp: clock_moves_def s1_def s2_def arrival_def)
    ultimately show ?thesis using yes assms(4)
      by (auto simp: fanin_on_message_data[OF assms(2,3)] s1_def s2_def arrival_def alarms_def)
  qed
qed

theorem pass_through_forwards_payload_witness:
  "\<exists>t. fanin_on_message tag_codec (demo_kafka (\<lambda>k. None)) (batch_msg [count_sample 1, count_sample 2])
      (demo_gateway True True True) = Return () t \<and>
    produced t = [(''fabric'', Wire 8 (SendTimeSeriesDruidArray [Dict (count_sample 1), Dict (count_sample 2)]))]"
proof -
  have "in_service tag_codec (demo_kafka (\<lambda>k. None)) (demo_gateway True True True)"
    by (rule demo_in_service) simp
  from pass_through_forwards_payload[OF this, of "(''ibswitch/0'', 0)" "[(''registration-result'', 0)]"
      "batch_msg [count_sample 1, count_sample 2]" tag_codec]
  show ?thesis by (auto simp: batch_msg_def demo_kafka_def)
qed

section \<open>Every reachable gateway\<close>

definition demo_config :: config where
  "demo_config sec =
     (if sec \<in> set [''Daemon'', ''Logger'', ''Kafka'', ''MQTT'', ''Schemaregistry'']
      then Some (\<lambda>opt. Some (if opt \<in> set [''kafka_port'', ''mqtt_port'', ''mqtt_port_sec''] then ''9092'' else ''ibswitch/0:0''))
      else None)"

lemma demo_strings:
  "py_int ''9092'' = Inr 9092" "read_topic ''ibswitch/0:0'' = Inr (''ibswitch/0'', 0)"
  "read_topic ''ibswitch/1:0'' = Inr (''ibswitch/1'', 0)"
  by code_simp+

lemma demo_lower: "map lower_char ''mqtt_port'' = ''mqtt_port''" "map lower_char ''mqtt_port_sec'' = ''mqtt_port_sec''"
  "map lower_char ''kafka_port'' = ''kafka_port''"
  by code_simp+

lemma demo_fanin_init:
  fixes s :: "wire fanin"
  assumes "topic \<in> {None, Some ''ibswitch/0:0'', Some ''ibswitch/1:0''}"
  shows "\<exists>t. fanin_init (\<lambda>_. Some (Inr demo_config)) (\<lambda>_ _. Some 1) ''g'' ''FanIn.cfg'' False True topic batching True False s = Return () t"
proof -
  have sections: "checkConfigurationFile (\<lambda>_. Some (Inr demo_config)) ''FanIn.cfg'' (Some secs) = Inr demo_config"
    if "set secs \<subseteq> set [''Daemon'', ''Logger'', ''Kafka'', ''MQTT'', ''Schemaregistry'']" for secs
    using that by (auto simp: checkConfigurationFile_Inr_iff demo_config_def)
  have get: "\<exists>v. config_get demo_config sec opt = Inr v" if "sec \<in> set [''Kafka'', ''MQTT'', ''Schemaregistry'']" for sec opt
    using that by (auto simp: config_get_def demo_config_def)
  have ports: "config_int demo_config ''Kafka'' ''kafka_port'' = Inr 9092" "config_int demo_config ''MQTT'' ''mqtt_port'' = Inr 9092"
    "config_int demo_config ''MQTT'' ''mqtt_port_sec'' = Inr 9092"
    by (simp_all add: config_int_def config_get_def demo_config_def demo_strings demo_lower del: list.map)
  have kafka: "\<exists>v. read_kafka_conf demo_config = Inr v"
    unfolding read_kafka_conf_def by (intro res_then_ex get) (simp_all add: ports)
  have mqtt: "\<exists>v. read_mqtt_conf demo_config = Inr v"
    unfolding read_mqtt_conf_def by (intro res_then_ex get) (simp_all add: ports)
  have registry: "\<exists>v. read_registry_conf demo_config = Inr v"
    unfolding read_registry_conf_def by (intro res_then_ex get) simp_all
  have "config_get demo_config ''MQTT'' ''mqttRegistrayionResultTopic'' = Inr ''ibswitch/0:0''"
    "config_get demo_config ''MQTT'' ''mqttSingleThreadTopic'' = Inr ''ibswitch/0:0''"
    by code_simp+
  then obtain topics where topics: "read_topic_list demo_config topic = Inr topics"
    using assms by (auto simp: read_topic_list_def demo_strings)
  have "fetch_schema_ids (\<lambda>_ _. Some 1) \<noteq> None" unfolding fetch_schema_ids_iff by simp
  then obtain ids where ids: "fetch_schema_ids (\<lambda>_ _. Some 1) = Some ids" by auto
  from kafka mqtt registry obtain k mc rc where
    "read_kafka_conf demo_config = Inr k" "read_mqtt_conf demo_config = Inr mc" "read_registry_conf demo_config = Inr rc"
    by blast
  then show ?thesis
    unfolding fanin_init_def agent_common_init_def Let_def
    by (simp add: sections topics ids)
qed

text \<open>C19: In every gateway that is constructed, started and then reached by messages of any content (also
  when the callback raises), delivery reports, idle reports, reconnections and notifications of
  the clients: the message counter is one more than the number of messages the Kafka client
  accepted, no more messages were accepted than offered, all went to the configured Kafka topic,
  and the counter value of the last rate report is not ahead of the counter.\<close>

theorem gateway_invariant:
  assumes "fanin_init files registry uuid4 cfg debug encrypt topic batching counting passing s = Return () s1"
    and "fanin_start checks connects env time s1 = Return () s2"
    and "(fanin_step c)\<^sup>*\<^sup>* s2 t"
  shows "kafka_msg_counter t = 1 + int (length (produced t)) \<and> length (produced t) \<le> kafka_calls t \<and>
    MsgCount t \<le> kafka_msg_counter t \<and> list_all (\<lambda>p. fst p = kafkaProducerTopic t) (produced t)"
  using accounts.life[OF assms(2,3) fanin_init_inv[OF assms(1)]]
  by (simp add: gateway_inv_def)

definition quiet_broker :: "wire fanin net_env" where
  "quiet_broker = \<lparr>connect_error = None, subscribe_rc = (\<lambda>_. 0), is_published = True, network = (\<lambda>_ s. s)\<rparr>"

lemma quiet_start:
  "\<exists>t. fanin_start (\<lambda>_. Connected) (\<lambda>_. Connected) quiet_broker 0 s = Return () t \<and> mqttMsgTimer t = 0"
proof -
  have sub: "subscribe_until_ok topics quiet_broker u = Return () (u\<lparr>net := net u @ [Subscribe topics]\<rparr>)" if "client u \<noteq> None" for topics u
    using that by (auto simp: subscribe_until_ok_def quiet_broker_def MQTT_ERR_SUCCESS_def first_from.simps)
  have accepting: "connect_error quiet_broker = None" by (simp add: quiet_broker_def)
  have kafka: "first_from (\<lambda>k. attempt_result Connected) 0 = Some (0, None)" by (simp add: first_from.simps)
  show ?thesis unfolding fanin_start_def kafka_check_topic_def kafka_producer_connect_def kafka
    by (simp add: mqtt_init_def Let_def client_call_def sub accepting)
qed

theorem gateway_invariant_witness:
  "\<exists>s1 s2 t. fanin_init (\<lambda>_. Some (Inr demo_config)) (\<lambda>_ _. Some 1) ''g'' ''FanIn.cfg'' False True (Some ''ibswitch/1:0'') True True False
      (demo_gateway True True False) = Return () s1 \<and>
    fanin_start (\<lambda>_. Connected) (\<lambda>_. Connected) quiet_broker 0 s1 = Return () s2 \<and>
    fanin_tick [False, True] 1 s2 = Return () t \<and>
    kafka_msg_counter t = 1 + int (length (produced t))"
proof -
  obtain s1 where s1: "fanin_init (\<lambda>_. Some (Inr demo_config)) (\<lambda>_ _. Some 1) ''g'' ''FanIn.cfg'' False True (Some ''ibswitch/1:0'') True True False
      (demo_gateway True True False) = Return () s1" using demo_fanin_init by blast
  obtain s2 where s2: "fanin_start (\<lambda>_. Connected) (\<lambda>_. Connected) quiet_broker 0 s1 = Return () s2" "mqttMsgTimer s2 = 0"
    using quiet_start by blast
  then obtain t where t: "fanin_tick [False, True] 1 s2 = Return () t"
    by (auto simp: fanin_tick_def kafka_producer_on_delivery_def print_line_def)
  then have "(fanin_step tag_codec)\<^sup>*\<^sup>* s2 t" by (blast intro: fanin_step.tick)
  from gateway_invariant[OF s1 s2(1) this] s1 s2(1) t show ?thesis by blast
qed



section \<open>Waiting for Kafka\<close>

text \<open>C35: The connection loop waits for Kafka and for nothing else. It ends with a producer exactly if
  some attempt succeeds and every one before failed with a KafkaException, it is left by an
  exception exactly if the first attempt that does not fail so raises another one, and it never
  ends exactly if every attempt fails with a KafkaException.\<close>

theorem kafka_connection_outcome:
  "(kafka_producer_connect attempts s = Return () t \<longleftrightarrow>
     t = s\<lparr>kafka_producer := True\<rparr> \<and>
     (\<exists>k. attempts k = Connected \<and> list_all (\<lambda>j. attempt_result (attempts j) = None) [0..<k])) \<and>
   (kafka_producer_connect attempts s = Hang \<longleftrightarrow> (\<forall>k. attempt_result (attempts k) = None))"
proof -
  let ?f = "\<lambda>k. attempt_result (attempts k)"
  have connected: "?f k = Some None \<longleftrightarrow> attempts k = Connected" for k by (cases "attempts k") auto
  show ?thesis
  proof (cases "first_from ?f 0")
    case None
    then have none: "\<forall>k. ?f k = None" using first_from_returns_iff[of ?f 0] by blast
    with None show ?thesis by (auto simp: kafka_producer_connect_def connected[symmetric])
  next
    case (Some r)
    obtain k v where r: "r = (k, v)" by (cases r)
    from first_from_SomeD[OF Some] have k: "?f k = Some v" "\<And>j. j < k \<Longrightarrow> ?f j = None"
      by (auto simp: first_answer_def r)
    have unique: "j = k" if "attempts j = Connected" "list_all (\<lambda>j. ?f j = None) [0..<j]" for j
    proof (rule linorder_cases[of j k])
      assume "j < k" with k(2)[of j] that(1) connected show "j = k" by fastforce
    next
      assume "k < j" with that(2) k(1) show "j = k" by (simp add: list_all_iff)
    qed
    show ?thesis
    proof (cases v)
      case None
      with k Some r show ?thesis
        by (auto simp: kafka_producer_connect_def connected list_all_iff intro!: exI[of _ k])
    next
      case (Some e)
      with k unique connected \<open>first_from ?f 0 = Some r\<close> r show ?thesis
        by (auto simp: kafka_producer_connect_def)
    qed
  qed
qed

section \<open>Idle reports\<close>

lemma report_lines:
  assumes "mqttTopicList s = topic # rest"
  shows "for_each report_line cs s = Return () (s\<lparr>console := console s @ map (\<lambda>(u, v). GatewayCountLine u (fst topic) v) cs,
    report_done := (report_done s \<or> cs \<noteq> [])\<rparr>)"
  using assms
proof (induction cs arbitrary: s)
  case (Cons c cs)
  obtain u v where c: "c = (u, v)" by (cases c)
  with Cons show ?case by (simp add: report_line_def print_line_def py_index_def)
qed simp

text \<open>The batch counts are reported once per quiet period. The first turn of the main loop more than
  ten seconds after the last message on the data topic prints, with the check on, one line for
  each known sender, in the order the senders were first seen, with its last count; every later
  turn prints nothing until another message arrives on the data topic. Without a known sender
  nothing is printed.\<close>

theorem idle_report_once:
  assumes "mqttTopicList s = topic # rest" and "enableMQTTbatchCount s" "\<not> report_done s"
    and "mqttMsgTimer s + 10 < t1"
  shows "\<exists>s1. fanin_tick [] t1 s = Return () s1 \<and>
    console s1 = console s @ map (\<lambda>(u, v). GatewayCountLine u (fst topic) v) (myMQTTtopicCounterPerUUID s) \<and>
    (\<exists>s2. fanin_tick [] t2 s1 = Return () s2 \<and> console s2 = console s1)"
  using assms
  by (cases "myMQTTtopicCounterPerUUID s = []")
    (auto simp: fanin_tick_def Let_def report_line_def[symmetric] report_lines)

theorem idle_report_once_witness:
  "\<exists>s1. fanin_tick [] 11 ((demo_gateway True True False)\<lparr>myMQTTtopicCounterPerUUID := [(Uuid ''x'', 3), (Uuid ''y'', 5)]\<rparr>) = Return () s1 \<and>
    console s1 = [GatewayCountLine (Uuid ''x'') ''ibswitch/0'' 3, GatewayCountLine (Uuid ''y'') ''ibswitch/0'' 5] \<and>
    (\<exists>s2. fanin_tick [] 12 s1 = Return () s2 \<and> console s2 = console s1)"
  using idle_report_once[of "(demo_gateway True True False)\<lparr>myMQTTtopicCounterPerUUID := [(Uuid ''x'', 3), (Uuid ''y'', 5)]\<rparr>"
    "(''ibswitch/0'', 0)" "[(''registration-result'', 0)]" 11 12]
  by auto

end
