(* ===== verification/IBswitch.thy ===== *)
theory IBswitch
  imports Batching_Refinement Agent_Session "HOL-Library.AList"
begin

text \<open>
  The InfiniBand switch simulator (src/simulator/IBswitchSimulator.py): constructor, device map,
  seed map, the assembly of the UUID map, the simulated counters, the records of a switch, the
  endless loop over the switches (turn by turn), and \<open>run\<close>.

  Outside src/, hence parameters: the contents of the JSON files (\<open>sim_files\<close>: the GUIDs of a
  switch file, the device template, the metrics of a seed file; a result is an exception when
  the file is missing or not as expected), random numbers and the clock.
\<close>

section \<open>Attributes\<close>

record 'b simulator = "'b agent" +
  myRegistrationData :: reg_data
  sleepLoopTime :: rat
  seedOutputDir :: string
  device_json_dir :: string
  simulator_limit :: int
  batch_size :: int
  myAgent_mqtt_encryption_enabled :: bool
  seed_map :: "(string \<times> (string \<times> (string \<rightharpoonup> int)) list) list"
  simulator_timet0 :: rat

record sim_files =
  switch_file :: "string \<Rightarrow> exn + string list"
  device_template :: "string \<Rightarrow> exn + device"
  perfquery :: "string \<Rightarrow> exn + (string \<rightharpoonup> int)"

definition cmcs :: "string list" where
  "cmcs = [''r1i0c-ibswitch'', ''r1i1c-ibswitch'']"

definition ibmetrics :: "string list" where
  "ibmetrics = [''SymbolErrorCounter'', ''PortXmitData'']"

section \<open>Constructor\<close>

text \<open>
  An option of the command line is \<open>None\<close> where the source has \<open>False\<close>. \<open>py_float\<close> is Python's
  \<open>float\<close> of a string.
\<close>

definition read_limit :: "config \<Rightarrow> string option \<Rightarrow> exn + int" where
  "read_limit cfg option =
     res_then (case option of None \<Rightarrow> config_get cfg ''Others'' ''sendNumberOfMessages'' | Some s \<Rightarrow> Inr s)
       (\<lambda>limit. if limit = [] then Inr (-1) else py_int limit)"

definition simulator_init ::
  "(string \<Rightarrow> (exn + config) option) \<Rightarrow> (string \<Rightarrow> nat \<Rightarrow> int option) \<Rightarrow> (string \<Rightarrow> exn + rat) \<Rightarrow> string \<Rightarrow> nat \<Rightarrow>
   string \<Rightarrow> bool \<Rightarrow> bool \<Rightarrow> exn + int \<Rightarrow> bool \<Rightarrow> string option \<Rightarrow> string option \<Rightarrow> bool \<Rightarrow>
   ('b, 'z) simulator_scheme \<Rightarrow> (('b, 'z) simulator_scheme, unit) outcome" where
  "simulator_init files registry py_float uid randrange configFile debug encrypt numberOfTopics batching
      sleepTime limit_option enableMQTTbatchesCounter s =
     or_raise (checkConfigurationFile files configFile (Some [''Others''])) s (\<lambda>cfg.
     let s = agent_topics_init uid (s\<lparr>myAgent_debug := debug, myEnableMQTTbatchesCounter := Some enableMQTTbatchesCounter,
               myRegistrationData := registration_data uid ''IBSwitchSimulator'' ''simulatorAgent''\<rparr>) in
     or_raise (case sleepTime of None \<Rightarrow> res_then (config_get cfg ''Others'' ''sleepLoopTime'') py_float | Some t \<Rightarrow> py_float t) s (\<lambda>sleep.
     or_raise (config_get cfg ''Others'' ''seedOutputDir'') s (\<lambda>seeds.
     or_raise (config_get cfg ''Others'' ''deviceJSONdir'') s (\<lambda>json.
     or_raise (read_limit cfg limit_option) s (\<lambda>limit.
     or_raise (read_batch_size cfg batching) s (\<lambda>size.
     let s = s\<lparr>sleepLoopTime := sleep, seedOutputDir := seeds, device_json_dir := json, simulator_limit := limit,
               batch_size := size, myAgent_mqtt_encryption_enabled := encrypt\<rparr> in
     and_then (agent_common_init files registry configFile debug s) (\<lambda>_ s.
     or_raise numberOfTopics s (\<lambda>n. setMqttNumberOfPublishingTopics n randrange s))))))))"

section \<open>Device map and seeds\<close>

text \<open>The template, filled in for a switch.\<close>

definition switch_device :: "string \<Rightarrow> string \<Rightarrow> device \<Rightarrow> device" where
  "switch_device cmc guid template = template\<lparr>
     device_id := guid, device_name := cmc @ ''-ib'', device_type := ''Infiniband Switch'', device_location := cmc,
     device_sensors := map (\<lambda>sensor. sensor\<lparr>sensor_id := guid @ ''-'' @ sensor_name sensor\<rparr>) (device_sensors template)\<rparr>"

definition simulator_device_map :: "sim_files \<Rightarrow> ('b, 'z) simulator_scheme \<Rightarrow> exn + uuid \<times> device list" where
  "simulator_device_map fs s =
     res_then (res_map (\<lambda>cmc.
         res_then (switch_file fs cmc) (\<lambda>guids.
         res_map (\<lambda>guid.
           res_then (device_template fs (device_json_dir s @ ''/InfinibandDevice.json'')) (\<lambda>template.
           Inr (switch_device cmc guid template))) guids)) cmcs)
       (\<lambda>devices. Inr (Uuid (str_uuid (myAgent_uuid s)), concat devices))"

text \<open>The starting values (the entry \<open>Name\<close> the code adds to each is never read).\<close>

definition seed_simulator_map ::
  "sim_files \<Rightarrow> ('b, 'z) simulator_scheme \<Rightarrow> exn + (string \<times> (string \<times> (string \<rightharpoonup> int)) list) list" where
  "seed_simulator_map fs s =
     res_map (\<lambda>cmc.
       res_then (switch_file fs cmc) (\<lambda>guids.
       res_then (res_map (\<lambda>guid.
           res_then (perfquery fs (seedOutputDir s @ ''/'' @ guid @ ''.perfquery.json'')) (\<lambda>query_output.
           Inr (guid, query_output))) guids) (\<lambda>seeds.
       Inr (cmc, fold (\<lambda>(guid, q) m. AList.update guid q m) seeds [])))) cmcs"

section \<open>UUIDs from the registration\<close>

text \<open>\<open>m[guid]["sensorUuids"][guid + "-" + metric]\<close>\<close>

definition sensor_uuid_of :: "device_uuids \<Rightarrow> string \<Rightarrow> string \<Rightarrow> exn + uuid" where
  "sensor_uuid_of m guid metric =
     (case m guid of None \<Rightarrow> Inl KeyError | Some (_, sensors) \<Rightarrow>
       (case sensors (guid @ ''-'' @ metric) of None \<Rightarrow> Inl KeyError | Some u \<Rightarrow> Inr u))"

type_synonym uuid_table = "(string \<times> string \<times> string \<times> uuid) list"

definition assemble_uuids :: "sim_files \<Rightarrow> device_uuids \<Rightarrow> exn + uuid_table" where
  "assemble_uuids fs m =
     res_then (res_map (\<lambda>cmc.
         res_then (switch_file fs cmc) (\<lambda>guids.
         res_then (res_map (\<lambda>guid.
             res_map (\<lambda>metric. res_then (sensor_uuid_of m guid metric) (\<lambda>u. Inr (cmc, guid, metric, u))) ibmetrics) guids)
           (\<lambda>rows. Inr (concat rows)))) cmcs)
       (\<lambda>rows. Inr (concat rows))"

fun lookup_uuid :: "uuid_table \<Rightarrow> string \<Rightarrow> string \<Rightarrow> string \<Rightarrow> exn + uuid" where
  "lookup_uuid [] cmc guid metric = Inl KeyError"
| "lookup_uuid ((c, g, mt, u) # rows) cmc guid metric =
     (if c = cmc \<and> g = guid \<and> mt = metric then Inr u else lookup_uuid rows cmc guid metric)"

section \<open>Simulated counters\<close>

record sim_tick =
  random1 :: rat
  random2 :: rat
  random3 :: rat
  stamp_time :: rat
  stop_time :: rat

text \<open>\<open>m[counter] += k\<close>\<close>

definition bump :: "string \<Rightarrow> int \<Rightarrow> (string \<rightharpoonup> int) \<Rightarrow> exn + (string \<rightharpoonup> int)" where
  "bump counter k m = (case m counter of None \<Rightarrow> Inl KeyError | Some v \<Rightarrow> Inr (m(counter \<mapsto> v + k)))"

definition bump_by_chance :: "string \<Rightarrow> rat \<Rightarrow> (rat \<times> int) list \<Rightarrow> (string \<rightharpoonup> int) \<Rightarrow> exn + (string \<rightharpoonup> int)" where
  "bump_by_chance counter x thresholds m =
     (case find (\<lambda>(limit, k). limit < x) thresholds of None \<Rightarrow> Inr m | Some (_, k) \<Rightarrow> bump counter k m)"

definition simulate_metrics :: "sim_tick \<Rightarrow> (string \<rightharpoonup> int) \<Rightarrow> exn + (string \<rightharpoonup> int)" where
  "simulate_metrics t m =
     res_then (bump_by_chance ''SymbolErrorCounter'' (random1 t) [(98 / 100, 1000), (88 / 100, 10), (78 / 100, 1)] m) (\<lambda>m.
     res_then (bump_by_chance ''LinkDownedCounter'' (random2 t) [(99 / 100, 100), (89 / 100, 5), (79 / 100, 1)] m) (\<lambda>m.
     bump_by_chance ''PortXmitDiscards'' (random3 t) [(99 / 100, 10), (89 / 100, 5), (79 / 100, 2)] m))"

section \<open>Records and the loop\<close>

definition metric_record ::
  "uuid_table \<Rightarrow> string \<Rightarrow> string \<Rightarrow> int \<Rightarrow> (string \<rightharpoonup> int) \<Rightarrow> ('b, 'z) simulator_scheme \<Rightarrow> string \<Rightarrow> exn + triplet" where
  "metric_record table cmc guid stamp m s metric =
     (if myEnableMQTTbatchesCounter s \<noteq> Some True
      then res_then (lookup_uuid table cmc guid metric) (\<lambda>u.
           (case m metric of None \<Rightarrow> Inl KeyError | Some v \<Rightarrow>
              Inr \<lparr>timestamp = stamp, sensorUuid = u, sensorValue = of_int v\<rparr>))
      else res_then (py_index (myBatchCounter s) (myCurrentSubtopic s)) (\<lambda>k.
           Inr \<lparr>timestamp = stamp, sensorUuid = myAgent_uuid s, sensorValue = of_int k\<rparr>))"

definition simulator_args :: "('b, 'z) simulator_scheme \<Rightarrow> send_args" where
  "simulator_args s =
     \<lparr>send_topic = ''ibswitch'', sendNumberOfMessages = LimitInt (simulator_limit s), byteBatchSize = batch_size s,
      send_uuid = myAgent_uuid s, timet0 = simulator_timet0 s,
      mqttBatchCountEnabled = (myEnableMQTTbatchesCounter s = Some True)\<rparr>"

text \<open>The counters of a switch in the seed map, read and replaced.\<close>

definition metrics_of :: "string \<Rightarrow> string \<Rightarrow> ('b, 'z) simulator_scheme \<Rightarrow> exn + (string \<rightharpoonup> int)" where
  "metrics_of cmc guid s =
     (case map_of (seed_map s) cmc of None \<Rightarrow> Inl KeyError | Some switches \<Rightarrow>
       (case map_of switches guid of None \<Rightarrow> Inl KeyError | Some m \<Rightarrow> Inr m))"

definition set_metrics ::
  "string \<Rightarrow> string \<Rightarrow> (string \<rightharpoonup> int) \<Rightarrow> ('b, 'z) simulator_scheme \<Rightarrow> ('b, 'z) simulator_scheme" where
  "set_metrics cmc guid m s =
     s\<lparr>seed_map := map (\<lambda>(c, switches). (c, if c = cmc then map (\<lambda>(g, m'). (g, if g = guid then m else m')) switches else switches))
        (seed_map s)\<rparr>"

text \<open>
  One switch: move its counters, make a record per metric, hand the records to the batcher. (If
  one of the three additions raises, the loop ends; the earlier additions are not recorded here.)
\<close>

definition send_switch ::
  "'b codec \<Rightarrow> (nat \<Rightarrow> nat) \<Rightarrow> ('b, 'z) simulator_scheme net_env \<Rightarrow> uuid_table \<Rightarrow> sim_tick \<times> string \<times> string \<Rightarrow>
   ('b, 'z) simulator_scheme \<Rightarrow> (('b, 'z) simulator_scheme, unit) outcome" where
  "send_switch c sizeof env table = (\<lambda>(t, cmc, guid) s.
     or_raise (metrics_of cmc guid s) s (\<lambda>m.
     or_raise (simulate_metrics t m) s (\<lambda>m.
     let s = set_metrics cmc guid m s in
     or_raise (res_map (metric_record table cmc guid (py_round (stamp_time t * 1000)) m s) ibmetrics) s (\<lambda>record_list.
     mqtt_send_triplet_batch c sizeof (simulator_args s) (stop_time t) env record_list s))))"

definition switch_keys :: "('b, 'z) simulator_scheme \<Rightarrow> (string \<times> string) list" where
  "switch_keys s = concat (map (\<lambda>(cmc, switches). map (\<lambda>(guid, _). (cmc, guid)) switches) (seed_map s))"

text \<open>One turn of the endless loop, and \<open>k\<close> of them; \<open>tick i j\<close> is what the j-th switch of turn i draws.\<close>

definition send_turn ::
  "'b codec \<Rightarrow> (nat \<Rightarrow> nat) \<Rightarrow> ('b, 'z) simulator_scheme net_env \<Rightarrow> uuid_table \<Rightarrow> (nat \<Rightarrow> sim_tick) \<Rightarrow>
   ('b, 'z) simulator_scheme \<Rightarrow> (('b, 'z) simulator_scheme, unit) outcome" where
  "send_turn c sizeof env table tick s =
     for_each (send_switch c sizeof env table) (map (\<lambda>(j, key). (tick j, key)) (enumerate 0 (switch_keys s))) s"

primrec send_turns ::
  "'b codec \<Rightarrow> (nat \<Rightarrow> nat) \<Rightarrow> ('b, 'z) simulator_scheme net_env \<Rightarrow> uuid_table \<Rightarrow> (nat \<Rightarrow> nat \<Rightarrow> sim_tick) \<Rightarrow> nat \<Rightarrow>
   ('b, 'z) simulator_scheme \<Rightarrow> (('b, 'z) simulator_scheme, unit) outcome" where
  "send_turns c sizeof env table tick 0 s = Return () s"
| "send_turns c sizeof env table tick (Suc k) s =
     and_then (send_turns c sizeof env table tick k s) (\<lambda>_ s. send_turn c sizeof env table (tick k) s)"

text \<open>\<open>send_data\<close> up to its first \<open>k\<close> turns; \<open>start\<close> is the clock reading before them.\<close>

definition simulator_send_data ::
  "'b codec \<Rightarrow> (nat \<Rightarrow> nat) \<Rightarrow> ('b, 'z) simulator_scheme net_env \<Rightarrow> sim_files \<Rightarrow> rat \<Rightarrow> (nat \<Rightarrow> nat \<Rightarrow> sim_tick) \<Rightarrow> nat \<Rightarrow>
   ('b, 'z) simulator_scheme \<Rightarrow> (('b, 'z) simulator_scheme, unit) outcome" where
  "simulator_send_data c sizeof env fs start tick k s =
     or_raise (assemble_uuids fs (myDeviceSensorUUIDsMap s)) s (\<lambda>table.
     or_raise (seed_simulator_map fs s) s (\<lambda>seeds.
     send_turns c sizeof env table tick k (s\<lparr>seed_map := seeds, simulator_timet0 := start\<rparr>)))"

text \<open>\<open>run\<close>: connect, register, register the devices, send.\<close>

definition simulator_run ::
  "'b codec \<Rightarrow> (nat \<Rightarrow> nat) \<Rightarrow> ('b, 'z) simulator_scheme net_env \<Rightarrow> sim_files \<Rightarrow> rat \<Rightarrow> (nat \<Rightarrow> nat \<Rightarrow> sim_tick) \<Rightarrow> nat \<Rightarrow>
   ('b, 'z) simulator_scheme \<Rightarrow> (('b, 'z) simulator_scheme, unit) outcome" where
  "simulator_run c sizeof env fs start tick k s =
     and_then (mqtt_init (myAgent_uid s) (Some (myAgent_registration_response_topic s)) False
                 (myAgent_mqtt_encryption_enabled s) env s) (\<lambda>_ s.
     or_raise (py_index (myAgent_registration_request_topic s) 0) s (\<lambda>topic.
     and_then (mqtt_registration c topic (myRegistrationData s) env s) (\<lambda>_ s.
     or_raise (simulator_device_map fs s) s (\<lambda>deviceMap.
     case myDevice_registration_request_topic s of None \<Rightarrow> Raise AttributeError s | Some request_topic \<Rightarrow>
     case myDevice_registration_response_topic s of None \<Rightarrow> Raise TypeError s | Some response_topics \<Rightarrow>
     and_then (mqtt_device_registration c request_topic response_topics deviceMap env s) (\<lambda>_ s.
     simulator_send_data c sizeof env fs start tick k s)))))"

end
