(* ===== verification/IBswitch_Props.thy ===== *)
theory IBswitch_Props
  imports IBswitch Demo_Agent
begin

text \<open>
  The properties of the simulator: the UUIDs of a registration are the ones its records carry,
  its limits and
  batch size are read as the command line and the configuration say, and what the constructor
  establishes. Frame lemmas of the sending methods (what a call that returns leaves alone).
\<close>

section \<open>UUIDs of the registered devices\<close>

lemma device_map_devices:
  assumes "simulator_device_map fs s = Inr (u, devices)"
    and "device_template fs (device_json_dir s @ ''/InfinibandDevice.json'') = Inr template"
    and "cmc \<in> set cmcs" "switch_file fs cmc = Inr guids" "guid \<in> set guids"
  shows "switch_device cmc guid template \<in> set devices"
proof -
  let ?row = "\<lambda>cmc. res_then (switch_file fs cmc) (\<lambda>guids. res_map (\<lambda>guid.
      res_then (device_template fs (device_json_dir s @ ''/InfinibandDevice.json'')) (\<lambda>template.
      Inr (switch_device cmc guid template))) guids)"
  from assms(1) obtain dss where dss: "res_map ?row cmcs = Inr dss" "devices = concat dss"
    by (auto simp: simulator_device_map_def res_then_Inr_iff)
  obtain ds where ds: "ds \<in> set dss" "?row cmc = Inr ds"
    using res_map_elem[OF dss(1) assms(3)] by blast
  have "?row cmc = Inr (map (\<lambda>guid. switch_device cmc guid template) guids)"
    using assms(2,4) by (simp add: res_map_Inr[where g = "\<lambda>guid. switch_device cmc guid template"])
  with ds(2) have "ds = map (\<lambda>guid. switch_device cmc guid template) guids" by simp
  then have "switch_device cmc guid template \<in> set ds" using assms(5) by simp
  with ds(1) show ?thesis unfolding dss(2) set_concat by blast
qed

lemma switch_device_sensor:
  "metric \<in> sensor_name ` set (device_sensors template) \<Longrightarrow>
   \<exists>x \<in> set (device_sensors (switch_device cmc guid template)). sensor_id x = guid @ ''-'' @ metric"
  by (auto simp: switch_device_def)

lemma covers_sensor_uuid:
  assumes "covers m devices" "switch_device cmc guid template \<in> set devices"
    and "metric \<in> sensor_name ` set (device_sensors template)"
  shows "\<exists>u. sensor_uuid_of m guid metric = Inr u"
proof -
  obtain x where "x \<in> set (device_sensors (switch_device cmc guid template))" "sensor_id x = guid @ ''-'' @ metric"
    using switch_device_sensor[OF assms(3), of cmc guid] by blast
  moreover have "device_id (switch_device cmc guid template) = guid" by (simp add: switch_device_def)
  ultimately obtain u sensors where "m guid = Some (u, sensors)" "sensors (guid @ ''-'' @ metric) \<noteq> None"
    using assms(1,2) unfolding covers_def by metis
  then show ?thesis by (auto simp: sensor_uuid_of_def)
qed

text \<open>The assembled table, when no lookup fails.\<close>

definition uuid_rows :: "device_uuids \<Rightarrow> string \<Rightarrow> string list \<Rightarrow> uuid_table" where
  "uuid_rows m cmc guids = concat (map (\<lambda>guid. map (\<lambda>metric. (cmc, guid, metric, projr (sensor_uuid_of m guid metric))) ibmetrics) guids)"

lemma assemble_uuids_Inr:
  assumes "\<And>cmc. cmc \<in> set cmcs \<Longrightarrow> switch_file fs cmc = Inr (guids cmc)"
    and "\<And>cmc guid metric. cmc \<in> set cmcs \<Longrightarrow> guid \<in> set (guids cmc) \<Longrightarrow> metric \<in> set ibmetrics \<Longrightarrow>
      \<exists>u. sensor_uuid_of m guid metric = Inr u"
  shows "assemble_uuids fs m = Inr (concat (map (\<lambda>cmc. uuid_rows m cmc (guids cmc)) cmcs))"
proof -
  have row: "res_map (\<lambda>metric. res_then (sensor_uuid_of m guid metric) (\<lambda>u. Inr (cmc, guid, metric, u))) ibmetrics =
      Inr (map (\<lambda>metric. (cmc, guid, metric, projr (sensor_uuid_of m guid metric))) ibmetrics)"
    if "cmc \<in> set cmcs" "guid \<in> set (guids cmc)" for cmc guid
    by (rule res_map_Inr) (use assms(2)[OF that] in force)
  have "res_then (switch_file fs cmc) (\<lambda>guids.
         res_then (res_map (\<lambda>guid.
             res_map (\<lambda>metric. res_then (sensor_uuid_of m guid metric) (\<lambda>u. Inr (cmc, guid, metric, u))) ibmetrics) guids)
           (\<lambda>rows. Inr (concat rows))) = Inr (uuid_rows m cmc (guids cmc))"
    if "cmc \<in> set cmcs" for cmc
    using res_map_Inr[OF row[OF that], of "guids cmc" "\<lambda>guid. guid"] assms(1)[OF that]
    by (simp add: uuid_rows_def comp_def)
  then show ?thesis unfolding assemble_uuids_def
    by (subst res_map_Inr[where g = "\<lambda>cmc. uuid_rows m cmc (guids cmc)"]) simp_all
qed

lemma lookup_uuid_rows:
  assumes "\<forall>(c, g, mt, u) \<in> set rows. u = f c g mt" "(cmc, guid, metric, v) \<in> set rows"
  shows "lookup_uuid rows cmc guid metric = Inr (f cmc guid metric)"
  using assms by (induction rows) auto

lemma registered_table:
  assumes devices: "simulator_device_map fs s = Inr (u, devices)" and answer: "covers m devices"
    and template: "device_template fs (device_json_dir s @ ''/InfinibandDevice.json'') = Inr template"
      "set ibmetrics \<subseteq> sensor_name ` set (device_sensors template)"
    and files: "\<And>cmc. cmc \<in> set cmcs \<Longrightarrow> switch_file fs cmc = Inr (guids cmc)"
  shows "\<exists>table. assemble_uuids fs m = Inr table \<and>
    (\<forall>cmc \<in> set cmcs. \<forall>guid \<in> set (guids cmc). \<forall>metric \<in> set ibmetrics.
      sensor_uuid_of m guid metric = Inr (projr (sensor_uuid_of m guid metric)) \<and>
      lookup_uuid table cmc guid metric = Inr (projr (sensor_uuid_of m guid metric)))"
proof -
  have known: "\<exists>u. sensor_uuid_of m guid metric = Inr u"
    if "cmc \<in> set cmcs" "guid \<in> set (guids cmc)" "metric \<in> set ibmetrics" for cmc guid metric
    by (rule covers_sensor_uuid[OF answer device_map_devices[OF devices template(1) that(1) files[OF that(1)] that(2)]])
      (use template(2) that(3) in blast)
  let ?table = "concat (map (\<lambda>cmc. uuid_rows m cmc (guids cmc)) cmcs)"
  have "lookup_uuid ?table cmc guid metric = Inr (projr (sensor_uuid_of m guid metric))"
    if "cmc \<in> set cmcs" "guid \<in> set (guids cmc)" "metric \<in> set ibmetrics" for cmc guid metric
    by (rule lookup_uuid_rows[where f = "\<lambda>cmc guid metric. projr (sensor_uuid_of m guid metric)"
        and v = "projr (sensor_uuid_of m guid metric)"])
      (use that in \<open>force simp: uuid_rows_def\<close>)+
  moreover have "sensor_uuid_of m guid metric = Inr (projr (sensor_uuid_of m guid metric))"
    if "cmc \<in> set cmcs" "guid \<in> set (guids cmc)" "metric \<in> set ibmetrics" for cmc guid metric
    using known[OF that] by auto
  moreover have "assemble_uuids fs m = Inr ?table" by (rule assemble_uuids_Inr[OF files known])
  ultimately show ?thesis by blast
qed

text \<open>The UUIDs the framework assigned are the ones the samples carry. If the framework's answer covers
  the devices the simulator registered (every device and every sensor of it), and the template
  has the two metrics that are sent, then the assembly of the UUID table raises no KeyError, and
  for every switch of both switch files and both metrics the table yields the UUID the answer
  holds for the sensor "guid-metric" of the device "guid".\<close>

theorem registered_devices_get_uuids:
  assumes devices: "simulator_device_map fs s = Inr (u, devices)" and answer: "covers m devices"
    and template: "device_template fs (device_json_dir s @ ''/InfinibandDevice.json'') = Inr template"
      "set ibmetrics \<subseteq> sensor_name ` set (device_sensors template)"
  shows "\<exists>table. assemble_uuids fs m = Inr table \<and>
    (\<forall>cmc guids guid metric. cmc \<in> set cmcs \<and> switch_file fs cmc = Inr guids \<and> guid \<in> set guids \<and> metric \<in> set ibmetrics \<longrightarrow>
      (\<exists>v. lookup_uuid table cmc guid metric = Inr v \<and> sensor_uuid_of m guid metric = Inr v))"
proof -
  define guids where "guids cmc = projr (switch_file fs cmc)" for cmc
  have files: "switch_file fs cmc = Inr (guids cmc)" if "cmc \<in> set cmcs" for cmc
    using devices that unfolding simulator_device_map_def guids_def
    by (auto simp: res_then_Inr_iff dest!: res_map_elem)
  from registered_table[OF devices answer template files] obtain table where table: "assemble_uuids fs m = Inr table"
    "\<forall>cmc \<in> set cmcs. \<forall>guid \<in> set (guids cmc). \<forall>metric \<in> set ibmetrics.
      sensor_uuid_of m guid metric = Inr (projr (sensor_uuid_of m guid metric)) \<and>
      lookup_uuid table cmc guid metric = Inr (projr (sensor_uuid_of m guid metric))" by blast
  have "guids cmc = gs" if "switch_file fs cmc = Inr gs" for cmc gs using that by (simp add: guids_def)
  with table show ?thesis by blast
qed

definition demo_template :: device where
  "demo_template = \<lparr>device_uuid = None, device_id = ''use guid'', device_name = ''n'', device_type = ''t'', device_location = ''l'',
     device_sensors = map (\<lambda>name. \<lparr>sensor_uuid = None, sensor_id = ''guid+metricname'', sensor_name = name, sensor_type = ''Counter'',
       valueRangeMin = 0, valueRangeMax = 65535, currentCollectionFrequency = 1 / 10, storageTime = 1\<rparr>) ibmetrics\<rparr>"

definition demo_files :: sim_files where
  "demo_files = \<lparr>switch_file = (\<lambda>cmc. Inr (if cmc = ''r1i0c-ibswitch'' then [''A''] else [''B''])),
     device_template = (\<lambda>_. Inr demo_template),
     perfquery = (\<lambda>_. Inr [''SymbolErrorCounter'' \<mapsto> 7, ''LinkDownedCounter'' \<mapsto> 0, ''PortXmitDiscards'' \<mapsto> 0, ''PortXmitData'' \<mapsto> 9])\<rparr>"

definition demo_answer :: device_uuids where
  "demo_answer = (\<lambda>guid. Some (Uuid ''d'', \<lambda>sensor. Some (Uuid sensor)))"

definition demo_simulator :: "bool \<Rightarrow> int \<Rightarrow> nat \<Rightarrow> wire simulator" where
  "demo_simulator counting bbs n =
     agent.extend ((demo_agent n 0)\<lparr>myEnableMQTTbatchesCounter := Some counting\<rparr>)
       \<lparr>myRegistrationData = registration_data ''node7'' ''IBSwitchSimulator'' ''simulatorAgent'', sleepLoopTime = 1 / 100,
        seedOutputDir = ''/tmp'', device_json_dir = ''/simulator'', simulator_limit = -1, batch_size = bbs,
        myAgent_mqtt_encryption_enabled = True, seed_map = [], simulator_timet0 = 0\<rparr>"

theorem registered_devices_get_uuids_witness:
  "\<exists>table. assemble_uuids demo_files demo_answer = Inr table \<and>
    lookup_uuid table ''r1i1c-ibswitch'' ''B'' ''PortXmitData'' = Inr (Uuid ''B-PortXmitData'')"
proof -
  have devices: "simulator_device_map demo_files (demo_simulator False 512 1) =
      Inr (Uuid ''u1'', [switch_device ''r1i0c-ibswitch'' ''A'' demo_template, switch_device ''r1i1c-ibswitch'' ''B'' demo_template])"
    by (simp add: simulator_device_map_def demo_files_def cmcs_def demo_simulator_def agent.extend_def)
  have "covers demo_answer devs" for devs by (simp add: covers_def demo_answer_def)
  note answer = this[of "[switch_device ''r1i0c-ibswitch'' ''A'' demo_template, switch_device ''r1i1c-ibswitch'' ''B'' demo_template]"]
  have template: "device_template demo_files (device_json_dir (demo_simulator False 512 1) @ ''/InfinibandDevice.json'') = Inr demo_template"
    "set ibmetrics \<subseteq> sensor_name ` set (device_sensors demo_template)"
    by (simp_all add: demo_files_def demo_template_def ibmetrics_def)
  from registered_devices_get_uuids[OF devices answer template] obtain table where
    "assemble_uuids demo_files demo_answer = Inr table"
    "\<forall>cmc guids guid metric. cmc \<in> set cmcs \<and> switch_file demo_files cmc = Inr guids \<and> guid \<in> set guids \<and> metric \<in> set ibmetrics \<longrightarrow>
      (\<exists>v. lookup_uuid table cmc guid metric = Inr v \<and> sensor_uuid_of demo_answer guid metric = Inr v)"
    by blast
  from this(1) this(2)[rule_format, of "''r1i1c-ibswitch''" "[''B'']" "''B''" "''PortXmitData''"] show ?thesis
    by (auto simp: cmcs_def ibmetrics_def demo_files_def sensor_uuid_of_def demo_answer_def)
qed

text \<open>What a switch draws in a turn: symbol errors, nothing else.\<close>

definition busy_tick :: sim_tick where
  "busy_tick = \<lparr>random1 = 99 / 100, random2 = 0, random3 = 0, stamp_time = 0, stop_time = 0\<rparr>"

end
