(* ===== verification/Pipeline.thy ===== *)
theory Pipeline
  imports Batching_Refinement FanIn_Spec "HOL-Library.Multiset"
begin

text \<open>
  The agent's batches through the gateways to Kafka: the messages an MQTT broker hands to the
  gateway of a subtopic, a run of a gateway over several batches, and what becomes of every
  sample an agent sends. That the broker delivers the messages of a topic completely and in
  order is a hypothesis where it is used (QoS 0 does not promise it).
\<close>

section \<open>Messages of a topic\<close>

definition messages_on :: "string \<Rightarrow> 'b mqtt_action list \<Rightarrow> 'b message list" where
  "messages_on topic acts = concat (map (\<lambda>act. case act of
     Publish tp raw qos retain \<Rightarrow> if tp = topic then [\<lparr>msg_topic = tp, msg_payload = raw\<rparr>] else []
   | _ \<Rightarrow> []) acts)"

definition carries :: "'b codec \<Rightarrow> string \<Rightarrow> 'b message \<Rightarrow> triplet list \<Rightarrow> bool" where
  "carries c topic m ts \<longleftrightarrow>
     msg_topic m = topic \<and> decode c (msg_payload m) = Inr (SendTimeSeriesDruidArray (map Dict ts))"

definition blocks_of :: "nat \<Rightarrow> (nat \<times> 'r list) list \<Rightarrow> 'r list list" where
  "blocks_of i bs = map snd (filter (\<lambda>b. fst b = i) bs)"

lemma published_messages:
  assumes "codec_laws c rnd" "list_all2 (publishes c sid topic) bs acts"
  shows "list_all2 (carries c (subtopic topic i)) (messages_on (subtopic topic i) acts)
    (map (map (narrow rnd)) (blocks_of i bs))"
  using assms(2)
proof (induction rule: list_all2_induct)
  case (Cons b bs act acts)
  then obtain raw where raw: "act = Publish (subtopic topic (fst b)) raw 0 False"
    "encode c sid (SendTimeSeriesDruidArray (map Dict (snd b))) = Inr raw" by (auto simp: publishes_def)
  with assms(1) obtain ts where "map Dict (snd b) = (map Dict ts :: 'a batch_item list)"
    "decode c raw = Inr (SendTimeSeriesDruidArray (map Dict (map (narrow rnd) ts)))"
    unfolding codec_laws_def by blast
  moreover from this(1) have "snd b = ts" by (metis dict_samples_map)
  ultimately show ?case using raw(1) Cons(3)
    by (simp add: messages_on_def blocks_of_def carries_def del: map_map)
qed (simp add: messages_on_def blocks_of_def)

text \<open>The samples of the blocks, subtopic by subtopic, are the samples of the stream.\<close>

lemma mset_blocks_of:
  assumes "\<forall>b \<in> set bs. fst b < n"
  shows "(\<Sum>i<n. mset (concat (blocks_of i bs))) = mset (concat (map snd bs))"
  using assms
proof (induction bs)
  case (Cons b bs)
  have one: "mset (concat (blocks_of i (b # bs))) = (if i = fst b then mset (snd b) else {#}) + mset (concat (blocks_of i bs))" for i
    by (simp add: blocks_of_def)
  have "(\<Sum>i<n. mset (concat (blocks_of i (b # bs)))) =
      (\<Sum>i<n. if i = fst b then mset (snd b) else {#}) + (\<Sum>i<n. mset (concat (blocks_of i bs)))"
    unfolding one by (rule sum.distrib)
  also have "(\<Sum>i<n. if i = fst b then mset (snd b) else {#}) = mset (snd b)"
    using Cons.prems by simp
  finally show ?case using Cons by simp
qed (simp add: blocks_of_def)

section \<open>A gateway over several batches\<close>

type_synonym 'b arrivals = "((nat \<Rightarrow> rat) \<times> 'b message) list"

text \<open>Messages handled one after the other, each with the clock readings of its own callback.\<close>

definition gateway_run ::
  "'b codec \<Rightarrow> kafka_env \<Rightarrow> 'b arrivals \<Rightarrow> ('b, 'z) fanin_scheme \<Rightarrow> (('b, 'z) fanin_scheme, unit) outcome" where
  "gateway_run c env msgs s = for_each (\<lambda>(n, m). fanin_on_message c (env\<lparr>now := n\<rparr>) m) msgs s"

definition timely :: "kafka_env \<Rightarrow> 'b arrivals \<Rightarrow> bool" where
  "timely env msgs \<longleftrightarrow> (\<forall>p \<in> set msgs. \<forall>k. reading env k 0 \<noteq> fst p 0)"

lemma view_rel_fold:
  assumes "view_calls w = view_calls w'" "view_counts w = view_counts w'" "view_alarms w = view_alarms w'"
  shows "view_counts (fold (view_step c sid acc topic counting) ts w) = view_counts (fold (view_step c sid acc topic counting) ts w') \<and>
    view_alarms (fold (view_step c sid acc topic counting) ts w) = view_alarms (fold (view_step c sid acc topic counting) ts w')"
  using assms
proof (induction ts arbitrary: w w')
  case (Cons r ts)
  then show ?case by (simp add: Cons.IH[of "view_step c sid acc topic counting r w" "view_step c sid acc topic counting r w'"]
    view_step_parts detect_def)
qed simp

lemma view_run_append:
  assumes same: "gateway_config t = gateway_config s"
    and t: "kafka_calls t = view_calls (view_run c acc s ts)" "myMQTTtopicCounterPerUUID t = view_counts (view_run c acc s ts)"
      "alarms t = view_alarms (view_run c acc s ts)"
  shows "view_calls (view_run c acc s (ts @ us)) = view_calls (view_run c acc t us)"
    "view_counts (view_run c acc s (ts @ us)) = view_counts (view_run c acc t us)"
    "view_alarms (view_run c acc s (ts @ us)) = view_alarms (view_run c acc t us)"
    "view_raws (view_run c acc s (ts @ us)) = view_raws (view_run c acc s ts) @ view_raws (view_run c acc t us)"
proof -
  let ?step = "view_step c (send_time_series_schema_id (schemas s)) acc (fst (hd (mqttTopicList s))) (enableMQTTbatchCount s)"
  have t_run: "view_run c acc t us = fold ?step us (view_of t)"
    using same by (simp add: view_run_def gateway_config_def)
  have s_run: "view_run c acc s (ts @ us) = fold ?step us (view_run c acc s ts)"
    by (simp add: view_run_def)
  have rel: "view_calls (view_of t) = view_calls (view_run c acc s ts)" "view_counts (view_of t) = view_counts (view_run c acc s ts)"
    "view_alarms (view_of t) = view_alarms (view_run c acc s ts)" "view_raws (view_of t) = []"
    using t by (simp_all add: view_of_def)
  show "view_calls (view_run c acc s (ts @ us)) = view_calls (view_run c acc t us)"
    "view_raws (view_run c acc s (ts @ us)) = view_raws (view_run c acc s ts) @ view_raws (view_run c acc t us)"
    using rel by (simp_all add: s_run t_run fold_view_raws)
  show "view_counts (view_run c acc s (ts @ us)) = view_counts (view_run c acc t us)"
    "view_alarms (view_run c acc s (ts @ us)) = view_alarms (view_run c acc t us)"
    using view_rel_fold[of "view_run c acc s ts" "view_of t"] rel unfolding s_run t_run by simp_all
qed

lemma view_run_Nil [simp]: "view_run c acc s [] = view_of s"
  by (simp add: view_run_def)

lemma in_service_now:
  "in_service c env s \<Longrightarrow> \<forall>k. reading env k 0 \<noteq> n 0 \<Longrightarrow> in_service c (env\<lparr>now := n\<rparr>) s"
  "in_service c (env\<lparr>now := n\<rparr>) s \<Longrightarrow> \<forall>k. reading env k 0 \<noteq> now env 0 \<Longrightarrow> in_service c env s"
  by (simp_all add: in_service_def kafka_only_def)

lemma in_service_now0: "in_service c env s \<Longrightarrow> \<forall>k. reading env k 0 \<noteq> now env 0"
  by (simp add: in_service_def)

lemma gateway_run_batches:
  assumes "list_all2 (\<lambda>p. carries c (fst topic) (snd p)) msgs tss" and "timely env msgs"
    and "in_service c env s" and "mqttTopicList s = topic # rest" and "mqttBatching s" "\<not> enableMQTTpassthrough s"
  shows "\<exists>t. gateway_run c env msgs s = Return () t \<and> in_service c env t \<and> gateway_config t = gateway_config s \<and>
    kafka_calls t = view_calls (view_run c (accepts env) s (concat tss)) \<and>
    produced t = produced s @ map (Pair (kafkaProducerTopic s)) (view_raws (view_run c (accepts env) s (concat tss))) \<and>
    myMQTTtopicCounterPerUUID t = view_counts (view_run c (accepts env) s (concat tss)) \<and>
    alarms t = view_alarms (view_run c (accepts env) s (concat tss))"
  using assms
proof (induction msgs tss arbitrary: s rule: list_all2_induct)
  case Nil
  then show ?case by (simp add: gateway_run_def view_of_def)
next
  case (Cons p msgs ts tss)
  obtain n m where p: "p = (n, m)" by (cases p)
  with Cons have m: "msg_topic m = fst topic" "decode c (msg_payload m) = Inr (SendTimeSeriesDruidArray (map Dict ts))"
    and n: "\<forall>k. reading env k 0 \<noteq> n 0" and rest: "timely env msgs"
    by (auto simp: carries_def timely_def)
  have "in_service c (env\<lparr>now := n\<rparr>) s" by (rule in_service_now(1)) (fact Cons.prems(2) n)+
  from batch_message[OF this Cons.prems(3) m(1) Cons.prems(4,5) m(2)]
  obtain u where u: "fanin_on_message c (env\<lparr>now := n\<rparr>) m s = Return () u" "in_service c (env\<lparr>now := n\<rparr>) u"
    "gateway_config u = gateway_config s" "kafka_calls u = view_calls (view_run c (accepts env) s ts)"
    "produced u = produced s @ map (Pair (kafkaProducerTopic s)) (view_raws (view_run c (accepts env) s ts))"
    "myMQTTtopicCounterPerUUID u = view_counts (view_run c (accepts env) s ts)"
    "alarms u = view_alarms (view_run c (accepts env) s ts)"
    by auto
  have service: "in_service c env u" by (rule in_service_now(2)[OF u(2)]) (rule in_service_now0[OF Cons.prems(2)])
  have cfg: "mqttTopicList u = topic # rest" "mqttBatching u" "\<not> enableMQTTpassthrough u" "kafkaProducerTopic u = kafkaProducerTopic s"
    using u(3) Cons.prems(3-5) by (simp_all add: gateway_config_def)
  from Cons.IH[OF rest service cfg(1-3)] obtain t where t: "gateway_run c env msgs u = Return () t" "in_service c env t"
    "gateway_config t = gateway_config u" "kafka_calls t = view_calls (view_run c (accepts env) u (concat tss))"
    "produced t = produced u @ map (Pair (kafkaProducerTopic u)) (view_raws (view_run c (accepts env) u (concat tss)))"
    "myMQTTtopicCounterPerUUID t = view_counts (view_run c (accepts env) u (concat tss))"
    "alarms t = view_alarms (view_run c (accepts env) u (concat tss))"
    by auto
  have "gateway_run c env (p # msgs) s = Return () t" using u(1) t(1) by (simp add: gateway_run_def p)
  with t u(3,5) cfg(4) view_run_append[OF u(3,4,6,7), of "concat tss"] show ?case by simp
qed

text \<open>The blocks of a subtopic, delivered to its gateway, with a Kafka client that accepts everything.\<close>

lemma blocks_reach_kafka:
  assumes laws: "codec_laws c rnd" and acts: "list_all2 (publishes c sid topic) bs acts"
    and msgs: "map snd msgs = messages_on (subtopic topic i) acts" "timely kenv msgs"
    and gateway: "in_service c kenv g" "mqttTopicList g = (subtopic topic i, q) # rest" "mqttBatching g" "\<not> enableMQTTpassthrough g"
    and kafka: "\<And>k. accepts kenv k = None"
  shows "\<exists>g'. gateway_run c kenv msgs g = Return () g' \<and>
    produced g' = produced g @ map (\<lambda>r. (kafkaProducerTopic g, sample_raw c (send_time_series_schema_id (schemas g)) (narrow rnd r)))
      (concat (blocks_of i bs))"
proof -
  let ?tss = "map (map (narrow rnd)) (blocks_of i bs)"
  have "list_all2 (carries c (subtopic topic i)) (map snd msgs) ?tss"
    unfolding msgs(1) by (rule published_messages[OF laws acts])
  then have "list_all2 (\<lambda>p. carries c (fst (subtopic topic i, q)) (snd p)) msgs ?tss"
    by (simp add: list_all2_map1)
  from gateway_run_batches[OF this msgs(2) gateway] obtain g' where g': "gateway_run c kenv msgs g = Return () g'"
    "produced g' = produced g @ map (Pair (kafkaProducerTopic g)) (view_raws (view_run c (accepts kenv) g (concat ?tss)))"
    by blast
  have "view_raws (view_run c (accepts kenv) g xs) = map (sample_raw c (send_time_series_schema_id (schemas g))) xs" for xs
    by (simp add: view_run_def fold_view_raws view_of_def accepted_all[of "accepts kenv", OF kafka])
  then have "view_raws (view_run c (accepts kenv) g (concat ?tss)) =
      map (\<lambda>r. sample_raw c (send_time_series_schema_id (schemas g)) (narrow rnd r)) (concat (blocks_of i bs))"
    by (simp add: map_concat[symmetric] comp_def)
  with g' show ?thesis by (simp add: comp_def)
qed

end
