(* ===== verification/Redfish.thy ===== *)
theory Redfish
  imports Batching_Refinement Agent_Session
begin

text \<open>
  The Redfish agent (src/redfish/RedfishAgent.py): constructor, device map, the records of the
  sensors of the chassis, the endless polling loop (turn by turn), and \<open>run\<close>. Its callback and
  its signal handler are in \<open>Agent_Handler\<close> and \<open>Registration\<close>.

  Outside src/, hence parameters: the \<open>redfish\<close> library (what a call of \<open>connect\<close> answers, as the
  chassis with their temperatures and fans, or the exception it raises), the JSON template (read
  and never used), \<open>float\<close> of a string, the clock.
\<close>

section \<open>What the library answers\<close>

text \<open>A reading as the library hands it over: a number, a text such as ''12 Percent'', or nothing.\<close>

datatype reading = Number rat | Words string | Missing

record chassis =
  chassis_name :: string
  temperatures :: "(string \<times> reading) list"
  fans :: "(string \<times> reading) list"

text \<open>\<open>float(value)\<close>, with \<open>py_float\<close> for a text.\<close>

fun float_of :: "(string \<Rightarrow> exn + rat) \<Rightarrow> reading \<Rightarrow> exn + rat" where
  "float_of py_float (Number x) = Inr x"
| "float_of py_float (Words s) = py_float s"
| "float_of py_float Missing = Inl TypeError"

text \<open>\<open>s.split(None, 1)\<close>: the first word and, if there is more, the rest.\<close>

definition split_first_word :: "string \<Rightarrow> string list" where
  "split_first_word s =
     (case dropWhile is_space s of [] \<Rightarrow> []
      | cs \<Rightarrow> (let rest = dropWhile is_space (dropWhile (\<lambda>c. \<not> is_space c) cs) in
               takeWhile (\<lambda>c. \<not> is_space c) cs # (if rest = [] then [] else [rest])))"

text \<open>\<open>float(value.split(None, 1)[0])\<close>\<close>

fun fan_value :: "(string \<Rightarrow> exn + rat) \<Rightarrow> reading \<Rightarrow> exn + rat" where
  "fan_value py_float (Words s) = res_then (py_index (split_first_word s) 0) py_float"
| "fan_value py_float (Number x) = Inl AttributeError"
| "fan_value py_float Missing = Inl AttributeError"

section \<open>Attributes and constructor\<close>

record 'b redfish_agent = "'b agent" +
  redfish_registration :: reg_data
  redfish_sleepLoopTime :: rat
  redfish_seedOutputDir :: string
  redfish_json_dir :: string
  redfish_limit :: string
  redfish_batch_size :: int
  redfish_encryption :: bool
  myAgent_redfish_ip :: string
  myAgent_redfish_acc :: string
  myAgent_redfish_pwd :: string
  mqttTopicRoot :: string
  redfish_timet0 :: rat

text \<open>\<open>"redfish/" + ip.split("://")[1].split("/")[0] + "/"\<close>\<close>

definition topic_root :: "string \<Rightarrow> exn + string" where
  "topic_root ip =
     res_then (py_index (py_split ''://'' ip) 1) (\<lambda>rest.
     res_then (py_index (py_split ''/'' rest) 0) (\<lambda>host. Inr (''redfish/'' @ host @ ''/'')))"

text \<open>An option of the command line is \<open>None\<close> where the source has \<open>False\<close>.\<close>

definition redfish_init ::
  "(string \<Rightarrow> (exn + config) option) \<Rightarrow> (string \<Rightarrow> nat \<Rightarrow> int option) \<Rightarrow> (string \<Rightarrow> exn + rat) \<Rightarrow> string \<Rightarrow> nat \<Rightarrow>
   string \<Rightarrow> bool \<Rightarrow> bool \<Rightarrow> exn + int \<Rightarrow> bool \<Rightarrow> string option \<Rightarrow>
   ('b, 'z) redfish_agent_scheme \<Rightarrow> (('b, 'z) redfish_agent_scheme, unit) outcome" where
  "redfish_init files registry py_float uid randrange configFile debug encrypt numberOfTopics batching sleepTime s =
     or_raise (checkConfigurationFile files configFile (Some [''Others'', ''MQTT'', ''Redfish''])) s (\<lambda>cfg.
     let s = agent_topics_init uid (s\<lparr>myAgent_debug := debug,
               redfish_registration := registration_data uid ''RedfishAgent'' ''redfishAgent''\<rparr>) in
     or_raise (case sleepTime of None \<Rightarrow> res_then (config_get cfg ''Others'' ''sleepLoopTime'') py_float | Some t \<Rightarrow> py_float t) s (\<lambda>sleep.
     or_raise (config_get cfg ''Others'' ''seedOutputDir'') s (\<lambda>seeds.
     or_raise (config_get cfg ''Others'' ''deviceJSONdir'') s (\<lambda>json.
     or_raise (config_get cfg ''Others'' ''sendNumberOfMessages'') s (\<lambda>limit.
     or_raise (read_batch_size cfg batching) s (\<lambda>size.
     or_raise (config_get cfg ''Redfish'' ''redfish_ip'') s (\<lambda>ip.
     or_raise (config_get cfg ''Redfish'' ''redfish_acc'') s (\<lambda>acc.
     or_raise (config_get cfg ''Redfish'' ''redfish_pwd'') s (\<lambda>pwd.
     or_raise (topic_root ip) s (\<lambda>topicRoot.
     let s = s\<lparr>redfish_sleepLoopTime := sleep, redfish_seedOutputDir := seeds, redfish_json_dir := json,
               redfish_limit := limit, redfish_batch_size := size, redfish_encryption := encrypt,
               myAgent_redfish_ip := ip, myAgent_redfish_acc := acc, myAgent_redfish_pwd := pwd,
               mqttTopicRoot := topicRoot\<rparr> in
     and_then (agent_common_init files registry configFile debug s) (\<lambda>_ s.
     or_raise numberOfTopics s (\<lambda>n. setMqttNumberOfPublishingTopics n randrange s))))))))))))"

section \<open>Device map\<close>

text \<open>The id of a chassis, and of one of its sensors.\<close>

definition chassis_id :: "uuid \<Rightarrow> string \<Rightarrow> string" where
  "chassis_id u chassisName = str_uuid u @ ''-'' @ chassisName"

definition redfish_sensor_id :: "uuid \<Rightarrow> string \<Rightarrow> string \<Rightarrow> string" where
  "redfish_sensor_id u chassisName sensorName = str_uuid u @ ''-'' @ chassisName @ ''-'' @ sensorName"

definition sensor_template :: "uuid \<Rightarrow> string \<Rightarrow> string \<Rightarrow> sensor" where
  "sensor_template u chassisName sensorName =
     \<lparr>sensor_uuid = None, sensor_id = redfish_sensor_id u chassisName sensorName, sensor_name = sensorName,
      sensor_type = ''Counter'', valueRangeMin = 0, valueRangeMax = 100, currentCollectionFrequency = 1, storageTime = 1\<rparr>"

definition chassis_device :: "uuid \<Rightarrow> chassis \<Rightarrow> device" where
  "chassis_device u ch =
     \<lparr>device_uuid = None, device_id = chassis_id u (chassis_name ch), device_name = chassis_name ch,
      device_type = ''Redfish iLO'', device_location = ''unknown'',
      device_sensors =
        map (\<lambda>(sensorName, value). sensor_template u (chassis_name ch) sensorName) (temperatures ch) @
        map (\<lambda>(sensorName, value). sensor_template u (chassis_name ch) sensorName) (fans ch)\<rparr>"

text \<open>
  A local variable has no value before it is assigned, and reading it then is an error. One
  connection is tried: the assignment of \<open>redfish_data\<close> in the \<open>try\<close> statement takes place if it
  succeeds; the handler of a \<open>RedfishException\<close> prints and sleeps and leaves the variable as it is;
  another exception is not caught.
\<close>

definition py_local :: "'a option \<Rightarrow> exn + 'a" where
  "py_local x = (case x of None \<Rightarrow> Inl UnboundLocalError | Some v \<Rightarrow> Inr v)"

definition try_connect :: "exn + 'a \<Rightarrow> 'a option \<Rightarrow> exn + 'a option" where
  "try_connect connect redfish_data =
     (case connect of
        Inr chs \<Rightarrow> Inr (Some chs)
      | Inl e \<Rightarrow> if e = RedfishException then Inr redfish_data else Inl e)"

definition redfish_device_map ::
  "(string \<Rightarrow> exn + unit) \<Rightarrow> exn + chassis list \<Rightarrow> ('b, 'z) redfish_agent_scheme \<Rightarrow> exn + uuid \<times> device list" where
  "redfish_device_map template connect s =
     res_then (template (redfish_json_dir s @ ''/iLODevice.json'')) (\<lambda>_.
     res_then (try_connect connect None) (\<lambda>redfish_data.
     res_then (py_local redfish_data) (\<lambda>chs.
     Inr (Uuid (str_uuid (myAgent_uuid s)), map (chassis_device (myAgent_uuid s)) chs))))"

section \<open>Records and the loop\<close>

text \<open>\<open>while not connected\<close>: the first attempt that does not raise a \<open>RedfishException\<close>.\<close>

definition redfish_connect :: "(nat \<Rightarrow> exn + chassis list) \<Rightarrow> (nat \<times> (exn + chassis list)) option" where
  "redfish_connect attempts =
     first_from (\<lambda>k. if attempts k = Inl RedfishException then None else Some (attempts k)) 0"

text \<open>\<open>self.myDeviceSensorUUIDsMap[id]["sensorUuids"][sensorName]\<close>\<close>

definition redfish_sensor_uuid :: "device_uuids \<Rightarrow> uuid \<Rightarrow> string \<Rightarrow> string \<Rightarrow> exn + uuid" where
  "redfish_sensor_uuid m u chassisName sensorName =
     (case m (chassis_id u chassisName) of None \<Rightarrow> Inl KeyError | Some (_, sensors) \<Rightarrow>
       (case sensors (redfish_sensor_id u chassisName sensorName) of None \<Rightarrow> Inl KeyError | Some v \<Rightarrow> Inr v))"

definition reading_record ::
  "device_uuids \<Rightarrow> uuid \<Rightarrow> int \<Rightarrow> (reading \<Rightarrow> exn + rat) \<Rightarrow> string \<Rightarrow> string \<times> reading \<Rightarrow> exn + triplet" where
  "reading_record m u stamp value_of chassisName = (\<lambda>(sensorName, value).
     res_then (redfish_sensor_uuid m u chassisName sensorName) (\<lambda>v.
     res_then (value_of value) (\<lambda>x. Inr \<lparr>timestamp = stamp, sensorUuid = v, sensorValue = x\<rparr>)))"

definition chassis_records ::
  "(string \<Rightarrow> exn + rat) \<Rightarrow> device_uuids \<Rightarrow> uuid \<Rightarrow> int \<Rightarrow> chassis \<Rightarrow> exn + triplet list" where
  "chassis_records py_float m u stamp ch =
     (if m (chassis_id u (chassis_name ch)) = None then Inl KeyError else
      res_then (res_map (reading_record m u stamp (float_of py_float) (chassis_name ch)) (temperatures ch)) (\<lambda>rs.
      res_then (res_map (reading_record m u stamp (fan_value py_float) (chassis_name ch)) (fans ch)) (\<lambda>rs'.
      Inr (rs @ rs'))))"

definition redfish_args :: "('b, 'z) redfish_agent_scheme \<Rightarrow> send_args" where
  "redfish_args s =
     \<lparr>send_topic = ''ibswitch'', sendNumberOfMessages = LimitStr (redfish_limit s), byteBatchSize = redfish_batch_size s,
      send_uuid = myAgent_uuid s, timet0 = redfish_timet0 s, mqttBatchCountEnabled = False\<rparr>"

text \<open>What one turn of the loop meets: the attempts to connect and the clock.\<close>

record redfish_poll =
  attempts :: "nat \<Rightarrow> exn + chassis list"
  poll_time :: rat
  end_time :: rat

definition redfish_turn ::
  "'b codec \<Rightarrow> (nat \<Rightarrow> nat) \<Rightarrow> (string \<Rightarrow> exn + rat) \<Rightarrow> ('b, 'z) redfish_agent_scheme net_env \<Rightarrow> redfish_poll \<Rightarrow>
   ('b, 'z) redfish_agent_scheme \<Rightarrow> (('b, 'z) redfish_agent_scheme, unit) outcome" where
  "redfish_turn c sizeof py_float env p s =
     (case redfish_connect (attempts p) of
        None \<Rightarrow> Hang
      | Some (_, answer) \<Rightarrow>
          or_raise answer s (\<lambda>chs.
          or_raise (res_map (chassis_records py_float (myDeviceSensorUUIDsMap s) (myAgent_uuid s)
                       (py_round (poll_time p * 1000))) chs) s (\<lambda>record_lists.
          mqtt_send_triplet_batch c sizeof (redfish_args s) (end_time p) env (concat record_lists) s)))"

text \<open>\<open>send_data\<close> over the polls of its first turns; \<open>start\<close> is the clock reading before them.\<close>

definition redfish_send_data ::
  "'b codec \<Rightarrow> (nat \<Rightarrow> nat) \<Rightarrow> (string \<Rightarrow> exn + rat) \<Rightarrow> ('b, 'z) redfish_agent_scheme net_env \<Rightarrow> rat \<Rightarrow> redfish_poll list \<Rightarrow>
   ('b, 'z) redfish_agent_scheme \<Rightarrow> (('b, 'z) redfish_agent_scheme, unit) outcome" where
  "redfish_send_data c sizeof py_float env start polls s =
     for_each (redfish_turn c sizeof py_float env) polls (s\<lparr>redfish_timet0 := start\<rparr>)"

text \<open>\<open>run\<close>: connect, register, register the chassis, send.\<close>

definition redfish_run ::
  "'b codec \<Rightarrow> (nat \<Rightarrow> nat) \<Rightarrow> (string \<Rightarrow> exn + rat) \<Rightarrow> ('b, 'z) redfish_agent_scheme net_env \<Rightarrow>
   (string \<Rightarrow> exn + unit) \<Rightarrow> exn + chassis list \<Rightarrow> rat \<Rightarrow> redfish_poll list \<Rightarrow>
   ('b, 'z) redfish_agent_scheme \<Rightarrow> (('b, 'z) redfish_agent_scheme, unit) outcome" where
  "redfish_run c sizeof py_float env template connect start polls s =
     and_then (mqtt_init (myAgent_uid s) (Some (myAgent_registration_response_topic s)) False (redfish_encryption s) env s) (\<lambda>_ s.
     or_raise (py_index (myAgent_registration_request_topic s) 0) s (\<lambda>topic.
     and_then (mqtt_registration c topic (redfish_registration s) env s) (\<lambda>_ s.
     or_raise (redfish_device_map template connect s) s (\<lambda>deviceMap.
     case myDevice_registration_request_topic s of None \<Rightarrow> Raise AttributeError s | Some request_topic \<Rightarrow>
     case myDevice_registration_response_topic s of None \<Rightarrow> Raise TypeError s | Some response_topics \<Rightarrow>
     and_then (mqtt_device_registration c request_topic response_topics deviceMap env s) (\<lambda>_ s.
     redfish_send_data c sizeof py_float env start polls s)))))"

end
