(* ===== verification/Logger.thy ===== *)
theory Logger
  imports KM_Prelude
begin

text \<open>
  The log files of the gateway (src/fanin/KrakenMareLogger.py): named loggers, their levels, and
  the rotation of a log file (the unit tests of the module are in \<open>Logger_Tests\<close>).

  Of Python's \<open>logging\<close> the module uses the registry of logger objects (\<open>managed\<close>), handlers
  that append to a file, and \<open>RotatingFileHandler.doRollover\<close>; of \<open>gzip\<close>, a file opened for
  binary writing. \<open>can_open\<close> says which log files can be opened.
\<close>

section \<open>Levels\<close>

text \<open>The levels of \<open>logging\<close>, least severe first; a new logger has level NOTSET.\<close>

datatype log_level = NotSet | Debug | Info | Warning | Error | Critical

fun severity :: "log_level \<Rightarrow> nat" where
  "severity NotSet = 0"
| "severity Debug = 10"
| "severity Info = 20"
| "severity Warning = 30"
| "severity Error = 40"
| "severity Critical = 50"

lemma severity_inject: "severity l = severity k \<longleftrightarrow> l = k"
  by (cases l; cases k) auto

instantiation log_level :: linorder
begin

definition less_eq_log_level :: "log_level \<Rightarrow> log_level \<Rightarrow> bool" where
  "less_eq_log_level l k \<longleftrightarrow> severity l \<le> severity k"

definition less_log_level :: "log_level \<Rightarrow> log_level \<Rightarrow> bool" where
  "less_log_level l k \<longleftrightarrow> severity l < severity k"

instance
  by standard (auto simp: less_eq_log_level_def less_log_level_def severity_inject)

end

section \<open>Loggers\<close>

record log_handler =
  baseFilename :: string
  maxBytes :: int
  backupCount :: nat

record log_object =
  object_level :: log_level
  handlers :: "log_handler list"
  propagate :: bool

text \<open>A log file in plain text, or the lines of a compressed one.\<close>

datatype log_file = Plain "string list" | Gzip "string list"

text \<open>
  The process: the logger objects by name, the module's dictionary \<open>loggers\<close> (which refers to
  the objects), the files, and how often the warning about an unknown level was printed.
\<close>

record log_world =
  managed :: "string \<rightharpoonup> log_object"
  loggers :: "string \<rightharpoonup> string"
  log_files :: "string \<rightharpoonup> log_file"
  level_warnings :: nat

definition upper_char :: "char \<Rightarrow> char" where
  "upper_char c =
     (if 97 \<le> (of_char c :: nat) \<and> (of_char c :: nat) \<le> 122 then char_of ((of_char c :: nat) - 32) else c)"

text \<open>\<open>logging.getLogger(name)\<close>: the object of that name, made at the first call.\<close>

definition logging_getLogger :: "string \<Rightarrow> log_world \<Rightarrow> log_world" where
  "logging_getLogger name w =
     (case managed w name of
        Some _ \<Rightarrow> w
      | None \<Rightarrow> w\<lparr>managed := (managed w)(name \<mapsto> \<lparr>object_level = NotSet, handlers = [], propagate = True\<rparr>)\<rparr>)"

definition change_object :: "string \<Rightarrow> (log_object \<Rightarrow> log_object) \<Rightarrow> log_world \<Rightarrow> log_world" where
  "change_object name f w = w\<lparr>managed := (managed w)(name := map_option f (managed w name))\<rparr>"

definition setLoggingLevel :: "string \<Rightarrow> string \<Rightarrow> log_world \<Rightarrow> log_world" where
  "setLoggingLevel logger level w =
     (let set_level = (\<lambda>l. change_object logger (\<lambda>obj. obj\<lparr>object_level := l\<rparr>)) in
      if map upper_char level = ''DEBUG'' then set_level Debug w
      else if map upper_char level = ''INFO'' then set_level Info w
      else if map upper_char level = ''WARNING'' then set_level Warning w
      else if map upper_char level = ''ERROR'' then set_level Error w
      else if map upper_char level = ''CRITICAL'' then set_level Critical w
      else set_level Warning (w\<lparr>level_warnings := level_warnings w + 1\<rparr>))"

text \<open>The handler opens its file for appending; the methods return the logger, here its name.\<close>

definition open_log :: "(string \<Rightarrow> bool) \<Rightarrow> string \<Rightarrow> log_world \<Rightarrow> (log_world, unit) outcome" where
  "open_log can_open path w =
     (if \<not> can_open path then Raise FileNotFoundError w
      else Return () (case log_files w path of
             Some _ \<Rightarrow> w | None \<Rightarrow> w\<lparr>log_files := (log_files w)(path \<mapsto> Plain [])\<rparr>))"

definition setLogger ::
  "(string \<Rightarrow> bool) \<Rightarrow> string \<Rightarrow> string \<Rightarrow> string \<Rightarrow> int \<Rightarrow> nat \<Rightarrow> log_world \<Rightarrow> (log_world, string) outcome" where
  "setLogger can_open name loggingLevel loggingDirectory logFileSize logFileArchiveCount w =
     (let w = logging_getLogger name w;
          hdlr = \<lparr>baseFilename = loggingDirectory @ name, maxBytes = logFileSize, backupCount = logFileArchiveCount\<rparr> in
      and_then (open_log can_open (baseFilename hdlr) w) (\<lambda>_ w.
      let w = change_object name (\<lambda>obj. obj\<lparr>handlers := handlers obj @ [hdlr]\<rparr>) w;
          w = setLoggingLevel name loggingLevel w;
          w = w\<lparr>loggers := (loggers w)(name \<mapsto> name)\<rparr>;
          w = change_object name (\<lambda>obj. obj\<lparr>propagate := False\<rparr>) w
      in Return name w))"

definition getLogger :: "string \<Rightarrow> string option \<Rightarrow> log_world \<Rightarrow> (log_world, string) outcome" where
  "getLogger name loggingLevel w =
     (case loggers w name of
        None \<Rightarrow> Raise NoLogger w
      | Some logger \<Rightarrow>
          (case loggingLevel of
             None \<Rightarrow> Return logger w
           | Some level \<Rightarrow>
               let w = setLoggingLevel logger level w in
               Return logger (w\<lparr>loggers := (loggers w)(name \<mapsto> logger)\<rparr>)))"

text \<open>\<open>logger.isEnabledFor(level)\<close>, for a logger with a level of its own.\<close>

definition enabled_for :: "log_world \<Rightarrow> string \<Rightarrow> log_level \<Rightarrow> bool" where
  "enabled_for w logger l \<longleftrightarrow> (case managed w logger of None \<Rightarrow> False | Some obj \<Rightarrow> object_level obj \<le> l)"

section \<open>Rotation\<close>

type_synonym file_system = "string \<rightharpoonup> log_file"

text \<open>\<open>base.i\<close> followed by a suffix.\<close>

definition backup :: "string \<Rightarrow> string \<Rightarrow> nat \<Rightarrow> string" where
  "backup base suffix i = base @ ''.'' @ str_nat i @ suffix"

text \<open>\<open>if exists(sfn): if exists(dfn): remove(dfn); rename(sfn, dfn)\<close>\<close>

definition move_over :: "string \<Rightarrow> string \<Rightarrow> file_system \<Rightarrow> file_system" where
  "move_over sfn dfn fs =
     (case fs sfn of
        None \<Rightarrow> fs
      | Some content \<Rightarrow> (let fs = (if fs dfn \<noteq> None then fs(dfn := None) else fs) in (fs(dfn \<mapsto> content))(sfn := None)))"

text \<open>\<open>for i in range(count - 1, 0, -1)\<close>: the backups move up by one, the last one first.\<close>

definition shift_backups :: "string \<Rightarrow> string \<Rightarrow> nat \<Rightarrow> file_system \<Rightarrow> file_system" where
  "shift_backups base suffix count fs =
     fold (\<lambda>i. move_over (backup base suffix i) (backup base suffix (i + 1))) (rev [1..<count]) fs"

text \<open>\<open>RotatingFileHandler.doRollover\<close>, which also opens the new log.\<close>

definition base_doRollover :: "string \<Rightarrow> nat \<Rightarrow> file_system \<Rightarrow> file_system" where
  "base_doRollover base count fs =
     (let fs = (if 0 < count then move_over base (backup base [] 1) (shift_backups base [] count fs) else fs) in
      case fs base of None \<Rightarrow> fs(base \<mapsto> Plain []) | Some _ \<Rightarrow> fs)"

text \<open>
  \<open>comp_log.writelines(log)\<close>: the lines of a file opened as text are strings, and a gzip file
  opened as \<open>'wb'\<close> takes bytes; the first line raises. (A compressed file cannot be read as text.)
\<close>

fun gzip_writelines :: "log_file \<Rightarrow> exn + unit" where
  "gzip_writelines (Plain []) = Inr ()"
| "gzip_writelines (Plain (line # lines)) = Inl TypeError"
| "gzip_writelines (Gzip _) = Inl ValueError"

definition doRollover :: "string \<Rightarrow> nat \<Rightarrow> file_system \<Rightarrow> (file_system, unit) outcome" where
  "doRollover base count fs =
     (let fs = base_doRollover base count fs in
      if 0 < count then
        let fs = shift_backups base ''.gz'' count fs; old_log = base @ ''.1'' in
        (case fs old_log of
           None \<Rightarrow> Raise FileNotFoundError fs
         | Some content \<Rightarrow>
             let fs = fs(old_log @ ''.gz'' \<mapsto> Gzip []) in
             or_raise (gzip_writelines content) fs (\<lambda>_. Return () (fs(old_log := None))))
      else Return () fs)"

section \<open>Writing records\<close>

text \<open>
  What the handler inherits: \<open>emit\<close> rotates first if the record, with its newline, would bring
  the log to \<open>maxBytes\<close>, then appends it; an exception is caught, reported on stderr and not
  raised (\<open>handleError\<close>), and the record is gone. \<open>line\<close> is the record as formatted, one line of
  ASCII text. The second component says whether an error was reported.
\<close>

definition file_bytes :: "string list \<Rightarrow> nat" where
  "file_bytes lines = (\<Sum>line\<leftarrow>lines. length line + 1)"

definition log_lines :: "file_system \<Rightarrow> string \<Rightarrow> string list" where
  "log_lines fs path = (case fs path of Some (Plain lines) \<Rightarrow> lines | _ \<Rightarrow> [])"

definition shouldRollover :: "log_handler \<Rightarrow> string \<Rightarrow> file_system \<Rightarrow> bool" where
  "shouldRollover h line fs \<longleftrightarrow>
     0 < maxBytes h \<and> maxBytes h \<le> int (file_bytes (log_lines fs (baseFilename h)) + length line + 1)"

definition handler_emit :: "log_handler \<Rightarrow> string \<Rightarrow> file_system \<Rightarrow> file_system \<times> bool" where
  "handler_emit h line fs =
     (case and_then (if shouldRollover h line fs then doRollover (baseFilename h) (backupCount h) fs else Return () fs)
        (\<lambda>_ fs. Return () (fs(baseFilename h \<mapsto> Plain (log_lines fs (baseFilename h) @ [line])))) of
        Return _ fs \<Rightarrow> (fs, False)
      | Raise e fs \<Rightarrow> (fs, True)
      | Hang \<Rightarrow> (fs, True))"

text \<open>A logger with level: its handlers get the records that are enabled, formatted (by colorlog).\<close>

definition emit_all :: "log_handler list \<Rightarrow> string \<Rightarrow> file_system \<Rightarrow> file_system" where
  "emit_all hs line fs = fold (\<lambda>h fs. fst (handler_emit h line fs)) hs fs"

definition log_record :: "(log_level \<Rightarrow> string \<Rightarrow> string) \<Rightarrow> string \<Rightarrow> log_level \<Rightarrow> string \<Rightarrow> log_world \<Rightarrow> log_world" where
  "log_record formatter name l text w =
     (case managed w name of
        None \<Rightarrow> w
      | Some obj \<Rightarrow>
          if enabled_for w name l then w\<lparr>log_files := emit_all (handlers obj) (formatter l text) (log_files w)\<rparr> else w)"

definition log_records ::
  "(log_level \<Rightarrow> string \<Rightarrow> string) \<Rightarrow> string \<Rightarrow> (log_level \<times> string) list \<Rightarrow> log_world \<Rightarrow> log_world" where
  "log_records formatter name records w = fold (\<lambda>(l, text). log_record formatter name l text) records w"

end
