(* ===== verification/Launch.thy ===== *)
theory Launch
  imports IBswitch Redfish FanIn Logger
begin

text \<open>
  What the three programs do with their command line: \<open>main\<close> of the simulator, of the Redfish
  agent and of the gateway (src/simulator/IBswitchSimulator.py, src/redfish/RedfishAgent.py,
  src/fanin/FanIn.py), the log level of the gateway, and the sender of \<open>AgentCommon\<close> that the
  agents override. The programs start here from their options, where one that is not given is
  \<open>None\<close>; \<open>Options\<close> reads them from the command line.
\<close>

section \<open>A new object\<close>

text \<open>The class attributes of \<open>AgentCommon\<close>; no client yet, nothing sent or printed.\<close>

definition class_attributes :: "('b, 'z) agent_scheme \<Rightarrow> ('b, 'z) agent_scheme" where
  "class_attributes s = s\<lparr>myDeviceRegistered := False, myByteBatch := [], myCurrentSubtopic := 0,
     myNumber_of_msg_send := 0, myMessageCounter := 0, mymqttBatchCountSenderUUID := None,
     client := None, net := [], console := []\<rparr>"

text \<open>\<open>if options.numberOfTopic\<close>: the number given, or 1.\<close>

definition number_of_topics :: "string option \<Rightarrow> exn + int" where
  "number_of_topics opt = (case opt of None \<Rightarrow> Inr 1 | Some n \<Rightarrow> if n = [] then Inr 1 else py_int n)"

section \<open>The agents\<close>

record agent_options =
  opt_debug :: bool
  opt_encrypt :: bool
  opt_batching :: bool
  opt_numberOfTopic :: "string option"
  opt_sleepLoopTime :: "string option"
  opt_sendNumberOfMessages :: "string option"
  opt_enableMQTTbatchesCounter :: bool

definition simulator_main ::
  "(string \<Rightarrow> (exn + config) option) \<Rightarrow> (string \<Rightarrow> nat \<Rightarrow> int option) \<Rightarrow> (string \<Rightarrow> exn + rat) \<Rightarrow> string \<Rightarrow> nat \<Rightarrow> agent_options \<Rightarrow>
   'b codec \<Rightarrow> (nat \<Rightarrow> nat) \<Rightarrow> ('b, 'z) simulator_scheme net_env \<Rightarrow> sim_files \<Rightarrow> rat \<Rightarrow> (nat \<Rightarrow> nat \<Rightarrow> sim_tick) \<Rightarrow> nat \<Rightarrow>
   ('b, 'z) simulator_scheme \<Rightarrow> (('b, 'z) simulator_scheme, unit) outcome" where
  "simulator_main files registry py_float uid randrange opts c sizeof env fs start tick k s =
     and_then (simulator_init files registry py_float uid randrange ''IBswitchSimulator.cfg'' (opt_debug opts) (opt_encrypt opts)
        (number_of_topics (opt_numberOfTopic opts)) (opt_batching opts) (opt_sleepLoopTime opts)
        (opt_sendNumberOfMessages opts) (opt_enableMQTTbatchesCounter opts) (class_attributes s)) (\<lambda>_ s.
     simulator_run c sizeof env fs start tick k s)"

definition redfish_main ::
  "(string \<Rightarrow> (exn + config) option) \<Rightarrow> (string \<Rightarrow> nat \<Rightarrow> int option) \<Rightarrow> (string \<Rightarrow> exn + rat) \<Rightarrow> string \<Rightarrow> nat \<Rightarrow> agent_options \<Rightarrow>
   'b codec \<Rightarrow> (nat \<Rightarrow> nat) \<Rightarrow> ('b, 'z) redfish_agent_scheme net_env \<Rightarrow> (string \<Rightarrow> exn + unit) \<Rightarrow> exn + chassis list \<Rightarrow>
   rat \<Rightarrow> redfish_poll list \<Rightarrow> ('b, 'z) redfish_agent_scheme \<Rightarrow> (('b, 'z) redfish_agent_scheme, unit) outcome" where
  "redfish_main files registry py_float uid randrange opts c sizeof env template connect start polls s =
     and_then (redfish_init files registry py_float uid randrange ''RedfishAgent.cfg'' (opt_debug opts) (opt_encrypt opts)
        (number_of_topics (opt_numberOfTopic opts)) (opt_batching opts) (opt_sleepLoopTime opts) (class_attributes s)) (\<lambda>_ s.
     redfish_run c sizeof py_float env template connect start polls s)"

section \<open>The gateway\<close>

text \<open>
  The project imports of FanIn.py, in order, and what they bind: \<open>import m\<close> binds the name of the
  module to the module, \<open>from m import x\<close> binds the name of an object of the module to that object
  (the wildcard import of \<open>random\<close> and the library imports above them bind none of these names).
\<close>

datatype import_stmt = Import string | ImportFrom string string

datatype py_object = ModuleObject string | MemberOf string string

fun bind_import :: "import_stmt \<Rightarrow> (string \<rightharpoonup> py_object) \<Rightarrow> (string \<rightharpoonup> py_object)" where
  "bind_import (Import m) names = names(m \<mapsto> ModuleObject m)"
| "bind_import (ImportFrom m x) names = names(x \<mapsto> MemberOf m x)"

definition fanin_imports :: "import_stmt list" where
  "fanin_imports =
     [ImportFrom ''version'' ''__version__'', Import ''KrakenMareLogger'', ImportFrom ''agentcommon'' ''AgentCommon'']"

definition fanin_names :: "string \<rightharpoonup> py_object" where
  "fanin_names = fold bind_import fanin_imports Map.empty"

text \<open>
  \<open>KrakenMareLogger().getLogger(...)\<close>: the name is looked up and the object called; a module
  cannot be called, the class of the same name in the module could.
\<close>

definition resetLogLevel ::
  "string \<Rightarrow> log_world \<Rightarrow> string \<Rightarrow> ('b, 'z) fanin_scheme \<Rightarrow> (('b, 'z) fanin_scheme, unit) outcome" where
  "resetLogLevel loggerName w logLevel s =
     (case fanin_names ''KrakenMareLogger'' of
        None \<Rightarrow> Raise NameError s
      | Some (ModuleObject _) \<Rightarrow> Raise TypeError s
      | Some (MemberOf _ _) \<Rightarrow>
          (case getLogger loggerName (Some logLevel) w of
             Return _ _ \<Rightarrow> Return () s | Raise e _ \<Rightarrow> Raise e s | Hang \<Rightarrow> Hang))"

record fanin_options =
  fopt_debug :: bool
  fopt_encrypt :: bool
  fopt_batching :: bool
  fopt_checkmqtt :: bool
  fopt_mqttPassthrough :: bool
  fopt_logLevel :: "string option"

text \<open>What the outside answers to a gateway that starts.\<close>

record ('b, 'z) gateway_world =
  gw_files :: "string \<Rightarrow> (exn + config) option"
  gw_registry :: "string \<Rightarrow> nat \<Rightarrow> int option"
  gw_uuid4 :: string
  gw_loggers :: log_world
  gw_loggerName :: string
  gw_checks :: "nat \<Rightarrow> attempt"
  gw_connects :: "nat \<Rightarrow> attempt"
  gw_env :: "('b, 'z) fanin_scheme net_env"
  gw_time :: rat

text \<open>
  One process of the gateway: construct, then \<open>run\<close> up to the endless loop. The process of a
  topic ignores the log level (\<open>fanin_mp_launcher\<close>); the single process sets it first.
\<close>

definition fanin_process ::
  "('b, 'z) gateway_world \<Rightarrow> fanin_options \<Rightarrow> string option \<Rightarrow> ('b, 'z) fanin_scheme \<Rightarrow> (('b, 'z) fanin_scheme, unit) outcome" where
  "fanin_process w opts topic s =
     and_then (fanin_init (gw_files w) (gw_registry w) (gw_uuid4 w) ''FanIn.cfg'' (fopt_debug opts) (fopt_encrypt opts)
        topic (fopt_batching opts) (fopt_checkmqtt opts) (fopt_mqttPassthrough opts) (class_attributes s)) (\<lambda>_ s.
     and_then
       (case (topic, fopt_logLevel opts) of
          (None, Some level) \<Rightarrow> if level = [] then Return () s else resetLogLevel (gw_loggerName w) (gw_loggers w) level s
        | _ \<Rightarrow> Return () s) (\<lambda>_ s.
     fanin_start (gw_checks w) (gw_connects w) (gw_env w) (gw_time w) s))"

section \<open>The sender of AgentCommon\<close>

text \<open>
  \<open>send_data\<close>: ten records a turn, their sensors derived from a hash of \<open>"AgentCommon"\<close> and a
  random number, encoded to bytes before it is added to the string. \<open>md5_uuid\<close> is the UUID of a
  hash of bytes.
\<close>

datatype py_text = Str string | Encoded string

fun py_plus :: "py_text \<Rightarrow> py_text \<Rightarrow> exn + py_text" where
  "py_plus (Str a) (Str b) = Inr (Str (a @ b))"
| "py_plus (Encoded a) (Encoded b) = Inr (Encoded (a @ b))"
| "py_plus _ _ = Inl TypeError"

definition example_record :: "(py_text \<Rightarrow> exn + uuid) \<Rightarrow> nat \<Rightarrow> int \<Rightarrow> int \<Rightarrow> exn + triplet" where
  "example_record md5_uuid random_number counter stamp =
     res_then (py_plus (Str ''AgentCommon'') (Encoded (str_nat random_number))) (\<lambda>text.
     res_then (md5_uuid text) (\<lambda>u. Inr \<lparr>timestamp = stamp, sensorUuid = u, sensorValue = of_int counter\<rparr>))"

definition example_turn ::
  "'b codec \<Rightarrow> (py_text \<Rightarrow> exn + uuid) \<Rightarrow> string \<Rightarrow> (nat \<Rightarrow> nat \<Rightarrow> nat) \<Rightarrow> (nat \<Rightarrow> rat) \<Rightarrow> nat \<Rightarrow>
   ('b, 'z) agent_scheme \<Rightarrow> (('b, 'z) agent_scheme, unit) outcome" where
  "example_turn c md5_uuid topic randint clock turn s =
     or_raise (res_map (\<lambda>i. example_record md5_uuid (randint turn i) (int (10 * turn + i)) (py_round (clock turn * 1000))) [1..<11]) s
       (\<lambda>record_list. for_each (mqtt_send_single_avro_ts_msg c topic) record_list s)"

text \<open>The first \<open>k\<close> turns of the endless loop.\<close>

definition common_send_data ::
  "'b codec \<Rightarrow> (py_text \<Rightarrow> exn + uuid) \<Rightarrow> string \<Rightarrow> (nat \<Rightarrow> nat \<Rightarrow> nat) \<Rightarrow> (nat \<Rightarrow> rat) \<Rightarrow> nat \<Rightarrow>
   ('b, 'z) agent_scheme \<Rightarrow> (('b, 'z) agent_scheme, unit) outcome" where
  "common_send_data c md5_uuid topic randint clock k s =
     for_each (example_turn c md5_uuid topic randint clock) [0..<k] s"

end
