(* ===== verification/Options.thy ===== *)
theory Options
  imports Launch "HOL-Library.Sublist"
begin

text \<open>
  The command lines of the three programs: the options each \<open>main\<close> declares
  (src/simulator/IBswitchSimulator.py, src/redfish/RedfishAgent.py, src/fanin/FanIn.py), how the
  standard library's \<open>OptionParser\<close> reads a command line against them, and the programs from
  their command line on.

  Of \<open>optparse\<close> the programs use long options that set a flag or store the next argument, the
  built-in \<open>--help\<close>, \<open>-h\<close> and \<open>--version\<close>, which print and exit with status 0, and its error
  exit with status 2; positional arguments are collected and ignored.
\<close>

section \<open>Declared options\<close>

text \<open>The action of an option; the first two name the attribute (\<open>dest\<close>) they set.\<close>

datatype opt_action = StoreTrue string | Store string | ShowHelp | ShowVersion

text \<open>A value of an attribute: \<open>None\<close>, a Boolean, or the text given.\<close>

datatype opt_value = NoValue | Truth bool | Given string

record opt_spec =
  opt_name :: string
  action :: opt_action
  opt_default :: opt_value

definition flag_option :: "string \<Rightarrow> string \<Rightarrow> opt_spec" where
  "flag_option name dest = \<lparr>opt_name = name, action = StoreTrue dest, opt_default = Truth False\<rparr>"

definition value_option :: "string \<Rightarrow> string \<Rightarrow> opt_value \<Rightarrow> opt_spec" where
  "value_option name dest unset = \<lparr>opt_name = name, action = Store dest, opt_default = unset\<rparr>"

text \<open>\<open>OptionParser(usage=usage, version=__version__)\<close>\<close>

definition builtin_options :: "opt_spec list" where
  "builtin_options =
     [\<lparr>opt_name = ''--version'', action = ShowVersion, opt_default = NoValue\<rparr>,
      \<lparr>opt_name = ''--help'', action = ShowHelp, opt_default = NoValue\<rparr>]"

definition simulator_option_list :: "opt_spec list" where
  "simulator_option_list = builtin_options @
     [flag_option ''--debug'' ''debug'',
      value_option ''--numberOfTopic'' ''numberOfTopic'' (Truth False),
      value_option ''--sleepLoopTime'' ''sleepLoopTime'' (Truth False),
      value_option ''--sendNumberOfMessages'' ''sendNumberOfMessages'' (Truth False),
      flag_option ''--enableMQTTbatchesCounter'' ''enableMQTTbatchesCounter'',
      flag_option ''--encrypt'' ''encrypt'',
      flag_option ''--batching'' ''batching'',
      value_option ''--logLevel'' ''logLevel'' NoValue]"

definition redfish_option_list :: "opt_spec list" where
  "redfish_option_list = builtin_options @
     [flag_option ''--debug'' ''debug'',
      value_option ''--numberOfTopic'' ''numberOfTopic'' (Truth False),
      value_option ''--sleepLoopTime'' ''sleepLoopTime'' (Truth False),
      flag_option ''--encrypt'' ''encrypt'',
      flag_option ''--batching'' ''batching'',
      value_option ''--logLevel'' ''logLevel'' NoValue]"

definition fanin_option_list :: "opt_spec list" where
  "fanin_option_list = builtin_options @
     [flag_option ''--encrypt'' ''encrypt'',
      flag_option ''--debug'' ''debug'',
      flag_option ''--batching'' ''batching'',
      flag_option ''--enableMQTTbatchesCounter'' ''checkmqtt'',
      flag_option ''--enableMQTTbatchPassthrough'' ''mqttPassthrough'',
      value_option ''--numberOfTopic'' ''numberOfTopic'' (Truth False),
      value_option ''--logLevel'' ''logLevel'' NoValue]"

section \<open>Reading a command line\<close>

type_synonym opt_values = "string \<rightharpoonup> opt_value"

fun set_default :: "opt_spec \<Rightarrow> opt_values \<Rightarrow> opt_values" where
  "set_default spec vs =
     (case action spec of
        StoreTrue dest \<Rightarrow> vs(dest \<mapsto> opt_default spec)
      | Store dest \<Rightarrow> vs(dest \<mapsto> opt_default spec)
      | _ \<Rightarrow> vs)"

definition default_values :: "opt_spec list \<Rightarrow> opt_values" where
  "default_values table = fold set_default table Map.empty"

text \<open>The errors of the parser and its two informative options end the program.\<close>

abbreviation usage_error :: exn where
  "usage_error \<equiv> SystemExit 2"

abbreviation shown :: exn where
  "shown \<equiv> SystemExit 0"

text \<open>The option of that name, or else the only one whose name begins like that.\<close>

definition match_abbrev :: "opt_spec list \<Rightarrow> string \<Rightarrow> exn + opt_spec" where
  "match_abbrev table name =
     (case filter (\<lambda>spec. opt_name spec = name) table of
        spec # _ \<Rightarrow> Inr spec
      | [] \<Rightarrow> (case filter (\<lambda>spec. prefix name (opt_name spec)) table of
           [spec] \<Rightarrow> Inr spec
         | _ \<Rightarrow> Inl usage_error))"

text \<open>\<open>arg.split("=", 1)\<close>: the name and the value attached to it, if any.\<close>

definition split_equals :: "string \<Rightarrow> string \<times> string option" where
  "split_equals arg =
     (case dropWhile (\<lambda>c. c \<noteq> CHR ''='') arg of
        [] \<Rightarrow> (arg, None)
      | _ # attached \<Rightarrow> (takeWhile (\<lambda>c. c \<noteq> CHR ''='') arg, Some attached))"

text \<open>
  What an option does with the value attached to it and the arguments that follow: the values
  afterwards and the arguments left.
\<close>

fun take_action :: "opt_action \<Rightarrow> string option \<Rightarrow> string list \<Rightarrow> opt_values \<Rightarrow> exn + opt_values \<times> string list" where
  "take_action (Store dest) (Some v) rargs vs = Inr (vs(dest \<mapsto> Given v), rargs)"
| "take_action (Store dest) None (v # rargs) vs = Inr (vs(dest \<mapsto> Given v), rargs)"
| "take_action (Store dest) None [] vs = Inl usage_error"
| "take_action (StoreTrue dest) None rargs vs = Inr (vs(dest \<mapsto> Truth True), rargs)"
| "take_action ShowHelp None rargs vs = Inl shown"
| "take_action ShowVersion None rargs vs = Inl shown"
| "take_action _ (Some v) rargs vs = Inl usage_error"

definition process_long_opt ::
  "opt_spec list \<Rightarrow> string \<Rightarrow> string list \<Rightarrow> opt_values \<Rightarrow> exn + opt_values \<times> string list" where
  "process_long_opt table arg rargs vs =
     (case split_equals arg of (name, attached) \<Rightarrow>
      res_then (match_abbrev table name) (\<lambda>spec. take_action (action spec) attached rargs vs))"

text \<open>\<open>-abc\<close>: the only short option is \<open>-h\<close>, which exits.\<close>

definition process_short_opts :: "string \<Rightarrow> exn" where
  "process_short_opts arg = (if arg ! 1 = CHR ''h'' then shown else usage_error)"

lemma take_action_length: "take_action act attached rargs vs = Inr (vs', rest) \<Longrightarrow> length rest \<le> length rargs"
  by (induction act attached rargs vs rule: take_action.induct) auto

lemma process_long_opt_length:
  "process_long_opt table arg rargs vs = Inr (vs', rest) \<Longrightarrow> length rest \<le> length rargs"
  by (auto simp: process_long_opt_def res_then_Inr_iff split: prod.splits dest: take_action_length)

function process_args :: "opt_spec list \<Rightarrow> string list \<Rightarrow> opt_values \<Rightarrow> exn + opt_values" where
  "process_args table [] vs = Inr vs"
| "process_args table (arg # rargs) vs =
     (if arg = ''--'' then Inr vs
      else if take 2 arg = ''--'' then
        (case process_long_opt table arg rargs vs of
           Inl e \<Rightarrow> Inl e
         | Inr (vs, rargs) \<Rightarrow> process_args table rargs vs)
      else if take 1 arg = ''-'' \<and> 1 < length arg then Inl (process_short_opts arg)
      else process_args table rargs vs)"
  by pat_completeness auto
termination
  by (relation "measure (\<lambda>(table, rargs, vs). length rargs)")
    (auto simp: less_Suc_eq_le dest: process_long_opt_length)

definition parse_args :: "opt_spec list \<Rightarrow> string list \<Rightarrow> exn + opt_values" where
  "parse_args table argv = process_args table argv (default_values table)"

section \<open>The programs\<close>

text \<open>The truth of a flag, and the text of an option if one was given.\<close>

definition flag_of :: "opt_values \<Rightarrow> string \<Rightarrow> bool" where
  "flag_of vs dest = (vs dest = Some (Truth True))"

definition given_of :: "opt_values \<Rightarrow> string \<Rightarrow> string option" where
  "given_of vs dest = (case vs dest of Some (Given v) \<Rightarrow> Some v | _ \<Rightarrow> None)"

definition simulator_options_of :: "opt_values \<Rightarrow> agent_options" where
  "simulator_options_of vs =
     \<lparr>opt_debug = flag_of vs ''debug'', opt_encrypt = flag_of vs ''encrypt'', opt_batching = flag_of vs ''batching'',
      opt_numberOfTopic = given_of vs ''numberOfTopic'', opt_sleepLoopTime = given_of vs ''sleepLoopTime'',
      opt_sendNumberOfMessages = given_of vs ''sendNumberOfMessages'',
      opt_enableMQTTbatchesCounter = flag_of vs ''enableMQTTbatchesCounter''\<rparr>"

text \<open>The Redfish agent has no option for a limit or for batch counts.\<close>

definition redfish_options_of :: "opt_values \<Rightarrow> agent_options" where
  "redfish_options_of vs =
     \<lparr>opt_debug = flag_of vs ''debug'', opt_encrypt = flag_of vs ''encrypt'', opt_batching = flag_of vs ''batching'',
      opt_numberOfTopic = given_of vs ''numberOfTopic'', opt_sleepLoopTime = given_of vs ''sleepLoopTime'',
      opt_sendNumberOfMessages = None, opt_enableMQTTbatchesCounter = False\<rparr>"

definition fanin_options_of :: "opt_values \<Rightarrow> fanin_options" where
  "fanin_options_of vs =
     \<lparr>fopt_debug = flag_of vs ''debug'', fopt_encrypt = flag_of vs ''encrypt'', fopt_batching = flag_of vs ''batching'',
      fopt_checkmqtt = flag_of vs ''checkmqtt'', fopt_mqttPassthrough = flag_of vs ''mqttPassthrough'',
      fopt_logLevel = given_of vs ''logLevel''\<rparr>"

definition simulator_program ::
  "(string \<Rightarrow> (exn + config) option) \<Rightarrow> (string \<Rightarrow> nat \<Rightarrow> int option) \<Rightarrow> (string \<Rightarrow> exn + rat) \<Rightarrow> string \<Rightarrow> nat \<Rightarrow> string list \<Rightarrow>
   'b codec \<Rightarrow> (nat \<Rightarrow> nat) \<Rightarrow> ('b, 'z) simulator_scheme net_env \<Rightarrow> sim_files \<Rightarrow> rat \<Rightarrow> (nat \<Rightarrow> nat \<Rightarrow> sim_tick) \<Rightarrow> nat \<Rightarrow>
   ('b, 'z) simulator_scheme \<Rightarrow> (('b, 'z) simulator_scheme, unit) outcome" where
  "simulator_program files registry py_float uid randrange argv c sizeof env fs start tick k s =
     or_raise (parse_args simulator_option_list argv) s (\<lambda>vs.
     simulator_main files registry py_float uid randrange (simulator_options_of vs) c sizeof env fs start tick k s)"

definition redfish_program ::
  "(string \<Rightarrow> (exn + config) option) \<Rightarrow> (string \<Rightarrow> nat \<Rightarrow> int option) \<Rightarrow> (string \<Rightarrow> exn + rat) \<Rightarrow> string \<Rightarrow> nat \<Rightarrow> string list \<Rightarrow>
   'b codec \<Rightarrow> (nat \<Rightarrow> nat) \<Rightarrow> ('b, 'z) redfish_agent_scheme net_env \<Rightarrow> (string \<Rightarrow> exn + unit) \<Rightarrow> exn + chassis list \<Rightarrow>
   rat \<Rightarrow> redfish_poll list \<Rightarrow> ('b, 'z) redfish_agent_scheme \<Rightarrow> (('b, 'z) redfish_agent_scheme, unit) outcome" where
  "redfish_program files registry py_float uid randrange argv c sizeof env template connect start polls s =
     or_raise (parse_args redfish_option_list argv) s (\<lambda>vs.
     redfish_main files registry py_float uid randrange (redfish_options_of vs) c sizeof env template connect start polls s)"

text \<open>
  The gateway: the processes it starts, each with its topic (none for the single process) and
  the options. \<open>cfg\<close> is what was read of FanIn.cfg, without a section if there is no file.
\<close>

definition fanin_processes :: "config \<Rightarrow> string list \<Rightarrow> exn + (string option \<times> fanin_options) list" where
  "fanin_processes cfg argv =
     res_then (parse_args fanin_option_list argv) (\<lambda>vs.
     res_then (fanin_main cfg (given_of vs ''numberOfTopic'')) (\<lambda>topics.
     Inr (map (\<lambda>topic. (topic, fanin_options_of vs)) topics)))"

end
