(* ===== verification/Options_Props.thy ===== *)
theory Options_Props
  imports Options
begin

text \<open>
  The properties of the command lines: that every choice of options can be given, and that the
  programs run with the options given in whatever order; before that, of the standard library's
  parser: which command lines it accepts and with what values, and the status of the others.
\<close>

section \<open>The language of command lines\<close>

text \<open>
  Complete options and positional arguments, and the assignments they stand for. An option is
  written in full or by an abbreviation that fits no other, its value attached or as the next
  argument, whatever that is.
\<close>

definition long_name :: "string \<Rightarrow> bool" where
  "long_name name \<longleftrightarrow> take 2 name = ''--'' \<and> CHR ''='' \<notin> set name"

definition is_positional :: "string \<Rightarrow> bool" where
  "is_positional arg \<longleftrightarrow> take 1 arg \<noteq> ''-'' \<or> arg = ''-''"

definition short_options :: "string \<Rightarrow> bool" where
  "short_options arg \<longleftrightarrow> take 1 arg = ''-'' \<and> take 2 arg \<noteq> ''--'' \<and> 1 < length arg"

definition long_option :: "string \<Rightarrow> bool" where
  "long_option arg \<longleftrightarrow> take 2 arg = ''--'' \<and> arg \<noteq> ''--''"

definition names :: "opt_spec list \<Rightarrow> string \<Rightarrow> opt_action \<Rightarrow> bool" where
  "names table name act \<longleftrightarrow> long_name name \<and> (case match_abbrev table name of Inl _ \<Rightarrow> False | Inr spec \<Rightarrow> action spec = act)"

inductive option_tokens :: "opt_spec list \<Rightarrow> string list \<Rightarrow> (string \<times> opt_value) list \<Rightarrow> bool" for table where
  no_tokens: "option_tokens table [] []"
| flag_token: "names table name (StoreTrue dest) \<Longrightarrow> name \<noteq> ''--'' \<Longrightarrow> option_tokens table rest as \<Longrightarrow>
    option_tokens table (name # rest) ((dest, Truth True) # as)"
| attached_token: "names table name (Store dest) \<Longrightarrow> option_tokens table rest as \<Longrightarrow>
    option_tokens table ((name @ CHR ''='' # v) # rest) ((dest, Given v) # as)"
| separate_token: "names table name (Store dest) \<Longrightarrow> name \<noteq> ''--'' \<Longrightarrow> option_tokens table rest as \<Longrightarrow>
    option_tokens table (name # v # rest) ((dest, Given v) # as)"
| positional_token: "is_positional arg \<Longrightarrow> option_tokens table rest as \<Longrightarrow> option_tokens table (arg # rest) as"

text \<open>An argument that prints help or the version, and one that is none of these.\<close>

definition asks_help :: "opt_spec list \<Rightarrow> string \<Rightarrow> bool" where
  "asks_help table arg \<longleftrightarrow>
     arg \<noteq> ''--'' \<and> (names table arg ShowHelp \<or> names table arg ShowVersion) \<or> take 2 arg = ''-h''"

fun assign :: "string \<times> opt_value \<Rightarrow> opt_values \<Rightarrow> opt_values" where
  "assign (dest, v) vs = vs(dest \<mapsto> v)"

lemma fold_assign: "fold assign as vs = vs ++ map_of (rev as)"
proof (induction as arbitrary: vs)
  case (Cons a as)
  have "assign a vs = vs ++ map_of [a]" by (cases a) (simp add: map_add_def fun_eq_iff)
  with Cons show ?case by (simp only: fold_simps rev.simps map_of_append map_add_assoc)
qed simp

section \<open>The parser and the language\<close>

lemma split_equals_name: "CHR ''='' \<notin> set name \<Longrightarrow> split_equals name = (name, None)"
proof -
  assume "CHR ''='' \<notin> set name"
  then have "dropWhile (\<lambda>c. c \<noteq> CHR ''='') name = []" by (auto simp: dropWhile_eq_Nil_conv)
  then show ?thesis by (simp add: split_equals_def del: dropWhile_eq_Nil_conv)
qed

lemma split_equals_attached:
  assumes "CHR ''='' \<notin> set name"
  shows "split_equals (name @ CHR ''='' # v) = (name, Some v)"
proof -
  have "dropWhile (\<lambda>c. c \<noteq> CHR ''='') (name @ CHR ''='' # v) = CHR ''='' # v"
    "takeWhile (\<lambda>c. c \<noteq> CHR ''='') (name @ CHR ''='' # v) = name"
    using assms by (auto simp: dropWhile_append takeWhile_append dropWhile_eq_Nil_conv)
  then show ?thesis by (simp add: split_equals_def)
qed

lemma split_equals_cases:
  obtains "split_equals arg = (arg, None)" "CHR ''='' \<notin> set arg"
  | name v where "arg = name @ CHR ''='' # v" "CHR ''='' \<notin> set name" "split_equals arg = (name, Some v)"
proof (cases "CHR ''='' \<in> set arg")
  case True
  then obtain name v where "arg = name @ CHR ''='' # v" "CHR ''='' \<notin> set name" by (metis split_list_first)
  then show ?thesis using split_equals_attached that(2) by blast
next
  case False
  then show ?thesis using split_equals_name that(1) by blast
qed

lemma take_2_attached: "take 2 (name @ CHR ''='' # v) = ''--'' \<longleftrightarrow> take 2 name = ''--''"
  by (cases name; cases "tl name") auto

lemma take_dashes: "take 2 arg = ''--'' \<longleftrightarrow> (\<exists>rest. arg = CHR ''-'' # CHR ''-'' # rest)"
  "take 1 arg = ''-'' \<longleftrightarrow> (\<exists>rest. arg = CHR ''-'' # rest)"
  by (cases arg; cases "tl arg"; simp)+

lemma process_args_steps [simp]:
  "process_args table (''--'' # rargs) vs = Inr vs"
  "long_option arg \<Longrightarrow> process_long_opt table arg rargs vs = Inr (vs', rargs') \<Longrightarrow>
    process_args table (arg # rargs) vs = process_args table rargs' vs'"
  "long_option arg \<Longrightarrow> process_long_opt table arg rargs vs = Inl e \<Longrightarrow> process_args table (arg # rargs) vs = Inl e"
  "short_options arg \<Longrightarrow> process_args table (arg # rargs) vs = Inl (process_short_opts arg)"
  "is_positional arg \<Longrightarrow> process_args table (arg # rargs) vs = process_args table rargs vs"
  by (auto simp: long_option_def short_options_def is_positional_def take_dashes[unfolded One_nat_def])

declare process_args.simps(2) [simp del]

lemma arg_cases:
  obtains "arg = ''--''" | "long_option arg" | "short_options arg" | "is_positional arg"
  unfolding long_option_def short_options_def is_positional_def by (cases arg; cases "tl arg") auto

lemma names_process:
  assumes "names table name act"
  shows "process_long_opt table name rargs vs = take_action act None rargs vs"
    and "process_long_opt table (name @ CHR ''='' # v) rargs vs = take_action act (Some v) rargs vs"
  using assms by (auto simp: names_def long_name_def process_long_opt_def split_equals_attached split_equals_name split: sum.splits)

lemma names_long_option:
  assumes "names table name act"
  shows "name \<noteq> ''--'' \<Longrightarrow> long_option name" and "long_option (name @ CHR ''='' # v)"
proof -
  from assms have name: "CHR ''='' \<notin> set name" "take 2 name = ''--''" by (auto simp: names_def long_name_def)
  then show "name \<noteq> ''--'' \<Longrightarrow> long_option name" by (simp add: long_option_def)
  from name have "name @ CHR ''='' # v \<noteq> ''--''" by (cases name; cases "tl name") auto
  with name(2) show "long_option (name @ CHR ''='' # v)" unfolding long_option_def take_2_attached by simp
qed

lemma tokens_process:
  "option_tokens table args as \<Longrightarrow> process_args table (args @ rest) vs = process_args table rest (fold assign as vs)"
  by (induction args as arbitrary: vs rule: option_tokens.induct)
    (simp_all add: process_args_steps(2)[OF names_long_option(1)] process_args_steps(2)[OF names_long_option(2)] names_process)

lemma long_option_reads:
  assumes long: "long_option arg" and read: "process_long_opt table arg rargs vs = Inr (vs', rargs')"
  shows "\<exists>args a. arg # rargs = args @ rargs' \<and> vs' = assign a vs \<and>
    (\<forall>rest as. option_tokens table rest as \<longrightarrow> option_tokens table (args @ rest) (a # as))"
proof (cases arg rule: split_equals_cases)
  case 1
  with long read obtain act where act: "names table arg act" "take_action act None rargs vs = Inr (vs', rargs')" "arg \<noteq> ''--''"
    by (auto simp: process_long_opt_def res_then_Inr_iff names_def long_name_def long_option_def)
  show ?thesis
  proof (cases act)
    case (StoreTrue dest)
    with act show ?thesis
      by (intro exI[of _ "[arg]"] exI[of _ "(dest, Truth True)"]) (auto intro: flag_token)
  next
    case (Store dest)
    with act obtain v where "rargs = v # rargs'" "vs' = vs(dest \<mapsto> Given v)" by (cases rargs) auto
    with act Store show ?thesis
      by (intro exI[of _ "[arg, v]"] exI[of _ "(dest, Given v)"]) (auto intro: separate_token)
  qed (use act in auto)
next
  case (2 name v)
  have "take 2 name = ''--''" using long unfolding long_option_def 2(1) take_2_attached by simp
  with 2 read obtain act where act: "names table name act" "take_action act (Some v) rargs vs = Inr (vs', rargs')"
    by (auto simp: process_long_opt_def res_then_Inr_iff names_def long_name_def)
  show ?thesis
  proof (cases act)
    case (Store dest)
    with act 2 show ?thesis
      by (intro exI[of _ "[arg]"] exI[of _ "(dest, Given v)"]) (auto intro: attached_token)
  qed (use act in auto)
qed

lemma long_option_exits:
  assumes long: "long_option arg" and read: "process_long_opt table arg rargs vs = Inl e"
  shows "e = usage_error \<or> e = shown \<and> asks_help table arg"
proof (cases arg rule: split_equals_cases)
  case 1
  show ?thesis
  proof (cases "match_abbrev table arg")
    case (Inl e')
    then show ?thesis using 1 read by (auto simp: process_long_opt_def match_abbrev_def split: list.splits)
  next
    case (Inr spec)
    with 1 long have "names table arg (action spec)" by (auto simp: names_def long_name_def long_option_def)
    then show ?thesis using 1 read Inr long
      by (cases "action spec"; cases rargs) (auto simp: process_long_opt_def asks_help_def long_option_def)
  qed
next
  case (2 name v)
  show ?thesis
  proof (cases "match_abbrev table name")
    case (Inl e')
    then show ?thesis using 2 read by (auto simp: process_long_opt_def match_abbrev_def split: list.splits)
  next
    case (Inr spec)
    then show ?thesis using 2 read by (cases "action spec") (auto simp: process_long_opt_def)
  qed
qed

lemma process_reads:
  "process_args table argv vs = Inr vs' \<Longrightarrow>
   \<exists>args tail as. argv = args @ tail \<and> option_tokens table args as \<and> (tail = [] \<or> hd tail = ''--'') \<and> vs' = fold assign as vs"
proof (induction table argv vs rule: process_args.induct)
  case (1 table vs)
  then show ?case by (intro exI[of _ "[]"]) (auto intro: no_tokens)
next
  case (2 table arg rargs vs)
  show ?case
  proof (cases arg rule: arg_cases)
    case 1
    with 2(3) show ?thesis by (intro exI[of _ "[]"] exI[of _ "arg # rargs"]) (auto intro: no_tokens)
  next
    case 2
    then obtain vs1 rargs1 where read: "process_long_opt table arg rargs vs = Inr (vs1, rargs1)"
      using \<open>process_args table (arg # rargs) vs = Inr vs'\<close> by (cases "process_long_opt table arg rargs vs") auto
    with 2 have "process_args table rargs1 vs1 = Inr vs'" using \<open>process_args table (arg # rargs) vs = Inr vs'\<close> by simp
    with "2.IH"(1)[of "(vs1, rargs1)" vs1 rargs1] 2 read obtain args tail as where
      "rargs1 = args @ tail" "option_tokens table args as" "tail = [] \<or> hd tail = ''--''" "vs' = fold assign as vs1"
      by (auto simp: long_option_def)
    moreover from long_option_reads[OF 2 read] obtain args0 a where
      "arg # rargs = args0 @ rargs1" "vs1 = assign a vs"
      "\<forall>rest as. option_tokens table rest as \<longrightarrow> option_tokens table (args0 @ rest) (a # as)" by blast
    ultimately show ?thesis by (intro exI[of _ "args0 @ args"] exI[of _ tail] exI[of _ "a # as"]) auto
  next
    case 3
    with "2.prems" show ?thesis by simp
  next
    case 4
    then have "arg \<noteq> ''--''" "take 2 arg \<noteq> ''--''" "\<not> (take 1 arg = ''-'' \<and> 1 < length arg)"
      by (auto simp: is_positional_def take_dashes[unfolded One_nat_def])
    with "2.IH"(2) 4 "2.prems" obtain args tail as where
      "rargs = args @ tail" "option_tokens table args as" "tail = [] \<or> hd tail = ''--''" "vs' = fold assign as vs" by auto
    with 4 show ?thesis by (intro exI[of _ "arg # args"] exI[of _ tail] exI[of _ as]) (auto intro: positional_token)
  qed
qed

text \<open>Help is asked for after complete tokens.\<close>

definition reaches_help :: "opt_spec list \<Rightarrow> string list \<Rightarrow> bool" where
  "reaches_help table argv \<longleftrightarrow>
     (\<exists>args h tail as. argv = args @ h # tail \<and> option_tokens table args as \<and> asks_help table h)"

lemma reaches_help_first: "asks_help table arg \<Longrightarrow> reaches_help table (arg # rargs)"
  unfolding reaches_help_def using no_tokens[of table] by (metis append_Nil)

lemma reaches_help_after:
  assumes "reaches_help table rargs" "\<And>rest as. option_tokens table rest as \<Longrightarrow> option_tokens table (args @ rest) (f as)"
  shows "reaches_help table (args @ rargs)"
  using assms unfolding reaches_help_def by (metis append_assoc)

lemma process_exits:
  "process_args table argv vs = Inl e \<Longrightarrow> e = usage_error \<or> e = shown \<and> reaches_help table argv"
proof (induction table argv vs rule: process_args.induct)
  case (2 table arg rargs vs)
  show ?case
  proof (cases arg rule: arg_cases)
    case 2
    show ?thesis
    proof (cases "process_long_opt table arg rargs vs")
      case (Inl e')
      with 2 "2.prems" have "e' = e" by simp
      with long_option_exits[OF 2 Inl] show ?thesis by (auto intro: reaches_help_first)
    next
      case (Inr r)
      obtain vs1 rargs1 where r: "r = (vs1, rargs1)" by (cases r)
      with Inr 2 "2.prems" have left: "process_args table rargs1 vs1 = Inl e" by simp
      from 2 have "arg \<noteq> ''--''" "take 2 arg = ''--''" by (simp_all add: long_option_def)
      note IH = "2.IH"(1)[OF this Inr r[symmetric] left]
      from long_option_reads[OF 2 Inr[unfolded r]] obtain args0 a where args0: "arg # rargs = args0 @ rargs1"
        "\<forall>rest as. option_tokens table rest as \<longrightarrow> option_tokens table (args0 @ rest) (a # as)" by blast
      then have "reaches_help table (arg # rargs)" if "reaches_help table rargs1"
        using reaches_help_after[of table rargs1 args0 "Cons a", OF that] by simp
      with IH show ?thesis by blast
    qed
  next
    case 3
    with "2.prems" have "e = process_short_opts arg" by simp
    moreover have "asks_help table arg" if "arg ! 1 = CHR ''h''"
      using 3 that by (cases arg; cases "tl arg") (auto simp: asks_help_def short_options_def)
    ultimately show ?thesis by (auto simp: process_short_opts_def intro: reaches_help_first)
  next
    case 4
    then have "arg \<noteq> ''--''" "take 2 arg \<noteq> ''--''" "\<not> (take 1 arg = ''-'' \<and> 1 < length arg)"
      by (auto simp: is_positional_def take_dashes[unfolded One_nat_def])
    with "2.IH"(2) 4 "2.prems" have "e = usage_error \<or> e = shown \<and> reaches_help table rargs" by auto
    with reaches_help_after[of table rargs "[arg]" "\<lambda>as. as"] positional_token[OF 4] show ?thesis by auto
  qed (use "2.prems" in auto)
qed simp

lemma asks_help_exits:
  assumes "asks_help table h"
  shows "process_args table (h # tail) vs = Inl shown"
proof (cases "take 2 h = ''-h''")
  case True
  then have "short_options h" "h ! 1 = CHR ''h''" by (cases h; cases "tl h"; simp add: short_options_def)+
  then show ?thesis by (simp add: process_short_opts_def)
next
  case False
  with assms obtain act where act: "names table h act" "h \<noteq> ''--''" "act = ShowHelp \<or> act = ShowVersion"
    by (auto simp: asks_help_def)
  from act(3) have "process_long_opt table h tail vs = Inl shown" by (auto simp: names_process(1)[OF act(1)])
  then show ?thesis by (rule process_args_steps(3)[OF names_long_option(1)[OF act(1,2)]])
qed

text \<open>The command lines the model of the parser accepts, and with what values. For every table of options, the
  parser accepts exactly the sequences of complete options (in full, or by an abbreviation that
  fits no other) and positional arguments, up to the end or a first "--"; the values are the
  defaults, overridden by the options in order, the last one winning. It exits with status 0
  exactly if help or the version is asked for after complete options, whatever follows, and
  with status 2 in every other case.\<close>

theorem accepted_command_lines:
  "(parse_args table argv = Inr vs \<longleftrightarrow>
     (\<exists>args tail as. argv = args @ tail \<and> option_tokens table args as \<and> (tail = [] \<or> hd tail = ''--'') \<and>
        vs = default_values table ++ map_of (rev as))) \<and>
   (parse_args table argv = Inl (SystemExit 0) \<longleftrightarrow> reaches_help table argv) \<and>
   parse_args table argv \<in> {Inl (SystemExit 0), Inl (SystemExit 2)} \<union> range Inr"
proof (intro conjI)
  show "parse_args table argv = Inr vs \<longleftrightarrow>
     (\<exists>args tail as. argv = args @ tail \<and> option_tokens table args as \<and> (tail = [] \<or> hd tail = ''--'') \<and>
        vs = default_values table ++ map_of (rev as))" (is "_ \<longleftrightarrow> ?accepted")
  proof
    assume "parse_args table argv = Inr vs"
    then show ?accepted unfolding parse_args_def fold_assign[symmetric] by (rule process_reads)
  next
    assume ?accepted
    then obtain args tail as where argv: "argv = args @ tail" "option_tokens table args as" "tail = [] \<or> hd tail = ''--''"
      "vs = fold assign as (default_values table)" by (auto simp: fold_assign)
    moreover have "process_args table tail vs = Inr vs" using argv(3) by (cases tail) auto
    ultimately show "parse_args table argv = Inr vs" by (simp add: parse_args_def tokens_process)
  qed
  show "parse_args table argv = Inl (SystemExit 0) \<longleftrightarrow> reaches_help table argv"
  proof
    assume "parse_args table argv = Inl (SystemExit 0)"
    then show "reaches_help table argv" unfolding parse_args_def by (auto dest: process_exits)
  next
    assume "reaches_help table argv"
    then show "parse_args table argv = Inl (SystemExit 0)"
      by (auto simp: reaches_help_def parse_args_def tokens_process asks_help_exits)
  qed
  show "parse_args table argv \<in> {Inl (SystemExit 0), Inl (SystemExit 2)} \<union> range Inr"
    by (cases "parse_args table argv") (auto simp: parse_args_def dest: process_exits)
qed

section \<open>Every choice of options can be given\<close>

definition flag_arg :: "string \<Rightarrow> bool \<Rightarrow> string list" where
  "flag_arg name b = (if b then [name] else [])"

definition value_arg :: "string \<Rightarrow> string option \<Rightarrow> string list" where
  "value_arg name given = (case given of None \<Rightarrow> [] | Some v \<Rightarrow> [name @ CHR ''='' # v])"

definition redfish_argv :: "agent_options \<Rightarrow> string list" where
  "redfish_argv opts = flag_arg ''--debug'' (opt_debug opts) @ flag_arg ''--encrypt'' (opt_encrypt opts) @
     flag_arg ''--batching'' (opt_batching opts) @ value_arg ''--numberOfTopic'' (opt_numberOfTopic opts) @
     value_arg ''--sleepLoopTime'' (opt_sleepLoopTime opts)"

definition simulator_argv :: "agent_options \<Rightarrow> string list" where
  "simulator_argv opts = redfish_argv opts @ value_arg ''--sendNumberOfMessages'' (opt_sendNumberOfMessages opts) @
     flag_arg ''--enableMQTTbatchesCounter'' (opt_enableMQTTbatchesCounter opts)"

definition fanin_argv :: "fanin_options \<Rightarrow> string list" where
  "fanin_argv opts = flag_arg ''--debug'' (fopt_debug opts) @ flag_arg ''--encrypt'' (fopt_encrypt opts) @
     flag_arg ''--batching'' (fopt_batching opts) @ flag_arg ''--enableMQTTbatchesCounter'' (fopt_checkmqtt opts) @
     flag_arg ''--enableMQTTbatchPassthrough'' (fopt_mqttPassthrough opts) @ value_arg ''--logLevel'' (fopt_logLevel opts)"

definition set_flag :: "string \<Rightarrow> bool \<Rightarrow> opt_values \<Rightarrow> opt_values" where
  "set_flag dest b vs = (if b then vs(dest \<mapsto> Truth True) else vs)"

definition set_value :: "string \<Rightarrow> string option \<Rightarrow> opt_values \<Rightarrow> opt_values" where
  "set_value dest given vs = (case given of None \<Rightarrow> vs | Some v \<Rightarrow> vs(dest \<mapsto> Given v))"

lemma set_read [simp]:
  "flag_of (set_flag d b vs) d' = (if d' = d then b \<or> flag_of vs d' else flag_of vs d')"
  "d' \<noteq> d \<Longrightarrow> given_of (set_flag d b vs) d' = given_of vs d'"
  "d' \<noteq> d \<Longrightarrow> flag_of (set_value d g vs) d' = flag_of vs d'"
  "given_of (set_value d g vs) d' = (if d' = d \<and> g \<noteq> None then g else given_of vs d')"
  by (auto simp: set_flag_def set_value_def flag_of_def given_of_def split: option.splits)

lemma process_flag_arg:
  assumes "names table name (StoreTrue dest)" "name \<noteq> ''--''"
  shows "process_args table (flag_arg name b @ rest) vs = process_args table rest (set_flag dest b vs)"
  using tokens_process[OF flag_token[OF assms no_tokens], of rest vs] by (simp add: flag_arg_def set_flag_def)

lemma process_value_arg:
  assumes "names table name (Store dest)"
  shows "process_args table (value_arg name given @ rest) vs = process_args table rest (set_value dest given vs)"
proof (cases given)
  case (Some v)
  then show ?thesis using tokens_process[OF attached_token[OF assms no_tokens, of v], of rest vs]
    by (simp add: value_arg_def set_value_def)
qed (simp add: value_arg_def set_value_def)

text \<open>The options of the three tables, by their full names.\<close>

lemma flag_names:
  "names simulator_option_list ''--debug'' (StoreTrue ''debug'')" "names redfish_option_list ''--debug'' (StoreTrue ''debug'')"
  "names simulator_option_list ''--encrypt'' (StoreTrue ''encrypt'')" "names redfish_option_list ''--encrypt'' (StoreTrue ''encrypt'')"
  "names simulator_option_list ''--batching'' (StoreTrue ''batching'')" "names redfish_option_list ''--batching'' (StoreTrue ''batching'')"
  "names simulator_option_list ''--enableMQTTbatchesCounter'' (StoreTrue ''enableMQTTbatchesCounter'')"
  "names fanin_option_list ''--debug'' (StoreTrue ''debug'')" "names fanin_option_list ''--encrypt'' (StoreTrue ''encrypt'')"
  "names fanin_option_list ''--batching'' (StoreTrue ''batching'')"
  "names fanin_option_list ''--enableMQTTbatchesCounter'' (StoreTrue ''checkmqtt'')"
  "names fanin_option_list ''--enableMQTTbatchPassthrough'' (StoreTrue ''mqttPassthrough'')"
  by code_simp+

lemma value_names:
  "names simulator_option_list ''--numberOfTopic'' (Store ''numberOfTopic'')"
  "names redfish_option_list ''--numberOfTopic'' (Store ''numberOfTopic'')"
  "names simulator_option_list ''--sleepLoopTime'' (Store ''sleepLoopTime'')"
  "names redfish_option_list ''--sleepLoopTime'' (Store ''sleepLoopTime'')"
  "names simulator_option_list ''--sendNumberOfMessages'' (Store ''sendNumberOfMessages'')"
  "names fanin_option_list ''--logLevel'' (Store ''logLevel'')"
  "names fanin_option_list ''--numberOfTopic'' (Store ''numberOfTopic'')"
  by code_simp+

lemmas process_named_args = flag_names[THEN process_flag_arg] value_names[THEN process_value_arg]

lemma default_options:
  "flag_of (default_values simulator_option_list) d = False" "given_of (default_values simulator_option_list) d = None"
  "flag_of (default_values redfish_option_list) d = False" "given_of (default_values redfish_option_list) d = None"
  "flag_of (default_values fanin_option_list) d = False" "given_of (default_values fanin_option_list) d = None"
  by (simp_all add: flag_of_def given_of_def default_values_def simulator_option_list_def redfish_option_list_def
      fanin_option_list_def builtin_options_def flag_option_def value_option_def)

lemma fanin_argv_values:
  "\<exists>vs. parse_args fanin_option_list (value_arg ''--numberOfTopic'' n @ fanin_argv opts) = Inr vs \<and>
    given_of vs ''numberOfTopic'' = n \<and> fanin_options_of vs = opts"
  using process_named_args[where rest = "[]"]
  by (cases opts) (auto simp: parse_args_def fanin_argv_def process_named_args fanin_options_of_def default_options)

text \<open>The processes of a gateway started with \<open>opts\<close> and a number of topics.\<close>

lemma fanin_processes_argv:
  "fanin_processes cfg (value_arg ''--numberOfTopic'' n @ fanin_argv opts) =
     res_then (fanin_main cfg n) (\<lambda>topics. Inr (map (\<lambda>topic. (topic, opts)) topics))"
  using fanin_argv_values[of n opts] by (auto simp: fanin_processes_def)

lemma fanin_single_process: "fanin_processes cfg (fanin_argv opts) = Inr [(None, opts)]"
  using fanin_processes_argv[of cfg None opts] by (simp add: value_arg_def fanin_main_def)

text \<open>C32: Every choice of options can be given on the command line, whatever the texts (also empty, with
  equal signs or beginning with a dash), and is read back: the parser of each program, on the
  arguments written for the options, returns values that stand for exactly these options.\<close>

theorem options_roundtrip:
  "\<exists>vs ws xs. parse_args simulator_option_list (simulator_argv opts) = Inr vs \<and> simulator_options_of vs = opts \<and>
    parse_args redfish_option_list (redfish_argv opts) = Inr ws \<and>
    redfish_options_of ws = opts\<lparr>opt_sendNumberOfMessages := None, opt_enableMQTTbatchesCounter := False\<rparr> \<and>
    parse_args fanin_option_list (fanin_argv fopts) = Inr xs \<and> fanin_options_of xs = fopts"
proof -
  have "\<exists>vs. parse_args simulator_option_list (simulator_argv opts) = Inr vs \<and> simulator_options_of vs = opts"
    using process_named_args[where rest = "[]"]
    by (cases opts) (simp add: parse_args_def simulator_argv_def redfish_argv_def process_named_args simulator_options_of_def default_options)
  moreover have "\<exists>vs. parse_args redfish_option_list (redfish_argv opts) = Inr vs \<and>
      redfish_options_of vs = opts\<lparr>opt_sendNumberOfMessages := None, opt_enableMQTTbatchesCounter := False\<rparr>"
    using process_named_args[where rest = "[]"]
    by (cases opts) (simp add: parse_args_def redfish_argv_def process_named_args redfish_options_of_def default_options)
  moreover have "\<exists>vs. parse_args fanin_option_list (fanin_argv fopts) = Inr vs \<and> fanin_options_of vs = fopts"
    using fanin_argv_values[of None fopts] by (auto simp: value_arg_def)
  ultimately show ?thesis by blast
qed

section \<open>Any order of the options\<close>

text \<open>
  What a user may write: a flag, a valued option with its value attached or as the next argument,
  or a positional argument; and the last value given for a name.
\<close>

datatype cmd_arg = FlagArg string | AttachedArg string string | SeparateArg string string | PlainArg string

fun written :: "cmd_arg \<Rightarrow> string list" where
  "written (FlagArg name) = [name]"
| "written (AttachedArg name v) = [name @ CHR ''='' # v]"
| "written (SeparateArg name v) = [name, v]"
| "written (PlainArg arg) = [arg]"

fun allowed :: "string list \<Rightarrow> string list \<Rightarrow> cmd_arg \<Rightarrow> bool" where
  "allowed flags vals (FlagArg name) = (name \<in> set flags)"
| "allowed flags vals (AttachedArg name v) = (name \<in> set vals)"
| "allowed flags vals (SeparateArg name v) = (name \<in> set vals)"
| "allowed flags vals (PlainArg arg) = is_positional arg"

fun value_in :: "string \<Rightarrow> cmd_arg \<Rightarrow> string option" where
  "value_in name (AttachedArg n v) = (if n = name then Some v else None)"
| "value_in name (SeparateArg n v) = (if n = name then Some v else None)"
| "value_in name _ = None"

definition last_given :: "string \<Rightarrow> cmd_arg list \<Rightarrow> string option" where
  "last_given name ws = fold (\<lambda>w given. case value_in name w of None \<Rightarrow> given | Some v \<Rightarrow> Some v) ws None"

abbreviation cmd_line :: "cmd_arg list \<Rightarrow> string list" where
  "cmd_line ws \<equiv> concat (map written ws)"

text \<open>What reading the arguments \<open>ws\<close> makes of the values: flags set, the last value given for each name.\<close>

definition reads :: "(string \<times> string) list \<Rightarrow> (string \<times> string) list \<Rightarrow> cmd_arg list \<Rightarrow> opt_values \<Rightarrow> opt_values \<Rightarrow> bool" where
  "reads flags vals ws vs vs' \<longleftrightarrow>
     (\<forall>(name, dest) \<in> set flags. flag_of vs' dest = (flag_of vs dest \<or> FlagArg name \<in> set ws)) \<and>
     (\<forall>(name, dest) \<in> set vals. given_of vs' dest =
        fold (\<lambda>w given. case value_in name w of None \<Rightarrow> given | Some v \<Rightarrow> Some v) ws (given_of vs dest))"

text \<open>A table that declares flags and valued options under these names, each with an attribute of its own.\<close>

locale option_table =
  fixes table :: "opt_spec list" and flags vals :: "(string \<times> string) list"
  assumes flags_named: "(name, dest) \<in> set flags \<Longrightarrow> names table name (StoreTrue dest) \<and> name \<noteq> ''--''"
    and vals_named: "(name, dest) \<in> set vals \<Longrightarrow> names table name (Store dest) \<and> name \<noteq> ''--''"
    and own_names: "distinct (map fst (flags @ vals))" and own_dests: "distinct (map snd (flags @ vals))"
begin

lemma same_option: "(n, d) \<in> set (flags @ vals) \<Longrightarrow> (n', d') \<in> set (flags @ vals) \<Longrightarrow> n = n' \<longleftrightarrow> d = d'"
proof -
  have "inj_on fst (set (flags @ vals))" "inj_on snd (set (flags @ vals))"
    using own_names own_dests by (simp_all only: distinct_map)
  then show "(n, d) \<in> set (flags @ vals) \<Longrightarrow> (n', d') \<in> set (flags @ vals) \<Longrightarrow> n = n' \<longleftrightarrow> d = d'"
    by (metis fst_conv inj_onD snd_conv)
qed

lemma disjoint: "(n, d) \<in> set flags \<Longrightarrow> (n', d') \<in> set vals \<Longrightarrow> d \<noteq> d'"
proof
  assume "(n, d) \<in> set flags" "(n', d') \<in> set vals" "d = d'"
  then have "d \<in> set (map snd flags) \<inter> set (map snd vals)" by force
  with own_dests show False by (auto simp: distinct_append)
qed

lemma reads_one:
  assumes "allowed (map fst flags) (map fst vals) w"
  shows "\<exists>vs1. process_args table (written w @ rest) vs = process_args table rest vs1 \<and> reads flags vals [w] vs vs1"
proof (cases w)
  case (FlagArg name)
  with assms obtain dest where d: "(name, dest) \<in> set flags" by auto
  have "process_args table (written w @ rest) vs = process_args table rest (set_flag dest True vs)"
    using process_flag_arg[of table name dest True rest vs] flags_named[OF d] by (simp add: FlagArg flag_arg_def)
  moreover have "reads flags vals [w] vs (set_flag dest True vs)"
    using same_option[of _ _ name dest] disjoint[OF d] d by (fastforce simp: reads_def FlagArg)
  ultimately show ?thesis by blast
next
  case (AttachedArg name v)
  with assms obtain dest where d: "(name, dest) \<in> set vals" by auto
  have "process_args table (written w @ rest) vs = process_args table rest (set_value dest (Some v) vs)"
    using process_value_arg[of table name dest "Some v" rest vs] vals_named[OF d] by (simp add: AttachedArg value_arg_def)
  moreover have "reads flags vals [w] vs (set_value dest (Some v) vs)"
    using same_option[of _ _ name dest] disjoint[OF _ d] d by (fastforce simp: reads_def AttachedArg)
  ultimately show ?thesis by blast
next
  case (SeparateArg name v)
  with assms obtain dest where d: "(name, dest) \<in> set vals" by auto
  have "process_args table (written w @ rest) vs = process_args table rest (set_value dest (Some v) vs)"
    using tokens_process[OF separate_token[OF conjunct1[OF vals_named[OF d]] conjunct2[OF vals_named[OF d]] no_tokens, of v], of rest vs]
    by (simp add: SeparateArg set_value_def)
  moreover have "reads flags vals [w] vs (set_value dest (Some v) vs)"
    using same_option[of _ _ name dest] disjoint[OF _ d] d by (fastforce simp: reads_def SeparateArg)
  ultimately show ?thesis by blast
next
  case (PlainArg arg)
  with assms have "process_args table (written w @ rest) vs = process_args table rest vs" by simp
  moreover have "reads flags vals [w] vs vs" by (simp add: reads_def PlainArg)
  ultimately show ?thesis by blast
qed

lemma reads_trans: "reads flags vals [w] vs vs1 \<Longrightarrow> reads flags vals ws vs1 vs2 \<Longrightarrow> reads flags vals (w # ws) vs vs2"
  by (fastforce simp: reads_def)

lemma reads_line:
  "list_all (allowed (map fst flags) (map fst vals)) ws \<Longrightarrow> \<exists>vs'. process_args table (cmd_line ws) vs = Inr vs' \<and> reads flags vals ws vs vs'"
proof (induction ws arbitrary: vs)
  case Nil
  then show ?case by (simp add: reads_def case_prod_beta)
next
  case (Cons w ws)
  from Cons.prems reads_one[of w "cmd_line ws" vs] obtain vs1 where
    "process_args table (cmd_line (w # ws)) vs = process_args table (cmd_line ws) vs1" "reads flags vals [w] vs vs1" by auto
  with Cons.IH[of vs1] Cons.prems show ?case using reads_trans by fastforce
qed

lemma line_values:
  assumes "list_all (allowed (map fst flags) (map fst vals)) ws"
    and "\<And>d. flag_of (default_values table) d = False" "\<And>d. given_of (default_values table) d = None"
  shows "\<exists>vs. parse_args table (cmd_line ws) = Inr vs \<and>
    (\<forall>(name, dest) \<in> set flags. flag_of vs dest = (FlagArg name \<in> set ws)) \<and>
    (\<forall>(name, dest) \<in> set vals. given_of vs dest = last_given name ws)"
  using reads_line[OF assms(1), of "default_values table"] assms(2,3)
  by (auto simp: parse_args_def reads_def last_given_def)

end

text \<open>The tables of the three programs.\<close>

lemma log_level_names:
  "names simulator_option_list ''--logLevel'' (Store ''logLevel'')" "names redfish_option_list ''--logLevel'' (Store ''logLevel'')"
  by code_simp+

interpretation simulator_table: option_table simulator_option_list
  "[(''--debug'', ''debug''), (''--encrypt'', ''encrypt''), (''--batching'', ''batching''),
    (''--enableMQTTbatchesCounter'', ''enableMQTTbatchesCounter'')]"
  "[(''--numberOfTopic'', ''numberOfTopic''), (''--sleepLoopTime'', ''sleepLoopTime''),
    (''--sendNumberOfMessages'', ''sendNumberOfMessages''), (''--logLevel'', ''logLevel'')]"
  by unfold_locales (auto simp: flag_names value_names log_level_names)

interpretation redfish_table: option_table redfish_option_list
  "[(''--debug'', ''debug''), (''--encrypt'', ''encrypt''), (''--batching'', ''batching'')]"
  "[(''--numberOfTopic'', ''numberOfTopic''), (''--sleepLoopTime'', ''sleepLoopTime''), (''--logLevel'', ''logLevel'')]"
  by unfold_locales (auto simp: flag_names value_names log_level_names)

interpretation fanin_table: option_table fanin_option_list
  "[(''--debug'', ''debug''), (''--encrypt'', ''encrypt''), (''--batching'', ''batching''),
    (''--enableMQTTbatchesCounter'', ''checkmqtt''), (''--enableMQTTbatchPassthrough'', ''mqttPassthrough'')]"
  "[(''--numberOfTopic'', ''numberOfTopic''), (''--logLevel'', ''logLevel'')]"
  by unfold_locales (auto simp: flag_names value_names)

text \<open>C22: What a user writes is what the programs run with, in whatever order. On any sequence of their
  options in full (flags, values attached or as the next argument, repetitions) and positional
  arguments, the three programs start and run with exactly these options: each flag is on if and
  only if it was given, each valued option has the last value given for it, or none. The values
  of --logLevel reach neither of the agents, only the gateway; the number of topics decides its
  processes, all of which get the other options.\<close>

theorem command_line_selects_options:
  assumes "list_all (allowed [''--debug'', ''--encrypt'', ''--batching'', ''--enableMQTTbatchesCounter'']
      [''--numberOfTopic'', ''--sleepLoopTime'', ''--sendNumberOfMessages'', ''--logLevel'']) ws"
    and "list_all (allowed [''--debug'', ''--encrypt'', ''--batching''] [''--numberOfTopic'', ''--sleepLoopTime'', ''--logLevel'']) ws'"
    and "list_all (allowed [''--debug'', ''--encrypt'', ''--batching'', ''--enableMQTTbatchesCounter'', ''--enableMQTTbatchPassthrough'']
      [''--numberOfTopic'', ''--logLevel'']) ws''"
  shows "simulator_program files registry py_float uid i (cmd_line ws) c sizeof env fs start tick k s =
      simulator_main files registry py_float uid i
        \<lparr>opt_debug = FlagArg ''--debug'' \<in> set ws, opt_encrypt = FlagArg ''--encrypt'' \<in> set ws,
         opt_batching = FlagArg ''--batching'' \<in> set ws, opt_numberOfTopic = last_given ''--numberOfTopic'' ws,
         opt_sleepLoopTime = last_given ''--sleepLoopTime'' ws, opt_sendNumberOfMessages = last_given ''--sendNumberOfMessages'' ws,
         opt_enableMQTTbatchesCounter = FlagArg ''--enableMQTTbatchesCounter'' \<in> set ws\<rparr> c sizeof env fs start tick k s \<and>
    redfish_program files registry py_float uid i (cmd_line ws') c sizeof renv template connect start polls r =
      redfish_main files registry py_float uid i
        \<lparr>opt_debug = FlagArg ''--debug'' \<in> set ws', opt_encrypt = FlagArg ''--encrypt'' \<in> set ws',
         opt_batching = FlagArg ''--batching'' \<in> set ws', opt_numberOfTopic = last_given ''--numberOfTopic'' ws',
         opt_sleepLoopTime = last_given ''--sleepLoopTime'' ws', opt_sendNumberOfMessages = None,
         opt_enableMQTTbatchesCounter = False\<rparr> c sizeof renv template connect start polls r \<and>
    fanin_processes cfg (cmd_line ws'') = res_then (fanin_main cfg (last_given ''--numberOfTopic'' ws'')) (\<lambda>topics.
      Inr (map (\<lambda>topic. (topic,
        \<lparr>fopt_debug = FlagArg ''--debug'' \<in> set ws'', fopt_encrypt = FlagArg ''--encrypt'' \<in> set ws'',
         fopt_batching = FlagArg ''--batching'' \<in> set ws'', fopt_checkmqtt = FlagArg ''--enableMQTTbatchesCounter'' \<in> set ws'',
         fopt_mqttPassthrough = FlagArg ''--enableMQTTbatchPassthrough'' \<in> set ws'',
         fopt_logLevel = last_given ''--logLevel'' ws''\<rparr>)) topics))"
proof -
  obtain vs where "parse_args simulator_option_list (cmd_line ws) = Inr vs"
    "flag_of vs ''debug'' = (FlagArg ''--debug'' \<in> set ws)" "flag_of vs ''encrypt'' = (FlagArg ''--encrypt'' \<in> set ws)"
    "flag_of vs ''batching'' = (FlagArg ''--batching'' \<in> set ws)"
    "flag_of vs ''enableMQTTbatchesCounter'' = (FlagArg ''--enableMQTTbatchesCounter'' \<in> set ws)"
    "given_of vs ''numberOfTopic'' = last_given ''--numberOfTopic'' ws" "given_of vs ''sleepLoopTime'' = last_given ''--sleepLoopTime'' ws"
    "given_of vs ''sendNumberOfMessages'' = last_given ''--sendNumberOfMessages'' ws"
    using simulator_table.line_values[of ws] assms(1) default_options by auto
  moreover obtain vs' where "parse_args redfish_option_list (cmd_line ws') = Inr vs'"
    "flag_of vs' ''debug'' = (FlagArg ''--debug'' \<in> set ws')" "flag_of vs' ''encrypt'' = (FlagArg ''--encrypt'' \<in> set ws')"
    "flag_of vs' ''batching'' = (FlagArg ''--batching'' \<in> set ws')"
    "given_of vs' ''numberOfTopic'' = last_given ''--numberOfTopic'' ws'" "given_of vs' ''sleepLoopTime'' = last_given ''--sleepLoopTime'' ws'"
    using redfish_table.line_values[of ws'] assms(2) default_options by auto
  moreover obtain vs'' where "parse_args fanin_option_list (cmd_line ws'') = Inr vs''"
    "flag_of vs'' ''debug'' = (FlagArg ''--debug'' \<in> set ws'')" "flag_of vs'' ''encrypt'' = (FlagArg ''--encrypt'' \<in> set ws'')"
    "flag_of vs'' ''batching'' = (FlagArg ''--batching'' \<in> set ws'')"
    "flag_of vs'' ''checkmqtt'' = (FlagArg ''--enableMQTTbatchesCounter'' \<in> set ws'')"
    "flag_of vs'' ''mqttPassthrough'' = (FlagArg ''--enableMQTTbatchPassthrough'' \<in> set ws'')"
    "given_of vs'' ''numberOfTopic'' = last_given ''--numberOfTopic'' ws''" "given_of vs'' ''logLevel'' = last_given ''--logLevel'' ws''"
    using fanin_table.line_values[of ws''] assms(3) default_options by auto
  ultimately show ?thesis
    by (simp add: simulator_program_def redfish_program_def fanin_processes_def simulator_options_of_def redfish_options_of_def
      fanin_options_of_def)
qed

theorem command_line_selects_options_witness:
  "fanin_processes (\<lambda>_. None) [''--numberOfTopic'', ''7'', ''--batching'', ''extra'', ''--logLevel=--x'', ''--debug'', ''--numberOfTopic=1'', ''--batching''] =
     Inr [(None, \<lparr>fopt_debug = True, fopt_encrypt = False, fopt_batching = True, fopt_checkmqtt = False,
       fopt_mqttPassthrough = False, fopt_logLevel = Some ''--x''\<rparr>)]"
proof -
  let ?ws = "[SeparateArg ''--numberOfTopic'' ''7'', FlagArg ''--batching'', PlainArg ''extra'', AttachedArg ''--logLevel'' ''--x'',
    FlagArg ''--debug'', AttachedArg ''--numberOfTopic'' ''1'', FlagArg ''--batching'']"
  have one: "py_int ''1'' = Inr 1" by code_simp
  from command_line_selects_options[of "[]" "[]" ?ws, THEN conjunct2, THEN conjunct2, of "\<lambda>_. None"] show ?thesis
    by (simp add: is_positional_def last_given_def fanin_main_def one)
qed

section \<open>The values\<close>

definition declared :: "opt_spec list \<Rightarrow> string set" where
  "declared table = {dest. \<exists>spec \<in> set table. action spec \<in> {StoreTrue dest, Store dest}}"

text \<open>A value an option of the table can leave in an attribute.\<close>

definition value_for :: "opt_spec list \<Rightarrow> string \<Rightarrow> opt_value \<Rightarrow> bool" where
  "value_for table dest v \<longleftrightarrow>
     (\<exists>spec \<in> set table. action spec = StoreTrue dest \<and> v \<in> {opt_default spec, Truth True} \<or>
        action spec = Store dest \<and> v \<in> insert (opt_default spec) (range Given))"

lemma match_abbrev_set: "match_abbrev table name = Inr spec \<Longrightarrow> spec \<in> set table"
  unfolding match_abbrev_def by (auto split: list.splits dest!: arg_cong[of _ _ set])

lemma names_spec: "names table name act \<Longrightarrow> \<exists>spec \<in> set table. action spec = act"
  by (auto simp: names_def split: sum.splits dest: match_abbrev_set)

lemma tokens_values: "option_tokens table args as \<Longrightarrow> (dest, v) \<in> set as \<Longrightarrow> dest \<in> declared table \<and> value_for table dest v"
  by (induction args as rule: option_tokens.induct) (auto simp: declared_def value_for_def dest!: names_spec)

lemma set_default_cases:
  "set_default spec vs = vs \<or> (\<exists>dest. action spec \<in> {StoreTrue dest, Store dest} \<and> set_default spec vs = vs(dest \<mapsto> opt_default spec))"
  by (cases "action spec") auto

lemma set_defaults_values:
  "set specs \<subseteq> set table \<Longrightarrow> (\<And>d v. vs d = Some v \<Longrightarrow> value_for table d v) \<Longrightarrow> fold set_default specs vs d = Some v \<Longrightarrow> value_for table d v"
proof (induction specs arbitrary: vs)
  case (Cons spec specs)
  then have "value_for table d v" if "set_default spec vs d = Some v" for d v
    using that set_default_cases[of spec vs] by (auto simp: value_for_def split: if_splits)
  with Cons show ?case by (metis (no_types, lifting) fold_simps(2) set_subset_Cons subset_trans)
qed simp

lemma set_defaults_dom: "dom (fold set_default specs vs) = declared specs \<union> dom vs"
proof (induction specs arbitrary: vs)
  case (Cons spec specs)
  have "dom (set_default spec vs) = {dest. action spec \<in> {StoreTrue dest, Store dest}} \<union> dom vs"
    by (cases "action spec") auto
  with Cons show ?case by (auto simp: declared_def)
qed (simp add: declared_def)

text \<open>What main reads of the options is there and has its type. For every accepted command line the
  attributes set are exactly those some option declares, so reading a declared one raises no
  KeyError; each flag is its default or True, each other option its default or a text.\<close>

theorem option_values_typed:
  assumes "parse_args table argv = Inr vs"
  shows "dom vs = declared table \<and> (\<forall>dest v. vs dest = Some v \<longrightarrow> value_for table dest v)"
proof -
  from assms obtain args tail as where tokens: "option_tokens table args as" and vs: "vs = default_values table ++ map_of (rev as)"
    unfolding parse_args_def by (auto dest!: process_reads simp: fold_assign)
  have assigned: "dest \<in> declared table \<and> value_for table dest v" if "map_of (rev as) dest = Some v" for dest v
    using tokens_values[OF tokens] map_of_SomeD[OF that] by simp
  have "dom vs = declared table" using assigned by (auto simp: vs default_values_def set_defaults_dom)
  moreover have "value_for table dest v" if "vs dest = Some v" for dest v
    using that assigned set_defaults_values[of table table Map.empty dest v]
    by (auto simp: vs default_values_def map_add_Some_iff)
  ultimately show ?thesis by blast
qed

theorem option_values_typed_witness:
  "\<exists>vs. parse_args fanin_option_list [''--batch'', ''--numberOfTopic'', ''2'', ''extra'', ''--deb''] = Inr vs \<and>
    vs ''batching'' = Some (Truth True) \<and> dom vs = declared fanin_option_list"
proof -
  let ?argv = "[''--batch'', ''--numberOfTopic'', ''2'', ''extra'', ''--deb'']"
  have ok: "case parse_args fanin_option_list ?argv of Inl _ \<Rightarrow> False | Inr vs \<Rightarrow> vs ''batching'' = Some (Truth True)"
    by code_simp
  then obtain vs where "parse_args fanin_option_list ?argv = Inr vs" "vs ''batching'' = Some (Truth True)"
    by (cases "parse_args fanin_option_list ?argv") auto
  with option_values_typed show ?thesis by blast
qed

end
