(* ===== verification/Pipeline_Props.thy ===== *)
theory Pipeline_Props
  imports Pipeline Options_Props Batching_Props FanIn_Props
begin

text \<open>
  The properties of the pipeline: the gateway processes share out the subtopics of the agents,
  and every sample a call of the batcher publishes reaches Kafka once, in order within its
  subtopic, if the broker and the Kafka client lose nothing.
\<close>

section \<open>Topics\<close>

lemma py_split_topic:
  assumes "CHR '':'' \<notin> set base"
  shows "py_split '':'' (base @ ''/'' @ str_nat i @ '':'' @ str_nat q) = [base @ ''/'' @ str_nat i, str_nat q]"
proof -
  have digits: "CHR '':'' \<notin> set (str_nat k)" for k
    using str_nat_digits[of "CHR '':''" k] by (auto simp: is_digit_def)
  have "base @ ''/'' @ str_nat i @ '':'' @ str_nat q = (base @ ''/'' @ str_nat i) @ CHR '':'' # str_nat q" by simp
  moreover have "CHR '':'' \<notin> set (base @ ''/'' @ str_nat i)" using assms digits[of i] by simp
  ultimately show ?thesis using py_split_sep[of "CHR '':''" "base @ ''/'' @ str_nat i" "str_nat q"] py_split_no_sep[OF digits]
    by simp
qed

lemma read_process_topic:
  "CHR '':'' \<notin> set base \<Longrightarrow> read_topic (base @ ''/'' @ str_nat i @ '':'' @ str_nat q) = Inr (subtopic base i, q)"
  unfolding read_topic_def py_split_topic subtopic_def by (simp add: py_index_def)

text \<open>C24: The gateway processes share out the subtopics. Started with --numberOfTopic=n for n > 1, any
  other options and a base topic without a colon, the program launches n processes, each with
  these options; the topic parameter of the i-th one is
  read back, by its constructor, as exactly the i-th subtopic an agent with that root topic publishes
  on, with the configured QoS; and the n subtopics are distinct, so every subtopic of an agent
  with n topics is the data topic of exactly one process.\<close>

theorem processes_share_subtopics:
  assumes "1 < n" and "config_get cfg ''MQTT'' ''mqttMultiProcessRootTopic'' = Inr base" "CHR '':'' \<notin> set base"
    and "config_get cfg ''MQTT'' ''mqttMultiProcessTopicQOS'' = Inr (str_nat q)"
  shows "\<exists>ts. fanin_processes cfg (value_arg ''--numberOfTopic'' (Some (str_nat n)) @ fanin_argv opts) =
      Inr (map (\<lambda>t. (Some t, opts)) ts) \<and>
    map read_topic ts = map (\<lambda>i. Inr (subtopic base i, q)) [0..<n] \<and> distinct (map (subtopic base) [0..<n])"
proof -
  have "fanin_processes cfg (value_arg ''--numberOfTopic'' (Some (str_nat n)) @ fanin_argv opts) =
      Inr (map (\<lambda>t. (Some t, opts)) (process_topics base (str_nat q) n))"
    using assms by (simp add: fanin_processes_argv fanin_main_def)
  moreover have "map read_topic (process_topics base (str_nat q) n) = map (\<lambda>i. Inr (subtopic base i, q)) [0..<n]"
    using read_process_topic[OF assms(3)] by (simp add: process_topics_def)
  moreover have "distinct (map (subtopic base) [0..<n])" by (simp add: distinct_map inj_on_def)
  ultimately show ?thesis by blast
qed

definition topics_config :: config where
  "topics_config = [''MQTT'' \<mapsto> (\<lambda>opt. if opt = map lower_char ''mqttMultiProcessRootTopic'' then Some ''ibswitch'' else Some (str_nat 0))]"

definition batching_options :: fanin_options where
  "batching_options = \<lparr>fopt_debug = False, fopt_encrypt = False, fopt_batching = True, fopt_checkmqtt = False,
     fopt_mqttPassthrough = False, fopt_logLevel = Some ''INFO''\<rparr>"

theorem processes_share_subtopics_witness:
  "\<exists>ts. fanin_processes topics_config [''--numberOfTopic=2'', ''--batching'', ''--logLevel=INFO''] =
      Inr (map (\<lambda>t. (Some t, batching_options)) ts) \<and>
    map read_topic ts = [Inr (subtopic ''ibswitch'' 0, 0), Inr (subtopic ''ibswitch'' 1, 0)]"
proof -
  have "config_get topics_config ''MQTT'' ''mqttMultiProcessRootTopic'' = Inr ''ibswitch''"
    "config_get topics_config ''MQTT'' ''mqttMultiProcessTopicQOS'' = Inr (str_nat 0)"
    by code_simp+
  moreover have "value_arg ''--numberOfTopic'' (Some (str_nat 2)) @ fanin_argv batching_options =
      [''--numberOfTopic=2'', ''--batching'', ''--logLevel=INFO'']"
    by code_simp
  ultimately show ?thesis using processes_share_subtopics[of 2 topics_config "''ibswitch''" 0 batching_options] by (auto simp: upt_rec)
qed

section \<open>Delivery\<close>

lemma blocks_subtopics: "0 < n \<Longrightarrow> \<forall>b \<in> set (blocks n m i xs). fst b < n"
  by (auto simp: blocks_def)

text \<open>C5: What becomes of the samples of a call. Let an agent send samples (below its limit) on n
  subtopics, and let the gateway of subtopic i, in service, get the messages the call published
  there, in order, at whatever times; if the Kafka client accepts everything, the gateway
  produces exactly the samples of the blocks published on subtopic i, each once and in order, and
  the samples of the n subtopics together with those still in the agent's batch are the samples
  that were in the batch and the ones sent: none is lost, none is doubled.\<close>

theorem every_sample_reaches_kafka:
  fixes s :: "('b, 'z) agent_scheme" and g :: "('b, 'y) fanin_scheme"
  assumes laws: "codec_laws c rnd" and ok: "sendable c a s" "no_stop a (length rs) s"
    and m: "is_batch_len (batch_full sizeof a) m" and batch: "myByteBatch s = map Dict ts" "length ts < m"
    and gateway: "in_service c kenv g" "mqttTopicList g = (subtopic (send_topic a) i, q) # rest"
      "mqttBatching g" "\<not> enableMQTTpassthrough g" and kafka: "\<And>k. accepts kenv k = None"
  shows "\<exists>t acts. mqtt_send_triplet_batch c sizeof a now_t env rs s = Return () t \<and> net t = net s @ acts \<and>
    (let bs = blocks (myAgentMqttNumberOfPublishingTopics s) m (myCurrentSubtopic s) (ts @ rs) in
     (\<forall>msgs. map snd msgs = messages_on (subtopic (send_topic a) i) acts \<and> timely kenv msgs \<longrightarrow>
        (\<exists>g'. gateway_run c kenv msgs g = Return () g' \<and>
          produced g' = produced g @ map (\<lambda>r. (kafkaProducerTopic g,
            sample_raw c (send_time_series_schema_id (schemas g)) (narrow rnd r))) (concat (blocks_of i bs)))) \<and>
     (\<Sum>j<myAgentMqttNumberOfPublishingTopics s. mset (concat (blocks_of j bs))) + mset (leftover m (ts @ rs)) = mset (ts @ rs) \<and>
     myByteBatch t = map Dict (leftover m (ts @ rs)))"
proof -
  let ?n = "myAgentMqttNumberOfPublishingTopics s"
  define bs where "bs = blocks ?n m (myCurrentSubtopic s) (ts @ rs)"
  obtain t where t: "mqtt_send_triplet_batch c sizeof a now_t env rs s = Return () t"
    "batch_sim c a s t (block_plan m s (ts @ rs))"
    using send_batches[OF ok(1) _ m batch, of rs 0] ok(2) by auto
  then obtain acts where acts: "net t = net s @ acts"
    "list_all2 (publishes c (send_time_series_druid_array_id (schemas s)) (send_topic a)) bs acts"
    and left: "myByteBatch t = map Dict (leftover m (ts @ rs))"
    by (auto simp: batch_sim_def block_plan_def bs_def)
  have "myCurrentSubtopic s < ?n" using ok(1) by (simp add: sendable_def)
  then have "0 < ?n" by simp
  then have "(\<Sum>j<?n. mset (concat (blocks_of j bs))) = mset (concat (map snd bs))"
    using mset_blocks_of blocks_subtopics unfolding bs_def by blast
  then have parts: "(\<Sum>j<?n. mset (concat (blocks_of j bs))) + mset (leftover m (ts @ rs)) = mset (ts @ rs)"
    using arg_cong[OF blocks_leftover[of ?n m "myCurrentSubtopic s" "ts @ rs"], of mset] by (simp add: bs_def)
  have delivered: "\<exists>g'. gateway_run c kenv msgs g = Return () g' \<and>
      produced g' = produced g @ map (\<lambda>r. (kafkaProducerTopic g,
        sample_raw c (send_time_series_schema_id (schemas g)) (narrow rnd r))) (concat (blocks_of i bs))"
    if "map snd msgs = messages_on (subtopic (send_topic a) i) acts" "timely kenv msgs" for msgs
    by (rule blocks_reach_kafka[OF laws acts(2) that gateway kafka])
  show ?thesis
    unfolding bs_def[symmetric] Let_def
    using t(1) acts(1) delivered parts left by blast
qed

theorem every_sample_reaches_kafka_witness:
  "\<exists>t acts g'. mqtt_send_triplet_batch tag_codec cpython_getsizeof (demo_args 100 (LimitInt (-1))) 1 demo_env
      (demo_samples 12) (demo_agent 1 0) = Return () t \<and> net t = acts \<and>
    gateway_run tag_codec (demo_kafka (\<lambda>k. None)) (map (Pair (\<lambda>i. 1 / 8)) (messages_on ''ibswitch/0'' acts))
      (demo_gateway True False False) = Return () g' \<and>
    produced g' = map (\<lambda>r. (''fabric'', sample_raw tag_codec 5 r)) (take 10 (demo_samples 12))"
proof -
  have blocks: "blocks 1 5 0 (demo_samples 12) = [(0, take 5 (demo_samples 12)), (0, take 5 (drop 5 (demo_samples 12)))]"
    by (simp add: blocks_def segment_def demo_samples_def upt_rec)
  have topic: "subtopic ''ibswitch'' 0 = ''ibswitch/0''" by code_simp
  have narrow: "narrow (\<lambda>x. x) r = r" for r by (simp add: narrow_def)
  have in_time: "timely (demo_kafka (\<lambda>k. None)) (map (Pair (\<lambda>i. 1 / 8)) msgs)" for msgs
    using half_eighth by (auto simp: timely_def demo_kafka_def)
  have gateway: "in_service tag_codec (demo_kafka (\<lambda>k. None)) (demo_gateway True False False)"
    by (rule demo_in_service) simp
  have sent: "concat (blocks_of 0 (blocks 1 5 0 (demo_samples 12))) = take 10 (demo_samples 12)"
    unfolding blocks by (simp add: blocks_of_def demo_samples_def upt_rec)
  have plain: "accepts (demo_kafka (\<lambda>k. None)) = (\<lambda>k. None)" by (simp add: demo_kafka_def)
  note reached = every_sample_reaches_kafka[where s = "demo_agent 1 0" and rs = "demo_samples 12" and ts = "[]" and i = 0
      and q = 0 and m = 5 and now_t = 1 and env = demo_env, OF tag_codec_laws demo_sendable demo_no_stop demo_batch_len _ _ gateway,
      unfolded Let_def demo_agent_simps demo_args_simps topic narrow append_Nil sent demo_gateway_simps plain]
  then obtain t acts where t: "mqtt_send_triplet_batch tag_codec cpython_getsizeof (demo_args 100 (LimitInt (-1))) 1 demo_env
      (demo_samples 12) (demo_agent 1 0) = Return () t" "net t = acts"
    "\<And>msgs. map snd msgs = messages_on ''ibswitch/0'' acts \<and> timely (demo_kafka (\<lambda>k. None)) msgs \<Longrightarrow>
      (\<exists>g'. gateway_run tag_codec (demo_kafka (\<lambda>k. None)) msgs (demo_gateway True False False) = Return () g' \<and>
        produced g' = map (\<lambda>r. (''fabric'', sample_raw tag_codec 5 r)) (take 10 (demo_samples 12)))"
    by force
  show ?thesis using t(1,2) t(3)[of "map (Pair (\<lambda>i. 1 / 8)) (messages_on ''ibswitch/0'' acts)"] in_time by (auto simp: comp_def)
qed

end
