(* ===== verification/Redfish_Props.thy ===== *)
theory Redfish_Props
  imports Redfish Demo_Agent
begin

text \<open>
  The properties of the Redfish agent: when a poll ends and how, what a failing endpoint does at
  the start, and that every reading of every poll is sent under the UUID the framework assigned,
  whatever limit the configuration sets.
\<close>

section \<open>A concrete agent\<close>

definition demo_chassis :: chassis where
  "demo_chassis = \<lparr>chassis_name = ''C'', temperatures = [(''T'', Number 21)], fans = [(''F'', Words ''12 Percent'')]\<rparr>"

definition demo_poll :: redfish_poll where
  "demo_poll = \<lparr>attempts = (\<lambda>k. if k = 0 then Inl RedfishException else Inr [demo_chassis]), poll_time = 7, end_time = 8\<rparr>"

definition demo_float :: "string \<Rightarrow> exn + rat" where
  "demo_float s = res_then (py_int s) (\<lambda>i. Inr (of_int i))"

definition demo_sensors :: device_uuids where
  "demo_sensors = (\<lambda>device. Some (Uuid device, \<lambda>sensor. Some (Uuid sensor)))"

definition demo_redfish :: "wire redfish_agent" where
  "demo_redfish = agent.extend ((demo_agent 1 0)\<lparr>myDeviceSensorUUIDsMap := demo_sensors\<rparr>)
     \<lparr>redfish_registration = registration_data ''node7'' ''RedfishAgent'' ''redfishAgent'', redfish_sleepLoopTime = 60,
      redfish_seedOutputDir = ''/tmp'', redfish_json_dir = ''/redfish'', redfish_limit = ''1'', redfish_batch_size = 100,
      redfish_encryption = True, myAgent_redfish_ip = ''https://ilo/redfish/v1'', myAgent_redfish_acc = [],
      myAgent_redfish_pwd = [], mqttTopicRoot = ''redfish/ilo/'', redfish_timet0 = 0\<rparr>"

definition friendly_env :: "wire redfish_agent net_env" where
  "friendly_env = \<lparr>connect_error = None, subscribe_rc = (\<lambda>_. 0), is_published = True,
     network = (\<lambda>_ s. s\<lparr>myMQTTregistered := True\<rparr>)\<rparr>"

section \<open>Connecting\<close>

definition fails_before :: "(nat \<Rightarrow> exn + chassis list) \<Rightarrow> nat \<Rightarrow> bool" where
  "fails_before tries k \<longleftrightarrow> list_all (\<lambda>j. tries j = Inl RedfishException) [0..<k]"

lemma redfish_connect_Some:
  assumes "tries k \<noteq> Inl RedfishException" "fails_before tries k"
  shows "redfish_connect tries = Some (k, tries k)"
  using first_from_Some[of "\<lambda>k. if tries k = Inl RedfishException then None else Some (tries k)" 0 k "tries k"] assms
  by (simp add: redfish_connect_def fails_before_def list_all_iff)

lemma redfish_connect_None: "\<forall>k. tries k = Inl RedfishException \<Longrightarrow> redfish_connect tries = None"
proof -
  assume "\<forall>k. tries k = Inl RedfishException"
  then have "(\<lambda>k. if tries k = Inl RedfishException then None else Some (tries k)) = (\<lambda>k. None)" by auto
  moreover have "first_from (\<lambda>k. None :: (exn + chassis list) option) 0 = None"
    using first_from_returns_iff[of "\<lambda>k. None :: (exn + chassis list) option" 0] by blast
  ultimately show ?thesis unfolding redfish_connect_def by simp
qed

text \<open>C29: A poll waits out the failures of the Redfish endpoint. As long as connecting raises a
  RedfishException the loop tries again, for ever if need be; the first other exception ends the
  loop with the agent untouched; the first answer is used, so a poll that is answered after some
  failures does what it would have done had the first attempt been answered.\<close>

theorem poll_waits_for_endpoint:
  "((\<forall>k. attempts p k = Inl RedfishException) \<longrightarrow> redfish_turn c sizeof py_float env p s = Hang) \<and>
   (\<forall>k e. fails_before (attempts p) k \<and> attempts p k = Inl e \<and> e \<noteq> RedfishException \<longrightarrow>
      redfish_turn c sizeof py_float env p s = Raise e s) \<and>
   (\<forall>k chs. fails_before (attempts p) k \<and> attempts p k = Inr chs \<longrightarrow>
      redfish_turn c sizeof py_float env p s = redfish_turn c sizeof py_float env (p\<lparr>attempts := \<lambda>_. Inr chs\<rparr>) s)"
proof (intro conjI allI impI)
  assume "\<forall>k. attempts p k = Inl RedfishException"
  then show "redfish_turn c sizeof py_float env p s = Hang"
    by (simp add: redfish_turn_def redfish_connect_None)
next
  fix k e
  assume a: "fails_before (attempts p) k \<and> attempts p k = Inl e \<and> e \<noteq> RedfishException"
  then have "redfish_connect (attempts p) = Some (k, Inl e)" using redfish_connect_Some[of "attempts p" k] by simp
  then show "redfish_turn c sizeof py_float env p s = Raise e s" by (simp add: redfish_turn_def)
next
  fix k chs
  assume a: "fails_before (attempts p) k \<and> attempts p k = Inr chs"
  then have "redfish_connect (attempts p) = Some (k, Inr chs)" using redfish_connect_Some[of "attempts p" k] by simp
  moreover have "redfish_connect (\<lambda>_. Inr chs) = Some (0, Inr chs)"
    using redfish_connect_Some[of "\<lambda>_. Inr chs" 0] by (simp add: fails_before_def)
  ultimately show "redfish_turn c sizeof py_float env p s = redfish_turn c sizeof py_float env (p\<lparr>attempts := \<lambda>_. Inr chs\<rparr>) s"
    by (simp add: redfish_turn_def)
qed

theorem poll_waits_for_endpoint_witness:
  "redfish_turn tag_codec cpython_getsizeof demo_float friendly_env
     (demo_poll\<lparr>attempts := \<lambda>k. if k < 2 then Inl RedfishException else Inl TypeError\<rparr>) demo_redfish = Raise TypeError demo_redfish"
  using poll_waits_for_endpoint[of "demo_poll\<lparr>attempts := \<lambda>k. if k < 2 then Inl RedfishException else Inl TypeError\<rparr>"
      tag_codec cpython_getsizeof demo_float friendly_env demo_redfish, THEN conjunct2, THEN conjunct1, rule_format, of 2 TypeError]
  by (simp add: fails_before_def list_all_iff)

section \<open>The readings of a poll\<close>

text \<open>Chassis, sensor and value of each reading, in the order they are sent.\<close>

definition readings_of :: "(string \<Rightarrow> exn + rat) \<Rightarrow> chassis \<Rightarrow> (string \<times> string \<times> (exn + rat)) list" where
  "readings_of py_float ch =
     map (\<lambda>(name, v). (chassis_name ch, name, float_of py_float v)) (temperatures ch) @
     map (\<lambda>(name, v). (chassis_name ch, name, fan_value py_float v)) (fans ch)"

definition reports :: "device_uuids \<Rightarrow> uuid \<Rightarrow> int \<Rightarrow> string \<times> string \<times> (exn + rat) \<Rightarrow> triplet \<Rightarrow> bool" where
  "reports m u stamp = (\<lambda>(chassisName, sensorName, value) r.
     redfish_sensor_uuid m u chassisName sensorName = Inr (sensorUuid r) \<and> value = Inr (sensorValue r) \<and> timestamp r = stamp)"

lemma reading_record_reports:
  "reading_record m u stamp f ch (name, v) = Inr r \<longleftrightarrow> reports m u stamp (ch, name, f v) r"
  by (cases r) (auto simp: reading_record_def reports_def res_then_Inr_iff)

lemma chassis_records_reports:
  assumes "m (chassis_id u (chassis_name ch)) \<noteq> None"
    and "list_all2 (reports m u stamp) (readings_of py_float ch) rs"
  shows "chassis_records py_float m u stamp ch = Inr rs"
proof -
  obtain rs1 rs2 where rs: "rs = rs1 @ rs2"
    "list_all2 (reports m u stamp) (map (\<lambda>(name, v). (chassis_name ch, name, float_of py_float v)) (temperatures ch)) rs1"
    "list_all2 (reports m u stamp) (map (\<lambda>(name, v). (chassis_name ch, name, fan_value py_float v)) (fans ch)) rs2"
    using assms(2) unfolding readings_of_def list_all2_append1 by blast
  have "res_map (reading_record m u stamp f (chassis_name ch)) xs = Inr ys"
    if "list_all2 (reports m u stamp) (map (\<lambda>(name, v). (chassis_name ch, name, f v)) xs) ys" for f xs ys
    unfolding res_map_Inr_iff using that
    by (auto simp: list_all2_map1 reading_record_reports elim!: list_all2_mono)
  with rs assms(1) show ?thesis by (simp add: chassis_records_def)
qed

lemma poll_records:
  assumes "\<And>ch. ch \<in> set chs \<Longrightarrow> m (chassis_id u (chassis_name ch)) \<noteq> None"
    and "list_all2 (reports m u stamp) (concat (map (readings_of py_float) chs)) rs"
  shows "\<exists>rss. res_map (chassis_records py_float m u stamp) chs = Inr rss \<and> concat rss = rs"
  using assms
proof (induction chs arbitrary: rs)
  case (Cons ch chs)
  then obtain rs1 rs2 where rs: "rs = rs1 @ rs2" "list_all2 (reports m u stamp) (readings_of py_float ch) rs1"
    "list_all2 (reports m u stamp) (concat (map (readings_of py_float) chs)) rs2"
    by (auto simp: list_all2_append1)
  from Cons.IH[OF _ rs(3)] Cons.prems(1) obtain rss where "res_map (chassis_records py_float m u stamp) chs = Inr rss" "concat rss = rs2"
    by auto
  with rs chassis_records_reports[OF Cons.prems(1) rs(2)] show ?case by simp
qed simp

text \<open>Every reading of registered chassis has a UUID, if the answer covers the devices.\<close>

definition registered_in :: "chassis list \<Rightarrow> chassis \<Rightarrow> bool" where
  "registered_in chs ch \<longleftrightarrow> (\<exists>ch' \<in> set chs. chassis_name ch' = chassis_name ch \<and>
     fst ` set (temperatures ch @ fans ch) \<subseteq> fst ` set (temperatures ch' @ fans ch'))"

definition readable :: "(string \<Rightarrow> exn + rat) \<Rightarrow> chassis \<Rightarrow> bool" where
  "readable py_float ch \<longleftrightarrow> list_all (\<lambda>(_, _, value). \<not> isl value) (readings_of py_float ch)"

lemma registered_sensor:
  assumes "covers m (map (chassis_device u) chs)" "registered_in chs ch"
    and "name \<in> fst ` set (temperatures ch @ fans ch)"
  shows "\<exists>v. redfish_sensor_uuid m u (chassis_name ch) name = Inr v"
proof -
  from assms(2) obtain ch' where ch': "ch' \<in> set chs" "chassis_name ch' = chassis_name ch"
    "fst ` set (temperatures ch @ fans ch) \<subseteq> fst ` set (temperatures ch' @ fans ch')" by (auto simp: registered_in_def)
  with assms(3) have "name \<in> fst ` set (temperatures ch' @ fans ch')" by (rule_tac subsetD)
  then obtain v where v: "(name, v) \<in> set (temperatures ch' @ fans ch')" by (metis imageE prod.collapse)
  have x: "sensor_template u (chassis_name ch') name \<in> set (device_sensors (chassis_device u ch'))"
    using v ch'(2) by (auto simp: chassis_device_def intro!: image_eqI[of _ _ "(name, v)"])
  from assms(1) ch'(1) obtain w sensors where "m (device_id (chassis_device u ch')) = Some (w, sensors)"
    "\<forall>x \<in> set (device_sensors (chassis_device u ch')). sensors (sensor_id x) \<noteq> None"
    unfolding covers_def by (metis image_eqI list.set_map)
  moreover from this(2) x have "sensors (sensor_id (sensor_template u (chassis_name ch') name)) \<noteq> None" by blast
  then obtain w' where "sensors (redfish_sensor_id u (chassis_name ch) name) = Some w'"
    by (auto simp: sensor_template_def ch'(2))
  ultimately show ?thesis by (simp add: redfish_sensor_uuid_def chassis_device_def ch'(2))
qed

lemma registered_chassis:
  "covers m (map (chassis_device u) chs) \<Longrightarrow> registered_in chs ch \<Longrightarrow> m (chassis_id u (chassis_name ch)) \<noteq> None"
  by (force simp: covers_def registered_in_def chassis_device_def)

lemma reports_exist:
  assumes "covers m (map (chassis_device u) chs)" "list_all (registered_in chs) polled" "list_all (readable py_float) polled"
  shows "\<exists>rs. list_all2 (reports m u stamp) (concat (map (readings_of py_float) polled)) rs"
proof -
  have "\<exists>r. reports m u stamp x r" if "ch \<in> set polled" "x \<in> set (readings_of py_float ch)" for ch x
  proof -
    obtain cn name val where x: "x = (cn, name, val)" by (cases x)
    have "cn = chassis_name ch" "name \<in> fst ` set (temperatures ch @ fans ch)"
      using that(2) by (force simp: x readings_of_def)+
    moreover have "registered_in chs ch" using assms(2) that(1) by (simp add: list_all_iff)
    ultimately obtain v where "redfish_sensor_uuid m u cn name = Inr v"
      using registered_sensor[OF assms(1)] by blast
    moreover have "\<not> isl val" using assms(3) that x by (force simp: readable_def list_all_iff)
    then obtain y where "val = Inr y" by (cases val) auto
    ultimately have "reports m u stamp x \<lparr>timestamp = stamp, sensorUuid = v, sensorValue = y\<rparr>"
      by (simp add: reports_def x)
    then show ?thesis ..
  qed
  then have "\<forall>x \<in> set (concat (map (readings_of py_float) polled)). \<exists>r. reports m u stamp x r" by auto
  then obtain f where f: "\<forall>x \<in> set (concat (map (readings_of py_float) polled)). reports m u stamp x (f x)" by metis
  have "list_all2 (reports m u stamp) xs (map f xs)" if "\<forall>x \<in> set xs. reports m u stamp x (f x)" for xs
    using that by (induction xs) auto
  with f show ?thesis by blast
qed

section \<open>The polling loop\<close>

text \<open>A poll answered, after some failures, with readable values of registered sensors.\<close>

definition answered :: "(string \<Rightarrow> exn + rat) \<Rightarrow> chassis list \<Rightarrow> redfish_poll \<Rightarrow> bool" where
  "answered py_float chs p \<longleftrightarrow> (\<exists>k polled. fails_before (attempts p) k \<and> attempts p k = Inr polled \<and>
     list_all (registered_in chs) polled \<and> list_all (readable py_float) polled)"

text \<open>The samples of a poll: one per reading, in order.\<close>

definition poll_yields ::
  "(string \<Rightarrow> exn + rat) \<Rightarrow> device_uuids \<Rightarrow> uuid \<Rightarrow> redfish_poll \<Rightarrow> triplet list \<Rightarrow> bool" where
  "poll_yields py_float m u p rs \<longleftrightarrow> (\<exists>k polled. fails_before (attempts p) k \<and> attempts p k = Inr polled \<and>
     list_all (\<lambda>ch. m (chassis_id u (chassis_name ch)) \<noteq> None) polled \<and>
     list_all2 (reports m u (py_round (poll_time p * 1000))) (concat (map (readings_of py_float) polled)) rs)"

lemma answered_yields:
  assumes "covers m (map (chassis_device u) chs)" "answered py_float chs p"
  shows "\<exists>rs. poll_yields py_float m u p rs"
proof -
  obtain k polled where p: "fails_before (attempts p) k" "attempts p k = Inr polled"
    "list_all (registered_in chs) polled" "list_all (readable py_float) polled"
    using assms(2) by (auto simp: answered_def)
  have "list_all (\<lambda>ch. m (chassis_id u (chassis_name ch)) \<noteq> None) polled"
    using p(3) registered_chassis[OF assms(1)] by (simp add: list_all_iff)
  with p(1,2) reports_exist[OF assms(1) p(3,4)] show ?thesis unfolding poll_yields_def by blast
qed

lemma redfish_turn_records:
  assumes "poll_yields py_float (myDeviceSensorUUIDsMap s) (myAgent_uuid s) p rs"
  shows "redfish_turn c sizeof py_float env p s = mqtt_send_triplet_batch c sizeof (redfish_args s) (end_time p) env rs s"
proof -
  let ?m = "myDeviceSensorUUIDsMap s" and ?u = "myAgent_uuid s"
  obtain k polled where p: "fails_before (attempts p) k" "attempts p k = Inr polled"
    "list_all (\<lambda>ch. ?m (chassis_id ?u (chassis_name ch)) \<noteq> None) polled"
    "list_all2 (reports ?m ?u (py_round (poll_time p * 1000))) (concat (map (readings_of py_float) polled)) rs"
    using assms by (auto simp: poll_yields_def)
  from p(3) have "ch \<in> set polled \<Longrightarrow> ?m (chassis_id ?u (chassis_name ch)) \<noteq> None" for ch by (simp add: list_all_iff)
  from poll_records[OF this p(4)] obtain rss where
    "res_map (chassis_records py_float ?m ?u (py_round (poll_time p * 1000))) polled = Inr rss" "concat rss = rs" by blast
  moreover have "redfish_connect (attempts p) = Some (k, Inr polled)"
    using redfish_connect_Some[of "attempts p" k] p(1,2) by simp
  ultimately show ?thesis by (simp add: redfish_turn_def)
qed

lemma polls_sim:
  fixes s :: "('b, 'z) redfish_agent_scheme"
  assumes "list_all2 (poll_yields py_float (myDeviceSensorUUIDsMap s0) (myAgent_uuid s0)) polls rss"
    and "batch_sim c (redfish_args s0) s0 s pl" "sendable c (redfish_args s0) s"
  shows "\<exists>t. for_each (redfish_turn c sizeof py_float env) polls s = Return () t \<and>
    batch_sim c (redfish_args s0) s0 t
      (fold (plan_step (batch_full sizeof (redfish_args s0)) (myAgentMqttNumberOfPublishingTopics s0)) (concat rss) pl)"
  using assms
proof (induction polls rss arbitrary: s pl rule: list_all2_induct)
  case (Cons p polls rs rss)
  have frame: "batch_frame s = batch_frame s0" using Cons.prems(1) by (simp add: batch_sim_def)
  have same: "redfish_args s = redfish_args s0" "myDeviceSensorUUIDsMap s = myDeviceSensorUUIDsMap s0" "myAgent_uuid s = myAgent_uuid s0"
    using batch_frame_fields[OF frame] by (simp_all add: redfish_args_def) (cases s; cases s0; simp)+
  have turn: "redfish_turn c sizeof py_float env p s =
      mqtt_send_triplet_batch c sizeof (redfish_args s0) (end_time p) env rs s"
    using redfish_turn_records[of py_float s p rs] Cons.hyps(1) by (simp add: same)
  have "no_stop (redfish_args s0) (length rs + 0) s" by (simp add: no_stop_def redfish_args_def)
  with Cons.prems(2) have safe: "sendable c (redfish_args s0) s \<and> no_stop (redfish_args s0) (length rs + 0) s" by simp
  from send_loop.loop_refines[OF Cons.prems(1) safe, of sizeof "end_time p" env]
  obtain t where t: "redfish_turn c sizeof py_float env p s = Return () t" "sendable c (redfish_args s0) t"
    "batch_sim c (redfish_args s0) s0 t
      (fold (plan_step (batch_full sizeof (redfish_args s0)) (myAgentMqttNumberOfPublishingTopics s0)) rs pl)"
    by (auto simp: turn mqtt_send_triplet_batch_def)
  from Cons.IH[OF t(3,2)] t(1) show ?case by simp
qed simp

text \<open>C15: The Redfish agent sends every reading of every poll, and no limit stops it. With batching on, let
  the framework's answer cover the chassis the agent registered, and let each poll be answered,
  after any number of failed attempts, with readable values of registered sensors: then
  \<open>send_data\<close> gets through all the polls, whatever the configured number of messages is; the
  message counter counts the readings; and what a receiver decodes, with the samples still in the
  batch, is one sample per reading, in order, under the UUID of the sensor and with the value and
  the time of the poll.\<close>

theorem redfish_sends_every_reading:
  fixes s :: "('b, 'z) redfish_agent_scheme"
  assumes laws: "codec_laws c rnd" and ok: "sendable c (redfish_args s) s" "myByteBatch s = []"
    and m: "is_batch_len (batch_full sizeof (redfish_args s)) m"
    and known: "covers (myDeviceSensorUUIDsMap s) (map (chassis_device (myAgent_uuid s)) chs)"
    and polled: "list_all (answered py_float chs) polls"
  shows "\<exists>t rss. redfish_send_data c sizeof py_float env start polls s = Return () t \<and>
    list_all2 (poll_yields py_float (myDeviceSensorUUIDsMap s) (myAgent_uuid s)) polls rss \<and>
    myMessageCounter t = myMessageCounter s + int (length (concat rss)) \<and>
    wire_samples c (net t) @ map (narrow rnd) (dict_samples (myByteBatch t)) =
      wire_samples c (net s) @ map (narrow rnd) (concat rss)"
proof -
  define s0 where "s0 = s\<lparr>redfish_timet0 := start\<rparr>"
  have s0: "myDeviceSensorUUIDsMap s0 = myDeviceSensorUUIDsMap s" "myAgent_uuid s0 = myAgent_uuid s"
    "myByteBatch s0 = map Dict []" "net s0 = net s" "myMessageCounter s0 = myMessageCounter s"
    using ok(2) by (simp_all add: s0_def)
  have sendable: "sendable c (redfish_args s0) s0"
    using ok(1) by (simp add: sendable_def redfish_args_def s0_def)
  have len: "is_batch_len (batch_full sizeof (redfish_args s0)) m"
    using m by (simp add: is_batch_len_def batch_full_def redfish_args_def s0_def)
  have "\<exists>rss. list_all2 (poll_yields py_float (myDeviceSensorUUIDsMap s0) (myAgent_uuid s0)) polls rss"
    using polled by (induction polls) (auto simp: s0 list_all2_Cons1 dest: answered_yields[OF known])
  then obtain rss where rss: "list_all2 (poll_yields py_float (myDeviceSensorUUIDsMap s0) (myAgent_uuid s0)) polls rss" ..
  from polls_sim[OF this batch_sim_start[OF sendable s0(3)] sendable] obtain t where
    t: "for_each (redfish_turn c sizeof py_float env) polls s0 = Return () t"
      "batch_sim c (redfish_args s0) s0 t (fold (plan_step (batch_full sizeof (redfish_args s0))
        (myAgentMqttNumberOfPublishingTopics s0)) (concat rss)
        \<lparr>pl_pending = [], pl_sub = myCurrentSubtopic s0, pl_sent = []\<rparr>)" by blast
  have "myCurrentSubtopic s0 < myAgentMqttNumberOfPublishingTopics s0" using sendable by (simp add: sendable_def)
  with t(2) plan_run[OF len, of "[]" "myCurrentSubtopic s0" "myAgentMqttNumberOfPublishingTopics s0" "concat rss" "[]"] len
  have sim: "batch_sim c (redfish_args s0) s0 t (block_plan m s0 (concat rss))"
    by (simp add: block_plan_def is_batch_len_def)
  show ?thesis
    using t(1) rss batch_sim_counter[OF sim] batch_sim_conserves[OF laws sim]
    by (auto simp: redfish_send_data_def s0_def[symmetric] s0)
qed

lemma demo_readable: "readable demo_float demo_chassis"
proof -
  have "demo_float ''12'' = Inr 12" "split_first_word ''12 Percent'' = [''12'', ''Percent'']" by code_simp+
  then show ?thesis by (simp add: readable_def readings_of_def demo_chassis_def py_index_def)
qed

theorem redfish_sends_every_reading_witness:
  "\<exists>t. redfish_send_data tag_codec cpython_getsizeof demo_float
      friendly_env 0
      [demo_poll, demo_poll, demo_poll] demo_redfish = Return () t \<and> myMessageCounter t = 6"
proof -
  have ok: "sendable tag_codec (redfish_args demo_redfish) demo_redfish" "myByteBatch demo_redfish = []"
    by (simp_all add: sendable_def redfish_args_def demo_redfish_def agent.extend_def demo_agent_def tag_codec_def)
  have len: "is_batch_len (batch_full cpython_getsizeof (redfish_args demo_redfish)) 5"
    by (rule batch_len_100) (simp add: redfish_args_def demo_redfish_def agent.extend_def)
  have known: "covers (myDeviceSensorUUIDsMap demo_redfish) (map (chassis_device (myAgent_uuid demo_redfish)) [demo_chassis])"
    by (simp add: covers_def demo_redfish_def agent.extend_def demo_sensors_def)
  have "answered demo_float [demo_chassis] demo_poll"
    unfolding answered_def using demo_readable
    by (intro exI[of _ 1] exI[of _ "[demo_chassis]"]) (auto simp: demo_poll_def fails_before_def registered_in_def)
  then have "list_all (answered demo_float [demo_chassis]) [demo_poll, demo_poll, demo_poll]" by simp
  from redfish_sends_every_reading[OF tag_codec_laws ok len known this]
  obtain t rss where t: "redfish_send_data tag_codec cpython_getsizeof demo_float
      friendly_env 0
      [demo_poll, demo_poll, demo_poll] demo_redfish = Return () t"
    "list_all2 (poll_yields demo_float (myDeviceSensorUUIDsMap demo_redfish) (myAgent_uuid demo_redfish)) [demo_poll, demo_poll, demo_poll] rss"
    "myMessageCounter t = myMessageCounter demo_redfish + int (length (concat rss))"
    by blast
  have two: "length rs = 2" if "poll_yields demo_float m u demo_poll rs" for m u rs
  proof -
    from that obtain k polled where k: "attempts demo_poll k = Inr polled"
      "length (concat (map (readings_of demo_float) polled)) = length rs"
      by (auto simp: poll_yields_def dest: list_all2_lengthD)
    from k(1) have "polled = [demo_chassis]" by (simp add: demo_poll_def split: if_splits)
    with k(2) show ?thesis by (simp add: readings_of_def demo_chassis_def)
  qed
  with t(2) have "length (concat rss) = 6" by (auto simp: list_all2_Cons1)
  with t(1,3) show ?thesis by (simp add: demo_redfish_def agent.extend_def)
qed

section \<open>Start\<close>

text \<open>C28: A Redfish endpoint that fails once at the start ends the agent, after the agent registered. If the
  broker and the framework answer, then with the first connection to the endpoint raising a
  RedfishException, run raises UnboundLocalError; the agent is registered by then, and the calls
  on the MQTT client are exactly those of the connection and of the registration: no device is
  registered, and no deregistration is sent.\<close>

theorem failing_endpoint_ends_run:
  fixes s :: "('b, 'z) redfish_agent_scheme"
  assumes "connect_error env = None" "grants_subscription env" "quiet_thread env" "answers_in_time myMQTTregistered env s"
    and "encode c (agent_register_request_schema_id (schemas s)) (RegisterRequest (redfish_registration s)) = Inr raw"
    and "myAgent_registration_request_topic s = topic # rest" and "\<And>path. template path = Inr ()"
  shows "\<exists>t. redfish_run c sizeof py_float env template (Inl RedfishException) start polls s = Raise UnboundLocalError t \<and>
    myMQTTregistered t \<and>
    net t = net s @ connect_acts (redfish_encryption s) (myAgent_registration_response_topic s) env (mqtt_conf s) @
      request_acts (fst topic) raw (snd topic) env"
proof -
  define s1 where "s1 = s\<lparr>client := Some (myAgent_uid s),
    net := net s @ connect_acts (redfish_encryption s) (myAgent_registration_response_topic s) env (mqtt_conf s)\<rparr>"
  have "answers_in_time myMQTTregistered env s1" "client s1 \<noteq> None"
    "encode c (agent_register_request_schema_id (schemas s1)) (RegisterRequest (redfish_registration s1)) = Inr raw"
    using assms(4,5) by (simp_all add: answers_in_time_def session_of_def s1_def)
  from registration_answered[OF assms(3) this] obtain t where
    "mqtt_registration c topic (redfish_registration s1) env s1 = Return True t" "myMQTTregistered t"
    "net t = net s1 @ request_acts (fst topic) raw (snd topic) env" by blast
  moreover have "mqtt_init (myAgent_uid s) (Some (myAgent_registration_response_topic s)) False (redfish_encryption s) env s = Return () s1"
    by (simp add: mqtt_init_granted assms(1,2) s1_def)
  moreover have "py_index (myAgent_registration_request_topic s1) 0 = Inr topic" by (simp add: s1_def assms(6))
  moreover have "redfish_device_map template (Inl RedfishException) t = Inl UnboundLocalError" for t :: "('b, 'z) redfish_agent_scheme"
    by (simp add: redfish_device_map_def try_connect_def py_local_def assms(7))
  moreover have "net s1 = net s @ connect_acts (redfish_encryption s) (myAgent_registration_response_topic s) env (mqtt_conf s)"
    by (simp add: s1_def)
  ultimately show ?thesis unfolding redfish_run_def by (auto simp del: py_index_Inr_iff)
qed

theorem failing_endpoint_ends_run_witness:
  "\<exists>t. redfish_run tag_codec cpython_getsizeof demo_float friendly_env (\<lambda>_. Inr ()) (Inl RedfishException) 0 [] demo_redfish =
      Raise UnboundLocalError t \<and> myMQTTregistered t"
proof -
  have env: "connect_error friendly_env = None" "grants_subscription friendly_env" "quiet_thread friendly_env"
    by (auto simp: friendly_env_def grants_subscription_def quiet_thread_def MQTT_ERR_SUCCESS_def)
  have wait: "answers_in_time myMQTTregistered friendly_env demo_redfish"
    by (auto simp: answers_in_time_def friendly_env_def intro!: exI[of _ 1])
  have enc: "encode tag_codec (agent_register_request_schema_id (schemas demo_redfish))
      (RegisterRequest (redfish_registration demo_redfish)) =
      Inr (Wire (agent_register_request_schema_id (schemas demo_redfish)) (RegisterRequest (redfish_registration demo_redfish)))"
    by (simp add: tag_codec_def)
  have topic: "myAgent_registration_request_topic demo_redfish = (''agent-registration/node7/request'', 2) # []"
    by (simp add: demo_redfish_def agent.extend_def demo_agent_def)
  show ?thesis using failing_endpoint_ends_run[OF env wait enc topic, of "\<lambda>_. Inr ()"] by blast
qed

end
