(* ===== verification/Logger_Props.thy ===== *)
theory Logger_Props
  imports Logger
begin

text \<open>
  The properties of the log files: what a logger's level is after it was set, and what a rotation leaves on disk.
\<close>

section \<open>Levels and loggers\<close>

text \<open>The level a name stands for, whatever its case.\<close>

definition level_names :: "(string \<times> log_level) list" where
  "level_names = [(''DEBUG'', Debug), (''INFO'', Info), (''WARNING'', Warning), (''ERROR'', Error), (''CRITICAL'', Critical)]"

definition level_of :: "string \<Rightarrow> log_level" where
  "level_of name = (case map_of level_names (map upper_char name) of None \<Rightarrow> Warning | Some l \<Rightarrow> l)"

lemma setLoggingLevel_level_of:
  "setLoggingLevel logger level w = change_object logger (\<lambda>obj. obj\<lparr>object_level := level_of level\<rparr>)
     (if map upper_char level \<in> fst ` set level_names then w else w\<lparr>level_warnings := level_warnings w + 1\<rparr>)"
  by (simp add: setLoggingLevel_def level_of_def level_names_def)

lemma setLogger_Return:
  assumes "can_open (dir @ name)"
  shows "\<exists>t. setLogger can_open name level dir size_limit count w = Return name t \<and> loggers t = (loggers w)(name \<mapsto> name) \<and>
    managed t = (managed w)(name \<mapsto>
      \<lparr>object_level = level_of level,
       handlers = (case managed w name of None \<Rightarrow> [] | Some obj \<Rightarrow> handlers obj) @
         [\<lparr>baseFilename = dir @ name, maxBytes = size_limit, backupCount = count\<rparr>],
       propagate = False\<rparr>)"
  using assms
  by (auto simp: setLogger_def open_log_def setLoggingLevel_level_of change_object_def logging_getLogger_def Let_def
      split: option.splits)

text \<open>C39: A logger is found again with the level it was given. After setLogger with a name and a level,
  getLogger of the name without a level returns it, and exactly the messages at least as severe
  as that level (in any case; WARNING if the name is unknown) are enabled; getLogger with a level
  changes the level; every other name is found exactly if it was before.\<close>

theorem logger_level_roundtrip:
  assumes "can_open (dir @ name)"
  shows "\<exists>t u. setLogger can_open name level dir size_limit count w = Return name t \<and>
    getLogger name None t = Return name t \<and> (\<forall>l. enabled_for t name l \<longleftrightarrow> level_of level \<le> l) \<and>
    getLogger name (Some level') t = Return name u \<and> (\<forall>l. enabled_for u name l \<longleftrightarrow> level_of level' \<le> l) \<and>
    (\<forall>other. other \<noteq> name \<longrightarrow> (getLogger other None t = Raise NoLogger t \<longleftrightarrow> getLogger other None w = Raise NoLogger w))"
proof -
  from setLogger_Return[of can_open dir name level size_limit count w, OF assms] obtain t where t: "setLogger can_open name level dir size_limit count w = Return name t"
    "loggers t = (loggers w)(name \<mapsto> name)" "\<exists>obj. managed t name = Some obj \<and> object_level obj = level_of level"
    by fastforce
  have "getLogger name None t = Return name t" "\<forall>l. enabled_for t name l \<longleftrightarrow> level_of level \<le> l"
    using t(2,3) by (auto simp: getLogger_def enabled_for_def)
  moreover have "\<exists>u. getLogger name (Some level') t = Return name u \<and> (\<forall>l. enabled_for u name l \<longleftrightarrow> level_of level' \<le> l)"
    using t(2,3) by (auto simp: getLogger_def enabled_for_def setLoggingLevel_level_of change_object_def)
  moreover have "\<forall>other. other \<noteq> name \<longrightarrow> (getLogger other None t = Raise NoLogger t \<longleftrightarrow> getLogger other None w = Raise NoLogger w)"
    using t(2) by (simp add: getLogger_def split: option.splits)
  ultimately show ?thesis using t(1) by blast
qed

definition empty_world :: log_world where
  "empty_world = \<lparr>managed = Map.empty, loggers = Map.empty, log_files = Map.empty, level_warnings = 0\<rparr>"

theorem logger_level_roundtrip_witness:
  "\<exists>t. setLogger (\<lambda>_. True) ''fanin.log'' ''Info'' ''/var/log/'' 1024 5 empty_world = Return ''fanin.log'' t \<and>
    enabled_for t ''fanin.log'' Error \<and> \<not> enabled_for t ''fanin.log'' Debug"
proof -
  have "level_of ''Info'' = Info" by code_simp
  then show ?thesis
    using logger_level_roundtrip[of "\<lambda>_. True" "''/var/log/''" "''fanin.log''" "''Info''" 1024 5 empty_world "''DEBUG''"]
    by (auto simp: less_eq_log_level_def)
qed

section \<open>Rotation\<close>

lemma backup_inject: "backup base suffix i = backup base suffix j \<longleftrightarrow> i = j"
  by (simp add: backup_def)

lemma backup_gz_plain: "backup base ''.gz'' i \<noteq> backup base [] j"
proof
  assume "backup base ''.gz'' i = backup base [] j"
  then have "str_nat i @ ''.gz'' = str_nat j" by (simp add: backup_def)
  then have "CHR ''z'' \<in> set (str_nat j)" by (metis Un_iff list.set_intros set_append)
  then show False using str_nat_digits by (fastforce simp: is_digit_def)
qed

lemma backup_not_base: "backup base suffix i \<noteq> base"
  by (simp add: backup_def)

lemma move_over_eq:
  "sfn \<noteq> dfn \<Longrightarrow> move_over sfn dfn fs = (if fs sfn = None then fs else fs(dfn := fs sfn, sfn := None))"
  by (auto simp: move_over_def Let_def)

lemma shift_backups_Suc:
  "0 < n \<Longrightarrow> shift_backups base suffix (Suc n) fs =
    shift_backups base suffix n (move_over (backup base suffix n) (backup base suffix (n + 1)) fs)"
  by (simp add: shift_backups_def)

lemma shift_backups_other: "(\<And>i. path \<noteq> backup base suffix i) \<Longrightarrow> shift_backups base suffix n fs path = fs path"
proof (induction n arbitrary: fs)
  case (Suc n)
  then show ?case
    by (cases "n = 0") (auto simp: shift_backups_Suc shift_backups_def[of _ _ "Suc 0"] move_over_eq backup_inject)
qed (simp add: shift_backups_def)

lemma shift_backups_above: "n < j \<Longrightarrow> shift_backups base suffix n fs (backup base suffix j) = fs (backup base suffix j)"
proof (induction n arbitrary: fs)
  case (Suc n)
  then show ?case
    by (cases "n = 0") (auto simp: shift_backups_Suc shift_backups_def[of _ _ "Suc 0"] move_over_eq backup_inject)
qed (simp add: shift_backups_def)

lemma shift_backups_moves:
  "0 < i \<Longrightarrow> i < n \<Longrightarrow> shift_backups base suffix n fs (backup base suffix (i + 1)) =
   (if fs (backup base suffix i) \<noteq> None \<or> i + 1 < n then fs (backup base suffix i) else fs (backup base suffix (i + 1)))"
proof (induction n arbitrary: fs)
  case (Suc n)
  let ?fs = "move_over (backup base suffix n) (backup base suffix (n + 1)) fs"
  from Suc.prems have "0 < n" by simp
  note step = shift_backups_Suc[OF this, of base suffix fs]
  show ?case
  proof (cases "i = n")
    case True
    then show ?thesis unfolding step by (auto simp: shift_backups_above move_over_eq backup_inject)
  next
    case False
    with Suc.prems have i: "0 < i" "i < n" by simp_all
    moreover have "?fs (backup base suffix i) = fs (backup base suffix i)" "?fs (backup base suffix n) = None"
      using i by (auto simp: move_over_eq backup_inject)
    ultimately show ?thesis using Suc.IH[of ?fs] unfolding step by (cases "i + 1 = n") auto
  qed
qed simp

text \<open>All that a rotation does to the log and its plain backups.\<close>

lemma rollover_result:
  assumes "fs base = Some (Plain lines)" "lines \<noteq> []" "0 < count"
  shows "\<exists>t. doRollover base count fs = Raise TypeError t \<and> t (backup base [] 1) = Some (Plain lines) \<and>
    t (backup base ''.gz'' 1) = Some (Gzip []) \<and> t base = Some (Plain []) \<and>
    (\<forall>i. 0 < i \<and> i < count \<longrightarrow> t (backup base [] (i + 1)) =
      (if fs (backup base [] i) \<noteq> None \<or> i + 1 < count then fs (backup base [] i) else fs (backup base [] (i + 1))))"
proof -
  let ?shift = "shift_backups base [] count fs" and ?old = "backup base [] 1" and ?gz = "backup base ''.gz'' 1"
  define fs1 where "fs1 = ?shift(?old \<mapsto> Plain lines, base \<mapsto> Plain [])"
  define fs2 where "fs2 = shift_backups base ''.gz'' count fs1"
  have names: "base @ ''.1'' = ?old" "?old @ ''.gz'' = ?gz" by (simp_all add: backup_def, code_simp+)
  have "?shift base = Some (Plain lines)" using assms(1) by (simp add: shift_backups_other backup_not_base[symmetric])
  then have fs1: "base_doRollover base count fs = fs1"
    using assms(3) by (simp add: base_doRollover_def move_over_eq backup_not_base[symmetric] fs1_def fun_eq_iff)
  have kept: "fs2 path = fs1 path" if "\<And>i. path \<noteq> backup base ''.gz'' i" for path
    unfolding fs2_def using that by (rule shift_backups_other)
  have old: "fs2 ?old = Some (Plain lines)" "fs2 base = Some (Plain [])"
    using kept[of ?old] kept[of base] backup_gz_plain[of base] by (auto simp: fs1_def backup_not_base backup_not_base[symmetric] dest: sym)
  have roll: "doRollover base count fs = Raise TypeError (fs2(?gz \<mapsto> Gzip []))"
    using assms(2,3) old(1) by (cases lines) (simp_all add: doRollover_def fs1 fs2_def[symmetric] names Let_def del: One_nat_def)
  have moved: "fs2 (backup base [] (i + 1)) = ?shift (backup base [] (i + 1))" if "0 < i" for i
    using kept[of "backup base [] (i + 1)"] that backup_gz_plain[of base]
    by (auto simp: fs1_def backup_inject backup_not_base dest: sym)
  let ?t = "fs2(?gz \<mapsto> Gzip [])"
  have "?t (backup base [] (i + 1)) =
      (if fs (backup base [] i) \<noteq> None \<or> i + 1 < count then fs (backup base [] i) else fs (backup base [] (i + 1)))"
    if "0 < i" "i < count" for i
    using moved[OF that(1)] shift_backups_moves[OF that, of base "[]" fs] by (simp add: backup_gz_plain[symmetric])
  moreover have "?t ?old = Some (Plain lines)" "?t ?gz = Some (Gzip [])" "?t base = Some (Plain [])"
    using old by (simp_all add: backup_not_base[symmetric] backup_gz_plain[symmetric])
  ultimately show ?thesis using roll by blast
qed

text \<open>A rotation never compresses a log. For every log with at least one line and every positive number
  of backups, doRollover raises TypeError; the log is left uncompressed as base.1, with an empty
  base.1.gz beside it, and the new log is empty; so the plain backups pile up: each base.i with
  0 < i < count has moved to base.(i+1).\<close>

theorem rollover_never_compresses:
  assumes "fs base = Some (Plain lines)" "lines \<noteq> []" "0 < count"
  shows "\<exists>t. doRollover base count fs = Raise TypeError t \<and> t (backup base [] 1) = Some (Plain lines) \<and>
    t (backup base ''.gz'' 1) = Some (Gzip []) \<and> t base = Some (Plain []) \<and>
    (\<forall>i. 0 < i \<and> i < count \<and> fs (backup base [] i) \<noteq> None \<longrightarrow> t (backup base [] (i + 1)) = fs (backup base [] i))"
  using rollover_result[of fs base lines count, OF assms] by auto

theorem rollover_never_compresses_witness:
  "\<exists>t. doRollover ''fanin.log'' 3 [''fanin.log'' \<mapsto> Plain [''started'']] = Raise TypeError t \<and>
    t (backup ''fanin.log'' [] 1) = Some (Plain [''started''])"
  using rollover_never_compresses[of "[''fanin.log'' \<mapsto> Plain [''started'']]" "''fanin.log''" "[''started'']" 3] by auto

end
