(* ===== verification/Logger_Run.thy ===== *)
theory Logger_Run
  imports Logger_Props
begin

text \<open>
  A log file over time: the records written to it, against an abstract log that keeps the current
  lines, the archives (the newest first) and the records that were lost.
\<close>

section \<open>The abstract log\<close>

record log_state =
  current :: "string list"
  archives :: "string list list"
  lost :: "string list"

definition log_step :: "nat \<Rightarrow> string \<Rightarrow> log_state \<Rightarrow> log_state" where
  "log_step limit line s =
     (if limit \<le> file_bytes (current s) + length line + 1
      then \<lparr>current = [], archives = current s # archives s, lost = lost s @ [line]\<rparr>
      else s\<lparr>current := current s @ [line]\<rparr>)"

text \<open>
  The records written, cut where a rotation was due: each archive, then the record that was lost;
  a log is archived when that record did not fit any more.
\<close>

definition log_history :: "nat \<Rightarrow> log_state \<Rightarrow> string list \<Rightarrow> bool" where
  "log_history limit s lines \<longleftrightarrow>
     length (archives s) = length (lost s) \<and>
     lines = concat (map2 (\<lambda>archive line. archive @ [line]) (rev (archives s)) (lost s)) @ current s \<and>
     file_bytes (current s) < limit \<and>
     list_all2 (\<lambda>archive line. file_bytes archive < limit \<and> limit \<le> file_bytes archive + length line + 1)
       (rev (archives s)) (lost s)"

lemma log_history_step: "0 < limit \<Longrightarrow> log_history limit s lines \<Longrightarrow> log_history limit (log_step limit line s) (lines @ [line])"
  by (auto simp: log_history_def log_step_def file_bytes_def intro!: list_all2_appendI)

text \<open>The files behind it: the log and its plain backups.\<close>

definition log_on_disk :: "string \<Rightarrow> nat \<Rightarrow> file_system \<Rightarrow> log_state \<Rightarrow> bool" where
  "log_on_disk base count fs s \<longleftrightarrow>
     fs base = Some (Plain (current s)) \<and>
     (\<forall>i<count. fs (backup base [] (i + 1)) = (if i < length (archives s) then Some (Plain (archives s ! i)) else None))"

lemma rollover_on_disk:
  assumes disk: "log_on_disk base count fs s" and "current s \<noteq> []" "0 < count"
  shows "\<exists>e t. doRollover base count fs = Raise e t \<and>
    log_on_disk base count t \<lparr>current = [], archives = current s # archives s, lost = l\<rparr>"
proof -
  from disk have "fs base = Some (Plain (current s))" by (simp add: log_on_disk_def)
  from rollover_result[of fs base "current s" count, OF this assms(2,3)] obtain t where t: "doRollover base count fs = Raise TypeError t"
    "t (backup base [] 1) = Some (Plain (current s))" "t base = Some (Plain [])"
    "\<forall>i. 0 < i \<and> i < count \<longrightarrow> t (backup base [] (i + 1)) =
      (if fs (backup base [] i) \<noteq> None \<or> i + 1 < count then fs (backup base [] i) else fs (backup base [] (i + 1)))"
    by blast
  have old: "fs (backup base [] (i + 1)) = (if i < length (archives s) then Some (Plain (archives s ! i)) else None)" if "i < count" for i
    using disk that by (simp add: log_on_disk_def)
  have "t (backup base [] (i + 1)) =
      (if i < length (current s # archives s) then Some (Plain ((current s # archives s) ! i)) else None)"
    if "i < count" for i
  proof (cases i)
    case 0
    with t(2) show ?thesis by simp
  next
    case (Suc j)
    with that t(4) old[of j] old[of i] show ?thesis by (auto split: if_splits)
  qed
  with t(1,3) show ?thesis by (auto simp: log_on_disk_def)
qed

section \<open>The handler\<close>

text \<open>One record, shorter than the limit: the handler takes the abstract step, and reports the record it loses.\<close>

lemma emit_refines:
  assumes h: "h = \<lparr>baseFilename = base, maxBytes = int limit, backupCount = count\<rparr>" "0 < count"
    and short: "length line + 1 < limit" and disk: "log_on_disk base count fs s"
  shows "\<exists>t. handler_emit h line fs = (t, limit \<le> file_bytes (current s) + length line + 1) \<and>
    log_on_disk base count t (log_step limit line s)"
proof -
  have base: "fs base = Some (Plain (current s))" using disk by (simp add: log_on_disk_def)
  have full: "shouldRollover h line fs \<longleftrightarrow> limit \<le> file_bytes (current s) + length line + 1"
    using short by (simp add: shouldRollover_def h log_lines_def base) arith
  show ?thesis
  proof (cases "limit \<le> file_bytes (current s) + length line + 1")
    case True
    then have "current s \<noteq> []" using short by (auto simp: file_bytes_def)
    from rollover_on_disk[OF disk this h(2), of "lost s @ [line]"] obtain e t where "doRollover base count fs = Raise e t"
      "log_on_disk base count t (log_step limit line s)" using True by (auto simp: log_step_def)
    with True full show ?thesis by (simp add: handler_emit_def h)
  next
    case False
    have "log_on_disk base count (fs(base \<mapsto> Plain (current s @ [line]))) (log_step limit line s)"
      using disk False by (simp add: log_on_disk_def log_step_def backup_not_base)
    with False full show ?thesis by (simp add: handler_emit_def h log_lines_def base)
  qed
qed

text \<open>The files after a number of records, and the records whose loss was reported.\<close>

fun emit_run :: "log_handler \<Rightarrow> string list \<Rightarrow> file_system \<Rightarrow> file_system \<times> string list" where
  "emit_run h [] fs = (fs, [])"
| "emit_run h (line # lines) fs =
     (case handler_emit h line fs of (fs, failed) \<Rightarrow>
      case emit_run h lines fs of (fs, reported) \<Rightarrow> (fs, if failed then line # reported else reported))"

lemma emit_run_refines:
  assumes h: "h = \<lparr>baseFilename = base, maxBytes = int limit, backupCount = count\<rparr>" "0 < count"
  shows "list_all (\<lambda>line. length line + 1 < limit) lines \<Longrightarrow> log_on_disk base count fs s \<Longrightarrow> log_history limit s done \<Longrightarrow>
    \<exists>t s' reported. emit_run h lines fs = (t, reported) \<and> lost s' = lost s @ reported \<and>
      log_on_disk base count t s' \<and> log_history limit s' (done @ lines)"
proof (induction lines arbitrary: fs s "done")
  case (Cons line lines)
  from Cons.prems(1) have short: "length line + 1 < limit" and rest: "list_all (\<lambda>line. length line + 1 < limit) lines" by simp_all
  from emit_refines[OF h short Cons.prems(2)] obtain t where t:
    "handler_emit h line fs = (t, limit \<le> file_bytes (current s) + length line + 1)"
    "log_on_disk base count t (log_step limit line s)" by blast
  have "0 < limit" using short by simp
  from Cons.IH[OF rest t(2) log_history_step[OF this Cons.prems(3)]] obtain t' s' reported where
    "emit_run h lines t = (t', reported)" "lost s' = lost (log_step limit line s) @ reported"
    "log_on_disk base count t' s'" "log_history limit s' ((done @ [line]) @ lines)" by blast
  with t(1) show ?case by (auto simp: log_step_def)
qed auto

text \<open>A logger with one handler passes it the enabled records.\<close>

lemma log_records_files:
  "managed w name = Some obj \<Longrightarrow> handlers obj = [h] \<Longrightarrow>
   log_files (log_records formatter name records w) =
     fst (emit_run h (map (\<lambda>(l, text). formatter l text) (filter (\<lambda>(l, _). object_level obj \<le> l) records)) (log_files w))"
proof (induction records arbitrary: w)
  case (Cons r records)
  obtain l msg where r: "r = (l, msg)" by (cases r)
  let ?w = "log_record formatter name l msg w"
  have "log_records formatter name (r # records) w = log_records formatter name records ?w" by (simp add: log_records_def r)
  moreover have "managed ?w name = Some obj" using Cons.prems by (simp add: log_record_def)
  moreover have "log_files ?w = (if object_level obj \<le> l then fst (handler_emit h (formatter l msg) (log_files w)) else log_files w)"
    using Cons.prems by (simp add: log_record_def enabled_for_def emit_all_def)
  ultimately show ?case using Cons.IH[of ?w] Cons.prems(2) by (auto simp: r split: prod.splits)
qed (simp add: log_records_def)

text \<open>C25: Every rotation loses a record, and nothing else is lost while the backups last. Let setLogger make a
  new logger on a new log, with backups, and let it be given records whose lines, as formatted,
  are shorter than its limit. The lines of the records that are enabled are, in order, the
  archived ones, a lost one after each archive, and those in the log: the log stays below the
  limit; each archive was full, in that the lost line behind it did not fit; the newest count
  archives are on disk, uncompressed, under their numbers; and exactly the lost lines are
  reported on stderr.\<close>

theorem rotation_loses_a_record:
  assumes "can_open (dir @ name)" "managed w name = None" "log_files w (dir @ name) = None"
    and "\<And>i. log_files w (backup (dir @ name) [] i) = None" and "0 < count" "0 < limit"
    and lines: "lines = map (\<lambda>(l, text). formatter l text) (filter (\<lambda>(l, _). level_of level \<le> l) records)"
      "list_all (\<lambda>line. length line + 1 < limit) lines"
  shows "\<exists>u t archived lost_lines now_in_log. setLogger can_open name level dir (int limit) count w = Return name u \<and>
    t = log_files (log_records formatter name records u) \<and>
    emit_run \<lparr>baseFilename = dir @ name, maxBytes = int limit, backupCount = count\<rparr> lines (log_files u) = (t, lost_lines) \<and>
    lines = concat (map2 (\<lambda>archive line. archive @ [line]) archived lost_lines) @ now_in_log \<and>
    t (dir @ name) = Some (Plain now_in_log) \<and> file_bytes now_in_log < limit \<and>
    list_all2 (\<lambda>archive line. file_bytes archive < limit \<and> limit \<le> file_bytes archive + length line + 1) archived lost_lines \<and>
    (\<forall>i<count. t (backup (dir @ name) [] (i + 1)) = (if i < length archived then Some (Plain (rev archived ! i)) else None))"
proof -
  let ?s = "\<lparr>current = [], archives = [], lost = []\<rparr>" and ?base = "dir @ name"
  let ?h = "\<lparr>baseFilename = ?base, maxBytes = int limit, backupCount = count\<rparr>"
  from setLogger_Return[of can_open dir name level "int limit" count w, OF assms(1)] obtain u where
    u: "setLogger can_open name level dir (int limit) count w = Return name u"
    "managed u name = Some \<lparr>object_level = level_of level, handlers = [?h], propagate = False\<rparr>"
    using assms(2) by auto
  have files: "log_files u = (log_files w)(?base \<mapsto> Plain [])"
    using u(1) assms(1,3) by (auto simp: setLogger_def open_log_def setLoggingLevel_def change_object_def logging_getLogger_def Let_def
      split: option.splits if_splits)
  have "log_on_disk ?base count (log_files u) ?s" "log_history limit ?s []"
    using assms(4,6) by (simp_all add: files log_on_disk_def log_history_def file_bytes_def backup_not_base)
  from emit_run_refines[OF refl assms(5) lines(2) this] obtain t s' where t: "emit_run ?h lines (log_files u) = (t, lost s')"
    "log_on_disk ?base count t s'" "log_history limit s' lines" by auto
  have "t = log_files (log_records formatter name records u)"
    using log_records_files[OF u(2), of ?h formatter records] t(1) by (simp add: lines(1))
  with u(1) t show ?thesis
    by (intro exI[of _ u] exI[of _ t] exI[of _ "rev (archives s')"] exI[of _ "lost s'"] exI[of _ "current s'"])
      (simp add: log_on_disk_def log_history_def)
qed

theorem rotation_loses_a_record_witness:
  "\<exists>u. setLogger (\<lambda>_. True) ''fanin.log'' ''Info'' ''/'' 10 2 empty_world = Return ''fanin.log'' u \<and>
    file_bytes (log_lines (log_files (log_records (\<lambda>_ text. text) ''fanin.log''
      [(Info, ''one''), (Error, ''two''), (Debug, ''all''), (Info, ''three''), (Info, ''four'')] u)) ''/fanin.log'') < 10"
proof -
  let ?records = "[(Info, ''one''), (Error, ''two''), (Debug, ''all''), (Info, ''three''), (Info, ''four'')]"
  have "map (\<lambda>(l, text). (\<lambda>_ text. text) l text) (filter (\<lambda>(l, _). level_of ''Info'' \<le> l) ?records) = [''one'', ''two'', ''three'', ''four'']"
    by code_simp
  then show ?thesis
    using rotation_loses_a_record[of "\<lambda>_. True" "''/''" "''fanin.log''" empty_world 2 10 "[''one'', ''two'', ''three'', ''four'']"
      "\<lambda>_ text. text" "''Info''" ?records]
    by (auto simp: empty_world_def log_lines_def)
qed

end
