(* ===== verification/Logger_Tests.thy ===== *)
theory Logger_Tests
  imports Logger_Run
begin

text \<open>
  The unit tests of src/fanin/KrakenMareLogger.py, each as one run in a process of its own: the
  loggers they make, the records they write, and the files they remove afterwards. An assertion
  that a logger is not \<open>None\<close> always holds: \<open>setLogger\<close> returns a logger or raises.
\<close>

section \<open>The tests\<close>

text \<open>
  \<open>glob\<close> finds the files of the working directory with the prefix; one that cannot be removed stays.
\<close>

definition cleanTmpData :: "(string \<Rightarrow> bool) \<Rightarrow> log_world \<Rightarrow> log_world" where
  "cleanTmpData removable w = w\<lparr>log_files := (\<lambda>path.
     if take 20 path = ''KrakenMareTestLogger'' \<and> CHR ''/'' \<notin> set path \<and> removable path then None else log_files w path)\<rparr>"

definition testLoggerCreation ::
  "(log_level \<Rightarrow> string \<Rightarrow> string) \<Rightarrow> (string \<Rightarrow> bool) \<Rightarrow> (string \<Rightarrow> bool) \<Rightarrow> log_world \<Rightarrow> (log_world, unit) outcome" where
  "testLoggerCreation formatter can_open removable w =
     and_then (setLogger can_open ''KrakenMareTestLogger.log'' ''Info'' [] 1024 5 w) (\<lambda>testlogger w.
     let w = log_record formatter testlogger Info ''TestData: info data'' w in
     Return () (cleanTmpData removable w))"

definition numbered :: "string \<Rightarrow> nat \<Rightarrow> (log_level \<times> string) list" where
  "numbered title n = map (\<lambda>i. (Info, title @ str_nat i)) [0..<n]"

definition testLoggFilePopulation ::
  "(log_level \<Rightarrow> string \<Rightarrow> string) \<Rightarrow> (string \<Rightarrow> bool) \<Rightarrow> (string \<Rightarrow> bool) \<Rightarrow> log_world \<Rightarrow> (log_world, unit) outcome" where
  "testLoggFilePopulation formatter can_open removable w =
     and_then (setLogger can_open ''KrakenMareTestLogger.log'' ''Info'' [] 1024 5 w) (\<lambda>logger w.
     let w = log_records formatter logger (numbered ''TestData1: '' 1) w in
     and_then (getLogger ''KrakenMareTestLogger.log'' None w) (\<lambda>loggerNew w.
     let w = log_records formatter loggerNew (numbered ''TestData2 From New Logger: '' 1) w;
         w = log_records formatter loggerNew (numbered ''TestData3 From New Logger: '' 5) w in
     Return () (cleanTmpData removable w)))"

definition colouring_records :: "(log_level \<times> string) list" where
  "colouring_records =
     [(Debug, ''TestData: debug data''), (Info, ''TestData: info data''), (Warning, ''TestData: warning data''),
      (Error, ''TestData: error data''), (Critical, ''TestData: critical error data''), (Info, ''TestData: info data''),
      (Warning, ''TestData: warning data'')]"

definition testLoggerColoring ::
  "(log_level \<Rightarrow> string \<Rightarrow> string) \<Rightarrow> (string \<Rightarrow> bool) \<Rightarrow> (string \<Rightarrow> bool) \<Rightarrow> log_world \<Rightarrow> (log_world, unit) outcome" where
  "testLoggerColoring formatter can_open removable w =
     and_then (setLogger can_open ''KrakenMareTestLoggerColor.log'' ''DEBUG'' [] 1024 5 w) (\<lambda>testlogger w.
     let w = log_records formatter testlogger colouring_records w in
     Return () (cleanTmpData removable w))"

section \<open>What they write\<close>

lemma emit_run_appends:
  "fs (baseFilename h) = Some (Plain ls) \<Longrightarrow> int (file_bytes ls + file_bytes lines) < maxBytes h \<Longrightarrow>
   emit_run h lines fs = (fs(baseFilename h \<mapsto> Plain (ls @ lines)), [])"
proof (induction lines arbitrary: ls fs)
  case Nil
  then show ?case by (simp add: fun_upd_idem)
next
  case (Cons line lines)
  have "handler_emit h line fs = (fs(baseFilename h \<mapsto> Plain (ls @ [line])), False)"
    using Cons.prems by (simp add: handler_emit_def shouldRollover_def log_lines_def file_bytes_def)
  moreover have "emit_run h lines (fs(baseFilename h \<mapsto> Plain (ls @ [line]))) =
      ((fs(baseFilename h \<mapsto> Plain (ls @ [line])))(baseFilename h \<mapsto> Plain ((ls @ [line]) @ lines)), [])"
    by (rule Cons.IH) (use Cons.prems in \<open>simp_all add: file_bytes_def\<close>)
  ultimately show ?case by (simp only: emit_run.simps prod.case fun_upd_upd append_assoc append.simps if_False)
qed

lemma log_records_append: "log_records formatter name (rs @ rs') w = log_records formatter name rs' (log_records formatter name rs w)"
  by (simp add: log_records_def)

lemma log_records_frame: "managed (log_records formatter name rs w) = managed w \<and> loggers (log_records formatter name rs w) = loggers w"
  by (induction rs arbitrary: w) (auto simp: log_records_def log_record_def split: option.splits)

text \<open>A new logger of the tests, and the records it is given as long as they fit.\<close>

lemma new_test_logger:
  assumes "can_open name" "managed w name = None" "log_files w name = None"
    and "map upper_char level \<in> {''INFO'', ''DEBUG''}"
  shows "\<exists>u. setLogger can_open name level [] 1024 5 w = Return name u \<and> loggers u name = Some name \<and>
    (\<forall>records. list_all (\<lambda>(l, _). level_of level \<le> l) records \<and> file_bytes (map (\<lambda>(l, text). formatter l text) records) < 1024 \<longrightarrow>
      log_files (log_records formatter name records u) =
        (log_files w)(name \<mapsto> Plain (map (\<lambda>(l, text). formatter l text) records)))"
proof -
  let ?h = "\<lparr>baseFilename = name, maxBytes = 1024, backupCount = 5\<rparr>"
  from setLogger_Return[of can_open "[]" name level 1024 5 w] assms(1,2) obtain u where
    u: "setLogger can_open name level [] 1024 5 w = Return name u"
    "managed u name = Some \<lparr>object_level = level_of level, handlers = [?h], propagate = False\<rparr>" by auto
  have files: "log_files u = (log_files w)(name \<mapsto> Plain [])" "loggers u name = Some name"
    using u(1) assms(1,3) by (auto simp: setLogger_def open_log_def setLoggingLevel_def change_object_def logging_getLogger_def Let_def
      split: option.splits if_splits)
  have "log_files (log_records formatter name records u) = (log_files w)(name \<mapsto> Plain (map (\<lambda>(l, text). formatter l text) records))"
    if "list_all (\<lambda>(l, _). level_of level \<le> l) records" "file_bytes (map (\<lambda>(l, text). formatter l text) records) < 1024" for records
  proof -
    have "filter (\<lambda>(l, _). level_of level \<le> l) records = records" using that(1) by (simp add: filter_id_conv list_all_iff)
    with log_records_files[OF u(2), of ?h formatter records] emit_run_appends[of "log_files u" ?h "[]"] that(2) files(1)
    show ?thesis by (simp add: file_bytes_def)
  qed
  with u(1) files(2) show ?thesis by blast
qed

text \<open>None of the unit tests makes the log rotate, though the first is said to test the rotation and the
  second prints that the compressed files should be visible: run in a process of its own, in a
  directory without the log, with lines of less than 146 bytes, each returns, and all it has
  written before the removal is the lines of its records, in the log.\<close>

theorem tests_never_rotate:
  assumes short: "\<And>l msg. length (formatter l msg) < 146" and fresh: "\<And>name. can_open name \<and> managed w name = None \<and> log_files w name = None"
  shows "list_all (\<lambda>(test, name, records). \<exists>t. test formatter can_open removable w = Return () t \<and>
      log_files t = log_files (cleanTmpData removable
        (w\<lparr>log_files := (log_files w)(name \<mapsto> Plain (map (\<lambda>(l, text). formatter l text) records))\<rparr>)))
    [(testLoggerCreation, ''KrakenMareTestLogger.log'', [(Info, ''TestData: info data'')]),
     (testLoggFilePopulation, ''KrakenMareTestLogger.log'',
       numbered ''TestData1: '' 1 @ numbered ''TestData2 From New Logger: '' 1 @ numbered ''TestData3 From New Logger: '' 5),
     (testLoggerColoring, ''KrakenMareTestLoggerColor.log'', colouring_records)]"
proof -
  have fits: "file_bytes (map (\<lambda>(l, text). formatter l text) records) < 1024" if "length records \<le> 7" for records
  proof -
    have "file_bytes (map (\<lambda>(l, text). formatter l text) records) \<le> 146 * length records"
    proof (induction records)
      case (Cons r records)
      then show ?case using short[of "fst r" "snd r"] by (cases r) (simp add: file_bytes_def)
    qed (simp add: file_bytes_def)
    with that show ?thesis by linarith
  qed
  have logger: "\<exists>u. setLogger can_open name level [] 1024 5 w = Return name u \<and> loggers u name = Some name \<and>
    (\<forall>records. list_all (\<lambda>(l, _). level_of level \<le> l) records \<and> length records \<le> 7 \<longrightarrow>
      log_files (log_records formatter name records u) = (log_files w)(name \<mapsto> Plain (map (\<lambda>(l, text). formatter l text) records)))"
    if "map upper_char level \<in> {''INFO'', ''DEBUG''}" for name level
    using new_test_logger[of can_open name w level formatter] fresh[of name] that fits by meson
  have names: "map upper_char ''Info'' \<in> {''INFO'', ''DEBUG''}" "map upper_char ''DEBUG'' \<in> {''INFO'', ''DEBUG''}"
    "level_of ''Info'' = Info" "level_of ''DEBUG'' = Debug" by code_simp+
  have clean: "log_files (cleanTmpData removable v) = log_files (cleanTmpData removable (w\<lparr>log_files := f\<rparr>))" if "log_files v = f" for v f
    using that by (simp add: cleanTmpData_def fun_eq_iff)
  let ?all = "numbered ''TestData1: '' 1 @ numbered ''TestData2 From New Logger: '' 1 @ numbered ''TestData3 From New Logger: '' 5"
  have enabled: "list_all (\<lambda>(l, _). Info \<le> l) [(Info, ''TestData: info data'')]" "list_all (\<lambda>(l, _). Info \<le> l) ?all"
    "list_all (\<lambda>(l, _). Debug \<le> l) colouring_records" "length ?all \<le> 7" "length colouring_records \<le> 7"
    by (simp_all add: numbered_def list_all_iff colouring_records_def less_eq_log_level_def)
  obtain u where u: "setLogger can_open ''KrakenMareTestLogger.log'' ''Info'' [] 1024 5 w = Return ''KrakenMareTestLogger.log'' u"
    "loggers u ''KrakenMareTestLogger.log'' = Some ''KrakenMareTestLogger.log''"
    "\<And>records. list_all (\<lambda>(l, _). Info \<le> l) records \<Longrightarrow> length records \<le> 7 \<Longrightarrow>
      log_files (log_records formatter ''KrakenMareTestLogger.log'' records u) =
        (log_files w)(''KrakenMareTestLogger.log'' \<mapsto> Plain (map (\<lambda>(l, text). formatter l text) records))"
    using logger[OF names(1), of "''KrakenMareTestLogger.log''"] unfolding names(3) by blast
  obtain v where v: "setLogger can_open ''KrakenMareTestLoggerColor.log'' ''DEBUG'' [] 1024 5 w = Return ''KrakenMareTestLoggerColor.log'' v"
    "\<And>records. list_all (\<lambda>(l, _). Debug \<le> l) records \<Longrightarrow> length records \<le> 7 \<Longrightarrow>
      log_files (log_records formatter ''KrakenMareTestLoggerColor.log'' records v) =
        (log_files w)(''KrakenMareTestLoggerColor.log'' \<mapsto> Plain (map (\<lambda>(l, text). formatter l text) records))"
    using logger[OF names(2), of "''KrakenMareTestLoggerColor.log''"] unfolding names(4) by blast
  have "testLoggerCreation formatter can_open removable w =
      Return () (cleanTmpData removable (log_records formatter ''KrakenMareTestLogger.log'' [(Info, ''TestData: info data'')] u))"
    by (simp add: testLoggerCreation_def u(1) log_records_def)
  moreover have "testLoggFilePopulation formatter can_open removable w =
      Return () (cleanTmpData removable (log_records formatter ''KrakenMareTestLogger.log'' ?all u))"
    by (simp add: testLoggFilePopulation_def u(1,2) getLogger_def log_records_frame log_records_append Let_def)
  moreover have "testLoggerColoring formatter can_open removable w =
      Return () (cleanTmpData removable (log_records formatter ''KrakenMareTestLoggerColor.log'' colouring_records v))"
    by (simp add: testLoggerColoring_def v(1))
  ultimately show ?thesis
    using clean[OF u(3)[OF enabled(1)]] clean[OF u(3)[OF enabled(2,4)]] clean[OF v(2)[OF enabled(3,5)]] by simp
qed

end
