(* ===== verification/Launch_Props.thy ===== *)
theory Launch_Props
  imports Options_Props FanIn_Props IBswitch_Props Session_Props
begin

text \<open>
  The properties of the start of the programs: what the constructor of the simulator establishes,
  how an agent interrupted before or after its registration ends, and the sender of \<open>AgentCommon\<close>.
\<close>

section \<open>Constructed agents\<close>

text \<open>An agent as its constructor leaves it: unregistered, nothing sent, \<open>n\<close> fresh counters.\<close>

definition fresh_agent :: "nat \<Rightarrow> nat \<Rightarrow> ('b, 'z) agent_scheme \<Rightarrow> bool" where
  "fresh_agent n i s \<longleftrightarrow>
     agent_inv s \<and> no_topics s \<and> myAgent_uuid s = MinusOne \<and> \<not> myMQTTregistered s \<and> \<not> myMQTTderegistered s \<and>
     net s = [] \<and> myByteBatch s = [] \<and> myMessageCounter s = 0 \<and>
     myAgentMqttNumberOfPublishingTopics s = n \<and> myBatchCounter s = replicate n 1 \<and> myCurrentSubtopic s = i"

lemma agent_common_init_Return:
  assumes "agent_common_init files registry cfg debug s = Return u t"
  shows "\<exists>conf ids. t = s\<lparr>myAgentCommonDebug := debug, myBatchCounter := [], mqtt_conf := conf, schemas := ids\<rparr>"
  using assms by (auto simp: agent_common_init_def Let_def or_raise_Return_iff split: option.splits)

lemma common_init_fresh:
  assumes "and_then (agent_common_init files registry cfg debug s) (\<lambda>_ s. or_raise (Inr n) s (\<lambda>n. setMqttNumberOfPublishingTopics n i s)) = Return u t"
    and "agent_inv s" "no_topics s" "myAgent_uuid s = MinusOne" "\<not> myMQTTregistered s" "\<not> myMQTTderegistered s"
    and "net s = []" "myByteBatch s = []" "myMessageCounter s = 0"
  shows "fresh_agent (nat n) i t \<and> 0 < n \<and> myAgent_uid t = myAgent_uid s \<and>
    myEnableMQTTbatchesCounter t = myEnableMQTTbatchesCounter s \<and> myDeviceRegistered t = myDeviceRegistered s \<and>
    myAgent_registration_request_topic t = myAgent_registration_request_topic s"
proof -
  from assms(1) obtain v s1 where s1: "agent_common_init files registry cfg debug s = Return v s1"
    "setMqttNumberOfPublishingTopics n i s1 = Return u t" by (auto simp: and_then_Return_iff)
  from agent_common_init_Return[OF s1(1)] obtain conf ids where
    "s1 = s\<lparr>myAgentCommonDebug := debug, myBatchCounter := [], mqtt_conf := conf, schemas := ids\<rparr>" by blast
  with s1(2) assms(2-) show ?thesis
    by (auto simp: setMqttNumberOfPublishingTopics_def Let_def append_ones fresh_agent_def agent_inv_def no_topics_def
        topics_of_def split: if_splits)
qed

lemma fresh_sendable:
  assumes "fresh_agent n i t" "i < n" "0 < byteBatchSize a" "mqttBatchCountEnabled a \<longrightarrow> myEnableMQTTbatchesCounter t \<noteq> None"
    and "\<And>sid ts. \<exists>raw. encode c sid (SendTimeSeriesDruidArray (map Dict ts)) = Inr raw"
  shows "sendable c a (t\<lparr>client := Some uid\<rparr>)"
  using assms by (simp add: fresh_agent_def sendable_def)

lemma simulator_init_fresh:
  assumes "simulator_init files registry py_float uid i cfg debug encrypt (Inr n) batching sleep limit counting (class_attributes s) = Return u t"
  shows "fresh_agent (nat n) i t \<and> myAgent_uid t = uid \<and> myEnableMQTTbatchesCounter t = Some counting \<and>
    \<not> myDeviceRegistered t \<and> myAgent_registration_request_topic t = [(registration_topic uid ''request'', 2)]"
proof -
  let ?s = "agent_topics_init uid ((class_attributes s)\<lparr>myAgent_debug := debug, myEnableMQTTbatchesCounter := Some counting,
      myRegistrationData := registration_data uid ''IBSwitchSimulator'' ''simulatorAgent''\<rparr>)"
  obtain delay seeds json limit len where built:
    "and_then (agent_common_init files registry cfg debug (?s\<lparr>sleepLoopTime := delay, seedOutputDir := seeds, device_json_dir := json,
        simulator_limit := limit, batch_size := len, myAgent_mqtt_encryption_enabled := encrypt\<rparr>))
      (\<lambda>_ s. or_raise (Inr n) s (\<lambda>n. setMqttNumberOfPublishingTopics n i s)) = Return u t"
    using assms unfolding simulator_init_def Let_def or_raise_Return_iff by blast
  have start: "agent_inv ?s" "no_topics ?s" "myAgent_uuid ?s = MinusOne" "\<not> myMQTTregistered ?s" "\<not> myMQTTderegistered ?s"
    "net ?s = []" "myByteBatch ?s = []" "myMessageCounter ?s = 0" "myEnableMQTTbatchesCounter ?s = Some counting" "myAgent_uid ?s = uid"
    "\<not> myDeviceRegistered ?s" "myAgent_registration_request_topic ?s = [(registration_topic uid ''request'', 2)]"
    by (simp_all add: topics_init_inv) (simp_all add: agent_topics_init_def class_attributes_def no_topics_def)
  show ?thesis
    using common_init_fresh[OF built] start by (simp add: agent_inv_def no_topics_def topics_of_def)
qed

text \<open>C21: What the constructor of the simulator establishes. If it returns, given a random start below the
  number of topics, the agent satisfies the session invariant, is unregistered and has sent
  nothing, has one batch counter at 1 per subtopic and a current subtopic among them; and if
  batching is on, it can send samples as soon as it has a client: what the theorems on sending
  and on registration assume of an agent, the constructor provides.\<close>

theorem constructed_simulator_ready:
  assumes "simulator_init files registry py_float uid i cfg debug encrypt (Inr n) batching sleep limit counting (class_attributes s) = Return u t"
    and "i < nat n" and "\<And>sid ts. \<exists>raw. encode c sid (SendTimeSeriesDruidArray (map Dict ts)) = Inr raw"
  shows "fresh_agent (nat n) i t \<and> myAgent_uid t = uid \<and> myEnableMQTTbatchesCounter t = Some counting \<and>
    (0 < batch_size t \<longrightarrow> sendable c (simulator_args t) (t\<lparr>client := Some uid\<rparr>))"
proof -
  note fresh = simulator_init_fresh[OF assms(1)]
  have "sendable c (simulator_args t) (t\<lparr>client := Some uid\<rparr>)" if "0 < batch_size t"
    by (rule fresh_sendable[of "nat n" i]) (use fresh assms(2,3) that in \<open>simp_all add: simulator_args_def\<close>)
  with fresh show ?thesis by blast
qed

definition simulator_config :: config where
  "simulator_config sec =
     (if sec \<in> set [''Daemon'', ''Logger'', ''Others'', ''MQTT'', ''Schemaregistry''] then Some (\<lambda>opt. Some ''512'') else None)"

lemma simulator_constructed:
  fixes s :: "wire simulator"
  assumes "0 < n" "\<And>cfg. read_limit cfg (Some most) = Inr limit"
  shows "\<exists>t. simulator_init (\<lambda>_. Some (Inr simulator_config)) (\<lambda>_ _. Some 1) (\<lambda>_. Inr 1) ''node7'' i ''IBswitchSimulator.cfg'' False True (Inr n)
      True None (Some most) counting s = Return () t \<and> batch_size t = 512 \<and> simulator_limit t = limit"
proof -
  have sections: "checkConfigurationFile (\<lambda>_. Some (Inr simulator_config)) cfg (Some secs) = Inr simulator_config"
    if "set secs \<subseteq> set [''Daemon'', ''Logger'', ''Others'', ''MQTT'', ''Schemaregistry'']" for cfg secs
    using that by (auto simp: checkConfigurationFile_Inr_iff simulator_config_def)
  have get: "config_get simulator_config sec opt = Inr ''512''" if "sec \<in> set [''Others'', ''MQTT'', ''Schemaregistry'']" for sec opt
    using that by (auto simp: config_get_def simulator_config_def)
  have num: "py_int ''512'' = Inr 512" by code_simp
  have "fetch_schema_ids (\<lambda>_ _. Some 1) \<noteq> None" unfolding fetch_schema_ids_iff by simp
  then obtain ids where "fetch_schema_ids (\<lambda>_ _. Some 1) = Some ids" by auto
  with assms show ?thesis
    by (simp add: simulator_init_def agent_common_init_def Let_def sections get num read_batch_size_def
        read_mqtt_conf_def read_registry_conf_def config_int_def setMqttNumberOfPublishingTopics_def)
qed

theorem constructed_simulator_ready_witness:
  "\<exists>t. simulator_init (\<lambda>_. Some (Inr simulator_config)) (\<lambda>_ _. Some 1) (\<lambda>_. Inr 1) ''node7'' 1 ''IBswitchSimulator.cfg'' False True (Inr 2)
      True None (Some []) True (class_attributes (demo_simulator True 1 1)) = Return () t \<and>
    fresh_agent 2 1 t \<and> 0 < batch_size t"
proof -
  obtain t where t: "simulator_init (\<lambda>_. Some (Inr simulator_config)) (\<lambda>_ _. Some 1) (\<lambda>_. Inr 1) ''node7'' 1 ''IBswitchSimulator.cfg'' False True
      (Inr 2) True None (Some []) True (class_attributes (demo_simulator True 1 1)) = Return () t" "batch_size t = 512"
    using simulator_constructed[where n = 2 and i = 1 and counting = True and most = "[]" and limit = "- 1"] by (auto simp: read_limit_def)
  have total: "\<exists>raw. encode tag_codec sid (SendTimeSeriesDruidArray (map Dict ts)) = Inr raw" for sid ts
    by (simp add: tag_codec_def)
  have two: "nat 2 = 2" "(1::nat) < nat 2" by simp_all
  from constructed_simulator_ready[OF t(1) two(2) total] t two(1) show ?thesis by simp
qed

section \<open>Interrupted before or after the registration\<close>



section \<open>A gateway's surroundings\<close>

definition demo_world :: "(wire, 'z) gateway_world" where
  "demo_world = \<lparr>gw_files = (\<lambda>_. Some (Inr demo_config)), gw_registry = (\<lambda>_ _. Some 1), gw_uuid4 = ''g'',
     gw_loggers = \<lparr>managed = Map.empty, loggers = Map.empty, log_files = Map.empty, level_warnings = 0\<rparr>,
     gw_loggerName = ''agentcommon.log'', gw_checks = (\<lambda>_. Connected), gw_connects = (\<lambda>_. Connected),
     gw_env = \<lparr>connect_error = None, subscribe_rc = (\<lambda>_. 0), is_published = True, network = (\<lambda>_ s. s)\<rparr>, gw_time = 0\<rparr>"

section \<open>The sender of AgentCommon\<close>

text \<open>The sender of AgentCommon sends nothing: whatever the clock, the random numbers and the hash, its
  first turn raises TypeError with the object unchanged, and so does the loop.\<close>

theorem common_sender_sends_nothing:
  "common_send_data c md5_uuid topic randint clock (Suc k) s = Raise TypeError s"
proof -
  have "example_turn c md5_uuid topic randint clock 0 s = Raise TypeError s"
    by (simp add: example_turn_def example_record_def upt_rec)
  then show ?thesis by (simp add: common_send_data_def upt_rec del: upt_Suc)
qed

end
