(* ===== verification/Counting_Spec.thy ===== *)
theory Counting_Spec
  imports Batch_Spec FanIn_Spec
begin

text \<open>
  The arithmetic of the counting runs (\<open>--enableMQTTbatchesCounter\<close>): a simulator sends, instead
  of values, the batch count of its current subtopic, two samples at a time. Which counts a batch
  carries, what a gateway that reads them sees, and what it sees when one batch is missing.
\<close>

section \<open>The count of a sample\<close>

text \<open>
  Sample \<open>t\<close> is made together with its pair, before either is sent: by then
  \<open>(t - t mod 2) div m\<close> batches have been sent, a share of \<open>1 / n\<close> of them on the current subtopic.
\<close>

definition count_at :: "nat \<Rightarrow> nat \<Rightarrow> nat \<Rightarrow> nat" where
  "count_at m n t = 1 + ((t - t mod 2) div m) div n"

lemma count_at_block:
  assumes "2 \<le> m" "q * m \<le> t" "t < q * m + m"
  shows "count_at m n t = (if t = q * m \<and> odd t then 1 + (q - 1) div n else 1 + q div n)"
proof (cases "t = q * m \<and> odd t")
  case True
  then have "t mod 2 = 1" "t = q * m" by (auto simp: odd_iff_mod_2_eq_one)
  then have half: "t - t mod 2 = q * m - 1" by metis
  have "0 < q" using True by (cases q) auto
  then have "q * m - 1 = (q - 1) * m + (m - 1)" using assms(1) by (cases q) auto
  moreover have "((q - 1) * m + (m - 1)) div m = q - 1" by (rule div_nat_eqI) (use assms(1) in \<open>simp_all add: mult.commute\<close>)
  ultimately have "(q * m - 1) div m = q - 1" by simp
  then have "(t - t mod 2) div m = q - 1" unfolding half .
  then show ?thesis unfolding if_P[OF True] count_at_def by (rule arg_cong)
next
  case False
  have "q * m \<le> t - t mod 2"
  proof (cases "even t")
    case False
    with \<open>\<not> (t = q * m \<and> odd t)\<close> assms(2) have "q * m < t" by auto
    with False show ?thesis by (simp add: odd_iff_mod_2_eq_one)
  qed (use assms(2) in simp)
  moreover have "t - t mod 2 < q * m + m" using assms(3) by simp
  ultimately have "(t - t mod 2) div m = q"
    by (metis add.commute div_nat_eqI mult.commute mult_Suc)
  then show ?thesis unfolding if_not_P[OF False] count_at_def by (rule arg_cong)
qed

text \<open>The counts of the \<open>k\<close>-th batch on the subtopic \<open>d\<close> turns after the first one.\<close>

definition stale :: "nat \<Rightarrow> nat \<Rightarrow> nat \<Rightarrow> nat \<Rightarrow> bool" where
  "stale m n d k \<longleftrightarrow> d = 0 \<and> odd (n * k * m)"

definition topic_counts :: "nat \<Rightarrow> nat \<Rightarrow> nat \<Rightarrow> nat \<Rightarrow> int list" where
  "topic_counts m n d k = int (if stale m n d k then k else 1 + k) # replicate (m - 1) (int (1 + k))"

lemma block_counts:
  assumes "2 \<le> m" "d < n"
  shows "map (\<lambda>t. int (count_at m n t)) [(d + n * k) * m..<(d + n * k) * m + m] = topic_counts m n d k"
proof -
  let ?q = "d + n * k"
  have q: "?q div n = k" using assms(2) by simp
  have before: "(?q - 1) div n = (if d = 0 then k - 1 else k)" if "0 < ?q"
  proof (cases d)
    case 0
    with that have "0 < k" "0 < n" by auto
    then have "n * k - 1 = n * (k - 1) + (n - 1)" by (cases k) auto
    moreover have "(n * (k - 1) + (n - 1)) div n = k - 1" by (rule div_nat_eqI) (use \<open>0 < n\<close> in simp_all)
    ultimately show ?thesis using 0 by simp
  qed (use assms(2) in simp)
  have first: "count_at m n (?q * m) = (if stale m n d k then k else 1 + k)"
  proof (cases "odd (?q * m)")
    case True
    then have "0 < ?q" by (cases ?q) auto
    with True before q count_at_block[of m ?q "?q * m" n] assms(1) show ?thesis
      by (cases k) (auto simp: stale_def)
  next
    case False
    then have "\<not> stale m n d k" by (auto simp: stale_def)
    with False q count_at_block[of m ?q "?q * m" n] assms(1) show ?thesis by simp
  qed
  have rest: "map (\<lambda>t. int (count_at m n t)) [Suc (?q * m)..<?q * m + m] = replicate (m - 1) (int (1 + k))"
  proof (rule nth_equalityI)
    fix i assume "i < length (map (\<lambda>t. int (count_at m n t)) [Suc (?q * m)..<?q * m + m])"
    then have i: "i < m - 1" by simp
    with count_at_block[of m ?q "Suc (?q * m) + i" n] assms(1) q
    show "map (\<lambda>t. int (count_at m n t)) [Suc (?q * m)..<?q * m + m] ! i = replicate (m - 1) (int (1 + k)) ! i"
      by simp
  qed (use assms(1) in simp)
  have "[?q * m..<?q * m + m] = ?q * m # [Suc (?q * m)..<?q * m + m]" using assms(1) by (simp add: upt_conv_Cons)
  then show ?thesis using first rest by (simp add: topic_counts_def)
qed

section \<open>What the detector sees\<close>

definition next_ok :: "int option \<Rightarrow> int \<Rightarrow> bool" where
  "next_ok prev v \<longleftrightarrow> (case prev of None \<Rightarrow> v = 1 | Some p \<Rightarrow> v = p \<or> v = p + 1)"

lemma smooth_append: "smooth p (xs @ ys) \<longleftrightarrow> smooth p xs \<and> smooth (if xs = [] then p else Some (last xs)) ys"
  by (induction xs arbitrary: p) auto

lemma smooth_replicate: "smooth p (replicate k v) \<longleftrightarrow> k = 0 \<or> next_ok p v"
proof -
  have "smooth (Some v) (replicate k v)" for k by (induction k) auto
  then show ?thesis by (cases k) (simp_all add: next_ok_def)
qed

lemma smooth_topic_counts:
  assumes "2 \<le> m"
  shows "smooth p (topic_counts m n d k @ vs) \<longleftrightarrow>
    next_ok p (int (if stale m n d k then k else 1 + k)) \<and> smooth (Some (int (1 + k))) vs"
proof -
  have m: "m - 1 \<noteq> 0" using assms by simp
  have "last (topic_counts m n d k) = int (1 + k)" "topic_counts m n d k \<noteq> []"
    using m by (simp_all add: topic_counts_def last_replicate)
  moreover have "smooth p (topic_counts m n d k) \<longleftrightarrow> next_ok p (int (if stale m n d k then k else 1 + k))"
    using m by (auto simp: topic_counts_def smooth_replicate next_ok_def)
  ultimately show ?thesis by (simp add: smooth_append)
qed

text \<open>Consecutive batches from the \<open>a\<close>-th on.\<close>

definition counts_from :: "nat \<Rightarrow> nat \<Rightarrow> nat \<Rightarrow> nat \<Rightarrow> nat \<Rightarrow> int list" where
  "counts_from m n d a b = concat (map (topic_counts m n d) [a..<b])"

lemma counts_from_Cons: "a < b \<Longrightarrow> counts_from m n d a b = topic_counts m n d a @ counts_from m n d (Suc a) b"
  by (simp add: counts_from_def upt_conv_Cons)

lemma counts_from_smooth:
  assumes "2 \<le> m"
  shows "smooth (Some (int a)) (counts_from m n d a b)"
proof (induction "b - a" arbitrary: a)
  case 0
  then show ?case by (simp add: counts_from_def)
next
  case (Suc x)
  then have "smooth (Some (int (1 + a))) (counts_from m n d (Suc a) b)" by (metis Suc_diff_Suc diff_Suc_Suc diff_diff_cancel
    plus_1_eq_Suc zero_less_Suc zero_less_diff Suc_inject)
  with Suc.hyps(2) show ?case
    by (simp add: counts_from_Cons smooth_topic_counts[OF assms] next_ok_def)
qed

text \<open>Nothing lost: nothing seen.\<close>

lemma counts_smooth:
  assumes "2 \<le> m"
  shows "smooth None (counts_from m n d 0 b)"
proof (cases b)
  case (Suc b')
  with counts_from_smooth[OF assms, of 1 n d b] show ?thesis
    by (simp add: counts_from_Cons smooth_topic_counts[OF assms] next_ok_def stale_def)
qed (simp add: counts_from_def)

text \<open>One batch lost, not the last: seen, unless the next one starts with a stale count.\<close>

lemma one_lost_smooth_iff:
  assumes "2 \<le> m" "Suc k < b"
  shows "smooth None (counts_from m n d 0 k @ counts_from m n d (Suc k) b) \<longleftrightarrow> stale m n d (Suc k)"
proof -
  have tail: "smooth (Some (int (1 + Suc k))) (counts_from m n d (Suc (Suc k)) b)"
    using counts_from_smooth[OF assms(1), of "Suc (Suc k)"] by simp
  have last: "smooth None (counts_from m n d 0 k @ vs) \<longleftrightarrow> smooth (if k = 0 then None else Some (int k)) vs" for vs
  proof (cases k)
    case (Suc k')
    have "counts_from m n d 0 k = counts_from m n d 0 k' @ topic_counts m n d k'" by (simp add: counts_from_def Suc)
    moreover have "last (topic_counts m n d k') = int (1 + k')" "topic_counts m n d k' \<noteq> []"
      using assms(1) by (simp_all add: topic_counts_def last_replicate)
    ultimately show ?thesis using counts_smooth[OF assms(1), of n d k] by (simp add: smooth_append Suc)
  qed (simp add: counts_from_def)
  show ?thesis unfolding last counts_from_Cons[OF assms(2)] smooth_topic_counts[OF assms(1)]
    using tail by (auto simp: next_ok_def)
qed

end
