(* ===== verification/Counting.thy ===== *)
theory Counting
  imports Counting_Spec IBswitch_Props Pipeline
begin

text \<open>
  The simulator in counting mode against the arithmetic of \<open>Counting_Spec\<close>: every pair of samples
  a switch contributes carries the batch count of the current subtopic; over any number of turns
  the stream is the counting stream, and a gateway reads from the batches of a subtopic the counts
  \<open>Counting_Spec\<close> says.
\<close>

section \<open>The counting stream\<close>

definition counting_stream :: "nat \<Rightarrow> nat \<Rightarrow> uuid \<Rightarrow> triplet list \<Rightarrow> bool" where
  "counting_stream m n u xs \<longleftrightarrow>
     (\<forall>t<length xs. sensorUuid (xs ! t) = u \<and> sensorValue (xs ! t) = of_nat (count_at m n t))"

lemma turn_share_current:
  assumes "i < n"
  shows "turn_share n i ((i + q) mod n) q = q div n"
proof -
  have "(i + q) mod n < n" using assms by simp
  then have "((i + q) mod n + n - i) mod n = q mod n" using turn_now_iff[OF assms, of "(i + q) mod n" q] by simp
  moreover have "q + n - 1 - q mod n = n * (q div n) + (n - 1)"
    using assms mult_div_mod_eq[of n q] by linarith
  ultimately have "turn_share n i ((i + q) mod n) q = (n * (q div n) + (n - 1)) div n"
    unfolding turn_share_def by simp
  also have "\<dots> = q div n" by (rule div_nat_eqI) (use assms in simp_all)
  finally show ?thesis .
qed

lemma counting_pair:
  assumes "counting_stream m n u xs" "even (length xs)" "length rs = 2"
    and "\<And>r. r \<in> set rs \<Longrightarrow> sensorUuid r = u \<and> sensorValue r = of_nat (1 + (length xs div m) div n)"
  shows "counting_stream m n u (xs @ rs)"
  unfolding counting_stream_def
proof (intro allI impI)
  fix t assume t: "t < length (xs @ rs)"
  show "sensorUuid ((xs @ rs) ! t) = u \<and> sensorValue ((xs @ rs) ! t) = of_nat (count_at m n t)"
  proof (cases "t < length xs")
    case True
    with assms(1) show ?thesis by (simp add: counting_stream_def nth_append)
  next
    case False
    with t assms(2,3) have "t - t mod 2 = length xs" "t - length xs < length rs" by (auto elim!: evenE) presburger+
    then show ?thesis using assms(4)[of "rs ! (t - length xs)"] False by (simp add: nth_append count_at_def)
  qed
qed

section \<open>Seeded counters\<close>

definition three_counters :: "string set" where
  "three_counters = {''SymbolErrorCounter'', ''LinkDownedCounter'', ''PortXmitDiscards''}"

definition seeded :: "('b, 'z) simulator_scheme \<Rightarrow> bool" where
  "seeded s \<longleftrightarrow> (\<forall>(cmc, guid) \<in> set (switch_keys s). \<exists>q. metrics_of cmc guid s = Inr q \<and> three_counters \<subseteq> dom q)"

lemma bump_by_chance_Inr: "counter \<in> dom q \<Longrightarrow> \<exists>q'. bump_by_chance counter x thresholds q = Inr q' \<and> dom q' = dom q"
  by (auto simp: bump_by_chance_def bump_def split: option.splits)

lemma simulate_metrics_Inr:
  assumes "three_counters \<subseteq> dom q"
  shows "\<exists>q'. simulate_metrics t q = Inr q' \<and> dom q' = dom q"
proof -
  from assms have d: "''SymbolErrorCounter'' \<in> dom q" "''LinkDownedCounter'' \<in> dom q" "''PortXmitDiscards'' \<in> dom q"
    by (auto simp: three_counters_def)
  obtain q1 where q1: "bump_by_chance ''SymbolErrorCounter'' (random1 t) [(98 / 100, 1000), (88 / 100, 10), (78 / 100, 1)] q = Inr q1"
    "dom q1 = dom q" using bump_by_chance_Inr[OF d(1)] by blast
  obtain q2 where q2: "bump_by_chance ''LinkDownedCounter'' (random2 t) [(99 / 100, 100), (89 / 100, 5), (79 / 100, 1)] q1 = Inr q2"
    "dom q2 = dom q" using bump_by_chance_Inr[of "''LinkDownedCounter''" q1] d(2) q1(2) by metis
  obtain q3 where q3: "bump_by_chance ''PortXmitDiscards'' (random3 t) [(99 / 100, 10), (89 / 100, 5), (79 / 100, 2)] q2 = Inr q3"
    "dom q3 = dom q" using bump_by_chance_Inr[of "''PortXmitDiscards''" q2] d(3) q2(2) by metis
  from q1(1) q2(1) q3 show ?thesis by (simp add: simulate_metrics_def)
qed

lemma switch_keys_set [simp]: "switch_keys (set_metrics cmc guid q s) = switch_keys s"
proof -
  let ?row = "\<lambda>(c, switches). map (\<lambda>(g, m'). (c, g)) switches"
  let ?set = "\<lambda>(c, switches). (c, if c = cmc then map (\<lambda>(g, m'). (g, if g = guid then q else m')) switches else switches)"
  have "map ?row (map ?set (seed_map s)) = map ?row (seed_map s)"
    unfolding map_map by (rule map_cong[OF refl]) (auto split: prod.splits)
  moreover have "switch_keys (set_metrics cmc guid q s) = concat (map ?row (map ?set (seed_map s)))"
    by (simp add: switch_keys_def set_metrics_def del: map_map)
  moreover have "switch_keys s = concat (map ?row (seed_map s))" by (simp add: switch_keys_def)
  ultimately show ?thesis by (simp only:)
qed

lemma map_of_map_if: "map_of (map (\<lambda>(k, v). (k, f k v)) xs) k = map_option (f k) (map_of xs k)"
  by (induction xs) auto

lemma metrics_of_set:
  "metrics_of cmc' guid' (set_metrics cmc guid q s) =
     (if cmc' = cmc \<and> guid' = guid then (case metrics_of cmc guid s of Inl e \<Rightarrow> Inl e | Inr _ \<Rightarrow> Inr q) else metrics_of cmc' guid' s)"
  unfolding metrics_of_def set_metrics_def
  by (simp add: map_of_map_if[where f = "\<lambda>c switches. if c = cmc then map (\<lambda>(g, m'). (g, if g = guid then q else m')) switches else switches"]
      map_of_map_if[where f = "\<lambda>g m'. if g = guid then q else m'"] split: option.splits)

lemma seeded_set:
  assumes "seeded s" "metrics_of cmc guid s = Inr q" "three_counters \<subseteq> dom q'"
  shows "seeded (set_metrics cmc guid q' s)"
  unfolding seeded_def switch_keys_set
proof (intro ballI, unfold split_paired_all prod.case)
  fix c g
  assume "(c, g) \<in> set (switch_keys s)"
  with assms(1) obtain x where "metrics_of c g s = Inr x" "three_counters \<subseteq> dom x" unfolding seeded_def by fast
  note x = this
  show "\<exists>x. metrics_of c g (set_metrics cmc guid q' s) = Inr x \<and> three_counters \<subseteq> dom x"
  proof (cases "c = cmc \<and> g = guid")
    case True
    then have "metrics_of c g (set_metrics cmc guid q' s) = Inr q'" by (simp add: metrics_of_set assms(2))
    with assms(3) show ?thesis by blast
  next
    case False
    with x(1) have "metrics_of c g (set_metrics cmc guid q' s) = Inr x" by (auto simp: metrics_of_set)
    with x(2) show ?thesis by blast
  qed
qed

lemma seeded_seed: "seed_map t = seed_map s \<Longrightarrow> seeded t = seeded s"
  by (simp add: seeded_def switch_keys_def metrics_of_def)

section \<open>A run of the simulator\<close>

text \<open>A simulator ready to count: nothing pending, every count at 1, no limit, batches of \<open>m\<close> samples.\<close>

definition counting_ready :: "'b codec \<Rightarrow> (nat \<Rightarrow> nat) \<Rightarrow> nat \<Rightarrow> ('b, 'z) simulator_scheme \<Rightarrow> bool" where
  "counting_ready c sizeof m s \<longleftrightarrow>
     sendable c (simulator_args s) s \<and> myByteBatch s = [] \<and> seeded s \<and>
     myBatchCounter s = replicate (myAgentMqttNumberOfPublishingTopics s) 1 \<and>
     myEnableMQTTbatchesCounter s = Some True \<and> simulator_limit s = - 1 \<and> 0 \<le> myMessageCounter s \<and>
     is_batch_len (batch_full sizeof (simulator_args s)) m"

text \<open>Where it stands after sending the samples \<open>xs\<close> (its metrics have moved meanwhile).\<close>

definition counting_sim ::
  "'b codec \<Rightarrow> nat \<Rightarrow> ('b, 'z) simulator_scheme \<Rightarrow> ('b, 'z) simulator_scheme \<Rightarrow> triplet list \<Rightarrow> bool" where
  "counting_sim c m s0 s xs \<longleftrightarrow>
     (\<exists>seeds. batch_sim c (simulator_args s0) (s0\<lparr>seed_map := seeds\<rparr>) s (block_plan m s0 xs)) \<and>
     sendable c (simulator_args s0) s \<and> seeded s \<and> switch_keys s = switch_keys s0 \<and> even (length xs) \<and>
     counting_stream m (myAgentMqttNumberOfPublishingTopics s0) (myAgent_uuid s0) xs"

lemma counting_start:
  assumes "counting_ready c sizeof m s"
  shows "counting_sim c m s s []"
proof -
  from assms have ok: "sendable c (simulator_args s) s" "myByteBatch s = map Dict []" by (simp_all add: counting_ready_def)
  then have "myCurrentSubtopic s < myAgentMqttNumberOfPublishingTopics s" by (simp add: sendable_def)
  then have plan: "block_plan m s [] = \<lparr>pl_pending = [], pl_sub = myCurrentSubtopic s, pl_sent = []\<rparr>"
    by (simp add: block_plan_def leftover_def blocks_def)
  have "s\<lparr>seed_map := seed_map s\<rparr> = s" by simp
  with batch_sim_start[OF ok] have "\<exists>seeds. batch_sim c (simulator_args s) (s\<lparr>seed_map := seeds\<rparr>) s (block_plan m s [])"
    unfolding plan by metis
  with assms ok(1) show ?thesis by (simp add: counting_sim_def counting_stream_def counting_ready_def)
qed

text \<open>Moving the metrics does not disturb the batcher.\<close>

lemma batch_sim_seed:
  fixes s :: "('b, 'z) simulator_scheme"
  assumes "batch_sim c a s0 s p"
  shows "batch_sim c a (s0\<lparr>seed_map := x\<rparr>) (s\<lparr>seed_map := x\<rparr>) p"
proof -
  have "batch_frame (u\<lparr>seed_map := x\<rparr>) = (batch_frame u)\<lparr>seed_map := x\<rparr>" for u :: "('b, 'z) simulator_scheme"
    by (simp add: batch_frame_def)
  moreover have "session_of (u\<lparr>seed_map := x\<rparr>) = session_of u" for u :: "('b, 'z) simulator_scheme"
    by (simp add: session_of_def)
  ultimately show ?thesis using assms by (simp add: batch_sim_def)
qed

lemma sendable_seed: "sendable c a ((s :: ('b, 'z) simulator_scheme)\<lparr>seed_map := x\<rparr>) = sendable c a s"
  by (simp add: sendable_def)

text \<open>The count of the current subtopic.\<close>

lemma current_count:
  assumes "batch_sim c a s0 s (block_plan m s1 xs)" "myBatchCounter s0 = replicate n 1"
    and "n = myAgentMqttNumberOfPublishingTopics s1" "myCurrentSubtopic s1 < n"
  shows "myBatchCounter s ! myCurrentSubtopic s = int (1 + (length xs div m) div n)" "myCurrentSubtopic s < length (myBatchCounter s)"
proof -
  let ?i = "myCurrentSubtopic s1" and ?bs = "blocks n m (myCurrentSubtopic s1) xs"
  have s: "myCurrentSubtopic s = (?i + length xs div m) mod n" "myBatchCounter s = counters_after (replicate n 1) ?bs"
    using assms by (simp_all add: batch_sim_def block_plan_def)
  have n: "(?i + length xs div m) mod n < n" using assms(4) by simp
  then show "myCurrentSubtopic s < length (myBatchCounter s)" by (simp add: s)
  show "myBatchCounter s ! myCurrentSubtopic s = int (1 + (length xs div m) div n)"
    using n turn_share_current[OF assms(4)] turn_count_share[OF assms(4) n]
    by (simp add: s counters_after_nth blocks_on_topic)
qed

lemma block_plan_append:
  assumes "is_batch_len full m" "myCurrentSubtopic s < myAgentMqttNumberOfPublishingTopics s"
  shows "fold (plan_step full (myAgentMqttNumberOfPublishingTopics s)) rs (block_plan m s xs) = block_plan m s (xs @ rs)"
proof -
  let ?step = "plan_step full (myAgentMqttNumberOfPublishingTopics s)"
  let ?p = "\<lparr>pl_pending = [], pl_sub = myCurrentSubtopic s, pl_sent = []\<rparr>"
  have "fold ?step zs ?p = block_plan m s zs" for zs
    using fold_plan_step[OF assms, of zs "[]"] by (simp add: block_plan_def)
  from this[of xs] this[of "xs @ rs"] show ?thesis by simp
qed

text \<open>
  A switch whose counters can be moved and whose records can be made: its counters are replaced,
  and the records handed to the batcher. Below the limit they go through it, and nothing else
  changes.
\<close>

lemma send_switch_prepares:
  fixes s :: "('b, 'z) simulator_scheme"
  assumes sent: "batch_sim c (simulator_args s0) (s0\<lparr>seed_map := seeds\<rparr>) s (block_plan m s0 xs)" and ok: "sendable c (simulator_args s0) s"
    and q: "metrics_of cmc guid s = Inr q" "simulate_metrics tick q = Inr q'"
    and rs: "res_map (metric_record table cmc guid (py_round (stamp_time tick * 1000)) q' (set_metrics cmc guid q' s)) ibmetrics = Inr rs"
  shows "\<exists>s1 seeds'. send_switch c sizeof env table (tick, cmc, guid) s =
      mqtt_send_triplet_batch c sizeof (simulator_args s0) (stop_time tick) env rs s1 \<and>
    batch_sim c (simulator_args s0) (s0\<lparr>seed_map := seeds'\<rparr>) s1 (block_plan m s0 xs) \<and> sendable c (simulator_args s0) s1 \<and>
    s1 = set_metrics cmc guid q' s"
proof -
  let ?a = "simulator_args s0"
  define s1 where "s1 = set_metrics cmc guid q' s"
  obtain seeds' where s1: "s1 = s\<lparr>seed_map := seeds'\<rparr>" by (simp add: s1_def set_metrics_def)
  have sent1: "batch_sim c ?a (s0\<lparr>seed_map := seeds'\<rparr>) s1 (block_plan m s0 xs)"
    using batch_sim_seed[OF sent, of seeds'] by (simp add: s1)
  have ok1: "sendable c ?a s1" using ok by (simp add: s1 sendable_seed)
  have frame: "batch_frame s1 = batch_frame (s0\<lparr>seed_map := seeds'\<rparr>)" using sent1 by (simp add: batch_sim_def)
  have same: "simulator_args s1 = ?a"
    using batch_frame_fields[OF frame] by (simp add: simulator_args_def) (cases s1; cases s0; simp)
  have "send_switch c sizeof env table (tick, cmc, guid) s = mqtt_send_triplet_batch c sizeof ?a (stop_time tick) env rs s1"
    using rs by (simp add: send_switch_def q s1_def[symmetric] same Let_def)
  with sent1 ok1 s1_def show ?thesis by blast
qed

lemma no_stop_later:
  fixes s0 t :: "('b, 'z) simulator_scheme"
  assumes "batch_sim c a (s0\<lparr>seed_map := seeds\<rparr>) t (block_plan m s0 xs)" "myByteBatch s0 = []" "no_stop a (length xs + k) s0"
  shows "no_stop a k t"
proof -
  have "batch_sim c a (s0\<lparr>seed_map := seeds\<rparr>) t (block_plan m (s0\<lparr>seed_map := seeds\<rparr>) xs)" using assms(1) by (simp add: block_plan_def)
  from batch_sim_counter[OF this] assms(2) have count: "myMessageCounter t = myMessageCounter s0 + int (length xs)" by simp
  have "stop_number (sendNumberOfMessages a) (myMessageCounter t + int j) = None" if "j < k" for j
    using assms(3)[unfolded no_stop_def, rule_format, of "length xs + j"] that by (simp add: count add.assoc)
  then show ?thesis by (simp add: no_stop_def)
qed

lemma send_switch_records:
  fixes s :: "('b, 'z) simulator_scheme"
  assumes sent: "batch_sim c (simulator_args s0) (s0\<lparr>seed_map := seeds\<rparr>) s (block_plan m s0 xs)"
    and ok: "sendable c (simulator_args s0) s" and len: "is_batch_len (batch_full sizeof (simulator_args s0)) m"
    and fresh: "no_stop (simulator_args s0) (length xs + length rs) s0" "myByteBatch s0 = []"
      "myCurrentSubtopic s0 < myAgentMqttNumberOfPublishingTopics s0"
    and q: "metrics_of cmc guid s = Inr q" "simulate_metrics tick q = Inr q'"
    and rs: "res_map (metric_record table cmc guid (py_round (stamp_time tick * 1000)) q' (set_metrics cmc guid q' s)) ibmetrics = Inr rs"
  shows "\<exists>t seeds'. send_switch c sizeof env table (tick, cmc, guid) s = Return () t \<and> sendable c (simulator_args s0) t \<and>
    batch_sim c (simulator_args s0) (s0\<lparr>seed_map := seeds'\<rparr>) t (block_plan m s0 (xs @ rs)) \<and>
    seed_map t = seed_map (set_metrics cmc guid q' s)"
proof -
  let ?n = "myAgentMqttNumberOfPublishingTopics s0" and ?a = "simulator_args s0"
  from send_switch_prepares[OF sent ok q rs, of sizeof env] obtain s1 seeds' where
    send: "send_switch c sizeof env table (tick, cmc, guid) s = mqtt_send_triplet_batch c sizeof ?a (stop_time tick) env rs s1"
    and sent1: "batch_sim c ?a (s0\<lparr>seed_map := seeds'\<rparr>) s1 (block_plan m s0 xs)" and ok1: "sendable c ?a s1"
    and s1: "s1 = set_metrics cmc guid q' s" by blast
  from ok1 no_stop_later[OF sent1 fresh(2,1)] have safe: "sendable c ?a s1 \<and> no_stop ?a (length rs + 0) s1" by simp
  from send_loop.loop_refines[OF sent1 safe, of sizeof "stop_time tick" env]
  obtain t where t: "send_switch c sizeof env table (tick, cmc, guid) s = Return () t" "sendable c ?a t"
    "batch_sim c ?a (s0\<lparr>seed_map := seeds'\<rparr>) t (fold (plan_step (batch_full sizeof ?a) ?n) rs (block_plan m s0 xs))"
    unfolding send mqtt_send_triplet_batch_def by auto
  have "batch_frame t = batch_frame s1" using t(3) sent1 by (simp add: batch_sim_def)
  from batch_frame_fields(1)[OF this] have "seed_map t = seed_map s1" by (cases t; cases s1) simp
  with t show ?thesis unfolding block_plan_append[OF len fresh(3)] s1 by blast
qed

lemma no_limit: "simulator_limit s = - 1 \<Longrightarrow> 0 \<le> myMessageCounter s \<Longrightarrow> no_stop (simulator_args s) k s"
  by (simp add: no_stop_def simulator_args_def)

lemma send_switch_counts:
  fixes s :: "('b, 'z) simulator_scheme"
  assumes ready: "counting_ready c sizeof m s0" and sim: "counting_sim c m s0 s xs"
    and key: "(cmc, guid) \<in> set (switch_keys s0)"
  shows "\<exists>t rs. send_switch c sizeof env table (tick, cmc, guid) s = Return () t \<and> length rs = 2 \<and> counting_sim c m s0 t (xs @ rs)"
proof -
  let ?n = "myAgentMqttNumberOfPublishingTopics s0" and ?a = "simulator_args s0"
  from sim obtain seeds where sent: "batch_sim c ?a (s0\<lparr>seed_map := seeds\<rparr>) s (block_plan m s0 xs)"
    and ok: "sendable c ?a s" "seeded s" "switch_keys s = switch_keys s0"
    and stream: "even (length xs)" "counting_stream m ?n (myAgent_uuid s0) xs" by (auto simp: counting_sim_def)
  from ready have i: "myCurrentSubtopic s0 < ?n" and len: "is_batch_len (batch_full sizeof ?a) m"
    and fresh: "myBatchCounter s0 = replicate ?n 1" "simulator_limit s0 = - 1" "0 \<le> myMessageCounter s0"
      "myByteBatch s0 = []" "myEnableMQTTbatchesCounter s0 = Some True"
    by (simp_all add: counting_ready_def sendable_def)
  from key have "(cmc, guid) \<in> set (switch_keys s)" by (simp add: ok(3))
  with ok(2) obtain q where q: "metrics_of cmc guid s = Inr q" "three_counters \<subseteq> dom q" unfolding seeded_def by fast
  obtain q' where q': "simulate_metrics tick q = Inr q'" "dom q' = dom q" using simulate_metrics_Inr[OF q(2)] by blast
  let ?s1 = "set_metrics cmc guid q' s"
  have same: "myEnableMQTTbatchesCounter ?s1 = Some True" "myAgent_uuid ?s1 = myAgent_uuid s0"
    "myBatchCounter ?s1 = myBatchCounter s" "myCurrentSubtopic ?s1 = myCurrentSubtopic s"
    using batch_frame_fields(2,4)[of s "s0\<lparr>seed_map := seeds\<rparr>"] sent fresh(5) by (simp_all add: batch_sim_def set_metrics_def)
  note count = current_count[OF sent, of ?n, simplified, OF fresh(1) i]
  define r where "r = \<lparr>timestamp = py_round (stamp_time tick * 1000), sensorUuid = myAgent_uuid s0,
    sensorValue = of_int (int (1 + (length xs div m) div ?n))\<rparr>"
  have idx: "py_index (myBatchCounter ?s1) (myCurrentSubtopic ?s1) = Inr (int (1 + (length xs div m) div ?n))"
    using count unfolding same by (simp add: py_index_def)
  have "metric_record table cmc guid (py_round (stamp_time tick * 1000)) q' ?s1 metric = Inr r" for metric
    unfolding metric_record_def idx res_then_simps by (simp add: same r_def)
  then have "res_map (metric_record table cmc guid (py_round (stamp_time tick * 1000)) q' ?s1) ibmetrics = Inr [r, r]"
    by (simp add: ibmetrics_def)
  from send_switch_records[OF sent ok(1) len no_limit[OF fresh(2,3)] fresh(4) i q(1) q'(1) this, of env] obtain t seeds' where
    t: "send_switch c sizeof env table (tick, cmc, guid) s = Return () t" "sendable c ?a t"
    "batch_sim c ?a (s0\<lparr>seed_map := seeds'\<rparr>) t (block_plan m s0 (xs @ [r, r]))" "seed_map t = seed_map ?s1" by blast
  have "seeded ?s1" using seeded_set[OF ok(2) q(1)] q(2) q'(2) by simp
  then have "seeded t" "switch_keys t = switch_keys s" using t(4) seeded_seed switch_keys_set[of cmc guid q' s]
    by (auto simp: switch_keys_def)
  moreover have "counting_stream m ?n (myAgent_uuid s0) (xs @ [r, r])"
    by (rule counting_pair[OF stream(2,1)]) (auto simp: r_def)
  ultimately have "counting_sim c m s0 t (xs @ [r, r])"
    using t(2,3) ok(3) stream(1) by (auto simp: counting_sim_def)
  with t(1) show ?thesis by (intro exI[of _ t] exI[of _ "[r, r]"]) simp
qed

lemma switches_count:
  fixes s :: "('b, 'z) simulator_scheme"
  assumes ready: "counting_ready c sizeof m s0"
  shows "counting_sim c m s0 s xs \<Longrightarrow> set (map snd ks) \<subseteq> set (switch_keys s0) \<Longrightarrow>
    \<exists>t rs. for_each (send_switch c sizeof env table) ks s = Return () t \<and> length rs = 2 * length ks \<and> counting_sim c m s0 t (xs @ rs)"
proof (induction ks arbitrary: s xs)
  case (Cons k ks)
  obtain tick cmc guid where k: "k = (tick, cmc, guid)" by (cases k)
  with Cons.prems(2) have "(cmc, guid) \<in> set (switch_keys s0)" by simp
  from send_switch_counts[OF ready Cons.prems(1) this] obtain u rs where
    u: "send_switch c sizeof env table k s = Return () u" "length rs = 2" "counting_sim c m s0 u (xs @ rs)" unfolding k by blast
  from Cons.IH[OF u(3)] Cons.prems(2) obtain t rs' where "for_each (send_switch c sizeof env table) ks u = Return () t"
    "length rs' = 2 * length ks" "counting_sim c m s0 t ((xs @ rs) @ rs')" by auto
  with u show ?case by (intro exI[of _ t] exI[of _ "rs @ rs'"]) simp
next
  case Nil
  then show ?case by (intro exI[of _ s] exI[of _ "[]"]) simp
qed

text \<open>Turns of the loop: two samples per switch and turn.\<close>

lemma turns_count:
  fixes s0 :: "('b, 'z) simulator_scheme"
  assumes "counting_ready c sizeof m s0"
  shows "\<exists>t xs. send_turns c sizeof env table tick k s0 = Return () t \<and> counting_sim c m s0 t xs \<and>
    length xs = 2 * k * length (switch_keys s0)"
proof (induction k)
  case 0
  from counting_start[OF assms] show ?case by auto
next
  case (Suc k)
  then obtain u xs where u: "send_turns c sizeof env table tick k s0 = Return () u" "counting_sim c m s0 u xs"
    "length xs = 2 * k * length (switch_keys s0)" by blast
  have keys: "switch_keys u = switch_keys s0" using u(2) by (simp add: counting_sim_def)
  let ?ks = "map (\<lambda>(j, key). (tick k j, key)) (enumerate 0 (switch_keys u))"
  have "map snd ?ks = switch_keys s0" by (simp add: comp_def case_prod_beta keys)
  then have ks: "set (map snd ?ks) \<subseteq> set (switch_keys s0)" "length ?ks = length (switch_keys s0)" by (simp_all add: keys)
  from switches_count[OF assms u(2) ks(1), of env table] obtain t rs where
    "for_each (send_switch c sizeof env table) ?ks u = Return () t" "length rs = 2 * length ?ks" "counting_sim c m s0 t (xs @ rs)"
    by blast
  with u(1,3) ks(2) show ?case by (intro exI[of _ t] exI[of _ "xs @ rs"]) (simp add: send_turn_def algebra_simps)
qed

section \<open>The batches of a subtopic\<close>

definition turn_offset :: "nat \<Rightarrow> nat \<Rightarrow> nat \<Rightarrow> nat" where
  "turn_offset n i j = (j + n - i) mod n"

lemma turn_offset_0: "i < n \<Longrightarrow> j < n \<Longrightarrow> turn_offset n i j = 0 \<longleftrightarrow> j = i"
  using turn_now_iff[of i n j 0] by (auto simp: turn_offset_def)

lemma filter_turns:
  assumes "i < n" "j < n"
  shows "filter (\<lambda>k. (i + k) mod n = j) [0..<q] = map (\<lambda>k. turn_offset n i j + n * k) [0..<turn_share n i j q]"
proof (induction q)
  case 0
  have "turn_share n i j 0 = 0" using turn_count_share[OF assms, of 0] by (simp add: turn_count_def)
  then show ?case by simp
next
  case (Suc q)
  show ?case
  proof (cases "(i + q) mod n = j")
    case True
    then have "turn_share n i j q = q div n" using turn_share_current[OF assms(1), of q] by simp
    moreover have "turn_offset n i j = q mod n" using turn_now_iff[OF assms, of q] True by (simp add: turn_offset_def)
    ultimately have "q = turn_offset n i j + n * turn_share n i j q" by simp
    with Suc True turn_share_Suc[OF assms, of q] show ?thesis by simp
  next
    case False
    with Suc turn_share_Suc[OF assms, of q] show ?thesis by simp
  qed
qed

lemma blocks_of_turns:
  assumes "i < n" "j < n"
  shows "blocks_of j (blocks n m i xs) =
    map (\<lambda>k. segment m xs (turn_offset n i j + n * k)) [0..<turn_share n i j (length xs div m)]"
proof -
  have "blocks_of j (blocks n m i xs) = map (segment m xs) (filter (\<lambda>k. (i + k) mod n = j) [0..<length xs div m])"
    by (simp add: blocks_of_def blocks_def filter_map comp_def)
  then show ?thesis by (simp add: filter_turns[OF assms] comp_def)
qed

lemma turn_below:
  assumes "i < n" "j < n" "k < turn_share n i j q"
  shows "turn_offset n i j + n * k < q"
proof -
  have "turn_offset n i j + n * k \<in> set (filter (\<lambda>k. (i + k) mod n = j) [0..<q])"
    unfolding filter_turns[OF assms(1,2)] using assms(3) by auto
  then show ?thesis by simp
qed

text \<open>What a gateway reads from such a batch.\<close>

lemma py_trunc_exact:
  assumes "exact24 rnd" "v \<le> 2 ^ 24"
  shows "py_trunc (rnd (of_nat v)) = int v"
proof -
  have "\<bar>int v\<bar> \<le> 2 ^ 24" using assms(2) by simp
  with assms(1) have "rnd (of_int (int v)) = of_int (int v)" unfolding exact24_def by blast
  then show ?thesis by (simp add: py_trunc_def)
qed

lemma counts_of_segment:
  assumes "counting_stream m n u xs" "exact24 rnd" "length xs \<le> 2 ^ 24" "q < length xs div m"
  shows "counts_of u (map (narrow rnd) (segment m xs q)) = map (\<lambda>t. int (count_at m n t)) [q * m..<q * m + m]"
    and "v \<noteq> u \<Longrightarrow> counts_of v (map (narrow rnd) (segment m xs q)) = []"
proof -
  have bound: "q * m + m \<le> length xs" by (rule block_index[OF assms(4)])
  have seg: "segment m xs q = map ((!) xs) [q * m..<q * m + m]"
    using bound by (intro nth_equalityI) (simp_all add: segment_def)
  have at: "sensorUuid (xs ! t) = u" "sensorValue (xs ! t) = of_nat (count_at m n t)" if "t < q * m + m" for t
    using assms(1) that bound by (auto simp: counting_stream_def)
  have "count_at m n t \<le> 1 + t" for t
    unfolding count_at_def by (meson add_left_mono diff_le_self div_le_dividend le_trans)
  then have "py_trunc (rnd (of_nat (count_at m n t))) = int (count_at m n t)" if "t < q * m + m" for t
    using py_trunc_exact[OF assms(2), of "count_at m n t"] that bound assms(3) by (metis Suc_leI le_trans plus_1_eq_Suc)
  then show "counts_of u (map (narrow rnd) (segment m xs q)) = map (\<lambda>t. int (count_at m n t)) [q * m..<q * m + m]"
    using at by (simp add: counts_of_def seg narrow_def comp_def filter_map)
  show "counts_of v (map (narrow rnd) (segment m xs q)) = []" if "v \<noteq> u"
    using at that by (auto simp: counts_of_def seg narrow_def filter_empty_conv)
qed

lemma counts_of_concat: "counts_of u (concat tss) = concat (map (counts_of u) tss)"
  by (induction tss) (auto simp: counts_of_def)

lemma counts_of_turns:
  assumes stream: "counting_stream m n u xs" "exact24 rnd" "length xs \<le> 2 ^ 24" and "2 \<le> m" "i < n" "j < n"
    and ks: "set ks \<subseteq> {..<turn_share n i j (length xs div m)}"
  shows "counts_of u (concat (map (\<lambda>k. map (narrow rnd) (segment m xs (turn_offset n i j + n * k))) ks)) =
      concat (map (topic_counts m n (turn_offset n i j)) ks)"
    and "v \<noteq> u \<Longrightarrow> counts_of v (concat (map (\<lambda>k. map (narrow rnd) (segment m xs (turn_offset n i j + n * k))) ks)) = []"
proof -
  have d: "turn_offset n i j < n" using assms(5) by (simp add: turn_offset_def)
  have q: "turn_offset n i j + n * k < length xs div m" if "k \<in> set ks" for k
    using turn_below[OF assms(5,6)] ks that by auto
  note seg = counts_of_segment[OF stream q]
  show "counts_of u (concat (map (\<lambda>k. map (narrow rnd) (segment m xs (turn_offset n i j + n * k))) ks)) =
      concat (map (topic_counts m n (turn_offset n i j)) ks)"
    unfolding counts_of_concat map_map comp_def
    by (intro arg_cong[where f = concat] map_cong refl) (simp only: seg(1) block_counts[OF assms(4) d])
  show "counts_of v (concat (map (\<lambda>k. map (narrow rnd) (segment m xs (turn_offset n i j + n * k))) ks)) = []" if "v \<noteq> u"
    using seg(2) that by (auto simp: counts_of_concat)
qed

section \<open>The gateway\<close>

lemma gateway_silent_iff:
  assumes "list_all2 (carries c (fst topic)) (map snd msgs) tss" and "timely env msgs"
    and "in_service c env g" "mqttTopicList g = topic # rest" "mqttBatching g" "\<not> enableMQTTpassthrough g" "enableMQTTbatchCount g"
  shows "\<exists>t. gateway_run c env msgs g = Return () t \<and>
    (alarms t = alarms g \<longleftrightarrow> (\<forall>u. smooth (map_of (myMQTTtopicCounterPerUUID g) u) (counts_of u (concat tss))))"
proof -
  have "list_all2 (\<lambda>p. carries c (fst topic) (snd p)) msgs tss" using assms(1) by (simp add: list_all2_map1)
  from gateway_run_batches[OF this assms(2-6)] obtain t where t: "gateway_run c env msgs g = Return () t"
    "alarms t = view_alarms (view_run c (accepts env) g (concat tss))" by blast
  have "alarms g = view_alarms (view_of g)" "map_of (myMQTTtopicCounterPerUUID g) = map_of (view_counts (view_of g))"
    by (simp_all add: view_of_def)
  with t assms(7) show ?thesis by (simp add: view_run_def fold_silent_iff)
qed

text \<open>The messages of a counting run on a subtopic, and the samples they carry.\<close>

lemma counting_run_messages:
  assumes laws: "codec_laws c rnd" and ready: "counting_ready c sizeof m s0" and run: "counting_sim c m s0 s xs"
    and i: "i < myAgentMqttNumberOfPublishingTopics s0"
  shows "\<exists>acts. net s = net s0 @ acts \<and> counting_stream m (myAgentMqttNumberOfPublishingTopics s0) (myAgent_uuid s0) xs \<and>
    list_all2 (carries c (subtopic ''ibswitch'' i)) (messages_on (subtopic ''ibswitch'' i) acts)
      (map (\<lambda>k. map (narrow rnd) (segment m xs (turn_offset (myAgentMqttNumberOfPublishingTopics s0) (myCurrentSubtopic s0) i +
        myAgentMqttNumberOfPublishingTopics s0 * k)))
      [0..<turn_share (myAgentMqttNumberOfPublishingTopics s0) (myCurrentSubtopic s0) i (length xs div m)])"
proof -
  let ?n = "myAgentMqttNumberOfPublishingTopics s0" and ?i = "myCurrentSubtopic s0"
  have start: "?i < ?n" using ready by (simp add: counting_ready_def sendable_def)
  from run obtain seeds where "batch_sim c (simulator_args s0) (s0\<lparr>seed_map := seeds\<rparr>) s (block_plan m s0 xs)"
    and stream: "counting_stream m ?n (myAgent_uuid s0) xs" by (auto simp: counting_sim_def)
  then obtain acts where acts: "net s = net s0 @ acts"
    "list_all2 (publishes c (send_time_series_druid_array_id (schemas s0)) ''ibswitch'') (blocks ?n m ?i xs) acts"
    by (auto simp: batch_sim_def block_plan_def simulator_args_def)
  with stream published_messages[OF laws acts(2), of i] show ?thesis
    by (simp add: blocks_of_turns[OF start i] comp_def)
qed

text \<open>A gateway that gets the batches \<open>ks\<close> of a counting run, and knows no sender yet.\<close>

lemma gateway_reads_counts:
  assumes laws: "codec_laws c rnd" "exact24 rnd" and ready: "counting_ready c sizeof m s0" "2 \<le> m"
    and run: "counting_sim c m s0 s xs" "length xs \<le> 2 ^ 24"
    and gateway: "in_service c env g" "mqttTopicList g = (subtopic ''ibswitch'' i, q) # rest" "mqttBatching g"
      "\<not> enableMQTTpassthrough g" "enableMQTTbatchCount g" "myMQTTtopicCounterPerUUID g = []"
    and i: "i < myAgentMqttNumberOfPublishingTopics s0"
  shows "\<exists>acts. net s = net s0 @ acts \<and>
    length (messages_on (subtopic ''ibswitch'' i) acts) =
      turn_share (myAgentMqttNumberOfPublishingTopics s0) (myCurrentSubtopic s0) i (length xs div m) \<and>
    (\<forall>msgs ks. timely env msgs \<and> map snd msgs = map ((!) (messages_on (subtopic ''ibswitch'' i) acts)) ks \<and>
        list_all (\<lambda>k. k < length (messages_on (subtopic ''ibswitch'' i) acts)) ks \<longrightarrow>
      (\<exists>t. gateway_run c env msgs g = Return () t \<and> (alarms t = alarms g \<longleftrightarrow>
        smooth None (concat (map (topic_counts m (myAgentMqttNumberOfPublishingTopics s0)
          (turn_offset (myAgentMqttNumberOfPublishingTopics s0) (myCurrentSubtopic s0) i)) ks)))))"
proof -
  let ?n = "myAgentMqttNumberOfPublishingTopics s0" and ?i = "myCurrentSubtopic s0" and ?topic = "subtopic ''ibswitch'' i"
  let ?d = "turn_offset ?n ?i i" and ?seg = "\<lambda>k. map (narrow rnd) (segment m xs (turn_offset ?n ?i i + ?n * k))"
  let ?K = "turn_share ?n ?i i (length xs div m)"
  have start: "?i < ?n" using ready(1) by (simp add: counting_ready_def sendable_def)
  from counting_run_messages[OF laws(1) ready(1) run(1) i] obtain acts where acts: "net s = net s0 @ acts"
    and stream: "counting_stream m ?n (myAgent_uuid s0) xs"
    and M: "list_all2 (carries c ?topic) (messages_on ?topic acts) (map ?seg [0..<?K])" by blast
  let ?M = "messages_on ?topic acts"
  from M have len: "length ?M = ?K" by (auto dest: list_all2_lengthD)
  have "\<exists>t. gateway_run c env msgs g = Return () t \<and>
      (alarms t = alarms g \<longleftrightarrow> smooth None (concat (map (topic_counts m ?n ?d) ks)))"
    if msgs: "timely env msgs" "map snd msgs = map ((!) ?M) ks" "list_all (\<lambda>k. k < length ?M) ks" for msgs ks
  proof -
    have ks: "set ks \<subseteq> {..<?K}" using msgs(3) by (auto simp: list_all_iff len)
    have "list_all2 (carries c ?topic) (map ((!) ?M) ks) (map ?seg ks)"
      using list_all2_nthD[OF M] ks by (auto simp: list_all2_map1 list_all2_map2 len intro!: list.rel_refl_strong)
    then have "list_all2 (carries c (fst (?topic, q))) (map snd msgs) (map ?seg ks)" by (simp add: msgs(2))
    from gateway_silent_iff[OF this msgs(1) gateway(1-5)] obtain t where t: "gateway_run c env msgs g = Return () t"
      "alarms t = alarms g \<longleftrightarrow> (\<forall>u. smooth (map_of (myMQTTtopicCounterPerUUID g) u) (counts_of u (concat (map ?seg ks))))"
      by blast
    note counts = counts_of_turns[OF stream laws(2) run(2) ready(2) start i ks]
    have "(\<forall>u. smooth (map_of (myMQTTtopicCounterPerUUID g) u) (counts_of u (concat (map ?seg ks)))) \<longleftrightarrow>
        smooth None (counts_of (myAgent_uuid s0) (concat (map ?seg ks)))"
    proof
      assume s: "smooth None (counts_of (myAgent_uuid s0) (concat (map ?seg ks)))"
      show "\<forall>u. smooth (map_of (myMQTTtopicCounterPerUUID g) u) (counts_of u (concat (map ?seg ks)))"
      proof
        fix u
        show "smooth (map_of (myMQTTtopicCounterPerUUID g) u) (counts_of u (concat (map ?seg ks)))"
          using s counts(2)[of u] by (cases "u = myAgent_uuid s0") (simp_all add: gateway(6))
      qed
    qed (simp add: gateway(6))
    with t counts(1) show ?thesis by simp
  qed
  with acts len show ?thesis by blast
qed

end
