(* ===== verification/Counting_Props.thy ===== *)
theory Counting_Props
  imports Counting FanIn_Props
begin

text \<open>
  The detector of lost batches against the simulator that feeds it: it is silent while nothing is
  lost, and of a single lost batch it sees exactly what \<open>Counting_Spec\<close> says.
\<close>

section \<open>Nothing lost\<close>

text \<open>C10: The detector of lost batches raises no false alarm. Let a simulator with
  --enableMQTTbatchesCounter start fresh and without a limit, with batches of m >= 2 samples, and
  run any number of turns of its loop (up to 2^24 samples, the integers a float holds): the turns
  return, and the gateway of a subtopic that gets all the messages published there, in order,
  reports no missing batch, whatever the seeds, the random numbers and the times.\<close>

theorem counting_raises_no_false_alarm:
  fixes s :: "('b, 'z) simulator_scheme" and g :: "('b, 'y) fanin_scheme"
  assumes laws: "codec_laws c rnd" "exact24 rnd" and ready: "counting_ready c sizeof m s" "2 \<le> m"
    and small: "2 * k * length (switch_keys s) \<le> 2 ^ 24"
    and gateway: "in_service c kenv g" "mqttTopicList g = (subtopic ''ibswitch'' i, q) # rest" "mqttBatching g"
      "\<not> enableMQTTpassthrough g" "enableMQTTbatchCount g" "myMQTTtopicCounterPerUUID g = []"
    and i: "i < myAgentMqttNumberOfPublishingTopics s"
  shows "\<exists>t acts. send_turns c sizeof env table tick k s = Return () t \<and> net t = net s @ acts \<and>
    (\<forall>msgs. map snd msgs = messages_on (subtopic ''ibswitch'' i) acts \<and> timely kenv msgs \<longrightarrow>
      (\<exists>g'. gateway_run c kenv msgs g = Return () g' \<and> alarms g' = alarms g))"
proof -
  let ?M = "\<lambda>acts. messages_on (subtopic ''ibswitch'' i) acts"
  from turns_count[OF ready(1)] obtain t xs where t: "send_turns c sizeof env table tick k s = Return () t"
    "counting_sim c m s t xs" "length xs = 2 * k * length (switch_keys s)" by blast
  have "length xs \<le> 2 ^ 24" using t(3) small by simp
  from gateway_reads_counts[OF laws ready t(2) this gateway i] obtain acts where acts: "net t = net s @ acts"
    "\<And>msgs ks. timely kenv msgs \<and> map snd msgs = map ((!) (?M acts)) ks \<and> list_all (\<lambda>k. k < length (?M acts)) ks \<Longrightarrow>
      (\<exists>g'. gateway_run c kenv msgs g = Return () g' \<and> (alarms g' = alarms g \<longleftrightarrow>
        smooth None (concat (map (topic_counts m (myAgentMqttNumberOfPublishingTopics s)
          (turn_offset (myAgentMqttNumberOfPublishingTopics s) (myCurrentSubtopic s) i)) ks))))" by blast
  have "\<exists>g'. gateway_run c kenv msgs g = Return () g' \<and> alarms g' = alarms g"
    if "map snd msgs = ?M acts" "timely kenv msgs" for msgs
    using acts(2)[of msgs "[0..<length (?M acts)]"] that counts_smooth[OF ready(2)]
    by (simp add: map_nth list_all_iff counts_from_def)
  with t(1) acts(1) show ?thesis by blast
qed

definition counting_demo :: "wire simulator" where
  "counting_demo = (demo_simulator True 100 1)\<lparr>seed_map := [(''r1i0c-ibswitch'',
     [(''A'', [''SymbolErrorCounter'' \<mapsto> 7, ''LinkDownedCounter'' \<mapsto> 0, ''PortXmitDiscards'' \<mapsto> 0, ''PortXmitData'' \<mapsto> 9])])]\<rparr>"

definition silent_env :: "wire simulator net_env" where
  "silent_env = \<lparr>connect_error = None, subscribe_rc = (\<lambda>_. 0), is_published = True, network = (\<lambda>_ s. s)\<rparr>"

lemma counting_demo_simps:
  "length (switch_keys counting_demo) = 1" "myAgentMqttNumberOfPublishingTopics counting_demo = 1"
  "myCurrentSubtopic counting_demo = 0" "net counting_demo = []"
  by (simp_all add: counting_demo_def demo_simulator_def agent.extend_def switch_keys_def)

lemma counting_demo_ready: "counting_ready tag_codec cpython_getsizeof 5 counting_demo"
proof -
  have "is_batch_len (batch_full cpython_getsizeof (simulator_args counting_demo)) 5"
    by (rule batch_len_100) (simp add: simulator_args_def counting_demo_def demo_simulator_def agent.extend_def)
  moreover have "seeded counting_demo"
    by (simp add: seeded_def three_counters_def switch_keys_def metrics_of_def counting_demo_def demo_simulator_def agent.extend_def)
  moreover have "sendable tag_codec (simulator_args counting_demo) counting_demo"
    by (simp add: sendable_def simulator_args_def counting_demo_def demo_simulator_def agent.extend_def demo_agent_def tag_codec_def)
  ultimately show ?thesis
    by (simp add: counting_ready_def) (simp add: counting_demo_def demo_simulator_def agent.extend_def demo_agent_def)
qed

lemma counting_gateway:
  "in_service tag_codec (demo_kafka (\<lambda>_. None)) (demo_gateway True True False)"
  "mqttTopicList (demo_gateway True True False) = (subtopic ''ibswitch'' 0, 0) # [(''registration-result'', 0)]"
  "timely (demo_kafka (\<lambda>_. None)) (map (Pair (\<lambda>_. 1 / 8)) msgs)"
proof -
  show "in_service tag_codec (demo_kafka (\<lambda>_. None)) (demo_gateway True True False)" by (rule demo_in_service) simp
  have "subtopic ''ibswitch'' 0 = ''ibswitch/0''" by code_simp
  then show "mqttTopicList (demo_gateway True True False) = (subtopic ''ibswitch'' 0, 0) # [(''registration-result'', 0)]" by simp
  show "timely (demo_kafka (\<lambda>_. None)) (map (Pair (\<lambda>_. 1 / 8)) msgs)"
    using half_eighth by (auto simp: timely_def demo_kafka_def)
qed

lemma exact24_id: "exact24 (\<lambda>x. x)"
  by (simp add: exact24_def)

theorem counting_raises_no_false_alarm_witness:
  "\<exists>t g'. send_turns tag_codec cpython_getsizeof silent_env [] (\<lambda>_ _. busy_tick) 10 counting_demo = Return () t \<and>
    gateway_run tag_codec (demo_kafka (\<lambda>_. None)) (map (Pair (\<lambda>_. 1 / 8)) (messages_on (subtopic ''ibswitch'' 0) (net t)))
      (demo_gateway True True False) = Return () g' \<and> alarms g' = alarms (demo_gateway True True False)"
proof -
  have "2 * 10 * length (switch_keys counting_demo) \<le> 2 ^ 24" "(0::nat) < myAgentMqttNumberOfPublishingTopics counting_demo" "(2::nat) \<le> 5"
    by (simp_all add: counting_demo_simps)
  note run = counting_raises_no_false_alarm[OF tag_codec_laws exact24_id counting_demo_ready this(3) this(1) counting_gateway(1,2) _ _ _ _ this(2),
    of silent_env "[]" "\<lambda>_ _. busy_tick"]
  then obtain t where t: "send_turns tag_codec cpython_getsizeof silent_env [] (\<lambda>_ _. busy_tick) 10 counting_demo = Return () t"
    "\<And>msgs. map snd msgs = messages_on (subtopic ''ibswitch'' 0) (net t) \<and> timely (demo_kafka (\<lambda>_. None)) msgs \<Longrightarrow>
      (\<exists>g'. gateway_run tag_codec (demo_kafka (\<lambda>_. None)) msgs (demo_gateway True True False) = Return () g' \<and>
        alarms g' = alarms (demo_gateway True True False))"
    by (auto simp: counting_demo_simps)
  from t(1) t(2)[of "map (Pair (\<lambda>_. 1 / 8)) (messages_on (subtopic ''ibswitch'' 0) (net t))"] counting_gateway(3)
  show ?thesis by (auto simp: comp_def)
qed

section \<open>One batch lost\<close>

text \<open>C9: Which lost batches the detector sees. In the same setting, let the gateway of subtopic i get all the
  messages of a run but the b-th (counted from 0), which is not the last: it reports missing
  batches, except if i is the subtopic the simulator started on, the number of subtopics and the
  batch length are both odd, and b is even; then it reports nothing. (With one subtopic and the
  shipped batch size, 47 samples, the loss of every other batch goes unseen: the last sample of a
  pair that straddles two batches carries the count of the batch before.)\<close>

theorem lost_batch_seen_iff:
  fixes s :: "('b, 'z) simulator_scheme" and g :: "('b, 'y) fanin_scheme"
  assumes laws: "codec_laws c rnd" "exact24 rnd" and ready: "counting_ready c sizeof m s" "2 \<le> m"
    and small: "2 * k * length (switch_keys s) \<le> 2 ^ 24"
    and gateway: "in_service c kenv g" "mqttTopicList g = (subtopic ''ibswitch'' i, q) # rest" "mqttBatching g"
      "\<not> enableMQTTpassthrough g" "enableMQTTbatchCount g" "myMQTTtopicCounterPerUUID g = []"
    and i: "i < myAgentMqttNumberOfPublishingTopics s"
    and lost: "Suc b < turn_share (myAgentMqttNumberOfPublishingTopics s) (myCurrentSubtopic s) i (2 * k * length (switch_keys s) div m)"
  shows "\<exists>t acts. send_turns c sizeof env table tick k s = Return () t \<and> net t = net s @ acts \<and>
    (let M = messages_on (subtopic ''ibswitch'' i) acts in Suc b < length M \<and>
     (\<forall>msgs. map snd msgs = take b M @ drop (Suc b) M \<and> timely kenv msgs \<longrightarrow>
      (\<exists>g'. gateway_run c kenv msgs g = Return () g' \<and>
        (alarms g' \<noteq> alarms g \<longleftrightarrow>
           \<not> (i = myCurrentSubtopic s \<and> odd (myAgentMqttNumberOfPublishingTopics s) \<and> odd m \<and> even b)))))"
proof -
  let ?n = "myAgentMqttNumberOfPublishingTopics s" and ?M = "\<lambda>acts. messages_on (subtopic ''ibswitch'' i) acts"
  let ?d = "turn_offset ?n (myCurrentSubtopic s) i"
  from turns_count[OF ready(1)] obtain t xs where t: "send_turns c sizeof env table tick k s = Return () t"
    "counting_sim c m s t xs" "length xs = 2 * k * length (switch_keys s)" by blast
  have "length xs \<le> 2 ^ 24" using t(3) small by simp
  from gateway_reads_counts[OF laws ready t(2) this gateway i] obtain acts where acts: "net t = net s @ acts"
    "length (?M acts) = turn_share ?n (myCurrentSubtopic s) i (length xs div m)"
    "\<And>msgs ks. timely kenv msgs \<and> map snd msgs = map ((!) (?M acts)) ks \<and> list_all (\<lambda>k. k < length (?M acts)) ks \<Longrightarrow>
      (\<exists>g'. gateway_run c kenv msgs g = Return () g' \<and> (alarms g' = alarms g \<longleftrightarrow> smooth None (concat (map (topic_counts m ?n ?d) ks))))"
    by blast
  have b: "Suc b < length (?M acts)" using lost by (simp add: acts(2) t(3))
  let ?ks = "[0..<b] @ [Suc b..<length (?M acts)]"
  have start: "myCurrentSubtopic s < ?n" using ready(1) by (simp add: counting_ready_def sendable_def)
  have seen: "smooth None (concat (map (topic_counts m ?n ?d) ?ks)) \<longleftrightarrow>
      i = myCurrentSubtopic s \<and> odd ?n \<and> odd m \<and> even b"
    using one_lost_smooth_iff[OF ready(2) b, of ?n ?d] turn_offset_0[OF start i] by (auto simp: counts_from_def stale_def)
  have M: "take b (?M acts) @ drop (Suc b) (?M acts) = map ((!) (?M acts)) ?ks"
    using b by (intro nth_equalityI) (auto simp: nth_append)
  have "\<exists>g'. gateway_run c kenv msgs g = Return () g' \<and> (alarms g' \<noteq> alarms g \<longleftrightarrow>
      \<not> (i = myCurrentSubtopic s \<and> odd ?n \<and> odd m \<and> even b))"
    if "map snd msgs = take b (?M acts) @ drop (Suc b) (?M acts)" "timely kenv msgs" for msgs
  proof -
    have "list_all (\<lambda>k. k < length (?M acts)) ?ks" using b by (auto simp: list_all_iff)
    with acts(3)[of msgs ?ks] that obtain g' where "gateway_run c kenv msgs g = Return () g'"
      "alarms g' = alarms g \<longleftrightarrow> i = myCurrentSubtopic s \<and> odd ?n \<and> odd m \<and> even b" unfolding M seen by blast
    then show ?thesis by blast
  qed
  with t(1) acts(1) b show ?thesis unfolding Let_def by blast
qed

theorem lost_batch_seen_iff_witness:
  "\<exists>t g'. send_turns tag_codec cpython_getsizeof silent_env [] (\<lambda>_ _. busy_tick) 10 counting_demo = Return () t \<and>
    1 < length (messages_on (subtopic ''ibswitch'' 0) (net t)) \<and>
    gateway_run tag_codec (demo_kafka (\<lambda>_. None)) (map (Pair (\<lambda>_. 1 / 8)) (drop 1 (messages_on (subtopic ''ibswitch'' 0) (net t))))
      (demo_gateway True True False) = Return () g' \<and> alarms g' = alarms (demo_gateway True True False)"
proof -
  have c: "2 * 10 * length (switch_keys counting_demo) \<le> 2 ^ 24" "(0::nat) < myAgentMqttNumberOfPublishingTopics counting_demo" "(2::nat) \<le> 5"
    by (simp_all add: counting_demo_simps)
  have lost: "Suc 0 < turn_share (myAgentMqttNumberOfPublishingTopics counting_demo) (myCurrentSubtopic counting_demo) 0
      (2 * 10 * length (switch_keys counting_demo) div 5)"
    by (simp add: counting_demo_simps turn_share_def)
  note run = lost_batch_seen_iff[OF tag_codec_laws exact24_id counting_demo_ready c(3,1) counting_gateway(1,2) _ _ _ _ c(2) lost,
    of silent_env "[]" "\<lambda>_ _. busy_tick"]
  then obtain t where t: "send_turns tag_codec cpython_getsizeof silent_env [] (\<lambda>_ _. busy_tick) 10 counting_demo = Return () t"
    "Suc 0 < length (messages_on (subtopic ''ibswitch'' 0) (net t))"
    "\<And>msgs. map snd msgs = drop 1 (messages_on (subtopic ''ibswitch'' 0) (net t)) \<and> timely (demo_kafka (\<lambda>_. None)) msgs \<Longrightarrow>
      (\<exists>g'. gateway_run tag_codec (demo_kafka (\<lambda>_. None)) msgs (demo_gateway True True False) = Return () g' \<and>
        alarms g' = alarms (demo_gateway True True False))"
    by (auto simp: counting_demo_simps Let_def)
  from t(1,2) t(3)[of "map (Pair (\<lambda>_. 1 / 8)) (drop 1 (messages_on (subtopic ''ibswitch'' 0) (net t)))"] counting_gateway(3)
  show ?thesis by (auto simp: comp_def)
qed

end
