(* ===== verification/Senders.thy ===== *)
theory Senders
  imports Counting_Props
begin

text \<open>
  Several simulators on one subtopic: the broker delivers their messages in any order that keeps
  the order of each sender. The detector of lost batches keeps the senders apart.
\<close>

section \<open>Interleavings\<close>

text \<open>An interleaving of the lists \<open>f 0\<close>, \<open>f 1\<close>, ..., all but finitely many of them empty.\<close>

inductive interleaving :: "(nat \<Rightarrow> 'a list) \<Rightarrow> 'a list \<Rightarrow> bool" where
  nothing_left: "(\<And>j. f j = []) \<Longrightarrow> interleaving f []"
| next_from: "f j = x # xs \<Longrightarrow> interleaving (f(j := xs)) ys \<Longrightarrow> interleaving f (x # ys)"

lemma interleaving_all2:
  "interleaving f ms \<Longrightarrow> (\<And>j. list_all2 R (f j) (T j)) \<Longrightarrow> \<exists>ts. list_all2 R ms ts \<and> interleaving T ts"
proof (induction f ms arbitrary: T rule: interleaving.induct)
  case (nothing_left f)
  then have "\<And>j. T j = []" by (metis list_all2_Nil)
  then show ?case by (auto intro: interleaving.nothing_left)
next
  case (next_from f j x xs ys)
  then obtain t ts where T: "T j = t # ts" "R x t" "list_all2 R xs ts" by (metis list_all2_Cons1)
  with next_from.prems have "list_all2 R ((f(j := xs)) k) ((T(j := ts)) k)" for k by simp
  with next_from.IH[of "T(j := ts)"] obtain us where "list_all2 R ys us" "interleaving (T(j := ts)) us" by blast
  with T show ?case by (metis interleaving.next_from list_all2_Cons)
qed

text \<open>What one sender contributes is not disturbed by the others.\<close>

lemma interleaving_own:
  "interleaving T ts \<Longrightarrow> (\<And>j t. j \<noteq> k \<Longrightarrow> t \<in> set (T j) \<Longrightarrow> h t = []) \<Longrightarrow> concat (map h ts) = concat (map h (T k))"
proof (induction T ts rule: interleaving.induct)
  case (next_from f j x xs ys)
  have "concat (map h ys) = concat (map h ((f(j := xs)) k))"
    by (rule next_from.IH) (use next_from.hyps(1) next_from.prems in \<open>auto split: if_splits\<close>)
  with next_from.hyps(1) next_from.prems[of j x] show ?case by (cases "j = k") auto
qed simp

lemma interleaving_first: "interleaving (f(j := [])) ys \<Longrightarrow> interleaving f (f j @ ys)"
proof (induction "f j" arbitrary: f)
  case Nil
  then show ?case by (metis append_Nil fun_upd_triv)
next
  case (Cons x xs)
  then have "interleaving (f(j := xs)) ((f(j := xs)) j @ ys)" by (intro Cons.hyps(1)) simp_all
  with Cons.hyps(2) show ?case by (metis append_Cons fun_upd_same next_from)
qed

section \<open>The detector\<close>

text \<open>The messages of a counting run: smooth counts of its own, none of anybody else.\<close>

lemma counting_run_smooth:
  assumes laws: "codec_laws c rnd" "exact24 rnd" and ready: "counting_ready c sizeof m s" "2 \<le> m"
    and small: "2 * k * length (switch_keys s) \<le> 2 ^ 24" and i: "i < myAgentMqttNumberOfPublishingTopics s"
  shows "\<exists>t acts tss. send_turns c sizeof env table tick k s = Return () t \<and> net t = net s @ acts \<and>
    list_all2 (carries c (subtopic ''ibswitch'' i)) (messages_on (subtopic ''ibswitch'' i) acts) tss \<and>
    smooth None (counts_of (myAgent_uuid s) (concat tss)) \<and>
    (\<forall>ts \<in> set tss. \<forall>u. u \<noteq> myAgent_uuid s \<longrightarrow> counts_of u ts = [])"
proof -
  let ?n = "myAgentMqttNumberOfPublishingTopics s" and ?i = "myCurrentSubtopic s"
  have start: "?i < ?n" using ready(1) by (simp add: counting_ready_def sendable_def)
  from turns_count[OF ready(1)] obtain t xs where t: "send_turns c sizeof env table tick k s = Return () t"
    "counting_sim c m s t xs" "length xs = 2 * k * length (switch_keys s)" by blast
  let ?K = "turn_share ?n ?i i (length xs div m)"
  let ?seg = "\<lambda>k. map (narrow rnd) (segment m xs (turn_offset ?n ?i i + ?n * k))"
  from counting_run_messages[OF laws(1) ready(1) t(2) i] obtain acts where acts: "net t = net s @ acts"
    "counting_stream m ?n (myAgent_uuid s) xs"
    "list_all2 (carries c (subtopic ''ibswitch'' i)) (messages_on (subtopic ''ibswitch'' i) acts) (map ?seg [0..<?K])" by blast
  have short: "length xs \<le> 2 ^ 24" using t(3) small by simp
  have ks: "set [0..<?K] \<subseteq> {..<?K}" by auto
  note counts = counts_of_turns[OF acts(2) laws(2) short ready(2) start i ks]
  have "smooth None (counts_of (myAgent_uuid s) (concat (map ?seg [0..<?K])))"
    unfolding counts(1) using counts_smooth[OF ready(2)] by (simp add: counts_from_def)
  moreover have "counts_of u ts = []" if "ts \<in> set (map ?seg [0..<?K])" "u \<noteq> myAgent_uuid s" for ts u
    using counts(2)[OF that(2)] that(1) by (auto simp: counts_of_concat)
  ultimately show ?thesis using t(1) acts(1,3) by blast
qed

text \<open>C11: The detector keeps the senders apart. Let several simulators with --enableMQTTbatchesCounter and
  distinct UUIDs, each with its own number of subtopics, batch length, seeds, random numbers and
  times, run any numbers of turns; a gateway of subtopic i that gets all the messages they
  published there, in any interleaving that keeps the order of each, reports no missing batch.\<close>

theorem interleaved_senders_no_false_alarm:
  fixes s :: "nat \<Rightarrow> ('b, 'z) simulator_scheme" and g :: "('b, 'y) fanin_scheme"
  assumes laws: "codec_laws c rnd" "exact24 rnd"
    and ready: "\<And>j. j < N \<Longrightarrow> counting_ready c (sizeof j) (m j) (s j) \<and> 2 \<le> m j \<and>
      2 * k j * length (switch_keys (s j)) \<le> 2 ^ 24 \<and> i < myAgentMqttNumberOfPublishingTopics (s j)"
    and uuids: "inj_on (\<lambda>j. myAgent_uuid (s j)) {..<N}"
    and gateway: "in_service c kenv g" "mqttTopicList g = (subtopic ''ibswitch'' i, q) # rest" "mqttBatching g"
      "\<not> enableMQTTpassthrough g" "enableMQTTbatchCount g" "myMQTTtopicCounterPerUUID g = []"
  shows "\<exists>t acts. (\<forall>j \<in> {..<N}. send_turns c (sizeof j) (env j) (table j) (tick j) (k j) (s j) = Return () (t j) \<and>
      net (t j) = net (s j) @ acts j) \<and>
    (\<forall>msgs. interleaving (\<lambda>j. if j < N then messages_on (subtopic ''ibswitch'' i) (acts j) else []) (map snd msgs) \<and>
        timely kenv msgs \<longrightarrow>
      (\<exists>g'. gateway_run c kenv msgs g = Return () g' \<and> alarms g' = alarms g))"
proof -
  have "\<exists>t acts tss. send_turns c (sizeof j) (env j) (table j) (tick j) (k j) (s j) = Return () t \<and> net t = net (s j) @ acts \<and>
    list_all2 (carries c (subtopic ''ibswitch'' i)) (messages_on (subtopic ''ibswitch'' i) acts) tss \<and>
    smooth None (counts_of (myAgent_uuid (s j)) (concat tss)) \<and>
    (\<forall>ts \<in> set tss. \<forall>u. u \<noteq> myAgent_uuid (s j) \<longrightarrow> counts_of u ts = [])" if "j < N" for j
    using counting_run_smooth[OF laws, of "sizeof j" "m j" "s j" "k j" i "env j" "table j" "tick j"] ready[OF that] by blast
  then obtain t acts tss where run: "j < N \<Longrightarrow> send_turns c (sizeof j) (env j) (table j) (tick j) (k j) (s j) = Return () (t j) \<and>
      net (t j) = net (s j) @ acts j \<and>
      list_all2 (carries c (subtopic ''ibswitch'' i)) (messages_on (subtopic ''ibswitch'' i) (acts j)) (tss j) \<and>
      smooth None (counts_of (myAgent_uuid (s j)) (concat (tss j))) \<and>
      (\<forall>ts \<in> set (tss j). \<forall>u. u \<noteq> myAgent_uuid (s j) \<longrightarrow> counts_of u ts = [])" for j
    by metis
  let ?M = "\<lambda>j. if j < N then messages_on (subtopic ''ibswitch'' i) (acts j) else []" and ?T = "\<lambda>j. if j < N then tss j else []"
  have "\<exists>g'. gateway_run c kenv msgs g = Return () g' \<and> alarms g' = alarms g"
    if msgs: "interleaving ?M (map snd msgs)" "timely kenv msgs" for msgs
  proof -
    have "list_all2 (carries c (fst (subtopic ''ibswitch'' i, q))) (?M j) (?T j)" for j using run by simp
    from interleaving_all2[OF msgs(1) this] obtain ts where ts: "interleaving ?T ts"
      "list_all2 (carries c (fst (subtopic ''ibswitch'' i, q))) (map snd msgs) ts" by blast
    have "smooth None (counts_of u (concat ts))" for u
    proof (cases "\<exists>j<N. myAgent_uuid (s j) = u")
      case True
      then obtain j where j: "j < N" "myAgent_uuid (s j) = u" by blast
      have "counts_of u t = []" if "j' \<noteq> j" "t \<in> set (?T j')" for j' t
      proof -
        from that(2) have "j' < N" "t \<in> set (tss j')" by (simp_all split: if_splits)
        moreover from j that(1) \<open>j' < N\<close> have "u \<noteq> myAgent_uuid (s j')" using inj_onD[OF uuids, of j' j] by auto
        ultimately show ?thesis using run by blast
      qed
      with interleaving_own[OF ts(1), of j "counts_of u"] j run[of j] show ?thesis by (simp add: counts_of_concat)
    next
      case False
      then have "counts_of u t = []" if "t \<in> set (?T j')" for j' t
        using run[of j'] that by (auto split: if_splits)
      with interleaving_own[OF ts(1), of N "counts_of u"] show ?thesis by (simp add: counts_of_concat del: concat_eq_Nil_conv)
    qed
    with gateway_silent_iff[OF ts(2) msgs(2) gateway(1-5)] show ?thesis by (auto simp: gateway(6))
  qed
  with run show ?thesis by (intro exI[of _ t] exI[of _ acts]) simp
qed

definition two_senders :: "nat \<Rightarrow> wire simulator" where
  "two_senders j = counting_demo\<lparr>myAgent_uuid := Uuid (if j = 0 then ''r1'' else ''r2'')\<rparr>"

lemma counting_ready_uuid: "counting_ready c sizeof m (s\<lparr>myAgent_uuid := u\<rparr>) = counting_ready c sizeof m (s :: ('b, 'z) simulator_scheme)"
proof -
  have "seeded (s\<lparr>myAgent_uuid := u\<rparr>) = seeded s" by (simp add: seeded_def switch_keys_def metrics_of_def)
  moreover have "batch_full sizeof (simulator_args (s\<lparr>myAgent_uuid := u\<rparr>)) = batch_full sizeof (simulator_args s)"
    by (simp add: fun_eq_iff batch_full_def simulator_args_def)
  moreover have "sendable c (simulator_args (s\<lparr>myAgent_uuid := u\<rparr>)) (s\<lparr>myAgent_uuid := u\<rparr>) = sendable c (simulator_args s) s"
    by (simp add: sendable_def simulator_args_def)
  ultimately show ?thesis by (simp add: counting_ready_def)
qed

lemma two_senders_simps:
  "counting_ready tag_codec cpython_getsizeof 5 (two_senders j)" "length (switch_keys (two_senders j)) = 1"
  "myAgentMqttNumberOfPublishingTopics (two_senders j) = 1" "net (two_senders j) = []"
  using counting_demo_simps
  by (simp_all only: two_senders_def counting_ready_uuid counting_demo_ready) (simp_all add: switch_keys_def)

theorem interleaved_senders_no_false_alarm_witness:
  "\<exists>t g'. (\<forall>j \<in> {..<2}. send_turns tag_codec cpython_getsizeof silent_env [] (\<lambda>_ _. busy_tick) 10 (two_senders j) = Return () (t j)) \<and>
    gateway_run tag_codec (demo_kafka (\<lambda>_. None)) (map (Pair (\<lambda>_. 1 / 8))
      (messages_on (subtopic ''ibswitch'' 0) (net (t 0)) @ messages_on (subtopic ''ibswitch'' 0) (net (t 1))))
      (demo_gateway True True False) = Return () g' \<and> alarms g' = alarms (demo_gateway True True False)"
proof -
  have uuids: "inj_on (\<lambda>j. myAgent_uuid (two_senders j)) {..<2}" by (auto simp: inj_on_def two_senders_def less_2_cases_iff)
  have "counting_ready tag_codec cpython_getsizeof 5 (two_senders j) \<and> (2::nat) \<le> 5 \<and>
      2 * 10 * length (switch_keys (two_senders j)) \<le> 2 ^ 24 \<and> 0 < myAgentMqttNumberOfPublishingTopics (two_senders j)" for j
    by (simp add: two_senders_simps)
  note run = interleaved_senders_no_false_alarm[OF tag_codec_laws exact24_id this uuids counting_gateway(1,2),
    of "\<lambda>_. silent_env" "\<lambda>_. []" "\<lambda>_ _ _. busy_tick"]
  then obtain t acts where t: "\<forall>j \<in> {..<2}. send_turns tag_codec cpython_getsizeof silent_env [] (\<lambda>_ _. busy_tick) 10 (two_senders j) = Return () (t j) \<and>
      net (t j) = net (two_senders j) @ acts j"
    "\<forall>msgs. interleaving (\<lambda>j. if j < 2 then messages_on (subtopic ''ibswitch'' 0) (acts j) else []) (map snd msgs) \<and>
        timely (demo_kafka (\<lambda>_. None)) msgs \<longrightarrow>
      (\<exists>g'. gateway_run tag_codec (demo_kafka (\<lambda>_. None)) msgs (demo_gateway True True False) = Return () g' \<and>
        alarms g' = alarms (demo_gateway True True False))"
    by auto
  let ?f = "\<lambda>j::nat. if j < 2 then messages_on (subtopic ''ibswitch'' 0) (acts j) else []"
  have "interleaving (?f(0 := [], 1 := [])) []" by (rule nothing_left) auto
  from interleaving_first[OF this] have "interleaving (?f(0 := [])) (?f 1)" by simp
  from interleaving_first[OF this] have "interleaving ?f (?f 0 @ ?f 1)" by simp
  moreover have "?f 0 @ ?f 1 = messages_on (subtopic ''ibswitch'' 0) (net (t 0)) @ messages_on (subtopic ''ibswitch'' 0) (net (t 1))"
    using t(1) by (simp add: two_senders_simps)
  ultimately have mix: "interleaving ?f (messages_on (subtopic ''ibswitch'' 0) (net (t 0)) @ messages_on (subtopic ''ibswitch'' 0) (net (t 1)))"
    (is "interleaving _ ?mix") by simp
  define msgs where "msgs = map (Pair (\<lambda>_ :: nat. 1 / 8 :: rat)) ?mix"
  have "map snd msgs = ?mix" unfolding msgs_def by (simp add: comp_def)
  moreover have "timely (demo_kafka (\<lambda>_. None)) msgs" unfolding msgs_def by (rule counting_gateway(3))
  ultimately have "interleaving ?f (map snd msgs) \<and> timely (demo_kafka (\<lambda>_. None)) msgs" using mix by simp
  from t(2)[THEN spec, THEN mp, OF this] obtain g' where
    "gateway_run tag_codec (demo_kafka (\<lambda>_. None)) msgs (demo_gateway True True False) = Return () g' \<and>
      alarms g' = alarms (demo_gateway True True False)" by (rule exE)
  with t(1) show ?thesis by (intro exI[of _ t] exI[of _ g']) (simp add: msgs_def)
qed

end
