(* ===== verification/Simulator_Send.thy ===== *)
theory Simulator_Send
  imports Counting Batching_Props
begin

text \<open>
  What the simulator sends without --enableMQTTbatchesCounter: turn by turn, for every switch a
  sample per metric, with the UUID of the sensor and the value the counter has then; and the
  counters in closed form.
\<close>

section \<open>The samples of a run\<close>

text \<open>The counters of the j-th switch after \<open>i\<close> turns.\<close>

primrec metrics_after :: "(nat \<Rightarrow> nat \<Rightarrow> sim_tick) \<Rightarrow> nat \<Rightarrow> nat \<Rightarrow> (string \<rightharpoonup> int) \<Rightarrow> (string \<rightharpoonup> int)" where
  "metrics_after tick j 0 q = q"
| "metrics_after tick j (Suc i) q = projr (simulate_metrics (tick i j) (metrics_after tick j i q))"

definition switch_samples :: "(string \<times> string \<Rightarrow> string \<Rightarrow> uuid) \<Rightarrow> rat \<Rightarrow> string \<times> string \<Rightarrow> (string \<rightharpoonup> int) \<Rightarrow> triplet list" where
  "switch_samples uuid_of time key q =
     map (\<lambda>metric. \<lparr>timestamp = py_round (time * 1000), sensorUuid = uuid_of key metric,
       sensorValue = of_int (the (q metric))\<rparr>) ibmetrics"

text \<open>The samples of the first \<open>j\<close> switches of turn \<open>i\<close>, of a whole turn, and of \<open>k\<close> turns.\<close>

definition part_samples ::
  "(string \<times> string \<Rightarrow> string \<Rightarrow> uuid) \<Rightarrow> (nat \<Rightarrow> nat \<Rightarrow> sim_tick) \<Rightarrow> (string \<times> string) list \<Rightarrow> (nat \<Rightarrow> string \<rightharpoonup> int) \<Rightarrow> nat \<Rightarrow> nat \<Rightarrow> triplet list" where
  "part_samples uuid_of tick keys seeds i j =
     concat (map (\<lambda>l. switch_samples uuid_of (stamp_time (tick i l)) (keys ! l) (metrics_after tick l (Suc i) (seeds l))) [0..<j])"

definition run_samples ::
  "(string \<times> string \<Rightarrow> string \<Rightarrow> uuid) \<Rightarrow> (nat \<Rightarrow> nat \<Rightarrow> sim_tick) \<Rightarrow> (string \<times> string) list \<Rightarrow> (nat \<Rightarrow> string \<rightharpoonup> int) \<Rightarrow> nat \<Rightarrow> triplet list" where
  "run_samples uuid_of tick keys seeds k = concat (map (\<lambda>i. part_samples uuid_of tick keys seeds i (length keys)) [0..<k])"

lemma metrics_after_dom: "three_counters \<subseteq> dom q \<Longrightarrow> dom (metrics_after tick j i q) = dom q"
proof (induction i)
  case (Suc i)
  then have "three_counters \<subseteq> dom (metrics_after tick j i q)" by simp
  from simulate_metrics_Inr[OF this, of "tick i j"] obtain q' where
    "simulate_metrics (tick i j) (metrics_after tick j i q) = Inr q'" "dom q' = dom (metrics_after tick j i q)" by blast
  with Suc show ?case by simp
qed simp

lemma simulate_after:
  assumes "three_counters \<subseteq> dom q"
  shows "simulate_metrics (tick i j) (metrics_after tick j i q) = Inr (metrics_after tick j (Suc i) q)"
proof -
  have "three_counters \<subseteq> dom (metrics_after tick j i q)" using assms by (simp add: metrics_after_dom)
  from simulate_metrics_Inr[OF this, of "tick i j"] show ?thesis by auto
qed

section \<open>The counters in closed form\<close>

text \<open>What a draw adds to a counter: the first threshold it exceeds decides.\<close>

definition drawn :: "rat \<Rightarrow> (rat \<times> int) list \<Rightarrow> int" where
  "drawn x thresholds = (case find (\<lambda>(limit, k). limit < x) thresholds of None \<Rightarrow> 0 | Some (_, k) \<Rightarrow> k)"

definition added :: "(string \<Rightarrow> int) \<Rightarrow> (string \<rightharpoonup> int) \<Rightarrow> (string \<rightharpoonup> int)" where
  "added f q = (\<lambda>name. map_option (\<lambda>v. v + f name) (q name))"

lemma dom_added [simp]: "dom (added f q) = dom q"
  by (auto simp: added_def dom_def)

lemma added_added: "added g (added f q) = added (\<lambda>name. f name + g name) q"
  by (simp add: added_def fun_eq_iff option.map_comp comp_def add.assoc)

lemma added_zero: "added (\<lambda>_. 0) q = q"
  by (simp add: added_def option.map_ident)

lemma bump_added:
  assumes "counter \<in> dom q"
  shows "bump_by_chance counter x thresholds q = Inr (added (\<lambda>name. if name = counter then drawn x thresholds else 0) q)"
proof -
  from assms obtain v where v: "q counter = Some v" by auto
  have "q(counter \<mapsto> v + k) = added (\<lambda>name. if name = counter then k else 0) q" for k
    using v by (auto simp: added_def fun_eq_iff option.map_ident)
  note moved = this
  show ?thesis
  proof (cases "find (\<lambda>(limit, k). limit < x) thresholds")
    case None
    then have "drawn x thresholds = 0" by (simp add: drawn_def)
    with None show ?thesis unfolding \<open>drawn x thresholds = 0\<close> by (simp add: bump_by_chance_def added_zero)
  next
    case (Some p)
    then have "drawn x thresholds = snd p" by (simp add: drawn_def split: prod.splits)
    with Some v show ?thesis unfolding \<open>drawn x thresholds = snd p\<close> moved[symmetric]
      by (simp add: bump_by_chance_def bump_def split: prod.splits)
  qed
qed

text \<open>The addition to each metric in one turn.\<close>

definition increment :: "string \<Rightarrow> sim_tick \<Rightarrow> int" where
  "increment name t =
     (if name = ''SymbolErrorCounter''
      then if 98 / 100 < random1 t then 1000 else if 88 / 100 < random1 t then 10 else if 78 / 100 < random1 t then 1 else 0
      else if name = ''LinkDownedCounter''
      then if 99 / 100 < random2 t then 100 else if 89 / 100 < random2 t then 5 else if 79 / 100 < random2 t then 1 else 0
      else if name = ''PortXmitDiscards''
      then if 99 / 100 < random3 t then 10 else if 89 / 100 < random3 t then 5 else if 79 / 100 < random3 t then 2 else 0
      else 0)"

lemma simulate_metrics_added:
  assumes "three_counters \<subseteq> dom q"
  shows "simulate_metrics t q = Inr (added (\<lambda>name. increment name t) q)"
proof -
  let ?draw = "\<lambda>counter x thresholds name. if name = counter then drawn x thresholds else 0"
  let ?f1 = "?draw ''SymbolErrorCounter'' (random1 t) [(98 / 100, 1000), (88 / 100, 10), (78 / 100, 1)]"
  let ?f2 = "?draw ''LinkDownedCounter'' (random2 t) [(99 / 100, 100), (89 / 100, 5), (79 / 100, 1)]"
  let ?f3 = "?draw ''PortXmitDiscards'' (random3 t) [(99 / 100, 10), (89 / 100, 5), (79 / 100, 2)]"
  have d: "''SymbolErrorCounter'' \<in> dom q" "''LinkDownedCounter'' \<in> dom q" "''PortXmitDiscards'' \<in> dom q"
    using assms by (auto simp: three_counters_def)
  then have "simulate_metrics t q = Inr (added ?f3 (added ?f2 (added ?f1 q)))"
    by (simp only: simulate_metrics_def bump_added dom_added res_then_simps)
  moreover have "?f1 name + ?f2 name + ?f3 name = increment name t" for name
    by (simp add: increment_def drawn_def)
  ultimately show ?thesis by (simp add: added_added)
qed

lemma metrics_after_added:
  assumes "three_counters \<subseteq> dom q"
  shows "metrics_after tick j k q = added (\<lambda>name. \<Sum>i<k. increment name (tick i j)) q"
proof (induction k)
  case (Suc k)
  have "simulate_metrics (tick k j) (metrics_after tick j k q) =
      Inr (added (\<lambda>name. increment name (tick k j)) (metrics_after tick j k q))"
    by (rule simulate_metrics_added) (use assms in \<open>simp add: metrics_after_dom\<close>)
  with Suc show ?case by (simp add: added_added)
qed (simp add: added_zero)

text \<open>Nothing keeps a counter within the range the device template declares for it (0 to 65535): from
  any start, enough turns bring the symbol error counter above any bound, without wrapping.\<close>

theorem symbol_errors_unbounded:
  "\<exists>k. case metrics_after (\<lambda>_ _. busy_tick) j k
      [''SymbolErrorCounter'' \<mapsto> v, ''LinkDownedCounter'' \<mapsto> 0, ''PortXmitDiscards'' \<mapsto> 0] ''SymbolErrorCounter'' of
    None \<Rightarrow> False | Some v' \<Rightarrow> bound < v'"
proof -
  let ?q = "[''SymbolErrorCounter'' \<mapsto> v, ''LinkDownedCounter'' \<mapsto> 0, ''PortXmitDiscards'' \<mapsto> (0::int)]"
  have "three_counters \<subseteq> dom ?q" by (simp add: three_counters_def)
  from metrics_after_added[OF this, of "\<lambda>_ _. busy_tick" j]
  have "metrics_after (\<lambda>_ _. busy_tick) j k ?q ''SymbolErrorCounter'' = Some (v + 1000 * int k)" for k
    by (simp add: added_def increment_def busy_tick_def)
  moreover have "bound < v + 1000 * int (nat (bound - v + 1))" by simp
  ultimately show ?thesis by (intro exI[of _ "nat (bound - v + 1)"]) simp
qed

section \<open>A run\<close>

text \<open>
  Ready to send: nothing pending, \<open>most\<close> samples to go before the limit, batches of \<open>m\<close>; every switch
  seeded and in the UUID table.
\<close>

definition sending_ready ::
  "'b codec \<Rightarrow> (nat \<Rightarrow> nat) \<Rightarrow> nat \<Rightarrow> nat \<Rightarrow> uuid_table \<Rightarrow> (string \<times> string \<Rightarrow> string \<Rightarrow> uuid) \<Rightarrow>
   (nat \<Rightarrow> string \<rightharpoonup> int) \<Rightarrow> ('b, 'z) simulator_scheme \<Rightarrow> bool" where
  "sending_ready c sizeof m most table uuid_of seeds s \<longleftrightarrow>
     sendable c (simulator_args s) s \<and> myByteBatch s = [] \<and> no_stop (simulator_args s) most s \<and>
     myEnableMQTTbatchesCounter s \<noteq> Some True \<and> is_batch_len (batch_full sizeof (simulator_args s)) m \<and>
     distinct (switch_keys s) \<and>
     (\<forall>l<length (switch_keys s). metrics_of (fst (switch_keys s ! l)) (snd (switch_keys s ! l)) s = Inr (seeds l) \<and>
        three_counters \<union> set ibmetrics \<subseteq> dom (seeds l) \<and>
        (\<forall>metric \<in> set ibmetrics. lookup_uuid table (fst (switch_keys s ! l)) (snd (switch_keys s ! l)) metric =
          Inr (uuid_of (switch_keys s ! l) metric)))"

definition sending_sim ::
  "'b codec \<Rightarrow> nat \<Rightarrow> (nat \<Rightarrow> nat \<Rightarrow> sim_tick) \<Rightarrow> (nat \<Rightarrow> string \<rightharpoonup> int) \<Rightarrow> ('b, 'z) simulator_scheme \<Rightarrow> nat \<Rightarrow> nat \<Rightarrow>
   triplet list \<Rightarrow> ('b, 'z) simulator_scheme \<Rightarrow> bool" where
  "sending_sim c m tick seeds s0 i j xs s \<longleftrightarrow>
     (\<exists>seeds'. batch_sim c (simulator_args s0) (s0\<lparr>seed_map := seeds'\<rparr>) s (block_plan m s0 xs)) \<and>
     sendable c (simulator_args s0) s \<and> switch_keys s = switch_keys s0 \<and>
     (\<forall>l<length (switch_keys s0). metrics_of (fst (switch_keys s0 ! l)) (snd (switch_keys s0 ! l)) s =
        Inr (metrics_after tick l (if l < j then Suc i else i) (seeds l)))"

lemma sending_start:
  assumes "sending_ready c sizeof m most table uuid_of seeds s"
  shows "sending_sim c m tick seeds s 0 0 [] s"
proof -
  from assms have ok: "sendable c (simulator_args s) s" "myByteBatch s = map Dict []" by (simp_all add: sending_ready_def)
  then have "myCurrentSubtopic s < myAgentMqttNumberOfPublishingTopics s" by (simp add: sendable_def)
  then have plan: "block_plan m s [] = \<lparr>pl_pending = [], pl_sub = myCurrentSubtopic s, pl_sent = []\<rparr>"
    by (simp add: block_plan_def leftover_def blocks_def)
  have "s\<lparr>seed_map := seed_map s\<rparr> = s" by simp
  with batch_sim_start[OF ok] have "\<exists>seeds'. batch_sim c (simulator_args s) (s\<lparr>seed_map := seeds'\<rparr>) s (block_plan m s [])"
    unfolding plan by metis
  with assms ok(1) show ?thesis by (simp add: sending_sim_def sending_ready_def)
qed

text \<open>The records of the next switch.\<close>

lemma switch_made:
  fixes s :: "('b, 'z) simulator_scheme"
  assumes ready: "sending_ready c sizeof m most table uuid_of seeds s0" and sim: "sending_sim c m tick seeds s0 i j xs s"
    and j: "j < length (switch_keys s0)" and key: "switch_keys s0 ! j = (cmc, guid)"
  defines "q' \<equiv> metrics_after tick j (Suc i) (seeds j)"
  shows "metrics_of cmc guid s = Inr (metrics_after tick j i (seeds j))"
    and "simulate_metrics (tick i j) (metrics_after tick j i (seeds j)) = Inr q'"
    and "res_map (metric_record table cmc guid (py_round (stamp_time (tick i j) * 1000)) q' (set_metrics cmc guid q' s)) ibmetrics =
      Inr (switch_samples uuid_of (stamp_time (tick i j)) (cmc, guid) q')"
proof -
  from sim obtain seeds' where sent: "batch_sim c (simulator_args s0) (s0\<lparr>seed_map := seeds'\<rparr>) s (block_plan m s0 xs)"
    and metrics: "\<forall>l<length (switch_keys s0). metrics_of (fst (switch_keys s0 ! l)) (snd (switch_keys s0 ! l)) s =
        Inr (metrics_after tick l (if l < j then Suc i else i) (seeds l))" by (auto simp: sending_sim_def)
  from ready j have "three_counters \<union> set ibmetrics \<subseteq> dom (seeds j) \<and>
      (\<forall>metric \<in> set ibmetrics. lookup_uuid table (fst (switch_keys s0 ! j)) (snd (switch_keys s0 ! j)) metric =
        Inr (uuid_of (switch_keys s0 ! j) metric))"
    unfolding sending_ready_def by blast
  then have seeded: "three_counters \<subseteq> dom (seeds j)" "set ibmetrics \<subseteq> dom (seeds j)"
    and uuids: "\<forall>metric \<in> set ibmetrics. lookup_uuid table cmc guid metric = Inr (uuid_of (cmc, guid) metric)" by (simp_all add: key)
  show "metrics_of cmc guid s = Inr (metrics_after tick j i (seeds j))"
    using metrics[rule_format, OF j] by (simp only: key fst_conv snd_conv less_irrefl if_False)
  show "simulate_metrics (tick i j) (metrics_after tick j i (seeds j)) = Inr q'"
    unfolding q'_def by (rule simulate_after[OF seeded(1)])
  let ?s1 = "set_metrics cmc guid q' s"
  have "myEnableMQTTbatchesCounter s0 \<noteq> Some True" using ready by (simp add: sending_ready_def)
  then have mode: "myEnableMQTTbatchesCounter ?s1 \<noteq> Some True"
    using batch_frame_fields(4)[of s "s0\<lparr>seed_map := seeds'\<rparr>"] sent by (simp add: batch_sim_def set_metrics_def)
  have "dom q' = dom (seeds j)" unfolding q'_def by (rule metrics_after_dom[OF seeded(1)])
  have "metric_record table cmc guid (py_round (stamp_time (tick i j) * 1000)) q' ?s1 metric =
      Inr \<lparr>timestamp = py_round (stamp_time (tick i j) * 1000), sensorUuid = uuid_of (cmc, guid) metric,
        sensorValue = of_int (the (q' metric))\<rparr>" if "metric \<in> set ibmetrics" for metric
  proof -
    note bspec[OF uuids that]
    moreover have "metric \<in> dom q'" unfolding \<open>dom q' = dom (seeds j)\<close> using seeded(2) that by (rule subsetD)
    then obtain v where "q' metric = Some v" unfolding domIff by (cases "q' metric") simp_all
    ultimately show ?thesis using mode by (simp add: metric_record_def)
  qed
  then show "res_map (metric_record table cmc guid (py_round (stamp_time (tick i j) * 1000)) q' ?s1) ibmetrics =
      Inr (switch_samples uuid_of (stamp_time (tick i j)) (cmc, guid) q')"
    unfolding switch_samples_def by (subst res_map_Inr[where g = "\<lambda>metric. \<lparr>timestamp = py_round (stamp_time (tick i j) * 1000),
      sensorUuid = uuid_of (cmc, guid) metric, sensorValue = of_int (the (q' metric))\<rparr>"]) simp_all
qed

lemma length_switch_samples: "length (switch_samples uuid_of time key q) = 2"
  by (simp add: switch_samples_def ibmetrics_def)

lemma no_stop_less: "no_stop a n s \<Longrightarrow> k \<le> n \<Longrightarrow> no_stop a k s"
  by (simp add: no_stop_def)

lemma send_switch_sim:
  fixes s :: "('b, 'z) simulator_scheme"
  assumes ready: "sending_ready c sizeof m most table uuid_of seeds s0" and sim: "sending_sim c m tick seeds s0 i j xs s"
    and j: "j < length (switch_keys s0)" and room: "length xs + 2 \<le> most"
  shows "\<exists>t. send_switch c sizeof env table (tick i j, switch_keys s0 ! j) s = Return () t \<and>
    sending_sim c m tick seeds s0 i (Suc j)
      (xs @ switch_samples uuid_of (stamp_time (tick i j)) (switch_keys s0 ! j) (metrics_after tick j (Suc i) (seeds j))) t"
proof -
  let ?a = "simulator_args s0" and ?q' = "metrics_after tick j (Suc i) (seeds j)"
  obtain cmc guid where key: "switch_keys s0 ! j = (cmc, guid)" by (cases "switch_keys s0 ! j")
  from sim obtain seeds' where sent: "batch_sim c ?a (s0\<lparr>seed_map := seeds'\<rparr>) s (block_plan m s0 xs)"
    and ok: "sendable c ?a s" "switch_keys s = switch_keys s0"
    and metrics: "\<forall>l<length (switch_keys s0). metrics_of (fst (switch_keys s0 ! l)) (snd (switch_keys s0 ! l)) s =
        Inr (metrics_after tick l (if l < j then Suc i else i) (seeds l))" by (auto simp: sending_sim_def)
  from ready have i: "myCurrentSubtopic s0 < myAgentMqttNumberOfPublishingTopics s0" and len: "is_batch_len (batch_full sizeof ?a) m"
    and fresh: "no_stop ?a most s0" "myByteBatch s0 = []" and dist: "distinct (switch_keys s0)"
    by (simp_all add: sending_ready_def sendable_def)
  let ?rs = "switch_samples uuid_of (stamp_time (tick i j)) (cmc, guid) ?q'" and ?s1 = "set_metrics cmc guid ?q' s"
  note made = switch_made[OF ready sim j key]
  have "no_stop ?a (length xs + length ?rs) s0"
    using no_stop_less[OF fresh(1) room] by (simp add: length_switch_samples)
  from send_switch_records[OF sent ok(1) len this fresh(2) i made, of env] obtain t seeds'' where
    t: "send_switch c sizeof env table (tick i j, cmc, guid) s = Return () t" "sendable c ?a t"
    "batch_sim c ?a (s0\<lparr>seed_map := seeds''\<rparr>) t (block_plan m s0 (xs @ ?rs))" "seed_map t = seed_map ?s1" by blast
  have keys: "switch_keys t = switch_keys s0" using t(4) switch_keys_set[of cmc guid ?q' s] ok(2) by (simp add: switch_keys_def)
  have "metrics_of (fst (switch_keys s0 ! l)) (snd (switch_keys s0 ! l)) t = Inr (metrics_after tick l (if l < Suc j then Suc i else i) (seeds l))"
    if "l < length (switch_keys s0)" for l
  proof -
    have eq: "metrics_of a b t = metrics_of a b ?s1" for a b using t(4) by (simp add: metrics_of_def)
    show ?thesis
    proof (cases "l = j")
      case True
      then show ?thesis unfolding eq using key made(1) by (simp add: metrics_of_set)
    next
      case False
      then have "switch_keys s0 ! l \<noteq> (cmc, guid)" using dist that j key by (metis nth_eq_iff_index_eq)
      then have "metrics_of (fst (switch_keys s0 ! l)) (snd (switch_keys s0 ! l)) ?s1 = metrics_of (fst (switch_keys s0 ! l)) (snd (switch_keys s0 ! l)) s"
        by (cases "switch_keys s0 ! l") (auto simp: metrics_of_set)
      with metrics that False show ?thesis unfolding eq by auto
    qed
  qed
  with t(2,3) keys have "sending_sim c m tick seeds s0 i (Suc j) (xs @ ?rs) t"
    unfolding sending_sim_def by blast
  with t(1) show ?thesis unfolding key by blast
qed

text \<open>A turn, and \<open>k\<close> of them.\<close>

lemma length_part_samples: "length (part_samples uuid_of tick keys seeds i j) = 2 * j"
  by (induction j) (simp_all add: part_samples_def length_switch_samples)

lemma length_run_samples: "length (run_samples uuid_of tick keys seeds k) = 2 * k * length keys"
  by (induction k) (simp_all add: run_samples_def length_part_samples)

lemma send_switches_sim:
  fixes s :: "('b, 'z) simulator_scheme"
  assumes ready: "sending_ready c sizeof m most table uuid_of seeds s0" and sim: "sending_sim c m tick seeds s0 i 0 xs s"
  shows "j \<le> length (switch_keys s0) \<Longrightarrow> length xs + 2 * j \<le> most \<Longrightarrow>
    \<exists>t. for_each (send_switch c sizeof env table) (map (\<lambda>l. (tick i l, switch_keys s0 ! l)) [0..<j]) s = Return () t \<and>
      sending_sim c m tick seeds s0 i j (xs @ part_samples uuid_of tick (switch_keys s0) seeds i j) t"
proof (induction j)
  case 0
  with sim show ?case by (simp add: part_samples_def)
next
  case (Suc j)
  then obtain u where u: "for_each (send_switch c sizeof env table) (map (\<lambda>l. (tick i l, switch_keys s0 ! l)) [0..<j]) s = Return () u"
    "sending_sim c m tick seeds s0 i j (xs @ part_samples uuid_of tick (switch_keys s0) seeds i j) u" by auto
  from Suc.prems have "j < length (switch_keys s0)"
    "length (xs @ part_samples uuid_of tick (switch_keys s0) seeds i j) + 2 \<le> most" by (simp_all add: length_part_samples)
  from send_switch_sim[OF ready u(2) this, of env] u(1) show ?case
    by (auto simp: for_each_append part_samples_def)
qed

lemma turn_switches:
  "send_turn c sizeof env table (tick i) s = for_each (send_switch c sizeof env table)
     (map (\<lambda>l. (tick i l, switch_keys s ! l)) [0..<length (switch_keys s)]) s"
proof -
  have "map (\<lambda>(j, key). (tick i j, key)) (enumerate 0 (switch_keys s)) =
      map (\<lambda>l. (tick i l, switch_keys s ! l)) [0..<length (switch_keys s)]"
    by (rule nth_equalityI) (simp_all add: nth_enumerate_eq)
  then show ?thesis by (simp add: send_turn_def)
qed

lemma send_turn_sim:
  fixes s :: "('b, 'z) simulator_scheme"
  assumes ready: "sending_ready c sizeof m most table uuid_of seeds s0" and sim: "sending_sim c m tick seeds s0 i 0 xs s"
    and room: "length xs + 2 * length (switch_keys s0) \<le> most"
  shows "\<exists>t. send_turn c sizeof env table (tick i) s = Return () t \<and>
    sending_sim c m tick seeds s0 (Suc i) 0 (xs @ part_samples uuid_of tick (switch_keys s0) seeds i (length (switch_keys s0))) t"
proof -
  have keys: "switch_keys s = switch_keys s0" using sim by (simp add: sending_sim_def)
  with send_switches_sim[OF ready sim order_refl room, of env] show ?thesis
    by (auto simp: turn_switches sending_sim_def)
qed

lemma send_turns_sim:
  fixes s0 :: "('b, 'z) simulator_scheme"
  assumes "sending_ready c sizeof m most table uuid_of seeds s0"
  shows "2 * k * length (switch_keys s0) \<le> most \<Longrightarrow> \<exists>t. send_turns c sizeof env table tick k s0 = Return () t \<and>
    sending_sim c m tick seeds s0 k 0 (run_samples uuid_of tick (switch_keys s0) seeds k) t"
proof (induction k)
  case 0
  with sending_start[OF assms] show ?case by (simp add: run_samples_def)
next
  case (Suc k)
  then obtain u where u: "send_turns c sizeof env table tick k s0 = Return () u"
    "sending_sim c m tick seeds s0 k 0 (run_samples uuid_of tick (switch_keys s0) seeds k) u" by auto
  have "length (run_samples uuid_of tick (switch_keys s0) seeds k) + 2 * length (switch_keys s0) \<le> most"
    using Suc.prems by (simp add: length_run_samples)
  from send_turn_sim[OF assms u(2) this, of env] u(1) show ?case by (auto simp: run_samples_def)
qed

section \<open>A run to the limit\<close>

text \<open>The end of a run that has sent \<open>xs\<close>: what a receiver has decoded then, and how the calls end.\<close>

definition ended_after :: "'b codec \<Rightarrow> (rat \<Rightarrow> rat) \<Rightarrow> ('b, 'z) agent_scheme \<Rightarrow> triplet list \<Rightarrow> ('b, 'z) agent_scheme \<Rightarrow> bool" where
  "ended_after c rnd s0 xs t \<longleftrightarrow>
     wire_samples c (net t) = wire_samples c (net s0) @ map (narrow rnd) xs \<and> myMQTTderegistered t \<and>
     drop (length (net t) - 2) (net t) = [LoopStop, Disconnect] \<and> (\<exists>acts. net t = net s0 @ acts)"

lemma send_switch_exits:
  fixes s0 s :: "('b, 'z) simulator_scheme"
  assumes ready: "sending_ready c sizeof m most table uuid_of seeds s0" and sim: "sending_sim c m tick seeds s0 i j xs s"
    and j: "j < length (switch_keys s0)" and most: "most = length xs + r" "r < 2"
    and limit: "simulator_limit s0 = myMessageCounter s0 + int most"
    and laws: "codec_laws c rnd" and clock: "stop_time (tick i j) \<noteq> simulator_timet0 s0" and env: "leaves c (myAgent_uuid s0) env s0"
  shows "\<exists>t. send_switch c sizeof env table (tick i j, switch_keys s0 ! j) s = Raise (SystemExit 0) t \<and>
    ended_after c rnd s0 (xs @ take r (switch_samples uuid_of (stamp_time (tick i j)) (switch_keys s0 ! j)
      (metrics_after tick j (Suc i) (seeds j)))) t"
proof -
  let ?a = "simulator_args s0" and ?q' = "metrics_after tick j (Suc i) (seeds j)"
  obtain cmc guid where key: "switch_keys s0 ! j = (cmc, guid)" by (cases "switch_keys s0 ! j")
  let ?rs = "switch_samples uuid_of (stamp_time (tick i j)) (cmc, guid) ?q'"
  from sim obtain seeds' where sent: "batch_sim c ?a (s0\<lparr>seed_map := seeds'\<rparr>) s (block_plan m s0 xs)"
    and ok: "sendable c ?a s" by (auto simp: sending_sim_def)
  from ready have len: "is_batch_len (batch_full sizeof ?a) m" and empty: "myByteBatch s0 = []"
    by (simp_all add: sending_ready_def)
  from send_switch_prepares[OF sent ok switch_made[OF ready sim j key], of sizeof env] obtain s1 seeds'' where
    call: "send_switch c sizeof env table (tick i j, cmc, guid) s = mqtt_send_triplet_batch c sizeof ?a (stop_time (tick i j)) env ?rs s1"
    and sent1: "batch_sim c ?a (s0\<lparr>seed_map := seeds''\<rparr>) s1 (block_plan m s0 xs)" and ok1: "sendable c ?a s1" by blast
  let ?s0 = "s0\<lparr>seed_map := seeds''\<rparr>"
  have sim1: "batch_sim c ?a ?s0 s1 (block_plan m ?s0 xs)" using sent1 by (simp add: block_plan_def)
  have count: "myMessageCounter s1 = myMessageCounter s0 + int (length xs)"
    using batch_sim_counter[OF sim1] empty by simp
  have stop: "sendNumberOfMessages ?a = LimitInt (myMessageCounter s1 + int r)"
    by (simp add: simulator_args_def limit count most(1))
  have more: "r < length ?rs" by (simp add: length_switch_samples most(2))
  have batch: "myByteBatch s1 = map Dict (leftover m xs)" using sent1 by (simp add: batch_sim_def block_plan_def)
  have short: "length (leftover m xs) < m" using is_batch_len_pos[OF len] by (simp add: length_leftover)
  have "leaves c (myAgent_uuid s0) env s1"
    using env leaves_cong[of s1 s0 c "myAgent_uuid s0" env] sent1 by (simp add: batch_sim_def session_of_def)
  then have leave: "leaves c (send_uuid ?a) env s1" by (simp add: simulator_args_def)
  have now: "stop_time (tick i j) \<noteq> timet0 ?a" using clock by (simp add: simulator_args_def)
  from limit_exits[OF laws ok1 stop more len batch short now leave] obtain t where
    t: "mqtt_send_triplet_batch c sizeof ?a (stop_time (tick i j)) env ?rs s1 = Raise (SystemExit 0) t"
    "wire_samples c (net t) = wire_samples c (net s1) @ map (narrow rnd) (leftover m xs @ take r ?rs)"
    "myMQTTderegistered t" "drop (length (net t) - 2) (net t) = [LoopStop, Disconnect]" "\<exists>acts. net t = net s1 @ acts" by blast
  have "wire_samples c (net s1) @ map (narrow rnd) (leftover m xs) = wire_samples c (net s0) @ map (narrow rnd) xs"
    using batch_sim_conserves[OF laws sim1] by (simp add: batch)
  then have "wire_samples c (net t) = wire_samples c (net s0) @ map (narrow rnd) (xs @ take r ?rs)"
    unfolding t(2) map_append append_assoc[symmetric] by (rule arg_cong)
  moreover have "\<exists>acts. net t = net s0 @ acts" using t(5) sim1 by (auto simp: batch_sim_def)
  ultimately show ?thesis using call t(1,3,4) unfolding key ended_after_def by auto
qed

lemma part_samples_take:
  assumes "j < n" "r < 2"
  shows "take (2 * j + r) (part_samples uuid_of tick keys seeds i n) = part_samples uuid_of tick keys seeds i j @
    take r (switch_samples uuid_of (stamp_time (tick i j)) (keys ! j) (metrics_after tick j (Suc i) (seeds j)))"
proof -
  have "[0..<n] = [0..<j] @ j # [Suc j..<n]" using assms(1) by (metis upt_add_eq_append upt_conv_Cons less_imp_add_positive zero_le)
  then obtain rest where "part_samples uuid_of tick keys seeds i n = part_samples uuid_of tick keys seeds i j @
      switch_samples uuid_of (stamp_time (tick i j)) (keys ! j) (metrics_after tick j (Suc i) (seeds j)) @ rest"
    by (simp add: part_samples_def del: metrics_after.simps)
  with assms(2) show ?thesis
    using length_part_samples[of uuid_of tick keys seeds i j] by (simp add: length_switch_samples)
qed

lemma run_samples_take:
  assumes "i < k" "r \<le> 2 * length keys"
  shows "take (2 * i * length keys + r) (run_samples uuid_of tick keys seeds k) =
    run_samples uuid_of tick keys seeds i @ take r (part_samples uuid_of tick keys seeds i (length keys))"
proof -
  have "[0..<k] = [0..<i] @ i # [Suc i..<k]" using assms(1) by (metis upt_add_eq_append upt_conv_Cons less_imp_add_positive zero_le)
  then obtain rest where "run_samples uuid_of tick keys seeds k = run_samples uuid_of tick keys seeds i @
      part_samples uuid_of tick keys seeds i (length keys) @ rest"
    by (simp add: run_samples_def)
  with assms(2) show ?thesis
    using length_run_samples[of uuid_of tick keys seeds i] by (simp add: length_part_samples)
qed

lemma send_turns_raised:
  assumes "send_turns c sizeof env table tick i s = Raise e t"
    and "i \<le> k"
  shows "send_turns c sizeof env table tick k s = Raise e t"
  using assms(2)
proof (induction k rule: dec_induct)
  case base
  show ?case by (rule assms(1))
qed simp

lemma send_turns_exit:
  fixes s0 :: "('b, 'z) simulator_scheme"
  assumes ready: "sending_ready c sizeof m most table uuid_of seeds s0" and many: "most < 2 * k * length (switch_keys s0)"
    and limit: "simulator_limit s0 = myMessageCounter s0 + int most"
    and laws: "codec_laws c rnd" and clock: "\<And>i j. stop_time (tick i j) \<noteq> simulator_timet0 s0" and env: "leaves c (myAgent_uuid s0) env s0"
  shows "\<exists>t. send_turns c sizeof env table tick k s0 = Raise (SystemExit 0) t \<and>
    ended_after c rnd s0 (take most (run_samples uuid_of tick (switch_keys s0) seeds k)) t"
proof -
  let ?n = "length (switch_keys s0)" and ?keys = "switch_keys s0"
  define i where "i = most div (2 * ?n)"
  define j where "j = most mod (2 * ?n) div 2"
  define r where "r = most mod 2"
  from many have n: "0 < ?n" by (cases "?keys") auto
  then have "most mod (2 * ?n) < 2 * ?n" by simp
  moreover have "most mod (2 * ?n) mod 2 = most mod 2" by (rule mod_mod_cancel) simp
  ultimately have j: "j < ?n" "r < 2" "2 * j + r = most mod (2 * ?n)" by (simp_all add: j_def r_def) (metis mult_div_mod_eq)
  have most: "most = 2 * i * ?n + (2 * j + r)"
    using mult_div_mod_eq[of "2 * ?n" most] unfolding j(3) i_def by (simp only: ac_simps)
  have i: "i < k" using many n by (simp add: i_def less_mult_imp_div_less ac_simps)
  obtain u where u: "send_turns c sizeof env table tick i s0 = Return () u"
    "sending_sim c m tick seeds s0 i 0 (run_samples uuid_of tick ?keys seeds i) u"
    using send_turns_sim[OF ready, of i env tick] most by auto
  have "length (run_samples uuid_of tick ?keys seeds i) + 2 * j \<le> most" by (simp add: length_run_samples most)
  from send_switches_sim[OF ready u(2) less_imp_le[OF j(1)] this, of env] obtain v where
    v: "for_each (send_switch c sizeof env table) (map (\<lambda>l. (tick i l, ?keys ! l)) [0..<j]) u = Return () v"
    "sending_sim c m tick seeds s0 i j (run_samples uuid_of tick ?keys seeds i @ part_samples uuid_of tick ?keys seeds i j) v" by blast
  have "most = length (run_samples uuid_of tick ?keys seeds i @ part_samples uuid_of tick ?keys seeds i j) + r"
    by (simp add: length_run_samples length_part_samples most)
  from send_switch_exits[OF ready v(2) j(1) this j(2) limit laws clock env] obtain t where
    t: "send_switch c sizeof env table (tick i j, ?keys ! j) v = Raise (SystemExit 0) t"
    and finish: "ended_after c rnd s0 ((run_samples uuid_of tick ?keys seeds i @ part_samples uuid_of tick ?keys seeds i j) @
      take r (switch_samples uuid_of (stamp_time (tick i j)) (?keys ! j) (metrics_after tick j (Suc i) (seeds j)))) t" by blast
  have "map (\<lambda>l. (tick i l, ?keys ! l)) [0..<?n] = map (\<lambda>l. (tick i l, ?keys ! l)) [0..<j] @
      (tick i j, ?keys ! j) # map (\<lambda>l. (tick i l, ?keys ! l)) [Suc j..<?n]"
    using j(1) by (metis (no_types, lifting) upt_add_eq_append upt_conv_Cons less_imp_add_positive zero_le map_append list.map(2))
  moreover have "switch_keys u = ?keys" using u(2) by (simp add: sending_sim_def)
  ultimately have "send_turn c sizeof env table (tick i) u = Raise (SystemExit 0) t"
    using v(1) t by (simp add: turn_switches for_each_append)
  with u(1) have "send_turns c sizeof env table tick (Suc i) s0 = Raise (SystemExit 0) t" by simp
  from send_turns_raised[OF this, of k] Suc_leI[OF i] have "send_turns c sizeof env table tick k s0 = Raise (SystemExit 0) t" by simp
  moreover have "take most (run_samples uuid_of tick ?keys seeds k) = (run_samples uuid_of tick ?keys seeds i @
      part_samples uuid_of tick ?keys seeds i j) @
      take r (switch_samples uuid_of (stamp_time (tick i j)) (?keys ! j) (metrics_after tick j (Suc i) (seeds j)))"
    using run_samples_take[OF i, of "2 * j + r" ?keys uuid_of tick seeds] part_samples_take[OF j(1,2), of uuid_of tick ?keys seeds i] j(1,2)
    by (simp only: most append_assoc)
  ultimately show ?thesis using finish by metis
qed

end
