(* ===== verification/Simulator_Run.thy ===== *)
theory Simulator_Run
  imports Simulator_Send Batching_Props Session_Props Launch_Props Redfish_Props
begin

text \<open>
  The simulator from its start to its samples: \<open>run\<close> connects, registers, registers its devices
  and sends, against a framework that answers the requests.
\<close>

section \<open>What the callback leaves alone\<close>

text \<open>Everything but the session: identity, batches, counters, actions and the attributes of the subclass.\<close>

definition session_frame :: "('b, 'z) agent_scheme \<Rightarrow> ('b, 'z) agent_scheme" where
  "session_frame s = s\<lparr>myDeviceRegistered := False, myMQTTregistered := False, myMQTTderegistered := False,
     myAgent_uuid := MinusOne, myAgent_registration_response_topic := [], myAgent_deregistration_request_topic := None,
     myAgent_deregistration_response_topic := None, myDevice_registration_request_topic := None,
     myDevice_registration_response_topic := None, myDeviceSensorUUIDsMap := Map.empty, console := []\<rparr>"

lemma session_frame_fields:
  assumes "session_frame t = session_frame s"
  shows "agent.more t = agent.more s" "myAgent_uid t = myAgent_uid s" "schemas t = schemas s" "client t = client s" "net t = net s"
    "myByteBatch t = myByteBatch s" "myCurrentSubtopic t = myCurrentSubtopic s" "myMessageCounter t = myMessageCounter s"
    "myBatchCounter t = myBatchCounter s" "myAgentMqttNumberOfPublishingTopics t = myAgentMqttNumberOfPublishingTopics s"
    "myEnableMQTTbatchesCounter t = myEnableMQTTbatchesCounter s"
  using assms unfolding session_frame_def by (cases s; cases t; simp)+

lemma callback_session_frame: "out_all (\<lambda>t. session_frame t = session_frame s) (simulator_on_message c m s)"
proof -
  have reg: "out_all (\<lambda>t. session_frame t = session_frame s) (simulator_registered data s)" for data
    by (cases "get_uuid data") (simp_all add: simulator_registered_def Let_def session_frame_def)
  have dev: "out_all (\<lambda>t. session_frame t = session_frame s) (and_then
         (if v = myAgent_uuid s
          then or_raise (get_deviceUuids data) s (\<lambda>m. Return () (s\<lparr>myDeviceSensorUUIDsMap := m\<rparr>))
          else Return () s) (\<lambda>_ s. Return () (s\<lparr>myDeviceRegistered := True\<rparr>)))" for v data
    by (cases "get_deviceUuids data") (simp_all add: session_frame_def)
  have "session_frame (s\<lparr>myMQTTderegistered := True\<rparr>) = session_frame s" "session_frame (s\<lparr>console := ls\<rparr>) = session_frame s" for ls
    by (simp_all add: session_frame_def)
  then show ?thesis
    unfolding simulator_on_message_def Let_def print_line_def
    by (intro out_all_or_raise) (auto intro!: out_all_or_raise reg dev split: option.splits)
qed

lemma deliver_session_frame: "session_frame (deliver (simulator_on_message c) ms s) = session_frame s"
proof (induction ms arbitrary: s)
  case (Cons m ms)
  have "session_frame (state_after s (simulator_on_message c m s)) = session_frame s"
    by (rule state_after_iff[OF callback_session_frame[of s c m]]) simp
  with Cons show ?case by simp
qed simp

interpretation frame_thread: network_thread "\<lambda>k. deliver (simulator_on_message c) (inbox k)" "\<lambda>t. session_frame t = session_frame s"
  for c inbox s
  by unfold_locales (simp add: deliver_session_frame)

section \<open>A framework that reads the requests\<close>

text \<open>What is delivered at a sleep depends on the calls made so far; during a wait there are none.\<close>

definition delivers ::
  "'b codec \<Rightarrow> ('b mqtt_action list \<Rightarrow> nat \<Rightarrow> 'b message list) \<Rightarrow> ('b, 'z) agent_scheme net_env \<Rightarrow> bool" where
  "delivers c inbox env \<longleftrightarrow> network env = (\<lambda>k s. deliver (simulator_on_message c) (inbox (net s) k) s)"

definition frozen ::
  "'b codec \<Rightarrow> (nat \<Rightarrow> 'b message list) \<Rightarrow> ('b, 'z) agent_scheme net_env \<Rightarrow> ('b, 'z) agent_scheme net_env" where
  "frozen c inbox env = env\<lparr>network := \<lambda>k. deliver (simulator_on_message c) (inbox k)\<rparr>"

lemma frozen_simps [simp]:
  "connect_error (frozen c inbox env) = connect_error env" "subscribe_rc (frozen c inbox env) = subscribe_rc env"
  "is_published (frozen c inbox env) = is_published env"
  "network (frozen c inbox env) = (\<lambda>k. deliver (simulator_on_message c) (inbox k))"
  "subscribe_acts topics (frozen c inbox env) = subscribe_acts topics env"
  "request_acts topic raw qos (frozen c inbox env) = request_acts topic raw qos env"
  "grants_subscription (frozen c inbox env) = grants_subscription env"
  by (simp_all add: frozen_def subscribe_acts_def request_acts_def grants_subscription_def)

lemma sleeps_frozen:
  assumes "delivers c inbox env"
  shows "sleeps (network env) j k s = sleeps (network (frozen c (inbox (net s)) env)) j k s"
proof (induction k arbitrary: j s)
  case (Suc k)
  have "net (deliver (simulator_on_message c) (inbox (net s) j) s) = net s"
    using deliver_same_agent[of s c "inbox (net s) j"] by (simp add: same_agent_def)
  with Suc[of "Suc j" "deliver (simulator_on_message c) (inbox (net s) j) s"] assms show ?case by (simp add: delivers_def)
qed simp

lemma wait_flag_cong:
  assumes "\<And>k. sleeps nw 0 k s = sleeps nw' 0 k s"
  shows "wait_flag flag nw 0 s = wait_flag flag nw' 0 s"
proof (cases rule: wait_flag_cases[where flag = flag and nw = nw and s = s])
  case (returns k)
  with wait_flag_returns[of 0 k flag nw' s] assms show ?thesis by simp
next
  case timeout
  with wait_flag_timeout[of 0 flag nw' s] assms show ?thesis by simp
qed

lemma request_frozen:
  assumes "delivers c inbox env" "client s \<noteq> None"
  shows "request_and_wait topic raw qos flag env s =
    request_and_wait topic raw qos flag (frozen c (inbox (net s @ request_acts topic raw qos env)) env) s"
proof -
  define s1 where "s1 = s\<lparr>net := net s @ request_acts topic raw qos env\<rparr>"
  have wait: "request_and_wait topic raw qos flag env' s = wait_flag flag (network env') 0 s1" if "is_published env' = is_published env" for env'
    using assms(2) that by (auto simp: request_and_wait_def client_call_def request_acts_def s1_def)
  have "net s1 = net s @ request_acts topic raw qos env" by (simp add: s1_def)
  with wait_flag_cong[OF sleeps_frozen[OF assms(1)], of flag s1] show ?thesis by (simp add: wait)
qed

section \<open>Joining\<close>

definition welcomes :: "'b codec \<Rightarrow> string \<Rightarrow> uuid \<Rightarrow> 'b message \<Rightarrow> bool" where
  "welcomes c uid u m \<longleftrightarrow> msg_topic m = registration_topic uid ''response'' \<and>
     (\<exists>data. decode c (msg_payload m) = Inr data \<and> get_uuid data = Inr u)"

text \<open>Newly connected, or joined as \<open>u\<close> since.\<close>

definition joining :: "string \<Rightarrow> uuid \<Rightarrow> ('b, 'z) agent_scheme \<Rightarrow> ('b, 'z) agent_scheme \<Rightarrow> bool" where
  "joining uid u s t \<longleftrightarrow> t = s \<or>
     settled uid u t \<and> myMQTTregistered t \<and> myDeviceRegistered t = myDeviceRegistered s"

lemma joining_step:
  assumes "joining uid u s t" "agent_inv s" "myAgent_uid s = uid" "welcomes c uid u m"
  shows "joining uid u s (state_after t (simulator_on_message c m t))"
proof -
  have t: "agent_inv t" "myAgent_uid t = uid" "myDeviceRegistered t = myDeviceRegistered s"
    using assms(1-3) by (auto simp: joining_def settled_def)
  obtain data where "msg_topic m = registration_topic (myAgent_uid t) ''response''" "decode c (msg_payload m) = Inr data" "get_uuid data = Inr u"
    using assms(4) t(2) by (auto simp: welcomes_def)
  from simulator.registers[OF t(1) this] have "state_after t (simulator_on_message c m t) = registered_as u t" by simp
  moreover have "settled uid u (registered_as u t)"
    using registered_as_inv[OF t(1), of u] t(2) by (auto simp: settled_def registered_as_def topics_of_def)
  ultimately show ?thesis using t(3) by (simp add: joining_def registered_as_def)
qed

lemma joining_deliver:
  "joining uid u s t \<Longrightarrow> agent_inv s \<Longrightarrow> myAgent_uid s = uid \<Longrightarrow> list_all (welcomes c uid u) ms \<Longrightarrow>
   joining uid u s (deliver (simulator_on_message c) ms t)"
proof (induction ms arbitrary: t)
  case (Cons m ms)
  with joining_step[of uid u s t c m] show ?case by simp
qed simp

lemma registration_joins:
  fixes s :: "('b, 'z) agent_scheme"
  assumes s: "agent_inv s" "\<not> myMQTTregistered s" "client s \<noteq> None" "myAgent_uid s = uid"
    and enc: "encode c (agent_register_request_schema_id (schemas s)) (RegisterRequest data) = Inr raw"
    and env: "delivers c inbox env"
    and answer: "\<And>k. list_all (welcomes c uid u) (inbox (net s @ request_acts (fst topic) raw (snd topic) env) k)"
      "\<exists>k<300. inbox (net s @ request_acts (fst topic) raw (snd topic) env) k \<noteq> []"
  shows "\<exists>t. mqtt_registration c topic data env s = Return True t \<and> settled uid u t \<and> myMQTTregistered t \<and>
    myDeviceRegistered t = myDeviceRegistered s \<and>
    session_frame t = session_frame (s\<lparr>net := net s @ request_acts (fst topic) raw (snd topic) env\<rparr>)"
proof -
  let ?acts = "net s @ request_acts (fst topic) raw (snd topic) env"
  let ?nw = "\<lambda>k. deliver (simulator_on_message c) (inbox ?acts k)"
  define s1 where "s1 = s\<lparr>net := ?acts\<rparr>"
  have s1: "agent_inv s1" "\<not> myMQTTregistered s1" "myAgent_uid s1 = uid" using s by (simp_all add: s1_def agent_inv_net)
  have wait: "request_and_wait (fst topic) raw (snd topic) myMQTTregistered env s = wait_flag myMQTTregistered ?nw 0 s1"
    unfolding request_frozen[OF env s(3)] using s(3) by (auto simp: request_and_wait_def client_call_def request_acts_def s1_def)
  have "network_thread ?nw (joining uid u s1)"
    by unfold_locales (rule joining_deliver[OF _ s1(1,3) answer(1)])
  note joined = network_thread.sleeps_keep[OF this, of s1 0] and frame = frame_thread.sleeps_keep[OF refl, of c "inbox ?acts" 0 _ s1]
  obtain j where j: "j < 300" "inbox ?acts j \<noteq> []" using answer(2) by blast
  then obtain m where m: "m \<in> set (inbox ?acts j)" by (cases "inbox ?acts j") auto
  then have "announces c s1 m" using answer(1)[of j] s1(3) by (auto simp: welcomes_def announces_def list_all_iff)
  then have flag: "myMQTTregistered (sleeps ?nw 0 300 s1)"
    using simulator.sleeps_set_flag[OF s1(1,2), of c "inbox ?acts" 0 300] j(1) m by auto
  show ?thesis
  proof (cases rule: wait_flag_cases[where flag = myMQTTregistered and nw = ?nw and s = s1])
    case (returns k)
    have "joining uid u s1 s1" by (simp add: joining_def)
    from joined[OF this, of k] returns(2) s1(2) have "settled uid u (sleeps ?nw 0 k s1)"
      "myDeviceRegistered (sleeps ?nw 0 k s1) = myDeviceRegistered s" by (auto simp: joining_def s1_def)
    with returns(2,4) frame[of k] enc wait show ?thesis by (auto simp: mqtt_registration_def s1_def)
  next
    case timeout
    with timeout(1)[of 300] flag show ?thesis by blast
  qed
qed

text \<open>The devices: as \<open>device_registration_assigns_uuids\<close> says, and nothing but the session changes.\<close>

lemma devices_assigned:
  fixes s :: "('b, 'z) agent_scheme"
  assumes settled: "settled uid u s" and new: "\<not> myDeviceRegistered s" and connected: "client s \<noteq> None"
    and env: "delivers c inbox env" "grants_subscription env"
    and enc: "encode c (device_register_request_schema_id (schemas s)) (DeviceList (fst deviceMap) (snd deviceMap)) = Inr raw"
    and acts: "acts = subscribe_acts response_topics env @ request_acts topic raw 2 env"
    and answer: "\<And>k. list_all (undisturbed c uid u d) (inbox (net s @ acts) k)" "\<exists>k<300. list_ex (assigns c u d) (inbox (net s @ acts) k)"
  shows "\<exists>t. mqtt_device_registration c topic response_topics deviceMap env s = Return () t \<and>
    myDeviceSensorUUIDsMap t = d \<and> settled uid u t \<and> session_frame t = session_frame (s\<lparr>net := net s @ acts\<rparr>)"
proof -
  define s1 where "s1 = s\<lparr>net := net s @ acts\<rparr>"
  let ?nw = "\<lambda>k. deliver (simulator_on_message c) (inbox (net s @ acts) k)"
  let ?s = "s\<lparr>net := net s @ subscribe_acts response_topics env\<rparr>"
  have "client ?s \<noteq> None" using connected by simp
  from request_frozen[OF env(1) this, of topic raw 2 myDeviceRegistered] have
    "mqtt_device_registration c topic response_topics deviceMap env s = wait_flag myDeviceRegistered ?nw 0 s1"
    using connected enc by (auto simp: mqtt_device_registration_def subscribe_granted[OF env(2)] acts
      request_and_wait_def client_call_def request_acts_def s1_def)
  note call = this
  have knows: "knows uid u d s1"
    using settled new by (simp add: knows_def s1_def settled_def agent_inv_net topics_of_def)
  have sleeps: "knows uid u d (sleeps ?nw 0 k s1)" "(\<exists>j<k. list_ex (assigns c u d) (inbox (net s @ acts) j)) \<Longrightarrow>
      myDeviceRegistered (sleeps ?nw 0 k s1)" for k
    using knows_sleeps[OF knows, of c "inbox (net s @ acts)" 0 k] answer(1) by simp_all
  show ?thesis
  proof (cases rule: wait_flag_cases[where flag = myDeviceRegistered and nw = ?nw and s = s1])
    case (returns k)
    with sleeps(1)[of k] frame_thread.sleeps_keep[OF refl, of c "inbox (net s @ acts)" 0 k s1] show ?thesis
      unfolding call by (auto simp: knows_def s1_def)
  next
    case timeout
    from answer(2) sleeps(2)[of 300] have "myDeviceRegistered (sleeps ?nw 0 300 s1)" by blast
    with timeout(1)[of 300] show ?thesis by blast
  qed
qed

section \<open>The files of the switches\<close>

definition seed_file :: "('b, 'z) simulator_scheme \<Rightarrow> string \<Rightarrow> string" where
  "seed_file s guid = seedOutputDir s @ ''/'' @ guid @ ''.perfquery.json''"

text \<open>Both switch files list GUIDs once each, every switch has a seed file with the counters, and the
  template has the metrics.\<close>

definition files_complete :: "sim_files \<Rightarrow> (string \<Rightarrow> string list) \<Rightarrow> (string \<Rightarrow> string \<rightharpoonup> int) \<Rightarrow> ('b, 'z) simulator_scheme \<Rightarrow> bool" where
  "files_complete fs guids seed s \<longleftrightarrow>
     (\<forall>cmc \<in> set cmcs. switch_file fs cmc = Inr (guids cmc) \<and> distinct (guids cmc) \<and>
        (\<forall>guid \<in> set (guids cmc). perfquery fs (seed_file s guid) = Inr (seed guid) \<and> three_counters \<union> set ibmetrics \<subseteq> dom (seed guid))) \<and>
     (\<exists>template. device_template fs (device_json_dir s @ ''/InfinibandDevice.json'') = Inr template \<and>
        set ibmetrics \<subseteq> sensor_name ` set (device_sensors template))"

text \<open>The switches, in the order of the files.\<close>

definition fabric :: "(string \<Rightarrow> string list) \<Rightarrow> (string \<times> string) list" where
  "fabric guids = concat (map (\<lambda>cmc. map (Pair cmc) (guids cmc)) cmcs)"

definition seeded :: "(string \<Rightarrow> string list) \<Rightarrow> (string \<Rightarrow> string \<rightharpoonup> int) \<Rightarrow> (string \<times> (string \<times> (string \<rightharpoonup> int)) list) list" where
  "seeded guids seed = map (\<lambda>cmc. (cmc, map (\<lambda>guid. (guid, seed guid)) (guids cmc))) cmcs"

lemma update_new: "k \<notin> fst ` set al \<Longrightarrow> AList.update k v al = al @ [(k, v)]"
  by (induction al) auto

lemma fold_updates:
  "distinct guids \<Longrightarrow> set guids \<inter> fst ` set al = {} \<Longrightarrow>
   fold (\<lambda>(guid, q) m. AList.update guid q m) (map (\<lambda>guid. (guid, seed guid)) guids) al = al @ map (\<lambda>guid. (guid, seed guid)) guids"
proof (induction guids arbitrary: al)
  case (Cons g guids)
  then have "AList.update g (seed g) al = al @ [(g, seed g)]" by (intro update_new) auto
  with Cons.IH[of "al @ [(g, seed g)]"] Cons.prems show ?case by auto
qed simp

lemma seed_map_complete:
  assumes "files_complete fs guids seed s"
  shows "seed_simulator_map fs s = Inr (seeded guids seed)"
proof -
  have row: "res_then (switch_file fs cmc) (\<lambda>guids. res_then (res_map (\<lambda>guid.
        res_then (perfquery fs (seedOutputDir s @ ''/'' @ guid @ ''.perfquery.json'')) (\<lambda>query_output. Inr (guid, query_output))) guids)
      (\<lambda>seeds. Inr (cmc, fold (\<lambda>(guid, q) m. AList.update guid q m) seeds []))) = Inr (cmc, map (\<lambda>guid. (guid, seed guid)) (guids cmc))"
    if "cmc \<in> set cmcs" for cmc
  proof -
    from assms that have files: "switch_file fs cmc = Inr (guids cmc)" "distinct (guids cmc)"
      "\<And>guid. guid \<in> set (guids cmc) \<Longrightarrow> perfquery fs (seed_file s guid) = Inr (seed guid)"
      by (auto simp: files_complete_def)
    have "res_map (\<lambda>guid. res_then (perfquery fs (seedOutputDir s @ ''/'' @ guid @ ''.perfquery.json'')) (\<lambda>query_output. Inr (guid, query_output)))
        (guids cmc) = Inr (map (\<lambda>guid. (guid, seed guid)) (guids cmc))"
      by (rule res_map_Inr) (drule files(3), simp add: seed_file_def)
    with files(1) fold_updates[OF files(2), of "[]" seed] show ?thesis by simp
  qed
  show ?thesis unfolding seed_simulator_map_def seeded_def by (rule res_map_Inr) (rule row)
qed

lemma cmcs_distinct: "distinct cmcs"
  by (simp add: cmcs_def)

lemma seeded_keys: "switch_keys (s\<lparr>seed_map := seeded guids seed\<rparr>) = fabric guids"
  by (simp add: switch_keys_def seeded_def fabric_def comp_def)

lemma fabric_distinct: "(\<And>cmc. cmc \<in> set cmcs \<Longrightarrow> distinct (guids cmc)) \<Longrightarrow> distinct (fabric guids)"
  by (auto simp: fabric_def cmcs_def distinct_map inj_on_def)

lemma fabric_elem: "(cmc, guid) \<in> set (fabric guids) \<longleftrightarrow> cmc \<in> set cmcs \<and> guid \<in> set (guids cmc)"
  by (auto simp: fabric_def)

lemma seeded_metrics:
  assumes "(cmc, guid) \<in> set (fabric guids)"
  shows "metrics_of cmc guid (s\<lparr>seed_map := seeded guids seed\<rparr>) = Inr (seed guid)"
  using assms by (simp add: metrics_of_def seeded_def fabric_elem map_of_map_restrict)

text \<open>The table of the UUIDs, when the answer covers the devices.\<close>

definition sensor_of :: "device_uuids \<Rightarrow> string \<times> string \<Rightarrow> string \<Rightarrow> uuid" where
  "sensor_of d key metric = projr (sensor_uuid_of d (snd key) metric)"

lemma table_complete:
  assumes files: "files_complete fs guids seed s" and devices: "simulator_device_map fs s = Inr (v, devices)" and "covers d devices"
  shows "\<exists>table. assemble_uuids fs d = Inr table \<and>
    (\<forall>key \<in> set (fabric guids). \<forall>metric \<in> set ibmetrics. lookup_uuid table (fst key) (snd key) metric = Inr (sensor_of d key metric))"
proof -
  from files obtain template where template: "device_template fs (device_json_dir s @ ''/InfinibandDevice.json'') = Inr template"
    "set ibmetrics \<subseteq> sensor_name ` set (device_sensors template)" by (auto simp: files_complete_def)
  have switches: "switch_file fs cmc = Inr (guids cmc)" if "cmc \<in> set cmcs" for cmc
    using files that by (simp add: files_complete_def)
  from registered_table[OF devices assms(3) template switches] show ?thesis
    unfolding sensor_of_def Ball_def by (auto simp: fabric_elem)
qed

section \<open>The whole run\<close>

text \<open>The topic of the last publication.\<close>

primrec last_request :: "'b mqtt_action list \<Rightarrow> string option" where
  "last_request [] = None"
| "last_request (act # acts) =
     (case last_request acts of Some tp \<Rightarrow> Some tp | None \<Rightarrow> (case act of Publish tp raw qos retain \<Rightarrow> Some tp | _ \<Rightarrow> None))"

lemma last_request_append:
  "last_request (xs @ ys) = (case last_request ys of Some tp \<Rightarrow> Some tp | None \<Rightarrow> last_request xs)"
  by (induction xs) (auto split: option.splits)

lemma last_request_acts: "last_request (acts @ request_acts topic raw qos env) = Some topic"
  by (simp add: last_request_append request_acts_def)

text \<open>
  The framework serves the agent \<open>uid\<close> as \<open>u\<close> with the device map \<open>d\<close>: whatever was called
  before, it answers a registration request with welcomes and a device registration request with
  \<open>d\<close>, within 300 sleeps.
\<close>

definition framework_serves ::
  "'b codec \<Rightarrow> string \<Rightarrow> uuid \<Rightarrow> device_uuids \<Rightarrow> ('b mqtt_action list \<Rightarrow> nat \<Rightarrow> 'b message list) \<Rightarrow> bool" where
  "framework_serves c uid u d inbox \<longleftrightarrow>
     (\<forall>acts.
        (last_request acts = Some (registration_topic uid ''request'') \<longrightarrow>
           (\<forall>k. list_all (welcomes c uid u) (inbox acts k)) \<and> (\<exists>k<300. inbox acts k \<noteq> [])) \<and>
        (last_request acts = Some (device_topic u ''request'') \<longrightarrow>
           (\<forall>k. list_all (undisturbed c uid u d) (inbox acts k)) \<and> (\<exists>k<300. list_ex (assigns c u d) (inbox acts k))))"

definition encodes_requests :: "'b codec \<Rightarrow> bool" where
  "encodes_requests c \<longleftrightarrow>
     (\<forall>i data. \<exists>raw. encode c i (RegisterRequest data) = Inr raw) \<and>
     (\<forall>i v devices. \<exists>raw. encode c i (DeviceList v devices) = Inr raw) \<and>
     (\<forall>i ts. \<exists>raw. encode c i (SendTimeSeriesDruidArray (map Dict ts)) = Inr raw)"

text \<open>The calls before the first sample: connect, request a registration, request it for the devices.\<close>

definition handshake :: "uuid \<Rightarrow> 'b \<Rightarrow> 'b \<Rightarrow> ('b, 'z) simulator_scheme net_env \<Rightarrow> ('b, 'z) simulator_scheme \<Rightarrow> 'b mqtt_action list" where
  "handshake u reg dev env s =
     connect_acts (myAgent_mqtt_encryption_enabled s) (myAgent_registration_response_topic s) env (mqtt_conf s) @
     request_acts (registration_topic (myAgent_uid s) ''request'') reg 2 env @
     subscribe_acts [(device_topic u ''response'', 2)] env @ request_acts (device_topic u ''request'') dev 2 env"

lemma more_fields:
  fixes s t :: "('b, 'z) simulator_scheme"
  assumes "agent.more t = agent.more s"
  shows "device_json_dir t = device_json_dir s" "seedOutputDir t = seedOutputDir s" "simulator_limit t = simulator_limit s"
    "batch_size t = batch_size s" "myRegistrationData t = myRegistrationData s"
  using assms by (cases s; cases t; simp)+

lemma device_map_of:
  fixes s t :: "('b, 'z) simulator_scheme"
  assumes "simulator_device_map fs s = Inr (v, devices)" "agent.more t = agent.more s"
  shows "simulator_device_map fs t = Inr (Uuid (str_uuid (myAgent_uuid t)), devices)"
  using assms(1) by (auto simp: simulator_device_map_def more_fields(1)[OF assms(2)] res_then_Inr_iff)

lemma run_joins:
  fixes s :: "('b, 'z) simulator_scheme"
  assumes s: "fresh_agent n i s" "\<not> myDeviceRegistered s" "myAgent_uid s = uid"
      "myAgent_registration_request_topic s = [(registration_topic uid ''request'', 2)]"
    and env: "connect_error env = None" "grants_subscription env" "delivers c inbox env" "framework_serves c uid u d inbox"
    and enc: "encodes_requests c" and devices: "simulator_device_map fs s = Inr (v, devices)"
  shows "\<exists>t reg dev. simulator_run c sizeof env fs start tick k s = simulator_send_data c sizeof env fs start tick k t \<and>
    myDeviceSensorUUIDsMap t = d \<and> settled uid u t \<and>
    session_frame t = session_frame (s\<lparr>client := Some uid, net := handshake u reg dev env s\<rparr>)"
proof -
  let ?topic = "(registration_topic uid ''request'', 2::nat)"
  let ?con = "connect_acts (myAgent_mqtt_encryption_enabled s) (myAgent_registration_response_topic s) env (mqtt_conf s)"
  define s1 where "s1 = s\<lparr>client := Some uid, net := ?con\<rparr>"
  have "net s = []" using s(1) by (simp add: fresh_agent_def)
  with mqtt_init_granted[OF env(1,2)] have init: "mqtt_init (myAgent_uid s) (Some (myAgent_registration_response_topic s)) False
      (myAgent_mqtt_encryption_enabled s) env s = Return () s1" by (simp add: s1_def s(3))
  have s1: "agent_inv s1" "\<not> myMQTTregistered s1" "client s1 \<noteq> None" "myAgent_uid s1 = uid"
    using s(1,3) by (simp_all add: fresh_agent_def s1_def agent_inv_def no_topics_def topics_of_def)
  obtain reg where reg: "encode c (agent_register_request_schema_id (schemas s1)) (RegisterRequest (myRegistrationData s)) = Inr reg"
    using enc unfolding encodes_requests_def by blast
  let ?acts = "net s1 @ request_acts (fst ?topic) reg (snd ?topic) env"
  have "last_request ?acts = Some (registration_topic uid ''request'')" by (simp add: last_request_acts)
  with env(4) have "\<And>k. list_all (welcomes c uid u) (inbox ?acts k)" "\<exists>k<300. inbox ?acts k \<noteq> []"
    unfolding framework_serves_def by blast+
  from registration_joins[OF s1 reg env(3) this] obtain s2 where
    s2: "mqtt_registration c ?topic (myRegistrationData s) env s1 = Return True s2" "settled uid u s2" "myDeviceRegistered s2 = myDeviceRegistered s1"
    and frame2: "session_frame s2 = session_frame (s1\<lparr>net := ?acts\<rparr>)" by blast
  from s(2) s2(3) have new: "\<not> myDeviceRegistered s2" by (simp add: s1_def)
  have conn: "client s2 \<noteq> None" and net2: "net s2 = ?acts" and more2: "agent.more s2 = agent.more s"
    using session_frame_fields(1,4,5)[OF frame2] s1(3) by (simp_all add: s1_def)
  have topics: "myDevice_registration_request_topic s2 = Some (device_topic u ''request'')"
    "myDevice_registration_response_topic s2 = Some [(device_topic u ''response'', 2)]"
    using s2(2) by (simp_all add: settled_def topics_of_def)
  note map = device_map_of[OF devices more2]
  let ?map = "(Uuid (str_uuid (myAgent_uuid s2)), devices)"
  obtain dev where dev: "encode c (device_register_request_schema_id (schemas s2)) (DeviceList (fst ?map) (snd ?map)) = Inr dev"
    using enc unfolding encodes_requests_def by blast
  define acts where "acts = subscribe_acts [(device_topic u ''response'', 2)] env @ request_acts (device_topic u ''request'') dev 2 env"
  have "last_request (net s2 @ acts) = Some (device_topic u ''request'')"
    unfolding acts_def append_assoc[symmetric] by (rule last_request_acts)
  with env(4) have "\<And>k. list_all (undisturbed c uid u d) (inbox (net s2 @ acts) k)" "\<exists>k<300. list_ex (assigns c u d) (inbox (net s2 @ acts) k)"
    unfolding framework_serves_def by blast+
  from devices_assigned[OF s2(2) new conn env(3,2) dev acts_def this] obtain t where
    t: "mqtt_device_registration c (device_topic u ''request'') [(device_topic u ''response'', 2)] ?map env s2 = Return () t"
      "myDeviceSensorUUIDsMap t = d" "settled uid u t" "session_frame t = session_frame (s2\<lparr>net := net s2 @ acts\<rparr>)" by blast
  have "session_frame (s2\<lparr>net := net s2 @ acts\<rparr>) = (session_frame s2)\<lparr>net := net s2 @ acts\<rparr>" by (simp add: session_frame_def)
  also have "\<dots> = session_frame (s\<lparr>client := Some uid, net := handshake u reg dev env s\<rparr>)"
    unfolding frame2 net2 by (simp add: session_frame_def s1_def handshake_def acts_def s(3))
  finally have frame: "session_frame t = \<dots>" using t(4) by simp
  have req: "myAgent_registration_request_topic s1 = [?topic]" "myRegistrationData s1 = myRegistrationData s"
    using s(4) by (simp_all add: s1_def)
  then have idx: "py_index (myAgent_registration_request_topic s1) 0 = Inr ?topic" by (simp add: py_index_def)
  have "simulator_run c sizeof env fs start tick k s = simulator_send_data c sizeof env fs start tick k t"
    unfolding simulator_run_def init and_then_simps idx or_raise_simps req(2) s2(1) map topics option.case t(1) ..
  with t(2,3) frame show ?thesis by blast
qed

text \<open>From there on it is ready to send.\<close>

definition seed_at :: "(string \<Rightarrow> string list) \<Rightarrow> (string \<Rightarrow> string \<rightharpoonup> int) \<Rightarrow> nat \<Rightarrow> (string \<rightharpoonup> int)" where
  "seed_at guids seed l = seed (snd (fabric guids ! l))"

lemma run_ready:
  fixes s t :: "('b, 'z) simulator_scheme"
  assumes s: "fresh_agent n i s" "i < n" "myEnableMQTTbatchesCounter s = Some False"
      "no_stop (simulator_args s) most s" "0 < batch_size s"
      "is_batch_len (batch_full sizeof (simulator_args s)) m"
    and frame: "session_frame t = session_frame (s\<lparr>client := Some uid, net := acts\<rparr>)"
    and enc: "encodes_requests c" and files: "files_complete fs guids seed s"
    and table: "\<forall>key \<in> set (fabric guids). \<forall>metric \<in> set ibmetrics. lookup_uuid table (fst key) (snd key) metric = Inr (sensor_of d key metric)"
  shows "sending_ready c sizeof m most table (sensor_of d) (seed_at guids seed) (t\<lparr>seed_map := seeded guids seed, simulator_timet0 := start\<rparr>)"
proof -
  let ?t = "t\<lparr>seed_map := seeded guids seed, simulator_timet0 := start\<rparr>"
  note f = session_frame_fields[OF frame]
  have more: "agent.more t = agent.more s" using f(1) by simp
  have keys: "switch_keys ?t = fabric guids"
    using seeded_keys[where s = "t\<lparr>simulator_timet0 := start\<rparr>" and guids = guids and seed = seed] by (simp add: switch_keys_def)
  have args: "0 < byteBatchSize (simulator_args ?t)" "batch_full sizeof (simulator_args ?t) = batch_full sizeof (simulator_args s)"
    "no_stop (simulator_args ?t) most ?t"
    using s(4,5) more_fields[OF more] f(8) by (simp_all add: simulator_args_def batch_full_def fun_eq_iff no_stop_def)
  have fields: "myByteBatch ?t = []" "myMessageCounter ?t = 0" "myEnableMQTTbatchesCounter ?t = Some False" "client ?t \<noteq> None"
    "myCurrentSubtopic ?t = i" "myAgentMqttNumberOfPublishingTopics ?t = n" "myBatchCounter ?t = replicate n 1"
    using s(1,3) f by (simp_all add: fresh_agent_def)
  have ok: "sendable c (simulator_args ?t) ?t"
    using fields args(1) s(2) enc by (simp add: sendable_def encodes_requests_def)
  have dist: "distinct (fabric guids)"
    by (rule fabric_distinct) (use files in \<open>simp add: files_complete_def\<close>)
  have "metrics_of (fst (fabric guids ! l)) (snd (fabric guids ! l)) ?t = Inr (seed_at guids seed l) \<and>
      three_counters \<union> set ibmetrics \<subseteq> dom (seed_at guids seed l) \<and>
      (\<forall>metric \<in> set ibmetrics. lookup_uuid table (fst (fabric guids ! l)) (snd (fabric guids ! l)) metric =
        Inr (sensor_of d (fabric guids ! l) metric))"
    if "l < length (fabric guids)" for l
  proof -
    obtain cmc guid where key: "fabric guids ! l = (cmc, guid)" by (cases "fabric guids ! l")
    with that have elem: "(cmc, guid) \<in> set (fabric guids)" by (metis nth_mem)
    from seeded_metrics[OF this, where s = "t\<lparr>simulator_timet0 := start\<rparr>" and seed = seed] have "metrics_of cmc guid ?t = Inr (seed guid)"
      by (simp add: metrics_of_def)
    moreover from files elem have "three_counters \<union> set ibmetrics \<subseteq> dom (seed guid)"
      unfolding fabric_elem files_complete_def by blast
    moreover note bspec[OF table elem]
    ultimately show ?thesis by (simp add: seed_at_def key)
  qed
  with ok fields args s(6) dist show ?thesis unfolding sending_ready_def keys by simp
qed

text \<open>What a run needs: the constructor returned \<open>s\<close> from options without the batch counter; no limit and
  a batch length; brokers and framework; files and an answer that covers their devices.\<close>

definition constructs ::
  "(string \<Rightarrow> (exn + config) option) \<Rightarrow> (string \<Rightarrow> nat \<Rightarrow> int option) \<Rightarrow> (string \<Rightarrow> exn + rat) \<Rightarrow> string \<Rightarrow> nat \<Rightarrow> agent_options \<Rightarrow>
   nat \<Rightarrow> ('b, 'z) simulator_scheme \<Rightarrow> ('b, 'z) simulator_scheme \<Rightarrow> bool" where
  "constructs files registry py_float uid i opts n s0 s \<longleftrightarrow>
     number_of_topics (opt_numberOfTopic opts) = Inr (int n) \<and> i < n \<and> \<not> opt_enableMQTTbatchesCounter opts \<and>
     simulator_init files registry py_float uid i ''IBswitchSimulator.cfg'' (opt_debug opts) (opt_encrypt opts) (Inr (int n))
       (opt_batching opts) (opt_sleepLoopTime opts) (opt_sendNumberOfMessages opts) False (class_attributes s0) = Return () s"

definition unlimited_batches :: "(nat \<Rightarrow> nat) \<Rightarrow> nat \<Rightarrow> ('b, 'z) simulator_scheme \<Rightarrow> bool" where
  "unlimited_batches sizeof m s \<longleftrightarrow>
     simulator_limit s = - 1 \<and> 0 < batch_size s \<and> is_batch_len (batch_full sizeof (simulator_args s)) m"

definition served :: "'b codec \<Rightarrow> string \<Rightarrow> uuid \<Rightarrow> device_uuids \<Rightarrow> ('b, 'z) agent_scheme net_env \<Rightarrow> bool" where
  "served c uid u d env \<longleftrightarrow> connect_error env = None \<and> grants_subscription env \<and>
     (\<exists>inbox. delivers c inbox env \<and> framework_serves c uid u d inbox)"

definition covered_files ::
  "sim_files \<Rightarrow> (string \<Rightarrow> string list) \<Rightarrow> (string \<Rightarrow> string \<rightharpoonup> int) \<Rightarrow> device_uuids \<Rightarrow> ('b, 'z) simulator_scheme \<Rightarrow> bool" where
  "covered_files fs guids seed d s \<longleftrightarrow> files_complete fs guids seed s \<and>
     (\<exists>v devices. simulator_device_map fs s = Inr (v, devices) \<and> covers d devices)"

lemma settled_session: "session_of t = session_of s \<Longrightarrow> settled uid u s \<Longrightarrow> settled uid u t"
  by (auto simp: settled_def session_of_def agent_inv_def no_topics_def topics_of_def)

lemma main_ready:
  fixes s0 s :: "('b, 'z) simulator_scheme"
  assumes made: "constructs files registry py_float uid i opts n s0 s"
    and limits: "no_stop (simulator_args s) most s" "0 < batch_size s" "is_batch_len (batch_full sizeof (simulator_args s)) m"
    and enc: "encodes_requests c" and served: "served c uid u d env" and files: "covered_files fs guids seed d s"
  shows "\<exists>reg dev r table. simulator_main files registry py_float uid i opts c sizeof env fs start tick k s0 = send_turns c sizeof env table tick k r \<and>
    sending_ready c sizeof m most table (sensor_of d) (seed_at guids seed) r \<and> switch_keys r = fabric guids \<and>
    net r = handshake u reg dev env s \<and> myByteBatch r = [] \<and> myMessageCounter r = 0 \<and> settled uid u r \<and>
    myCurrentSubtopic r = i \<and> myAgentMqttNumberOfPublishingTopics r = n \<and>
    simulator_limit r = simulator_limit s \<and> simulator_timet0 r = start"
proof -
  from made have opts: "number_of_topics (opt_numberOfTopic opts) = Inr (int n)" "i < n" "\<not> opt_enableMQTTbatchesCounter opts"
    and init: "simulator_init files registry py_float uid i ''IBswitchSimulator.cfg'' (opt_debug opts) (opt_encrypt opts) (Inr (int n))
      (opt_batching opts) (opt_sleepLoopTime opts) (opt_sendNumberOfMessages opts) False (class_attributes s0) = Return () s"
    by (simp_all add: constructs_def)
  from served obtain inbox where env: "connect_error env = None" "grants_subscription env" "delivers c inbox env"
    "framework_serves c uid u d inbox" by (auto simp: served_def)
  from files obtain v devices where complete: "files_complete fs guids seed s"
    and devices: "simulator_device_map fs s = Inr (v, devices)" "covers d devices" by (auto simp: covered_files_def)
  have s: "fresh_agent n i s" "myAgent_uid s = uid" "myEnableMQTTbatchesCounter s = Some False" "\<not> myDeviceRegistered s"
    "myAgent_registration_request_topic s = [(registration_topic uid ''request'', 2)]"
    using simulator_init_fresh[OF init] by simp_all
  have main: "simulator_main files registry py_float uid i opts c sizeof env fs start tick k s0 = simulator_run c sizeof env fs start tick k s"
    using opts init by (simp add: simulator_main_def)
  from run_joins[OF s(1,4,2,5) env enc devices(1)] obtain r reg dev where
    r: "simulator_run c sizeof env fs start tick k s = simulator_send_data c sizeof env fs start tick k r"
      "myDeviceSensorUUIDsMap r = d" "settled uid u r"
    and frame: "session_frame r = session_frame (s\<lparr>client := Some uid, net := handshake u reg dev env s\<rparr>)" by metis
  note f = session_frame_fields[OF frame]
  obtain table where table: "assemble_uuids fs d = Inr table"
    "\<forall>key \<in> set (fabric guids). \<forall>metric \<in> set ibmetrics. lookup_uuid table (fst key) (snd key) metric = Inr (sensor_of d key metric)"
    using table_complete[OF complete devices] by blast
  have more: "agent.more r = agent.more s" using f(1) by simp
  have "files_complete fs guids seed r"
    using complete more_fields[OF more] by (simp add: files_complete_def seed_file_def)
  note seeds = seed_map_complete[OF this]
  let ?r = "r\<lparr>seed_map := seeded guids seed, simulator_timet0 := start\<rparr>"
  have "switch_keys ?r = fabric guids"
    using seeded_keys[where s = "r\<lparr>simulator_timet0 := start\<rparr>" and guids = guids and seed = seed] by (simp add: switch_keys_def)
  moreover have "sending_ready c sizeof m most table (sensor_of d) (seed_at guids seed) ?r"
    by (rule run_ready[OF s(1) opts(2) s(3) limits frame enc complete table(2)])
  moreover have "simulator_main files registry py_float uid i opts c sizeof env fs start tick k s0 = send_turns c sizeof env table tick k ?r"
    using seeds by (simp add: main r(1,2) simulator_send_data_def table(1))
  moreover have "settled uid u ?r"
    by (rule settled_session[OF _ r(3)]) (simp add: session_of_def)
  moreover have "net ?r = handshake u reg dev env s" "myByteBatch ?r = []" "myMessageCounter ?r = 0"
    "myCurrentSubtopic ?r = i" "myAgentMqttNumberOfPublishingTopics ?r = n" "simulator_limit ?r = simulator_limit s" "simulator_timet0 ?r = start"
    using f s(1) more_fields[OF more] by (simp_all add: fresh_agent_def)
  ultimately show ?thesis by blast
qed

lemma main_sends:
  fixes s0 s :: "('b, 'z) simulator_scheme"
  assumes made: "constructs files registry py_float uid i opts n s0 s" and read: "unlimited_batches sizeof m s"
    and enc: "encodes_requests c" and served: "served c uid u d env" and files: "covered_files fs guids seed d s"
  shows "\<exists>t reg dev r. simulator_main files registry py_float uid i opts c sizeof env fs start tick k s0 = Return () t \<and>
    net r = handshake u reg dev env s \<and> myByteBatch r = [] \<and> myMessageCounter r = 0 \<and> myAgent_uuid r = u \<and>
    myCurrentSubtopic r = i \<and> myAgentMqttNumberOfPublishingTopics r = n \<and>
    batch_sim c (simulator_args r) r t (block_plan m r (run_samples (sensor_of d) tick (fabric guids) (seed_at guids seed) k))"
proof -
  let ?most = "2 * k * length (fabric guids)"
  from made have "fresh_agent n i s" using simulator_init_fresh by (fastforce simp: constructs_def)
  with read have limits: "no_stop (simulator_args s) ?most s" "0 < batch_size s" "is_batch_len (batch_full sizeof (simulator_args s)) m"
    by (simp_all add: unlimited_batches_def no_limit fresh_agent_def)
  from main_ready[OF made limits enc served files] obtain reg dev r table where
    main: "simulator_main files registry py_float uid i opts c sizeof env fs start tick k s0 = send_turns c sizeof env table tick k r"
    and ready: "sending_ready c sizeof m ?most table (sensor_of d) (seed_at guids seed) r" "switch_keys r = fabric guids"
    and r: "net r = handshake u reg dev env s" "myByteBatch r = []" "myMessageCounter r = 0" "settled uid u r"
      "myCurrentSubtopic r = i" "myAgentMqttNumberOfPublishingTopics r = n" by metis
  from send_turns_sim[OF ready(1), of k env tick] ready(2) obtain t seeds' where
    t: "send_turns c sizeof env table tick k r = Return () t"
    and sim: "batch_sim c (simulator_args r) (r\<lparr>seed_map := seeds'\<rparr>) t
      (block_plan m r (run_samples (sensor_of d) tick (fabric guids) (seed_at guids seed) k))"
    by (auto simp: sending_sim_def)
  let ?r = "r\<lparr>seed_map := seeds'\<rparr>"
  have "batch_sim c (simulator_args ?r) ?r t (block_plan m ?r (run_samples (sensor_of d) tick (fabric guids) (seed_at guids seed) k))"
    using sim by (simp add: block_plan_def simulator_args_def)
  with main t r show ?thesis by (intro exI[of _ t] exI[of _ reg] exI[of _ dev] exI[of _ ?r]) (simp add: settled_def)
qed

text \<open>C2: The simulator does its job from the start. Constructed with any options but the batch counter, no
  limit and batching on, against brokers that accept and grant and a framework that answers its
  two requests within 300 polls (as agent u, with the device map d covering the devices of its
  files), the program connects, registers, registers its devices, and then, for any number of
  turns: it raises nothing, makes exactly the calls of the handshake before its publications,
  counts two samples per switch and turn, and what a receiver decodes from the publications, with
  the samples still in the batch, is, turn by turn and switch by switch, one sample per metric,
  under the UUID the framework gave that sensor, with the value its counter has then.\<close>

theorem simulator_reports_fabric:
  fixes s0 s :: "('b, 'z) simulator_scheme"
  assumes "constructs files registry py_float uid i opts n s0 s" "unlimited_batches sizeof m s"
    and codec: "codec_laws c rnd" "encodes_requests c" and "served c uid u d env" "covered_files fs guids seed d s"
  shows "\<exists>t reg dev acts. simulator_main files registry py_float uid i opts c sizeof env fs start tick k s0 = Return () t \<and>
    myAgent_uuid t = u \<and> net t = handshake u reg dev env s @ acts \<and>
    myMessageCounter t = int (2 * k * length (fabric guids)) \<and>
    wire_samples c acts @ map (narrow rnd) (dict_samples (myByteBatch t)) =
      map (narrow rnd) (run_samples (sensor_of d) tick (fabric guids) (seed_at guids seed) k)"
proof -
  let ?xs = "run_samples (sensor_of d) tick (fabric guids) (seed_at guids seed) k"
  from main_sends[OF assms(1,2) codec(2) assms(5,6)] obtain t reg dev r where
    main: "simulator_main files registry py_float uid i opts c sizeof env fs start tick k s0 = Return () t"
    and r: "net r = handshake u reg dev env s" "myByteBatch r = []" "myMessageCounter r = 0" "myAgent_uuid r = u"
    and sim: "batch_sim c (simulator_args r) r t (block_plan m r ?xs)" by blast
  from sim obtain acts where acts: "net t = net r @ acts" by (auto simp: batch_sim_def)
  have "myAgent_uuid t = u" using sim batch_frame_fields(2)[of t r] r(4) by (simp add: batch_sim_def)
  moreover have "myMessageCounter t = int (2 * k * length (fabric guids))"
    using batch_sim_counter[OF sim] r(2,3) by (simp add: length_run_samples)
  moreover have "wire_samples c acts @ map (narrow rnd) (dict_samples (myByteBatch t)) = map (narrow rnd) ?xs"
    using batch_sim_conserves[OF codec(1) sim] unfolding acts wire_samples_append append_assoc by simp
  ultimately show ?thesis using main acts r(1) by metis
qed

definition demo_framework :: "wire mqtt_action list \<Rightarrow> nat \<Rightarrow> wire message list" where
  "demo_framework acts k =
     (if last_request acts = Some (registration_topic ''node7'' ''request'')
      then [\<lparr>msg_topic = registration_topic ''node7'' ''response'',
             msg_payload = Wire 2 (RegisterResponse ''node7'' True ''ok'' (Uuid ''u1'') Map.empty)\<rparr>]
      else if last_request acts = Some (device_topic (Uuid ''u1'') ''request'')
      then [\<lparr>msg_topic = device_topic (Uuid ''u1'') ''response'', msg_payload = Wire 7 (DeviceListResponse (Uuid ''u1'') demo_answer)\<rparr>]
      else if last_request acts = Some (deregistration_topic (Uuid ''u1'') ''request'')
      then [\<lparr>msg_topic = deregistration_topic (Uuid ''u1'') ''response'', msg_payload = Wire 4 (DeregisterResponse (Uuid ''u1'') True)\<rparr>]
      else [])"

definition demo_service :: "wire simulator net_env" where
  "demo_service = \<lparr>connect_error = None, subscribe_rc = (\<lambda>_. 0), is_published = True,
     network = (\<lambda>k s. deliver (simulator_on_message tag_codec) (demo_framework (net s) k) s)\<rparr>"

definition demo_options :: agent_options where
  "demo_options = \<lparr>opt_debug = False, opt_encrypt = True, opt_batching = True, opt_numberOfTopic = None,
     opt_sleepLoopTime = None, opt_sendNumberOfMessages = Some [], opt_enableMQTTbatchesCounter = False\<rparr>"

lemma demo_framework_serves: "framework_serves tag_codec ''node7'' (Uuid ''u1'') demo_answer demo_framework"
proof -
  have "registration_topic ''node7'' ''request'' \<noteq> device_topic (Uuid ''u1'') ''request''"
    "registration_topic ''node7'' ''response'' \<noteq> device_topic (Uuid ''u1'') ''response''" by code_simp+
  then show ?thesis
    by (auto simp: framework_serves_def demo_framework_def welcomes_def undisturbed_def assigns_def tag_codec_def intro: exI[of _ 0])
qed

definition demo_guids :: "string \<Rightarrow> string list" where
  "demo_guids cmc = (if cmc = ''r1i0c-ibswitch'' then [''A''] else [''B''])"

definition demo_seed :: "string \<Rightarrow> string \<rightharpoonup> int" where
  "demo_seed guid = [''SymbolErrorCounter'' \<mapsto> 7, ''LinkDownedCounter'' \<mapsto> 0, ''PortXmitDiscards'' \<mapsto> 0, ''PortXmitData'' \<mapsto> 9]"

lemma demo_topics_ready:
  assumes "number_of_topics topics = Inr (int n)" "0 < n" "\<And>cfg. read_limit cfg (Some most) = Inr limit"
  shows "\<exists>s. constructs (\<lambda>_. Some (Inr simulator_config)) (\<lambda>_ _. Some 1) (\<lambda>_. Inr 1) ''node7'' 0
      (demo_options\<lparr>opt_numberOfTopic := topics, opt_sendNumberOfMessages := Some most\<rparr>) n (demo_simulator False 1 1) s \<and>
    simulator_limit s = limit \<and> 0 < batch_size s \<and> is_batch_len (batch_full cpython_getsizeof (simulator_args s)) 47 \<and>
    covered_files demo_files demo_guids demo_seed demo_answer s"
proof -
  have n: "0 < int n" using assms(2) by simp
  obtain s where s: "simulator_init (\<lambda>_. Some (Inr simulator_config)) (\<lambda>_ _. Some 1) (\<lambda>_. Inr 1) ''node7'' 0 ''IBswitchSimulator.cfg''
      False True (Inr (int n)) True None (Some most) False (class_attributes (demo_simulator False 1 1)) = Return () s"
    "batch_size s = 512" "simulator_limit s = limit"
    using simulator_constructed[OF n assms(3), where i = 0 and counting = False] by blast
  have "constructs (\<lambda>_. Some (Inr simulator_config)) (\<lambda>_ _. Some 1) (\<lambda>_. Inr 1) ''node7'' 0
      (demo_options\<lparr>opt_numberOfTopic := topics, opt_sendNumberOfMessages := Some most\<rparr>) n (demo_simulator False 1 1) s"
    using s(1) assms(1,2) by (simp add: constructs_def demo_options_def)
  moreover have "0 < batch_size s" "is_batch_len (batch_full cpython_getsizeof (simulator_args s)) 47"
    by (simp_all add: s(2) batch_len_512 simulator_args_def)
  moreover have "files_complete demo_files demo_guids demo_seed s"
    by (auto simp: files_complete_def demo_files_def demo_template_def ibmetrics_def three_counters_def demo_guids_def demo_seed_def)
  moreover have "simulator_device_map demo_files s = Inr (Uuid (str_uuid (myAgent_uuid s)),
      [switch_device ''r1i0c-ibswitch'' ''A'' demo_template, switch_device ''r1i1c-ibswitch'' ''B'' demo_template])"
    by (simp add: simulator_device_map_def demo_files_def cmcs_def)
  moreover have "covers demo_answer devices" for devices by (simp add: covers_def demo_answer_def)
  ultimately show ?thesis using s(3) unfolding covered_files_def by blast
qed

lemma demo_run_ready:
  assumes "\<And>cfg. read_limit cfg (Some most) = Inr limit"
  shows "\<exists>s. constructs (\<lambda>_. Some (Inr simulator_config)) (\<lambda>_ _. Some 1) (\<lambda>_. Inr 1) ''node7'' 0
      (demo_options\<lparr>opt_sendNumberOfMessages := Some most\<rparr>) 1 (demo_simulator False 1 1) s \<and>
    simulator_limit s = limit \<and> 0 < batch_size s \<and> is_batch_len (batch_full cpython_getsizeof (simulator_args s)) 47 \<and>
    covered_files demo_files demo_guids demo_seed demo_answer s"
  using demo_topics_ready[of None 1 most limit, OF _ _ assms] by (simp add: number_of_topics_def demo_options_def)

lemma demo_unlimited:
  "\<exists>s. constructs (\<lambda>_. Some (Inr simulator_config)) (\<lambda>_ _. Some 1) (\<lambda>_. Inr 1) ''node7'' 0 demo_options 1 (demo_simulator False 1 1) s \<and>
    unlimited_batches cpython_getsizeof 47 s \<and> covered_files demo_files demo_guids demo_seed demo_answer s"
proof -
  have "read_limit cfg (Some []) = Inr (- 1)" for cfg by (simp add: read_limit_def)
  from demo_run_ready[OF this] show ?thesis by (simp add: unlimited_batches_def demo_options_def)
qed

lemma demo_served: "served tag_codec ''node7'' (Uuid ''u1'') demo_answer demo_service"
  using demo_framework_serves by (auto simp: served_def demo_service_def grants_subscription_def delivers_def MQTT_ERR_SUCCESS_def)

lemma demo_encodes: "encodes_requests tag_codec"
  by (simp add: encodes_requests_def tag_codec_def)

lemma demo_fabric: "length (fabric demo_guids) = 2"
  by (simp add: fabric_def cmcs_def demo_guids_def)

theorem simulator_reports_fabric_witness:
  "\<exists>t. simulator_main (\<lambda>_. Some (Inr simulator_config)) (\<lambda>_ _. Some 1) (\<lambda>_. Inr 1) ''node7'' 0 demo_options tag_codec cpython_getsizeof
      demo_service demo_files 0 (\<lambda>_ _. busy_tick) 30 (demo_simulator False 1 1) = Return () t \<and>
    myAgent_uuid t = Uuid ''u1'' \<and> myMessageCounter t = 120"
proof -
  from demo_unlimited obtain s where
    "constructs (\<lambda>_. Some (Inr simulator_config)) (\<lambda>_ _. Some 1) (\<lambda>_. Inr 1) ''node7'' 0 demo_options 1 (demo_simulator False 1 1) s"
    "unlimited_batches cpython_getsizeof 47 s" and files: "covered_files demo_files demo_guids demo_seed demo_answer s" by blast
  from simulator_reports_fabric[OF this(1,2) tag_codec_laws demo_encodes demo_served files, of 0 "\<lambda>_ _. busy_tick" 30]
  show ?thesis unfolding demo_fabric by auto
qed

section \<open>The counters of a run\<close>

text \<open>C33: The simulated counters are the sums of what was drawn for them. Constructed and served as above,
  the program has, after any number k of turns, for every switch of the fabric exactly the
  metrics of the switch's seed file, each at its seed value plus what its draw in each of the k
  turns adds: a symbol error draw above 0.98, 0.88, 0.78 adds 1000, 10, 1, a link draw above 0.99,
  0.89, 0.79 adds 100, 5, 1, a discard draw above 0.99, 0.89, 0.79 adds 10, 5, 2, every other draw
  nothing, and every other metric keeps its seed value. Each switch moves by its own draws only.\<close>

theorem simulated_counters_sum:
  fixes s0 s :: "('b, 'z) simulator_scheme"
  assumes made: "constructs files registry py_float uid i opts n s0 s" and read: "unlimited_batches sizeof m s"
    and enc: "encodes_requests c" and served: "served c uid u d env" and files: "covered_files fs guids seed d s"
    and switch: "l < length (fabric guids)" "fabric guids ! l = (cmc, guid)"
  shows "\<exists>t q. simulator_main files registry py_float uid i opts c sizeof env fs start tick k s0 = Return () t \<and>
    metrics_of cmc guid t = Inr q \<and>
    (\<forall>name. q name = map_option (\<lambda>v. v + (\<Sum>j<k. increment name (tick j l))) (seed guid name))"
proof -
  let ?most = "2 * k * length (fabric guids)"
  from made have "fresh_agent n i s" using simulator_init_fresh by (fastforce simp: constructs_def)
  with read have limits: "no_stop (simulator_args s) ?most s" "0 < batch_size s" "is_batch_len (batch_full sizeof (simulator_args s)) m"
    by (simp_all add: unlimited_batches_def no_limit fresh_agent_def)
  from main_ready[OF made limits enc served files] obtain table r where
    main: "simulator_main files registry py_float uid i opts c sizeof env fs start tick k s0 = send_turns c sizeof env table tick k r"
    and ready: "sending_ready c sizeof m ?most table (sensor_of d) (seed_at guids seed) r" "switch_keys r = fabric guids" by metis
  from send_turns_sim[OF ready(1), of k env tick] ready(2) obtain t where
    t: "send_turns c sizeof env table tick k r = Return () t"
    and sim: "sending_sim c m tick (seed_at guids seed) r k 0 (run_samples (sensor_of d) tick (fabric guids) (seed_at guids seed) k) t"
    by auto
  have "metrics_of cmc guid t = Inr (metrics_after tick l k (seed guid))"
    using sim switch ready(2) by (auto simp: sending_sim_def seed_at_def)
  moreover have "\<forall>l<length (switch_keys r). three_counters \<union> set ibmetrics \<subseteq> dom (seed_at guids seed l)"
    using ready(1) unfolding sending_ready_def by blast
  from this[rule_format, of l] switch ready(2) have "three_counters \<subseteq> dom (seed guid)" by (simp add: seed_at_def)
  ultimately show ?thesis using main t by (simp add: metrics_after_added added_def)
qed

theorem simulated_counters_sum_witness:
  "\<exists>t q. simulator_main (\<lambda>_. Some (Inr simulator_config)) (\<lambda>_ _. Some 1) (\<lambda>_. Inr 1) ''node7'' 0 demo_options tag_codec cpython_getsizeof
      demo_service demo_files 0 (\<lambda>j l. if l = 0 then busy_tick else busy_tick\<lparr>random1 := 0, random3 := 9 / 10\<rparr>) 3 (demo_simulator False 1 1) =
      Return () t \<and>
    metrics_of ''r1i1c-ibswitch'' ''B'' t = Inr q \<and> q ''SymbolErrorCounter'' = Some 7 \<and> q ''PortXmitDiscards'' = Some 15"
proof -
  from demo_unlimited obtain s where
    "constructs (\<lambda>_. Some (Inr simulator_config)) (\<lambda>_ _. Some 1) (\<lambda>_. Inr 1) ''node7'' 0 demo_options 1 (demo_simulator False 1 1) s"
    "unlimited_batches cpython_getsizeof 47 s" and files: "covered_files demo_files demo_guids demo_seed demo_answer s" by blast
  note run = this(1,2)
  have key: "1 < length (fabric demo_guids)" "fabric demo_guids ! 1 = (''r1i1c-ibswitch'', ''B'')"
    by (simp_all add: fabric_def cmcs_def demo_guids_def)
  from simulated_counters_sum[OF run demo_encodes demo_served files key, of 0
      "\<lambda>j l. if l = 0 then busy_tick else busy_tick\<lparr>random1 := 0, random3 := 9 / 10\<rparr>" 3]
  obtain t q where "simulator_main (\<lambda>_. Some (Inr simulator_config)) (\<lambda>_ _. Some 1) (\<lambda>_. Inr 1) ''node7'' 0 demo_options tag_codec cpython_getsizeof
      demo_service demo_files 0 (\<lambda>j l. if l = 0 then busy_tick else busy_tick\<lparr>random1 := 0, random3 := 9 / 10\<rparr>) 3 (demo_simulator False 1 1) =
      Return () t" "metrics_of ''r1i1c-ibswitch'' ''B'' t = Inr q"
    "\<forall>name. q name = map_option (\<lambda>v. v + 3 * increment name (busy_tick\<lparr>random1 := 0, random3 := 9 / 10\<rparr>)) (demo_seed ''B'' name)"
    by auto
  then show ?thesis by (intro exI[of _ t] exI[of _ q]) (simp add: increment_def busy_tick_def demo_seed_def)
qed

end
