(* ===== verification/Fabric.thy ===== *)
theory Fabric
  imports Simulator_Run Pipeline_Props
begin

text \<open>
  The simulator and the gateway processes together: from the switches of the fabric to Kafka.
\<close>

section \<open>A started gateway process\<close>

definition serves_topic :: "topic_qos \<Rightarrow> fanin_options \<Rightarrow> ('b, 'z) fanin_scheme \<Rightarrow> bool" where
  "serves_topic topic opts s \<longleftrightarrow> (\<exists>rest. mqttTopicList s = topic # rest) \<and> gateway_timet0 s = 0 \<and> produced s = [] \<and>
     mqttBatching s = fopt_batching opts \<and> enableMQTTpassthrough s = fopt_mqttPassthrough opts"

lemma agent_common_init_serves:
  fixes s t :: "('b, 'z) fanin_scheme"
  assumes "agent_common_init files registry cfg debug s = Return () t"
  shows "serves_topic topic opts t = serves_topic topic opts s"
  using assms by (auto simp: agent_common_init_def Let_def outcome_iffs serves_topic_def split: option.splits)

lemma fanin_init_serves:
  assumes "fanin_init files registry uuid4 cfg (fopt_debug opts) (fopt_encrypt opts) (Some tp) (fopt_batching opts) (fopt_checkmqtt opts)
      (fopt_mqttPassthrough opts) s = Return () t" and "read_topic tp = Inr topic"
  shows "serves_topic topic opts t"
  using assms unfolding fanin_init_def Let_def read_topic_list_def
  by (auto simp: outcome_iffs res_then_Inr_iff dest!: agent_common_init_serves[where topic = topic and opts = opts])
    (auto simp: serves_topic_def)

lemma fanin_start_serves:
  assumes "fanin_start checks connects env time s = Return () t" "serves_topic topic opts s"
  shows "serves_topic topic opts t \<and> kafka_producer t"
proof -
  let ?P = "\<lambda>s. serves_topic topic opts s" and ?Q = "\<lambda>s. serves_topic topic opts s \<and> kafka_producer s"
  have "out_all ?P (kafka_check_topic checks s)"
    using assms(2) by (simp add: kafka_check_topic_def split: option.splits prod.splits)
  then obtain u where u: "kafka_check_topic checks s = Return () u" "?P u"
    using assms(1) by (auto simp: fanin_start_def and_then_Return_iff)
  from assms(1) u(1) obtain v where v: "kafka_producer_connect connects u = Return () v"
    by (auto simp: fanin_start_def and_then_Return_iff)
  with u(2) have "?Q v"
    by (auto simp: kafka_producer_connect_def serves_topic_def split: option.splits prod.splits)
  then have "out_all ?Q (mqtt_init uid topics False encrypt env v)" for uid topics encrypt
    by (intro mqtt_init_keeps) (simp_all add: serves_topic_def)
  moreover obtain w where "mqtt_init (myFanInGateway_uuid v) (Some (mqttTopicList v)) False (myFanIn_mqtt_encryption_enabled v) env v = Return () w"
    "t = w\<lparr>report_done := False, mqttMsgTimer := time\<rparr>"
    using assms(1) u(1) v by (auto simp: fanin_start_def and_then_Return_iff)
  ultimately have "?Q w" by (metis out_all.simps(1))
  with \<open>t = _\<close> show ?thesis by (simp add: serves_topic_def)
qed

lemma process_serves:
  assumes "fanin_process w opts (Some tp) s = Return () t" "read_topic tp = Inr topic"
  shows "serves_topic topic opts t \<and> kafka_producer t"
proof -
  from assms(1) obtain u where
    "fanin_init (gw_files w) (gw_registry w) (gw_uuid4 w) ''FanIn.cfg'' (fopt_debug opts) (fopt_encrypt opts) (Some tp) (fopt_batching opts)
      (fopt_checkmqtt opts) (fopt_mqttPassthrough opts) (class_attributes s) = Return () u"
    "fanin_start (gw_checks w) (gw_connects w) (gw_env w) (gw_time w) u = Return () t"
    by (auto simp: fanin_process_def and_then_Return_iff)
  with fanin_init_serves[OF _ assms(2)] fanin_start_serves show ?thesis by blast
qed

text \<open>A Kafka client that accepts every message, clocks that move, a serializer that encodes the samples.\<close>

definition reliable_kafka :: "'b codec \<Rightarrow> kafka_env \<Rightarrow> bool" where
  "reliable_kafka c env \<longleftrightarrow> (\<forall>k. accepts env k = None) \<and>
     (\<forall>j k. j < k \<longrightarrow> reading env k 0 \<noteq> reading env j 1) \<and> (\<forall>k. reading env k 0 \<noteq> now env 0) \<and>
     (\<forall>i r. \<exists>raw. encode c i (SendTimeSeriesDruid (Dict r)) = Inr raw)"

lemma process_in_service:
  assumes "serves_topic topic opts g \<and> kafka_producer g" "reliable_kafka c kenv"
  shows "in_service c kenv g"
  using assms by (simp add: serves_topic_def reliable_kafka_def in_service_def kafka_only_def)

section \<open>The messages of a run\<close>

lemma messages_on_append: "messages_on topic (xs @ ys) = messages_on topic xs @ messages_on topic ys"
  by (simp add: messages_on_def)

lemma messages_on_subscribe: "messages_on topic (subscribe_acts topics env) = []"
  by (auto simp: messages_on_def subscribe_acts_def split: option.splits)

lemma messages_on_request: "topic \<noteq> tp \<Longrightarrow> messages_on tp (request_acts topic raw qos env) = []"
  by (simp add: messages_on_def request_acts_def)

lemma messages_on_connect: "messages_on topic (connect_acts encrypt topics env mc) = []"
  unfolding connect_acts_def messages_on_append messages_on_subscribe by (simp add: messages_on_def)

lemma handshake_elsewhere: "messages_on (subtopic ''ibswitch'' j) (handshake u reg dev env s) = []"
proof -
  have "registration_topic uid ''request'' \<noteq> subtopic ''ibswitch'' j" "device_topic u ''request'' \<noteq> subtopic ''ibswitch'' j" for uid
    by (simp_all add: registration_topic_def device_topic_def subtopic_def)
  then show ?thesis
    by (simp add: handshake_def messages_on_append messages_on_connect messages_on_request messages_on_subscribe)
qed

section \<open>From the switches to Kafka\<close>

text \<open>C3: From the switches to Kafka. Let the simulator be constructed and served as in
  \<open>Simulator_Run\<close>, on n subtopics, and let the gateway program start a process for each of them (batching, no pass-through, the root topic of the
  simulator, whatever the rest of its configuration), which has started; the process of subtopic j
  gets the messages the simulator published there, in order, at whatever times, and its Kafka
  client accepts everything. Then it produces exactly the samples of the blocks dealt to subtopic
  j, each once and in order, on the configured Kafka topic; and over all processes, with the
  samples still in the simulator's batch, these are the samples of all turns: none is lost, none
  is doubled.\<close>

theorem fabric_reaches_kafka:
  fixes s0 s :: "('b, 'z) simulator_scheme" and g0 :: "('b, 'y) fanin_scheme"
  assumes run: "constructs files registry py_float uid i opts n s0 s" "unlimited_batches sizeof m s"
    and codec: "codec_laws c rnd" "encodes_requests c" and "served c uid u d env" "covered_files fs guids seed d s"
    and gopts: "fopt_batching gopts" "\<not> fopt_mqttPassthrough gopts"
    and gateways: "\<And>j. j < n \<Longrightarrow>
      fanin_process (w j) gopts (Some (process_topics ''ibswitch'' (str_nat q) n ! j)) g0 = Return () (g j) \<and> reliable_kafka c (kenv j)"
  shows "\<exists>t. simulator_main files registry py_float uid i opts c sizeof env fs start tick k s0 = Return () t \<and>
    (let xs = run_samples (sensor_of d) tick (fabric guids) (seed_at guids seed) k; bs = blocks n m i xs in
     (\<forall>j<n. \<forall>msgs. map snd msgs = messages_on (subtopic ''ibswitch'' j) (net t) \<and> timely (kenv j) msgs \<longrightarrow>
        (\<exists>g'. gateway_run c (kenv j) msgs (g j) = Return () g' \<and>
          produced g' = map (\<lambda>r. (kafkaProducerTopic (g j), sample_raw c (send_time_series_schema_id (schemas (g j))) (narrow rnd r)))
            (concat (blocks_of j bs)))) \<and>
     (\<Sum>j<n. mset (concat (blocks_of j bs))) + mset (leftover m xs) = mset xs \<and> myByteBatch t = map Dict (leftover m xs))"
proof -
  define xs where "xs = run_samples (sensor_of d) tick (fabric guids) (seed_at guids seed) k"
  define bs where "bs = blocks n m i xs"
  from main_sends[OF run codec(2) assms(5,6)] obtain t reg dev r where
    main: "simulator_main files registry py_float uid i opts c sizeof env fs start tick k s0 = Return () t"
    and r: "net r = handshake u reg dev env s" "myCurrentSubtopic r = i" "myAgentMqttNumberOfPublishingTopics r = n"
    and sim: "batch_sim c (simulator_args r) r t (block_plan m r xs)" unfolding xs_def by blast
  from sim r(2,3) obtain acts where acts: "net t = net r @ acts"
    "list_all2 (publishes c (send_time_series_druid_array_id (schemas r)) ''ibswitch'') bs acts"
    and left: "myByteBatch t = map Dict (leftover m xs)" and i: "0 < n"
    by (auto simp: batch_sim_def block_plan_def bs_def simulator_args_def)
  have net: "messages_on (subtopic ''ibswitch'' j) (net t) = messages_on (subtopic ''ibswitch'' j) acts" for j
    by (simp add: acts(1) r(1) messages_on_append handshake_elsewhere)
  have "(\<Sum>j<n. mset (concat (blocks_of j bs))) = mset (concat (map snd bs))"
    using mset_blocks_of blocks_subtopics[OF i] unfolding bs_def by blast
  then have parts: "(\<Sum>j<n. mset (concat (blocks_of j bs))) + mset (leftover m xs) = mset xs"
    using arg_cong[OF blocks_leftover[of n m i xs], of mset] by (simp add: bs_def)
  have "\<exists>g'. gateway_run c (kenv j) msgs (g j) = Return () g' \<and>
      produced g' = map (\<lambda>r. (kafkaProducerTopic (g j), sample_raw c (send_time_series_schema_id (schemas (g j))) (narrow rnd r)))
        (concat (blocks_of j bs))"
    if j: "j < n" and msgs: "map snd msgs = messages_on (subtopic ''ibswitch'' j) (net t)" "timely (kenv j) msgs" for j msgs
  proof -
    have "read_topic (process_topics ''ibswitch'' (str_nat q) n ! j) = Inr (subtopic ''ibswitch'' j, q)"
      using read_process_topic[of "''ibswitch''" j q] j by (simp add: process_topics_def)
    with gateways[OF j] have g: "serves_topic (subtopic ''ibswitch'' j, q) gopts (g j) \<and> kafka_producer (g j)"
      by (intro process_serves) auto
    then obtain rest where cfg: "mqttTopicList (g j) = (subtopic ''ibswitch'' j, q) # rest" "mqttBatching (g j)"
      "\<not> enableMQTTpassthrough (g j)" "produced (g j) = []"
      using gopts by (auto simp: serves_topic_def)
    have "accepts (kenv j) l = None" for l using gateways[OF j] by (simp add: reliable_kafka_def)
    from blocks_reach_kafka[OF codec(1) acts(2) msgs[unfolded net] process_in_service[OF g conjunct2[OF gateways[OF j]]] cfg(1-3) this] cfg(4)
    show ?thesis by simp
  qed
  then show ?thesis unfolding xs_def[symmetric] bs_def[symmetric] Let_def using main parts left by blast
qed

definition demo_gateway_options :: fanin_options where
  "demo_gateway_options = \<lparr>fopt_debug = False, fopt_encrypt = True, fopt_batching = True, fopt_checkmqtt = True,
     fopt_mqttPassthrough = False, fopt_logLevel = None\<rparr>"

lemma demo_process:
  assumes "topic \<in> {''ibswitch/0:0'', ''ibswitch/1:0''}"
  shows "\<exists>g. fanin_process demo_world demo_gateway_options (Some topic) (demo_gateway True True False) = Return () g"
proof -
  obtain s where "fanin_init (\<lambda>_. Some (Inr demo_config)) (\<lambda>_ _. Some 1) ''g'' ''FanIn.cfg'' False True (Some topic) True True False
      (class_attributes (demo_gateway True True False)) = Return () s"
    using demo_fanin_init[of "Some topic"] assms by blast
  moreover obtain t where "fanin_start (\<lambda>_. Connected) (\<lambda>_. Connected) quiet_broker 0 s = Return () t"
    using quiet_start by blast
  ultimately show ?thesis
    by (simp add: fanin_process_def demo_world_def demo_gateway_options_def quiet_broker_def)
qed

lemma demo_reliable: "reliable_kafka tag_codec (demo_kafka (\<lambda>_. None))"
  using half_quarter half_eighth by (simp add: reliable_kafka_def demo_kafka_def tag_codec_def)

text \<open>Two subtopics: the first 94 of 120 samples make one batch for each.\<close>

lemma blocks_of_two:
  assumes "length xs = 120" "j < 2"
  shows "length (concat (blocks_of j (blocks 2 47 0 xs))) = 47"
proof -
  have "blocks 2 47 0 xs = [(0, segment 47 xs 0), (1, segment 47 xs 1)]"
    using assms(1) by (simp add: blocks_def upt_rec)
  moreover have "length (segment 47 xs 0) = 47" "length (segment 47 xs 1) = 47"
    using assms(1) by (simp_all add: length_segment)
  ultimately show ?thesis using assms(2) by (cases "j = 0") (auto simp: blocks_of_def less_Suc_eq numeral_2_eq_2)
qed

theorem fabric_reaches_kafka_witness:
  "\<exists>t. simulator_main (\<lambda>_. Some (Inr simulator_config)) (\<lambda>_ _. Some 1) (\<lambda>_. Inr 1) ''node7'' 0
      (demo_options\<lparr>opt_numberOfTopic := Some ''2'', opt_sendNumberOfMessages := Some []\<rparr>) tag_codec cpython_getsizeof
      demo_service demo_files 0 (\<lambda>_ _. busy_tick) 30 (demo_simulator False 1 1) = Return () t \<and>
    (\<forall>j \<in> {0, 1}. \<exists>g g'. fanin_process demo_world demo_gateway_options (Some ([''ibswitch/0:0'', ''ibswitch/1:0''] ! j))
        (demo_gateway True True False) = Return () g \<and>
      gateway_run tag_codec (demo_kafka (\<lambda>_. None)) (map (Pair ((\<lambda>_. 1 / 8) :: nat \<Rightarrow> rat)) (messages_on (subtopic ''ibswitch'' j) (net t))) g =
        Return () g' \<and> length (produced g') = 47)"
proof -
  let ?opts = "demo_options\<lparr>opt_numberOfTopic := Some ''2'', opt_sendNumberOfMessages := Some []\<rparr>"
  have two: "number_of_topics (Some ''2'') = Inr (int 2)" "0 < (2::nat)" by code_simp+
  have "read_limit cfg (Some []) = Inr (- 1)" for cfg by (simp add: read_limit_def)
  from demo_topics_ready[OF two this] obtain s where
    s: "constructs (\<lambda>_. Some (Inr simulator_config)) (\<lambda>_ _. Some 1) (\<lambda>_. Inr 1) ''node7'' 0 ?opts 2 (demo_simulator False 1 1) s"
    "unlimited_batches cpython_getsizeof 47 s" "covered_files demo_files demo_guids demo_seed demo_answer s"
    unfolding unlimited_batches_def by blast
  let ?topics = "[''ibswitch/0:0'', ''ibswitch/1:0'']"
  have topics: "process_topics ''ibswitch'' (str_nat 0) 2 = ?topics" by code_simp
  have member: "?topics ! j \<in> {''ibswitch/0:0'', ''ibswitch/1:0''}" if "j < 2" for j
    using that by (cases "j = 0") (auto simp: less_Suc_eq numeral_2_eq_2)
  have "\<exists>g. j < 2 \<longrightarrow> fanin_process demo_world demo_gateway_options (Some (?topics ! j)) (demo_gateway True True False) = Return () g" for j
    using demo_process[OF member[of j]] by (cases "j < 2") simp_all
  then have "\<forall>j. \<exists>g. j < 2 \<longrightarrow> fanin_process demo_world demo_gateway_options (Some (?topics ! j)) (demo_gateway True True False) = Return () g"
    by (rule allI)
  from choice[OF this] obtain g where
    "\<forall>j. j < 2 \<longrightarrow> fanin_process demo_world demo_gateway_options (Some (?topics ! j)) (demo_gateway True True False) = Return () (g j)" ..
  then have g: "fanin_process demo_world demo_gateway_options (Some (?topics ! j)) (demo_gateway True True False) = Return () (g j)" if "j < 2" for j
    using that by (elim allE impE)
  have opts: "fopt_batching demo_gateway_options" "\<not> fopt_mqttPassthrough demo_gateway_options" by (simp_all add: demo_gateway_options_def)
  have gateways: "fanin_process demo_world demo_gateway_options (Some (process_topics ''ibswitch'' (str_nat 0) 2 ! j))
      (demo_gateway True True False) = Return () (g j) \<and> reliable_kafka tag_codec (demo_kafka (\<lambda>_. None))" if "j < 2" for j
    using g[OF that] demo_reliable by (simp only: topics)
  let ?xs = "run_samples (sensor_of demo_answer) (\<lambda>_ _. busy_tick) (fabric demo_guids) (seed_at demo_guids demo_seed) 30"
  note reach = fabric_reaches_kafka[where w = "\<lambda>_. demo_world" and g = g and kenv = "\<lambda>_. demo_kafka (\<lambda>_. None)" and k = 30
      and start = 0 and tick = "\<lambda>_ _. busy_tick" and q = 0, OF s(1,2) tag_codec_laws demo_encodes demo_served s(3) opts gateways, unfolded Let_def]
  then obtain t where
    t: "simulator_main (\<lambda>_. Some (Inr simulator_config)) (\<lambda>_ _. Some 1) (\<lambda>_. Inr 1) ''node7'' 0 ?opts tag_codec cpython_getsizeof
      demo_service demo_files 0 (\<lambda>_ _. busy_tick) 30 (demo_simulator False 1 1) = Return () t"
    and run: "\<forall>j<2. \<forall>msgs. map snd msgs = messages_on (subtopic ''ibswitch'' j) (net t) \<and> timely (demo_kafka (\<lambda>_. None)) msgs \<longrightarrow>
        (\<exists>g'. gateway_run tag_codec (demo_kafka (\<lambda>_. None)) msgs (g j) = Return () g' \<and>
          produced g' = map (\<lambda>r. (kafkaProducerTopic (g j), sample_raw tag_codec (send_time_series_schema_id (schemas (g j))) (narrow (\<lambda>x. x) r)))
            (concat (blocks_of j (blocks 2 47 0 ?xs))))"
    by auto
  have in_time: "timely (demo_kafka (\<lambda>k. None)) (map (Pair (\<lambda>i. 1 / 8)) msgs)" for msgs :: "wire message list"
    using half_eighth by (auto simp: timely_def demo_kafka_def)
  have len: "length ?xs = 120" by (simp add: length_run_samples demo_fabric)
  have "\<exists>g'. gateway_run tag_codec (demo_kafka (\<lambda>_. None)) (map (Pair ((\<lambda>_. 1 / 8) :: nat \<Rightarrow> rat))
      (messages_on (subtopic ''ibswitch'' j) (net t))) (g j) = Return () g' \<and> length (produced g') = 47" if "j < 2" for j
    using run[rule_format, OF that, of "map (Pair (\<lambda>_. 1 / 8)) (messages_on (subtopic ''ibswitch'' j) (net t))"] in_time
      blocks_of_two[OF len that] by (auto simp: comp_def)
  then have each: "\<exists>g g'. fanin_process demo_world demo_gateway_options (Some (?topics ! j)) (demo_gateway True True False) = Return () g \<and>
      gateway_run tag_codec (demo_kafka (\<lambda>_. None)) (map (Pair ((\<lambda>_. 1 / 8) :: nat \<Rightarrow> rat)) (messages_on (subtopic ''ibswitch'' j) (net t))) g =
        Return () g' \<and> length (produced g') = 47" if "j < 2" for j
    using g[OF that] that by blast
  show ?thesis
  proof (intro exI[of _ t] conjI ballI)
    fix j :: nat assume "j \<in> {0, 1}"
    then have "j < 2" by auto
    from each[OF this] show "\<exists>g g'. fanin_process demo_world demo_gateway_options (Some (?topics ! j)) (demo_gateway True True False) = Return () g \<and>
      gateway_run tag_codec (demo_kafka (\<lambda>_. None)) (map (Pair ((\<lambda>_. 1 / 8) :: nat \<Rightarrow> rat)) (messages_on (subtopic ''ibswitch'' j) (net t))) g =
        Return () g' \<and> length (produced g') = 47" .
  qed (rule t)
qed

end
