(* ===== verification/Simulator_Exit.thy ===== *)
theory Simulator_Exit
  imports Simulator_Run
begin

text \<open>
  The simulator with a number of messages to send: its whole run, from the options to the exit.
\<close>

section \<open>The limit of the command line\<close>

lemma read_limit_number: "read_limit cfg (Some (str_nat most)) = Inr (int most)"
  by (simp add: read_limit_def)

lemma init_limit:
  assumes "simulator_init files registry py_float uid i cfg debug encrypt n batching sleep (Some (str_nat most)) counting s = Return u t"
  shows "simulator_limit t = int most"
  using assms unfolding simulator_init_def Let_def or_raise_Return_iff and_then_Return_iff read_limit_number
  by (auto dest!: agent_common_init_Return simp: setMqttNumberOfPublishingTopics_def Let_def split: if_splits)

section \<open>A framework that answers the deregistration\<close>

definition dismissed :: "'b codec \<Rightarrow> string \<Rightarrow> uuid \<Rightarrow> ('b, 'z) agent_scheme net_env \<Rightarrow> bool" where
  "dismissed c uid u env \<longleftrightarrow> grants_subscription env \<and> (\<forall>i. \<exists>raw. encode c i (DeregisterRequest u) = Inr raw) \<and>
     (\<exists>inbox. delivers c inbox env \<and> (\<forall>acts. last_request acts = Some (deregistration_topic u ''request'') \<longrightarrow>
        (\<forall>k. \<forall>m \<in> set (inbox acts k). msg_topic m \<noteq> registration_topic uid ''response'') \<and>
        (\<exists>k<300. Bex (set (inbox acts k)) (says_goodbye u))))"

lemma dismissed_leaves:
  assumes settled: "settled uid u s" and env: "dismissed c uid u env"
  shows "leaves c u env s"
proof -
  let ?topic = "(deregistration_topic u ''request'', 2::nat)" and ?topics = "[(deregistration_topic u ''response'', 2::nat)]"
  from env obtain inbox where grants: "grants_subscription env" and delivers: "delivers c inbox env"
    and answer: "\<And>acts. last_request acts = Some (deregistration_topic u ''request'') \<Longrightarrow>
        (\<forall>k. \<forall>m \<in> set (inbox acts k). msg_topic m \<noteq> registration_topic uid ''response'') \<and>
        (\<exists>k<300. Bex (set (inbox acts k)) (says_goodbye u))"
    by (auto simp: dismissed_def)
  obtain raw where raw: "encode c (agent_deregister_request_schema_id (schemas s)) (DeregisterRequest u) = Inr raw"
    using env unfolding dismissed_def by blast
  have "\<exists>t. mqtt_deregistration c ?topic u env s' = Return True t \<and> myMQTTderegistered t \<and>
      net t = net s' @ subscribe_acts ?topics env @ request_acts (fst ?topic) raw (snd ?topic) env \<and>
      client t = client s' \<and> (\<exists>ls. console t = console s' @ ls)"
    if s': "session_of s' = session_of s \<and> schemas s' = schemas s \<and> client s' \<noteq> None" for s'
  proof -
    define s1 where "s1 = s'\<lparr>net := net s' @ subscribe_acts ?topics env\<rparr>"
    let ?acts = "net s1 @ request_acts (deregistration_topic u ''request'') raw 2 env"
    let ?env = "frozen c (inbox ?acts) env"
    have "settled uid u s'" using settled_session[OF _ settled, of s'] s' by simp
    then have topics: "myAgent_deregistration_response_topic s' = Some ?topics" by (simp add: settled_def topics_of_def)
    have s1: "settled uid u s1" "client s1 \<noteq> None"
      using settled_session[of s1 s'] \<open>settled uid u s'\<close> s' by (simp_all add: s1_def)
    from answer[of ?acts] have silent: "\<forall>k. \<forall>m \<in> set (inbox ?acts k). msg_topic m \<noteq> registration_topic uid ''response''"
      and goodbye: "\<exists>k<300. Bex (set (inbox ?acts k)) (says_goodbye u)" by (simp_all add: last_request_acts)
    from goodbye obtain k where "k < 300" "Bex (set (inbox ?acts k)) (says_goodbye u)" by blast
    from goodbye_answers[OF s1(1) _ silent this, of ?env c] have answers: "answers_in_time myMQTTderegistered ?env s1" by simp
    have quiet: "quiet_thread ?env" by (rule callbacks_quiet[of _ c "inbox ?acts"]) simp
    from request_answered[OF quiet answers s1(2), of "deregistration_topic u ''request''" raw 2] obtain t where
      t: "request_and_wait (deregistration_topic u ''request'') raw 2 myMQTTderegistered env s1 = Return () t" "myMQTTderegistered t"
        "net t = ?acts" "client t = client s1" "\<exists>ls. console t = console s1 @ ls"
      unfolding request_frozen[OF delivers s1(2), symmetric] by auto
    have "mqtt_deregistration c ?topic u env s' = Return True t"
      using t(1,2) s' raw by (auto simp: mqtt_deregistration_def topics subscribe_granted[OF grants] s1_def)
    with t(2-5) show ?thesis by (simp add: s1_def)
  qed
  moreover have "myAgent_deregistration_request_topic s = Some [?topic]" using settled by (simp add: settled_def topics_of_def)
  ultimately show ?thesis unfolding leaves_def using raw by blast
qed

section \<open>The run\<close>

text \<open>C4: The simulator ends by itself, having sent what it was asked to send. Started with
  --sendNumberOfMessages=most (and without the batch counter), and served as in
  \<open>Simulator_Run\<close> by a framework that also answers its deregistration, and with a clock that has moved when
  it stops, the program ends with exit status 0 before it gets through any number of turns that
  would bring more samples; a receiver has then decoded exactly the first samples of these turns,
  as many as asked for, in order, the incomplete last batch included; and the agent has
  deregistered, stopped its loop and disconnected.\<close>

theorem simulator_ends_at_limit:
  fixes s0 s :: "('b, 'z) simulator_scheme"
  assumes made: "constructs files registry py_float uid i opts n s0 s"
    and most: "opt_sendNumberOfMessages opts = Some (str_nat most)" "most < 2 * k * length (fabric guids)"
    and batches: "0 < batch_size s" "is_batch_len (batch_full sizeof (simulator_args s)) m"
    and codec: "codec_laws c rnd" "encodes_requests c"
    and served: "served c uid u d env" "dismissed c uid u env" and files: "covered_files fs guids seed d s"
    and clock: "\<And>i j. stop_time (tick i j) \<noteq> start"
  shows "\<exists>t reg dev acts. simulator_main files registry py_float uid i opts c sizeof env fs start tick k s0 = Raise (SystemExit 0) t \<and>
    net t = handshake u reg dev env s @ acts \<and>
    wire_samples c acts = map (narrow rnd) (take most (run_samples (sensor_of d) tick (fabric guids) (seed_at guids seed) k)) \<and>
    myMQTTderegistered t \<and> drop (length (net t) - 2) (net t) = [LoopStop, Disconnect]"
proof -
  have limit: "simulator_limit s = int most"
    using made init_limit[where s = "class_attributes s0" and t = s and most = most] by (auto simp: constructs_def most(1))
  have "fresh_agent n i s" using made simulator_init_fresh by (fastforce simp: constructs_def)
  then have room: "no_stop (simulator_args s) most s"
    by (simp add: no_stop_def simulator_args_def limit fresh_agent_def)
  from main_ready[OF made room batches codec(2) served(1) files] obtain reg dev r table where
    main: "simulator_main files registry py_float uid i opts c sizeof env fs start tick k s0 = send_turns c sizeof env table tick k r"
    and ready: "sending_ready c sizeof m most table (sensor_of d) (seed_at guids seed) r" "switch_keys r = fabric guids"
    and r: "net r = handshake u reg dev env s" "myMessageCounter r = 0" "settled uid u r" "simulator_limit r = simulator_limit s"
      "simulator_timet0 r = start" by metis
  have "leaves c (myAgent_uuid r) env r"
    using dismissed_leaves[OF r(3) served(2)] r(3) by (simp add: settled_def)
  with send_turns_exit[OF ready(1) _ _ codec(1), of k tick env] most(2) ready(2) r(2,4,5) limit clock obtain t where
    t: "send_turns c sizeof env table tick k r = Raise (SystemExit 0) t"
    and finish: "ended_after c rnd r (take most (run_samples (sensor_of d) tick (fabric guids) (seed_at guids seed) k)) t"
    by auto
  then obtain acts where acts: "net t = net r @ acts" by (auto simp: ended_after_def)
  have "wire_samples c acts = map (narrow rnd) (take most (run_samples (sensor_of d) tick (fabric guids) (seed_at guids seed) k))"
    using finish by (simp add: ended_after_def acts)
  with main t finish acts r(1) show ?thesis unfolding ended_after_def by metis
qed

lemma demo_dismissed: "dismissed tag_codec ''node7'' (Uuid ''u1'') demo_service"
proof -
  have "registration_topic ''node7'' ''request'' \<noteq> deregistration_topic (Uuid ''u1'') ''request''"
    "device_topic (Uuid ''u1'') ''request'' \<noteq> deregistration_topic (Uuid ''u1'') ''request''"
    "deregistration_topic (Uuid ''u1'') ''response'' \<noteq> registration_topic ''node7'' ''response''" by code_simp+
  then have "last_request acts = Some (deregistration_topic (Uuid ''u1'') ''request'') \<Longrightarrow>
      (\<forall>k. \<forall>m \<in> set (demo_framework acts k). msg_topic m \<noteq> registration_topic ''node7'' ''response'') \<and>
      (\<exists>k<300. Bex (set (demo_framework acts k)) (says_goodbye (Uuid ''u1'')))" for acts
    by (auto simp: demo_framework_def says_goodbye_def intro: exI[of _ 0])
  moreover have "delivers tag_codec demo_framework demo_service" "grants_subscription demo_service"
    by (simp_all add: demo_service_def delivers_def grants_subscription_def MQTT_ERR_SUCCESS_def)
  moreover have "\<exists>raw. encode tag_codec i (DeregisterRequest u) = Inr raw" for i u by (simp add: tag_codec_def)
  ultimately show ?thesis unfolding dismissed_def by blast
qed

theorem simulator_ends_at_limit_witness:
  "\<exists>t. simulator_main (\<lambda>_. Some (Inr simulator_config)) (\<lambda>_ _. Some 1) (\<lambda>_. Inr 1) ''node7'' 0
      (demo_options\<lparr>opt_sendNumberOfMessages := Some (str_nat 7)\<rparr>) tag_codec cpython_getsizeof
      demo_service demo_files 1 (\<lambda>_ _. busy_tick) 2 (demo_simulator False 1 1) = Raise (SystemExit 0) t \<and>
    myMQTTderegistered t \<and> drop (length (net t) - 2) (net t) = [LoopStop, Disconnect]"
proof -
  obtain s where s: "constructs (\<lambda>_. Some (Inr simulator_config)) (\<lambda>_ _. Some 1) (\<lambda>_. Inr 1) ''node7'' 0
      (demo_options\<lparr>opt_sendNumberOfMessages := Some (str_nat 7)\<rparr>) 1 (demo_simulator False 1 1) s"
    "0 < batch_size s" "is_batch_len (batch_full cpython_getsizeof (simulator_args s)) 47"
    "covered_files demo_files demo_guids demo_seed demo_answer s"
    using demo_run_ready[OF read_limit_number, of 7] by blast
  have opts: "opt_sendNumberOfMessages (demo_options\<lparr>opt_sendNumberOfMessages := Some (str_nat 7)\<rparr>) = Some (str_nat 7)" by simp
  have few: "7 < 2 * 2 * length (fabric demo_guids)" by (simp add: demo_fabric)
  have clock: "stop_time ((\<lambda>_ _. busy_tick) i j) \<noteq> 1" for i j :: nat by (simp add: busy_tick_def)
  from simulator_ends_at_limit[OF s(1) opts few s(2,3) tag_codec_laws demo_encodes demo_served demo_dismissed s(4) clock]
  show ?thesis by blast
qed

end
