(* ===== verification/Spec2Isabelle.thy ===== *)
theory Spec2Isabelle
  imports Batching_Props Session_Props FanIn_Props IBswitch_Props Pipeline_Props Redfish_Props Logger_Tests
    Launch_Props Counting_Props Senders Fabric Simulator_Exit
begin

text \<open>
  KrakenMare collects sensor samples of data-centre devices. Its Python programs are the agents
  (src/simulator/IBswitchSimulator.py simulates InfiniBand switches, src/redfish/RedfishAgent.py
  polls servers), which share the class \<open>AgentCommon\<close>
  (src/agent-python-module/agentcommon.py), and the gateway src/fanin/FanIn.py. An agent
  connects to an MQTT broker, registers itself and its devices with the framework by
  request and response topics, and then publishes its samples in batches, round-robin over the
  subtopics of its data topic. A gateway process subscribes to a subtopic, decodes each batch and
  offers its samples one by one to Kafka; with \<open>--enableMQTTbatchesCounter\<close> the simulator sends
  batch counts as values and the gateway reports the batches that are missing. At SIGINT, or at
  a configured number of samples, an agent deregisters and disconnects.
\<close>

section \<open>How the code is modelled\<close>

text \<open>
  A method is a function from the object to an \<open>outcome\<close> (\<open>KM_Prelude\<close>): it returns a value in a
  new state, raises an exception of the datatype \<open>exn\<close> in the state reached, or never returns
  (\<open>Hang\<close>). Exceptions of expressions are \<open>Inl\<close> values. Objects are records; a subclass extends
  the record of its base class (\<open>agent\<close>, extended by \<open>simulator\<close>, \<open>redfish_agent\<close>, \<open>fanin\<close>), so the
  methods of \<open>AgentCommon\<close> are polymorphic in the extension and apply to every subclass. An
  attribute that does not exist before some method assigns it is an option. The effects on the
  MQTT client are the trace \<open>net\<close>, the lines printed that matter are the trace \<open>console\<close>; what the
  Kafka client accepted is \<open>produced\<close>.

  What is not under src/ is a parameter: the Avro serializer (\<open>codec\<close>, with the laws
  \<open>codec_laws\<close>: it encodes only records of the schema, and decoding gives the record back with
  floats rounded to single precision), the schema registry, the broker and the paho client
  (\<open>net_env\<close>), the Kafka client (\<open>kafka_env\<close>), the Redfish library (\<open>redfish_poll\<close>), the files,
  random numbers and clocks. The network thread of the MQTT client is a function applied at each
  sleep of a waiting loop: any sequence of messages may be delivered there.

  Loops over lists are \<open>for_each\<close>; retry loops without a bound are \<open>first_from\<close>, a partial function
  whose value \<open>None\<close> means that the loop never ends; the waiting loop of at most 300 polls is the
  total function \<open>wait_flag\<close>. The endless sending loops are modelled turn by turn (\<open>send_turns\<close>,
  \<open>redfish_send_data\<close>), for every number of turns; no other fuel is used. Python ints are \<open>int\<close>,
  finite floats are \<open>rat\<close>.
\<close>

section \<open>Theories\<close>

text \<open>
  \<^item> \<open>KM_Prelude\<close>: exceptions, outcomes, loops and their contracts (the locales \<open>loop_body\<close>,
    \<open>loop_sim\<close>, \<open>loop_progress\<close>, \<open>loop_refinement\<close>), retry loops, \<open>str\<close>, \<open>int\<close>, \<open>split\<close>, \<open>round\<close>.
  \<^item> \<open>Agent_Common\<close>: the Avro records of src/config-schemaregistry, the serializer, the attributes
    of \<open>AgentCommon\<close>, configuration files, its constructor, the publishing topics.
  \<^item> \<open>Registration\<close>: connection, the three request/response exchanges, closing, the signal handler;
    the locale \<open>network_thread\<close> for what the waiting loops keep.
  \<^item> \<open>Agent_Handler\<close>: \<open>mqtt_on_message\<close> of both agents; their contract is the locale
    \<open>agent_handler\<close>, interpreted on the two methods, and \<open>network_thread\<close> on the threads that
    deliver to them.
  \<^item> \<open>Agent_Session\<close>, \<open>Session_Props\<close>: the steps of an agent's network thread (\<open>agent_step\<close>), the
    abstract registration protocol and its refinement, and the properties of the session.
  \<^item> \<open>Batching\<close>, \<open>Batch_Spec\<close>, \<open>Batching_Refinement\<close>, \<open>Batching_Props\<close>: \<open>mqtt_send_triplet_batch\<close>,
    the abstract batcher, the simulation between them, and the properties of sending. \<open>Demo_Agent\<close>
    is the concrete agent of the instances.
  \<^item> \<open>FanIn\<close>, \<open>FanIn_Spec\<close>, \<open>FanIn_Props\<close>: the gateway, the abstract machine its callback implements
    (samples produced, counts kept, losses reported), what the reachable gateways keep
    (\<open>fanin_step\<close>; the locale \<open>kept_by_gateway\<close>, interpreted on the accounts of a gateway and on
    a gateway that never forwards), and the properties.
  \<^item> \<open>Pipeline\<close>, \<open>Pipeline_Props\<close>: an agent's batches through the gateway processes to Kafka.
  \<^item> \<open>IBswitch\<close>, \<open>IBswitch_Props\<close>: the simulator, the UUIDs of its sensors.
  \<^item> \<open>Counting_Spec\<close>, \<open>Counting\<close>, \<open>Counting_Props\<close>: the counting runs: which counts a batch carries,
    the simulator against that arithmetic, and what the gateway's detector sees. \<open>Senders\<close>: several
    simulators on one subtopic, their messages interleaved.
  \<^item> \<open>Simulator_Send\<close>, \<open>Simulator_Run\<close>: the simulated counters as sums of the draws, the samples of the
    simulator turn by turn, and its whole run,
    from its options over the registration to the samples, against a framework whose answers depend
    on the calls made (\<open>framework_serves\<close>). \<open>Simulator_Exit\<close>: the run to a configured number of
    messages, from the options to the exit.
  \<^item> \<open>Fabric\<close>: the simulator and the gateway processes of its subtopics, from their options to Kafka.
  \<^item> \<open>Redfish\<close>, \<open>Redfish_Props\<close>: the Redfish agent and what becomes of its readings.
  \<^item> \<open>Logger\<close>, \<open>Logger_Props\<close>, \<open>Logger_Run\<close>: src/fanin/KrakenMareLogger.py, levels, rotation, and a
    log over the records written to it, against an abstract log with archives and lost records.
    \<open>Logger_Tests\<close>: the unit tests of that file as runs of the model.
  \<^item> \<open>Launch\<close>, \<open>Launch_Props\<close>: \<open>main\<close> of the programs on their options, the names FanIn.py imports and
    its log level, the sender the agents override; what the constructor of the simulator
    establishes, and how an interrupted agent ends, from its constructor on.
  \<^item> \<open>Options\<close>, \<open>Options_Props\<close>: the options the programs declare and the programs from their command
    line on. What the standard library's \<open>optparse\<close> does with a table of options and a command line
    is modelled as far as the programs use it (\<open>parse_args\<close>, with its grammar); the three tables
    are interpretations of the locale \<open>option_table\<close>.
\<close>

section \<open>What is shown\<close>

text \<open>
  Sending: a call of \<open>mqtt_send_triplet_batch\<close> refines an abstract batcher with a closed form
  (consecutive blocks of the batch length, dealt to the subtopics in turn); hence conservation,
  order, fairness, the right counters, the exact stop at the limit, one batch length for every
  configured size, the unbatched mode.

  Sessions: the callbacks of the agents are one function and implement an abstract protocol; the
  topic attributes are consistent in every reachable state; registration, device registration,
  deregistration and connection have exactly the outcomes stated, and the signal handler shuts an
  agent down exactly if it has been given a UUID. The constructors provide what these theorems
  assume, and the simulator as a whole joins the framework, sends what its counters hold (their
  seeds and what was drawn) and, asked for a number of messages, ends after exactly as many.

  Gateway: what is produced, counted and reported for every answer of the Kafka client; the
  invariant of all reachable states; the termination of the connection loops; and, with the
  agents, that every published sample reaches Kafka once and in order if nothing is lost (for a
  call of the batcher, and for the simulator and the gateway processes started from their
  options), and which lost batches are seen.

  Command lines and logs: in whatever order the options are written, the programs run with those
  and no others, and every choice of options can be written; a log is what an abstract log is, a record lost at
  each rotation.

  Errors: where the code does something else than it means to, the theorem states what it does.

  That the broker delivers completely and in order, that the Kafka client accepts everything,
  and that a response arrives in time are hypotheses where they are needed, and each property with
  hypotheses has an instance at concrete data.
\<close>

section \<open>Not modelled\<close>

text \<open>
  Process launching and signal registration are library calls; the result of a gateway's \<open>main\<close> is
  the list of the processes it starts. The debug output of the methods, the pauses, the attributes
  that are written and never read, the colours of the log formatter and the security options
  handed to the Kafka client have no effect on what is modelled. The Java framework manager, the
  shell scripts and the configuration of brokers, databases and dashboards are outside the Python
  programs; the framework appears as the messages it sends. Floats that are not finite are left
  out.
\<close>

end
